(* ===== verification/Go_Prelude.thy ===== *)
theory Go_Prelude
  imports Main
begin

text \<open>
  The part of the Go language and of its standard library that every component of the
  synchronizer uses: error values, panics, sequencing of effectful calls, the loops the code
  is written with, \<open>strings.Join\<close>, \<open>strings.Split\<close>, \<open>strings.ToLower\<close>, \<open>strings.Index\<close>,
  \<open>strconv.Atoi\<close> and \<open>strconv.Itoa\<close>, and 64-bit wrap-around. The generic lemmas of the
  development live here; the component theories only use them.

  Strings and byte slices are both \<open>string\<close>: the code only ever converts between them without
  changing a byte, and it tests slices with \<open>len\<close>, which does not tell \<open>nil\<close> from empty.
  Case conversion is the one for ASCII text.
\<close>

named_theorems go_simps \<open>equations that run effectful code one call further\<close>
named_theorems keeps_intros \<open>rules that compose what a piece of effectful code may change\<close>

section \<open>Errors and panics\<close>

text \<open>
  A Go error is a value: one created by \<open>errors.New\<close> or \<open>fmt.Errorf\<close>, one that wraps another
  (\<open>fmt.Errorf("...: %w", err)\<close>), or several collected by \<open>multierr\<close>. A \<open>nil\<close> error is \<open>None\<close>.
\<close>

datatype goerror =
    GoError string
  | GoWrap string goerror
  | GoMulti "goerror list"

text \<open>
  A call returns, or panics (nil dereference, failed type assertion, slice out of range). Either
  way the effects it had so far stay: the state comes back beside the outcome.
\<close>

datatype 'a outcome = Ret 'a | Panic string

type_synonym ('w, 'a) go = "'w \<Rightarrow> 'a outcome \<times> 'w"

definition ret :: "'a \<Rightarrow> ('w, 'a) go" where
  "ret a w = (Ret a, w)"

definition panic :: "string \<Rightarrow> ('w, 'a) go" where
  "panic p w = (Panic p, w)"

definition andThen :: "('w, 'a) go \<Rightarrow> ('a \<Rightarrow> ('w, 'b) go) \<Rightarrow> ('w, 'b) go" where
  "andThen m f w = (case m w of (Ret a, w') \<Rightarrow> f a w' | (Panic p, w') \<Rightarrow> (Panic p, w'))"

lemma run_ret [simp, go_simps]: "ret a w = (Ret a, w)"
  by (simp add: ret_def)

lemma run_panic [simp, go_simps]: "panic p w = (Panic p, w)"
  by (simp add: panic_def)

lemma run_andThen_Ret [simp, go_simps]: "m w = (Ret a, w') \<Longrightarrow> andThen m f w = f a w'"
  by (simp add: andThen_def)

lemma run_andThen_Panic [simp, go_simps]: "m w = (Panic p, w') \<Longrightarrow> andThen m f w = (Panic p, w')"
  by (simp add: andThen_def)

lemma run_andThen_bool [simp, go_simps]:
  "m w = (Ret True, w') \<Longrightarrow> andThen m f w = f True w'"
  "m w = (Ret False, w') \<Longrightarrow> andThen m f w = f False w'"
  by (simp_all add: andThen_def)

lemma andThen_RetE:
  assumes "andThen m f w = (Ret b, w'')"
  obtains a w' where "m w = (Ret a, w')" and "f a w' = (Ret b, w'')"
  using assms that by (auto simp: andThen_def split: prod.splits outcome.splits)

lemma andThen_ret_left [simp]: "andThen (ret a) f = f a"
  by (rule ext) simp

lemma andThen_ret_right: "andThen m ret = m"
  by (rule ext) (auto simp: andThen_def split: prod.splits outcome.splits)

lemma andThen_assoc: "andThen (andThen m f) g = andThen m (\<lambda>a. andThen (f a) g)"
  by (rule ext) (auto simp: andThen_def split: prod.splits outcome.splits)

text \<open>Code that works on one part of the state, run where the whole state is at hand.\<close>

definition on_snd :: "('w, 'a) go \<Rightarrow> ('s \<times> 'w, 'a) go" where
  "on_snd m sw = (case m (snd sw) of (r, w') \<Rightarrow> (r, (fst sw, w')))"

definition get_state :: "('s \<times> 'w, 's) go" where
  "get_state sw = (Ret (fst sw), sw)"

definition put_state :: "'s \<Rightarrow> ('s \<times> 'w, unit) go" where
  "put_state s sw = (Ret (), (s, snd sw))"

lemma run_on_snd [simp, go_simps]:
  "on_snd m (s, w) = (fst (m w), (s, snd (m w)))"
  by (simp add: on_snd_def split: prod.splits)

lemma run_get_state [simp, go_simps]: "get_state (s, w) = (Ret s, (s, w))"
  by (simp add: get_state_def)

lemma run_put_state [simp, go_simps]: "put_state s' (s, w) = (Ret (), (s', w))"
  by (simp add: put_state_def)

section \<open>Loops\<close>

text \<open>\<open>for _, x := range xs { if err := f(x); err != nil { return wrap(err) } }; return nil\<close>\<close>

fun forEach :: "('x \<Rightarrow> ('w, goerror option) go) \<Rightarrow> 'x list \<Rightarrow> ('w, goerror option) go" where
  "forEach f [] = ret None"
| "forEach f (x # xs) =
     andThen (f x) (\<lambda>err. case err of None \<Rightarrow> forEach f xs | Some e \<Rightarrow> ret (Some e))"

text \<open>\<open>for _, x := range xs { err = multierr.Append(err, f(x)) }\<close>, with the append as a parameter.\<close>

fun forAppend :: "(goerror option \<Rightarrow> goerror option \<Rightarrow> goerror option) \<Rightarrow>
    ('x \<Rightarrow> ('w, goerror option) go) \<Rightarrow> goerror option \<Rightarrow> 'x list \<Rightarrow> ('w, goerror option) go" where
  "forAppend app f err [] = ret err"
| "forAppend app f err (x # xs) = andThen (f x) (\<lambda>e. forAppend app f (app err e) xs)"

section \<open>What a piece of code may change\<close>

text \<open>
  \<open>keeps R m\<close>: every run of \<open>m\<close> takes the state to an \<open>R\<close>-related one, whether it returns or
  panics. With \<open>R\<close> reflexive and transitive the rules below compose it over sequencing and
  loops, so a frame or emission fact about a handler follows from those of the calls it makes.
\<close>

definition keeps :: "('w \<Rightarrow> 'w \<Rightarrow> bool) \<Rightarrow> ('w, 'a) go \<Rightarrow> bool" where
  "keeps R m \<longleftrightarrow> (\<forall>w. R w (snd (m w)))"

definition preorderp :: "('w \<Rightarrow> 'w \<Rightarrow> bool) \<Rightarrow> bool" where
  "preorderp R \<longleftrightarrow> (\<forall>w. R w w) \<and> (\<forall>u v w. R u v \<longrightarrow> R v w \<longrightarrow> R u w)"

lemma preorderp_refl: "preorderp R \<Longrightarrow> R w w"
  by (simp add: preorderp_def)

lemma preorderp_trans: "preorderp R \<Longrightarrow> R u v \<Longrightarrow> R v w \<Longrightarrow> R u w"
  unfolding preorderp_def by blast

lemma keepsI: "(\<And>w. R w (snd (m w))) \<Longrightarrow> keeps R m"
  by (simp add: keeps_def)

lemma keepsD: "keeps R m \<Longrightarrow> R w (snd (m w))"
  by (simp add: keeps_def)

lemma keeps_ret [keeps_intros]: "preorderp R \<Longrightarrow> keeps R (ret a)"
  by (simp add: keeps_def preorderp_refl)

lemma keeps_panic [keeps_intros]: "preorderp R \<Longrightarrow> keeps R (panic p)"
  by (simp add: keeps_def preorderp_refl)

lemma keeps_andThen [keeps_intros]:
  assumes R: "preorderp R" and m: "keeps R m" and f: "\<And>a. keeps R (f a)"
  shows "keeps R (andThen m f)"
proof (rule keepsI)
  fix w
  obtain r w' where mw: "m w = (r, w')" by (cases "m w")
  have "R w w'" using keepsD [OF m, of w] mw by simp
  then show "R w (snd (andThen m f w))"
  proof (cases r)
    case (Ret a)
    then show ?thesis
      using mw \<open>R w w'\<close> keepsD [OF f, of w' a] preorderp_trans [OF R] by auto
  next
    case (Panic p)
    then show ?thesis using mw \<open>R w w'\<close> by simp
  qed
qed

lemma keeps_forEach [keeps_intros]:
  assumes "preorderp R" and "\<And>x. x \<in> set xs \<Longrightarrow> keeps R (f x)"
  shows "keeps R (forEach f xs)"
  using assms(2)
  by (induction xs) (auto intro!: keeps_ret keeps_andThen assms(1) split: option.splits)

lemma keeps_forAppend [keeps_intros]:
  assumes "preorderp R" and "\<And>x. x \<in> set xs \<Longrightarrow> keeps R (f x)"
  shows "keeps R (forAppend app f err xs)"
  using assms(2)
  by (induction xs arbitrary: err) (auto intro!: keeps_ret keeps_andThen assms(1))

text \<open>A relation on the second part of the state, lifted to the whole of it.\<close>

definition snd_rel :: "('w \<Rightarrow> 'w \<Rightarrow> bool) \<Rightarrow> 's \<times> 'w \<Rightarrow> 's \<times> 'w \<Rightarrow> bool" where
  "snd_rel R sw sw' \<longleftrightarrow> R (snd sw) (snd sw')"

lemma preorderp_snd_rel [keeps_intros]: "preorderp R \<Longrightarrow> preorderp (snd_rel R)"
  unfolding preorderp_def snd_rel_def by blast

lemma keeps_on_snd [keeps_intros]: "keeps R m \<Longrightarrow> keeps (snd_rel R) (on_snd m)"
  by (auto simp: keeps_def snd_rel_def on_snd_def split: prod.splits)
    (metis snd_conv)

lemma keeps_get_state [keeps_intros]: "preorderp R \<Longrightarrow> keeps (snd_rel R) get_state"
  by (simp add: keeps_def snd_rel_def get_state_def preorderp_refl)

lemma keeps_put_state [keeps_intros]: "preorderp R \<Longrightarrow> keeps (snd_rel R) (put_state s)"
  by (simp add: keeps_def snd_rel_def put_state_def preorderp_refl)

end
