(* ===== verification/Go_Strings.thy ===== *)
theory Go_Strings
  imports Go_Prelude
begin

text \<open>
  What the code uses of Go's packages \<open>strings\<close> and \<open>strconv\<close>, and the bounds of Go's
  \<open>int\<close> on the 64-bit platforms the program is built for.
\<close>

section \<open>strings.Join and strings.Split\<close>

fun strings_Join :: "string list \<Rightarrow> string \<Rightarrow> string" where
  "strings_Join [] sep = []"
| "strings_Join [x] sep = x"
| "strings_Join (x # y # ys) sep = x @ sep @ strings_Join (y # ys) sep"

text \<open>\<open>strings.Split\<close> with a separator of one byte; the empty string gives one empty part.\<close>

fun strings_Split :: "string \<Rightarrow> char \<Rightarrow> string list" where
  "strings_Split [] c = [[]]"
| "strings_Split (x # xs) c =
     (if x = c then [] # strings_Split xs c
      else (case strings_Split xs c of [] \<Rightarrow> [[x]] | p # ps \<Rightarrow> (x # p) # ps))"

lemma strings_Split_nonempty [simp]: "strings_Split s c \<noteq> []"
  by (cases s) (auto split: list.splits)

lemma strings_Split_no_sep: "c \<notin> set s \<Longrightarrow> strings_Split s c = [s]"
  by (induction s) auto

lemma strings_Split_append:
  "c \<notin> set p \<Longrightarrow> strings_Split (p @ c # s) c = p # strings_Split s c"
  by (induction p) auto

lemma strings_Split_Join:
  assumes "ps \<noteq> []" and "\<forall>p \<in> set ps. c \<notin> set p"
  shows "strings_Split (strings_Join ps [c]) c = ps"
  using assms
  by (induction ps "[c]" rule: strings_Join.induct)
    (auto simp: strings_Split_no_sep strings_Split_append)

lemma strings_Join_Cons_char: "strings_Join ((x # p) # ps) sep = x # strings_Join (p # ps) sep"
  by (cases ps) auto

lemma strings_Join_Split: "strings_Join (strings_Split s c) [c] = s"
proof (induction s)
  case Nil
  then show ?case by simp
next
  case (Cons x xs)
  obtain p ps where "strings_Split xs c = p # ps"
    using strings_Split_nonempty [of xs c] by (cases "strings_Split xs c") auto
  with Cons show ?case by (auto simp: strings_Join_Cons_char)
qed

lemma strings_Split_parts: "p \<in> set (strings_Split s c) \<Longrightarrow> c \<notin> set p"
  by (induction s arbitrary: p) (auto split: list.splits if_splits)

text \<open>
  A joined key names its parts: two lists of the same length with no separator inside a part
  never collide.
\<close>

lemma strings_Join_inject:
  assumes "strings_Join ps [c] = strings_Join qs [c]" and "ps \<noteq> []" and "qs \<noteq> []"
    and "\<forall>p \<in> set ps. c \<notin> set p" and "\<forall>q \<in> set qs. c \<notin> set q"
  shows "ps = qs"
  using assms strings_Split_Join by metis

section \<open>Case conversion\<close>

definition char_lower :: "char \<Rightarrow> char" where
  "char_lower c = (if 65 \<le> (of_char c :: nat) \<and> (of_char c :: nat) \<le> 90
                   then char_of ((of_char c :: nat) + 32) else c)"

definition char_upper :: "char \<Rightarrow> char" where
  "char_upper c = (if 97 \<le> (of_char c :: nat) \<and> (of_char c :: nat) \<le> 122
                   then char_of ((of_char c :: nat) - 32) else c)"

definition strings_ToLower :: "string \<Rightarrow> string" where
  "strings_ToLower s = map char_lower s"

definition strings_ToUpper :: "string \<Rightarrow> string" where
  "strings_ToUpper s = map char_upper s"

lemma of_char_char_of_small: "n < 256 \<Longrightarrow> (of_char (char_of (n::nat) :: char) :: nat) = n"
  by (simp add: of_char_of)

lemma char_lower_idem [simp]: "char_lower (char_lower c) = char_lower c"
  by (auto simp: char_lower_def of_char_of)

lemma strings_ToLower_idem [simp]: "strings_ToLower (strings_ToLower s) = strings_ToLower s"
  by (simp add: strings_ToLower_def)

lemma length_strings_ToLower [simp]: "length (strings_ToLower s) = length s"
  by (simp add: strings_ToLower_def)

lemma strings_ToLower_append [simp]:
  "strings_ToLower (s @ t) = strings_ToLower s @ strings_ToLower t"
  by (simp add: strings_ToLower_def)

section \<open>strings.HasPrefix, strings.Index, strings.Cut\<close>

fun strings_HasPrefix :: "string \<Rightarrow> string \<Rightarrow> bool" where
  "strings_HasPrefix s [] = True"
| "strings_HasPrefix [] (p # ps) = False"
| "strings_HasPrefix (x # xs) (p # ps) = (x = p \<and> strings_HasPrefix xs ps)"

text \<open>The index of the first occurrence; \<open>None\<close> is Go's \<open>-1\<close>.\<close>

fun strings_Index :: "string \<Rightarrow> string \<Rightarrow> nat option" where
  "strings_Index [] sub = (if sub = [] then Some 0 else None)"
| "strings_Index (x # xs) sub =
     (if strings_HasPrefix (x # xs) sub then Some 0 else map_option Suc (strings_Index xs sub))"

definition strings_Contains :: "string \<Rightarrow> string \<Rightarrow> bool" where
  "strings_Contains s sub \<longleftrightarrow> strings_Index s sub \<noteq> None"

text \<open>\<open>before, _, ok := strings.Cut(s, sep)\<close>: \<open>None\<close> when the separator is not there.\<close>

definition strings_Cut :: "string \<Rightarrow> string \<Rightarrow> (string \<times> string) option" where
  "strings_Cut s sep =
     map_option (\<lambda>i. (take i s, drop (i + length sep) s)) (strings_Index s sep)"

lemma strings_HasPrefix_iff: "strings_HasPrefix s p \<longleftrightarrow> (\<exists>t. s = p @ t)"
  by (induction s p rule: strings_HasPrefix.induct) auto

lemma strings_Index_Some:
  "strings_Index s sub = Some i \<Longrightarrow> i + length sub \<le> length s \<and> (\<exists>t. drop i s = sub @ t)"
proof (induction s arbitrary: i)
  case Nil
  then show ?case by (auto split: if_splits)
next
  case (Cons x xs)
  then show ?case
    by (auto simp: strings_HasPrefix_iff split: if_splits dest: arg_cong [where f = length])
qed

lemma strings_Index_None: "strings_Index s sub = None \<Longrightarrow> s \<noteq> p @ sub @ t"
proof (induction s arbitrary: p)
  case Nil
  then show ?case by (auto split: if_splits)
next
  case (Cons x xs)
  then show ?case
    by (cases p) (auto simp: strings_HasPrefix_iff split: if_splits)
qed

lemma strings_Contains_iff: "strings_Contains s sub \<longleftrightarrow> (\<exists>p t. s = p @ sub @ t)"
proof
  assume "strings_Contains s sub"
  then obtain i where "strings_Index s sub = Some i" by (auto simp: strings_Contains_def)
  then obtain t where "drop i s = sub @ t" using strings_Index_Some by blast
  then have "s = take i s @ sub @ t" by (metis append_take_drop_id)
  then show "\<exists>p t. s = p @ sub @ t" by blast
next
  assume "\<exists>p t. s = p @ sub @ t"
  then show "strings_Contains s sub"
    unfolding strings_Contains_def using strings_Index_None by blast
qed

lemma strings_Index_char:
  "c \<notin> set p \<Longrightarrow> strings_Index (p @ c # s) [c] = Some (length p)"
  by (induction p) auto

lemma strings_Index_char_None: "c \<notin> set s \<Longrightarrow> strings_Index s [c] = None"
  by (induction s) auto

section \<open>Go's int and strconv\<close>

text \<open>\<open>int\<close> is 64 bits wide: addition wraps around in two's complement.\<close>

definition int64_min :: int where "int64_min = - 9223372036854775808"

definition int64_max :: int where "int64_max = 9223372036854775807"

definition in_int64 :: "int \<Rightarrow> bool" where
  "in_int64 n \<longleftrightarrow> int64_min \<le> n \<and> n \<le> int64_max"

definition wrap64 :: "int \<Rightarrow> int" where
  "wrap64 n = (n + 9223372036854775808) mod 18446744073709551616 - 9223372036854775808"

lemmas int64_defs = int64_min_def int64_max_def in_int64_def wrap64_def

lemma wrap64_in_int64: "in_int64 (wrap64 n)"
  by (simp add: int64_defs)

lemma wrap64_id: "in_int64 n \<Longrightarrow> wrap64 n = n"
  by (simp add: int64_defs)

text \<open>
  \<open>strconv.Atoi\<close>: an optional sign, at least one decimal digit and nothing else, in range;
  \<open>None\<close> is its error (\<open>ErrSyntax\<close> or \<open>ErrRange\<close>).
\<close>

definition digit_value :: "char \<Rightarrow> nat option" where
  "digit_value c = (if 48 \<le> (of_char c :: nat) \<and> (of_char c :: nat) \<le> 57
                    then Some ((of_char c :: nat) - 48) else None)"

fun parse_digits :: "nat \<Rightarrow> string \<Rightarrow> nat option" where
  "parse_digits acc [] = Some acc"
| "parse_digits acc (c # cs) =
     (case digit_value c of None \<Rightarrow> None | Some d \<Rightarrow> parse_digits (10 * acc + d) cs)"

definition parse_nat :: "string \<Rightarrow> nat option" where
  "parse_nat s = (if s = [] then None else parse_digits 0 s)"

definition in_range64 :: "int \<Rightarrow> int option" where
  "in_range64 n = (if in_int64 n then Some n else None)"

fun strconv_Atoi :: "string \<Rightarrow> int option" where
  "strconv_Atoi [] = None"
| "strconv_Atoi (c # cs) =
     (if c = CHR ''-'' then Option.bind (parse_nat cs) (\<lambda>n. in_range64 (- int n))
      else if c = CHR ''+'' then Option.bind (parse_nat cs) (\<lambda>n. in_range64 (int n))
      else Option.bind (parse_nat (c # cs)) (\<lambda>n. in_range64 (int n)))"

definition digit_char :: "nat \<Rightarrow> char" where
  "digit_char d = char_of (48 + d)"

fun show_nat :: "nat \<Rightarrow> string" where
  "show_nat n = (if n < 10 then [digit_char n] else show_nat (n div 10) @ [digit_char (n mod 10)])"

declare show_nat.simps [simp del]

definition strconv_Itoa :: "int \<Rightarrow> string" where
  "strconv_Itoa n = (if n < 0 then CHR ''-'' # show_nat (nat (- n)) else show_nat (nat n))"

lemma of_char_digit_char: "d < 10 \<Longrightarrow> (of_char (digit_char d) :: nat) = 48 + d"
  by (simp add: digit_char_def of_char_of)

lemma digit_value_digit_char [simp]: "d < 10 \<Longrightarrow> digit_value (digit_char d) = Some d"
  by (simp add: digit_value_def of_char_digit_char)

lemma digit_char_not_sign: "d < 10 \<Longrightarrow> digit_char d \<noteq> CHR ''-'' \<and> digit_char d \<noteq> CHR ''+''"
  using of_char_digit_char [of d] by auto

lemma parse_digits_append:
  "parse_digits acc (xs @ ys) = Option.bind (parse_digits acc xs) (\<lambda>a. parse_digits a ys)"
  by (induction xs arbitrary: acc) (auto split: option.splits)

lemma parse_digits_show_nat: "parse_digits 0 (show_nat n) = Some n"
proof (induction n rule: show_nat.induct)
  case (1 n)
  show ?case
  proof (cases "n < 10")
    case True
    then show ?thesis by (simp add: show_nat.simps [of n])
  next
    case False
    with "1.IH" have "parse_digits 0 (show_nat (n div 10)) = Some (n div 10)" by simp
    with False show ?thesis
      by (simp add: show_nat.simps [of n] parse_digits_append)
  qed
qed

lemma show_nat_hd: "\<exists>d cs. d < 10 \<and> show_nat n = digit_char d # cs"
proof (induction n rule: show_nat.induct)
  case (1 n)
  show ?case
  proof (cases "n < 10")
    case True
    then show ?thesis by (auto simp: show_nat.simps [of n])
  next
    case False
    with "1.IH" obtain d cs where "d < 10" and "show_nat (n div 10) = digit_char d # cs" by auto
    with False show ?thesis by (auto simp: show_nat.simps [of n])
  qed
qed

lemma parse_nat_show_nat [simp]: "parse_nat (show_nat n) = Some n"
  using show_nat_hd [of n] by (auto simp: parse_nat_def parse_digits_show_nat)

lemma strconv_Atoi_Itoa:
  assumes "in_int64 n"
  shows "strconv_Atoi (strconv_Itoa n) = Some n"
proof (cases "n < 0")
  case True
  then show ?thesis using assms by (simp add: strconv_Itoa_def in_range64_def)
next
  case False
  obtain d cs where d: "d < 10" and cs: "show_nat (nat n) = digit_char d # cs"
    using show_nat_hd by blast
  have "strconv_Atoi (show_nat (nat n)) = Option.bind (parse_nat (show_nat (nat n))) (\<lambda>n. in_range64 (int n))"
    using digit_char_not_sign [OF d] by (simp add: cs)
  with False assms show ?thesis by (simp add: strconv_Itoa_def in_range64_def)
qed

lemma strconv_Atoi_range: "strconv_Atoi s = Some n \<Longrightarrow> in_int64 n"
  by (cases s) (auto simp: in_range64_def bind_eq_Some_conv split: if_splits)

end
