(* ===== verification/Go_Json.thy ===== *)
theory Go_Json
  imports Go_Strings
begin

text \<open>
  What the code uses of \<open>encoding/json\<close>, at the level of JSON documents: \<open>Marshal\<close> turns a
  struct into a document and \<open>Unmarshal\<close> reads one into a struct. The text of a document is not
  modelled; bytes that are no JSON text are the \<open>Garbage\<close> case of \<open>wire\<close>.

  \<open>Unmarshal\<close> behaves as Go's: object keys match field names ignoring case, the last of several
  equal keys wins, unknown keys are ignored, \<open>null\<close> leaves a field as it is and sets a pointer to
  \<open>nil\<close>, a value of the wrong type or an integer out of range is an error.
\<close>

section \<open>Documents\<close>

datatype json =
    JNull
  | JBool bool
  | JInt int          \<comment> \<open>a number written as an integer\<close>
  | JFloat string     \<comment> \<open>a number with a fraction or an exponent, as written\<close>
  | JStr string
  | JArr "json list"
  | JObj "(string \<times> json) list"

text \<open>What travels on a connection: nothing, bytes that are no JSON text, or a document.\<close>

datatype wire =
    NoData
  | Garbage string
  | Doc json

section \<open>Struct fields\<close>

text \<open>A field table: for each field its name and how a value is read into it.\<close>

type_synonym 'r field = "string \<times> (json \<Rightarrow> 'r \<Rightarrow> goerror + 'r)"

definition unmarshalTypeError :: goerror where
  "unmarshalTypeError = GoError ''json: cannot unmarshal value into Go struct field''"

fun assign :: "'r field list \<Rightarrow> string \<Rightarrow> json \<Rightarrow> 'r \<Rightarrow> goerror + 'r" where
  "assign [] k v r = Inr r"
| "assign ((n, rd) # fs) k v r =
     (if strings_ToLower n = strings_ToLower k then rd v r else assign fs k v r)"

fun dec_fields :: "'r field list \<Rightarrow> (string \<times> json) list \<Rightarrow> 'r \<Rightarrow> goerror + 'r" where
  "dec_fields fs [] r = Inr r"
| "dec_fields fs ((k, v) # kvs) r =
     (case assign fs k v r of Inl e \<Rightarrow> Inl e | Inr r' \<Rightarrow> dec_fields fs kvs r')"

definition dec_struct :: "'r field list \<Rightarrow> json \<Rightarrow> 'r \<Rightarrow> goerror + 'r" where
  "dec_struct fs v r =
     (case v of JNull \<Rightarrow> Inr r | JObj kvs \<Rightarrow> dec_fields fs kvs r | _ \<Rightarrow> Inl unmarshalTypeError)"

definition unmarshal :: "'r field list \<Rightarrow> 'r \<Rightarrow> wire \<Rightarrow> goerror + 'r" where
  "unmarshal fs zero d =
     (case d of
        Doc v \<Rightarrow> dec_struct fs v zero
      | NoData \<Rightarrow> Inl (GoError ''unexpected end of JSON input'')
      | Garbage _ \<Rightarrow> Inl (GoError ''invalid character''))"

section \<open>Values of the types the structs use\<close>

definition dec_int :: "json \<Rightarrow> int \<Rightarrow> goerror + int" where
  "dec_int v old =
     (case v of JNull \<Rightarrow> Inr old
      | JInt n \<Rightarrow> (if in_int64 n then Inr n else Inl unmarshalTypeError)
      | _ \<Rightarrow> Inl unmarshalTypeError)"

definition dec_string :: "json \<Rightarrow> string \<Rightarrow> goerror + string" where
  "dec_string v old =
     (case v of JNull \<Rightarrow> Inr old | JStr s \<Rightarrow> Inr s | _ \<Rightarrow> Inl unmarshalTypeError)"

definition dec_bool :: "json \<Rightarrow> bool \<Rightarrow> goerror + bool" where
  "dec_bool v old =
     (case v of JNull \<Rightarrow> Inr old | JBool b \<Rightarrow> Inr b | _ \<Rightarrow> Inl unmarshalTypeError)"

text \<open>A pointer to an unsigned integer.\<close>

definition in_uint64 :: "int \<Rightarrow> bool" where
  "in_uint64 n \<longleftrightarrow> 0 \<le> n \<and> n < 18446744073709551616"

definition dec_uint_ptr :: "json \<Rightarrow> nat option \<Rightarrow> goerror + nat option" where
  "dec_uint_ptr v old =
     (case v of JNull \<Rightarrow> Inr None
      | JInt n \<Rightarrow> (if in_uint64 n then Inr (Some (nat n)) else Inl unmarshalTypeError)
      | _ \<Rightarrow> Inl unmarshalTypeError)"

definition enc_uint_ptr :: "nat option \<Rightarrow> json" where
  "enc_uint_ptr p = (case p of None \<Rightarrow> JNull | Some n \<Rightarrow> JInt (int n))"

text \<open>A pointer to a struct: read into what it points to already, or into a fresh zero struct.\<close>

definition dec_ptr :: "'r field list \<Rightarrow> 'r \<Rightarrow> json \<Rightarrow> 'r option \<Rightarrow> goerror + 'r option" where
  "dec_ptr fs zero v old =
     (case v of JNull \<Rightarrow> Inr None
      | _ \<Rightarrow> map_sum id Some (dec_struct fs v (case old of None \<Rightarrow> zero | Some r \<Rightarrow> r)))"

definition enc_ptr :: "('r \<Rightarrow> json) \<Rightarrow> 'r option \<Rightarrow> json" where
  "enc_ptr enc p = (case p of None \<Rightarrow> JNull | Some r \<Rightarrow> enc r)"

text \<open>A slice of structs. A \<open>nil\<close> slice is written as \<open>null\<close>, an empty one as \<open>[]\<close>; here both are \<open>[]\<close>.\<close>

fun dec_elems :: "'r field list \<Rightarrow> 'r \<Rightarrow> json list \<Rightarrow> goerror + 'r list" where
  "dec_elems fs zero [] = Inr []"
| "dec_elems fs zero (v # vs) =
     (case dec_struct fs v zero of
        Inl e \<Rightarrow> Inl e
      | Inr r \<Rightarrow> map_sum id ((#) r) (dec_elems fs zero vs))"

definition dec_slice :: "'r field list \<Rightarrow> 'r \<Rightarrow> json \<Rightarrow> 'r list \<Rightarrow> goerror + 'r list" where
  "dec_slice fs zero v old =
     (case v of JNull \<Rightarrow> Inr [] | JArr vs \<Rightarrow> dec_elems fs zero vs | _ \<Rightarrow> Inl unmarshalTypeError)"

definition enc_slice :: "('r \<Rightarrow> json) \<Rightarrow> 'r list \<Rightarrow> json" where
  "enc_slice enc xs = (if xs = [] then JNull else JArr (map enc xs))"

text \<open>A \<open>map[string]any\<close>: \<open>None\<close> is the nil map; entries are added to the map that is there.\<close>

definition dec_anymap ::
    "json \<Rightarrow> (string \<times> json) list option \<Rightarrow> goerror + (string \<times> json) list option" where
  "dec_anymap v old =
     (case v of JNull \<Rightarrow> Inr None
      | JObj kvs \<Rightarrow> Inr (Some ((case old of None \<Rightarrow> [] | Some es \<Rightarrow> es) @ kvs))
      | _ \<Rightarrow> Inl unmarshalTypeError)"

definition enc_anymap :: "(string \<times> json) list option \<Rightarrow> json" where
  "enc_anymap m = (case m of None \<Rightarrow> JNull | Some kvs \<Rightarrow> JObj kvs)"

section \<open>Round trips of the parts\<close>

named_theorems json_roundtrip \<open>reading back what was written\<close>

lemma dec_int_JInt [json_roundtrip]: "in_int64 n \<Longrightarrow> dec_int (JInt n) old = Inr n"
  by (simp add: dec_int_def)

lemma dec_string_JStr [json_roundtrip]: "dec_string (JStr s) old = Inr s"
  by (simp add: dec_string_def)

lemma dec_bool_JBool [json_roundtrip]: "dec_bool (JBool b) old = Inr b"
  by (simp add: dec_bool_def)

lemma dec_uint_ptr_enc [json_roundtrip]:
  "(\<And>n. p = Some n \<Longrightarrow> n < 18446744073709551616) \<Longrightarrow> dec_uint_ptr (enc_uint_ptr p) old = Inr p"
  by (auto simp: dec_uint_ptr_def enc_uint_ptr_def in_uint64_def split: option.splits)

lemma dec_anymap_enc [json_roundtrip]: "dec_anymap (enc_anymap m) None = Inr m"
  by (auto simp: dec_anymap_def enc_anymap_def split: option.splits)

lemma dec_ptr_enc [json_roundtrip]:
  assumes "\<And>r. p = Some r \<Longrightarrow> dec_struct fs (enc r) zero = Inr r"
    and "\<And>r. p = Some r \<Longrightarrow> enc r \<noteq> JNull"
  shows "dec_ptr fs zero (enc_ptr enc p) None = Inr p"
  using assms by (cases p) (auto simp: dec_ptr_def enc_ptr_def split: json.splits)

lemma dec_elems_enc:
  assumes "\<And>r. r \<in> set rs \<Longrightarrow> dec_struct fs (enc r) zero = Inr r"
  shows "dec_elems fs zero (map enc rs) = Inr rs"
  using assms by (induction rs) auto

lemma dec_slice_enc [json_roundtrip]:
  assumes "\<And>r. r \<in> set rs \<Longrightarrow> dec_struct fs (enc r) zero = Inr r"
  shows "dec_slice fs zero (enc_slice enc rs) old = Inr rs"
  using dec_elems_enc [of rs fs enc zero] assms by (simp add: dec_slice_def enc_slice_def)

end
