(* ===== verification/Domain.thy ===== *)
theory Domain
  imports Go_Json
begin

text \<open>
  Package \<open>domain\<close>: events, kinds, object and client identifiers (\<open>domain/Event.go\<close>,
  \<open>Kind.go\<close>, \<open>identifiers.go\<close>, \<open>utils.go\<close>, \<open>strategy.go\<close>, \<open>batchType.go\<close>). The keys under
  which every map of the program stores its entries are the joined strings defined here, so the
  injectivity lemmas below are what keeps one object's state apart from another's.
\<close>

section \<open>Events\<close>

text \<open>\<open>type Event uint\<close> with nine constants; other values can arrive on the wire.\<close>

type_synonym Event = nat

definition EventNewChecksum :: Event where "EventNewChecksum = 0"
definition EventObjectAdded :: Event where "EventObjectAdded = 1"
definition EventObjectDeleted :: Event where "EventObjectDeleted = 2"
definition EventObjectModified :: Event where "EventObjectModified = 3"
definition EventGetObject :: Event where "EventGetObject = 4"
definition EventPatchObject :: Event where "EventPatchObject = 5"
definition EventPutObject :: Event where "EventPutObject = 6"
definition EventPing :: Event where "EventPing = 7"
definition EventBatch :: Event where "EventBatch = 8"

lemmas event_defs = EventNewChecksum_def EventObjectAdded_def EventObjectDeleted_def
  EventObjectModified_def EventGetObject_def EventPatchObject_def EventPutObject_def
  EventPing_def EventBatch_def

definition EventValues :: "string list" where
  "EventValues = [''newChecksum'', ''objectAdded'', ''objectDeleted'', ''objectModified'',
     ''getObject'', ''patchObject'', ''putObject'', ''ping'', ''batch'']"

definition Event_Value :: "Event \<Rightarrow> string option" where
  "Event_Value op = (if op \<ge> length EventValues then None else Some (EventValues ! op))"

definition ValuesToEvent :: "string \<rightharpoonup> Event" where
  "ValuesToEvent = map_of
     [(EventValues ! EventNewChecksum, EventNewChecksum),
      (EventValues ! EventObjectAdded, EventObjectAdded),
      (EventValues ! EventObjectDeleted, EventObjectDeleted),
      (EventValues ! EventObjectModified, EventObjectModified),
      (EventValues ! EventGetObject, EventGetObject),
      (EventValues ! EventPatchObject, EventPatchObject),
      (EventValues ! EventPutObject, EventPutObject),
      (EventValues ! EventPing, EventPing),
      (EventValues ! EventBatch, EventBatch)]"

lemma ValuesToEvent_Value:
  assumes "Event_Value e = Some v"
  shows "ValuesToEvent v = Some e"
proof -
  have "e < 9" and v: "v = EventValues ! e"
    using assms by (auto simp: Event_Value_def EventValues_def split: if_splits)
  then consider "e = 0" | "e = 1" | "e = 2" | "e = 3" | "e = 4" | "e = 5" | "e = 6" | "e = 7" | "e = 8"
    by linarith
  then show ?thesis
    by cases (simp_all add: v ValuesToEvent_def EventValues_def event_defs)
qed

section \<open>Strategies and batch types\<close>

type_synonym Strategy = string

definition CopyStrategy :: Strategy where "CopyStrategy = ''copy''"
definition PatchStrategy :: Strategy where "PatchStrategy = ''patch''"

lemma strategies_differ [simp]: "PatchStrategy \<noteq> CopyStrategy" "CopyStrategy \<noteq> PatchStrategy"
  by (simp_all add: PatchStrategy_def CopyStrategy_def)

type_synonym BatchType = string

definition DefaultBatch :: BatchType where "DefaultBatch = ''''"
definition ReconciliationBatch :: BatchType where "ReconciliationBatch = ''reconciliation''"

section \<open>Kinds\<close>

record Kind =
  kGroup :: string
  kVersion :: string
  kResource :: string
  kAdditionalProperties :: "(string \<times> json) list option"

definition zero_Kind :: Kind where
  "zero_Kind = \<lparr>kGroup = [], kVersion = [], kResource = [], kAdditionalProperties = None\<rparr>"

definition Kind_String :: "Kind \<Rightarrow> string" where
  "Kind_String k = strings_Join [kGroup k, kVersion k, kResource k] ''/''"

definition KindFromString :: "string \<Rightarrow> Kind option" where
  "KindFromString kind =
     (let parts = strings_Split kind CHR ''/'' in
      if length parts \<noteq> 3 then None
      else Some \<lparr>kGroup = parts ! 0, kVersion = parts ! 1, kResource = parts ! 2,
                 kAdditionalProperties = None\<rparr>)"

text \<open>A kind whose parts hold no slash, which is what Kubernetes allows them to be.\<close>

definition slash_free :: "string \<Rightarrow> bool" where
  "slash_free s \<longleftrightarrow> CHR ''/'' \<notin> set s"

definition plain_Kind :: "Kind \<Rightarrow> bool" where
  "plain_Kind k \<longleftrightarrow> slash_free (kGroup k) \<and> slash_free (kVersion k) \<and> slash_free (kResource k)
     \<and> kAdditionalProperties k = None"

lemma KindFromString_Kind_String:
  assumes "plain_Kind k"
  shows "KindFromString (Kind_String k) = Some k"
proof -
  have "strings_Split (Kind_String k) CHR ''/'' = [kGroup k, kVersion k, kResource k]"
    using assms strings_Split_Join [of "[kGroup k, kVersion k, kResource k]" "CHR ''/''"]
    by (simp add: Kind_String_def plain_Kind_def slash_free_def)
  then show ?thesis using assms by (cases k) (simp add: KindFromString_def plain_Kind_def)
qed

lemma KindFromString_Some:
  assumes "KindFromString s = Some k"
  shows "plain_Kind k \<and> Kind_String k = s"
proof -
  let ?ps = "strings_Split s CHR ''/''"
  have "length ?ps = 3" using assms by (auto simp: KindFromString_def Let_def split: if_splits)
  then obtain a b c where ps: "?ps = [a, b, c]"
    by (auto simp: numeral_3_eq_3 length_Suc_conv)
  then have k: "k = \<lparr>kGroup = a, kVersion = b, kResource = c, kAdditionalProperties = None\<rparr>"
    using assms by (simp add: KindFromString_def)
  have "slash_free x" if "x \<in> {a, b, c}" for x
    using that strings_Split_parts [of x s "CHR ''/''"] ps by (auto simp: slash_free_def)
  moreover have "Kind_String k = s"
    using strings_Join_Split [of s "CHR ''/''"] ps k by (simp add: Kind_String_def)
  ultimately show ?thesis using k by (simp add: plain_Kind_def)
qed

lemma Kind_String_inject:
  "plain_Kind k \<Longrightarrow> plain_Kind l \<Longrightarrow> Kind_String k = Kind_String l \<Longrightarrow> k = l"
  by (metis KindFromString_Kind_String option.inject)

section \<open>Object identifiers\<close>

record KindName =
  knKind :: "Kind option"
  knName :: string
  knNamespace :: string
  knResourceVersion :: int

definition zero_KindName :: KindName where
  "zero_KindName = \<lparr>knKind = None, knName = [], knNamespace = [], knResourceVersion = 0\<rparr>"

definition KindName_String :: "KindName \<Rightarrow> string" where
  "KindName_String c =
     (let kind = (case knKind c of None \<Rightarrow> [] | Some k \<Rightarrow> Kind_String k)
      in strings_Join [kind, knNamespace c, knName c] ''/'')"

definition ToResourceVersion :: "string \<Rightarrow> int" where
  "ToResourceVersion version = (case strconv_Atoi version of Some v \<Rightarrow> v | None \<Rightarrow> 0)"

lemma ToResourceVersion_in_int64: "in_int64 (ToResourceVersion s)"
  by (auto simp: ToResourceVersion_def strconv_Atoi_range int64_defs split: option.splits
      dest: strconv_Atoi_range)

lemma ToResourceVersion_Itoa: "in_int64 n \<Longrightarrow> ToResourceVersion (strconv_Itoa n) = n"
  by (simp add: ToResourceVersion_def strconv_Atoi_Itoa)

definition plain_KindName :: "KindName \<Rightarrow> bool" where
  "plain_KindName c \<longleftrightarrow> (\<exists>k. knKind c = Some k \<and> plain_Kind k)
     \<and> slash_free (knNamespace c) \<and> slash_free (knName c)"

lemma KindName_String_flat:
  "knKind c = Some k \<Longrightarrow> KindName_String c =
     strings_Join [kGroup k, kVersion k, kResource k, knNamespace c, knName c] ''/''"
  by (simp add: KindName_String_def Kind_String_def)

lemma KindName_String_inject:
  assumes "plain_KindName c" and "plain_KindName d" and "KindName_String c = KindName_String d"
  shows "knKind c = knKind d \<and> knNamespace c = knNamespace d \<and> knName c = knName d"
proof -
  obtain k l where k: "knKind c = Some k" "plain_Kind k" and l: "knKind d = Some l" "plain_Kind l"
    using assms(1,2) by (auto simp: plain_KindName_def)
  have "[kGroup k, kVersion k, kResource k, knNamespace c, knName c] =
        [kGroup l, kVersion l, kResource l, knNamespace d, knName d]"
  proof (rule strings_Join_inject)
    show "strings_Join [kGroup k, kVersion k, kResource k, knNamespace c, knName c] ''/'' =
          strings_Join [kGroup l, kVersion l, kResource l, knNamespace d, knName d] ''/''"
      using assms(3) by (simp only: KindName_String_flat [OF k(1)] KindName_String_flat [OF l(1)])
  qed (use assms k l in \<open>simp_all add: plain_KindName_def plain_Kind_def slash_free_def\<close>)
  with k l show ?thesis by (cases k; cases l) (simp add: plain_Kind_def)
qed

section \<open>Client identifiers\<close>

text \<open>Times are instants; \<open>t.After(u)\<close> is \<open>u < t\<close>.\<close>

record ClientIdentifier =
  ciAccount :: string
  ciCluster :: string
  ciConnectionId :: string
  ciConnectionTime :: int
  ciHelmVersion :: string
  ciSyncVersion :: string
  ciGitVersion :: string
  ciCloudProvider :: string
  ciClusterUID :: string
  ciResourceGroup :: string

definition zero_ClientIdentifier :: ClientIdentifier where
  "zero_ClientIdentifier = \<lparr>ciAccount = [], ciCluster = [], ciConnectionId = [], ciConnectionTime = 0,
     ciHelmVersion = [], ciSyncVersion = [], ciGitVersion = [], ciCloudProvider = [],
     ciClusterUID = [], ciResourceGroup = []\<rparr>"

definition ClientIdentifier_String :: "ClientIdentifier \<Rightarrow> string" where
  "ClientIdentifier_String c = strings_Join [ciAccount c, ciCluster c] ''/''"

definition ConnectionString :: "ClientIdentifier \<Rightarrow> string" where
  "ConnectionString c = strings_Join [ciAccount c, ciCluster c, ciConnectionId c] ''/''"

text \<open>An account without a slash is enough for the map key to determine account and cluster.\<close>

lemma append_sep_inject:
  assumes "c \<notin> set p" and "c \<notin> set q" and "p @ c # s = q @ c # t"
  shows "p = q \<and> s = t"
  using assms
proof (induction p arbitrary: q)
  case Nil
  then show ?case by (cases q) auto
next
  case (Cons x p)
  then show ?case by (cases q) auto
qed

lemma ClientIdentifier_String_inject:
  assumes "slash_free (ciAccount a)" and "slash_free (ciAccount b)"
    and "ClientIdentifier_String a = ClientIdentifier_String b"
  shows "ciAccount a = ciAccount b \<and> ciCluster a = ciCluster b"
  using assms append_sep_inject [of "CHR ''/''" "ciAccount a" "ciAccount b"]
  by (simp add: ClientIdentifier_String_def slash_free_def)

section \<open>Properties\<close>

text \<open>
  Kinds survive being written as a key and read back: \<open>KindFromString\<close> accepts exactly the
  strings \<open>Kind.String\<close> makes of kinds whose parts hold no slash, and returns that kind.
\<close>

lemma kind_string_roundtrip: "KindFromString s = Some k \<longleftrightarrow> plain_Kind k \<and> Kind_String k = s"
  using KindFromString_Some KindFromString_Kind_String by blast

text \<open>
  The key under which shadow objects, mock resources and client maps store an object
  determines its kind, namespace and name, so the state of one object is never mixed up with that
  of another. The resource version is not part of the key.
\<close>

theorem object_keys_distinct:
  assumes "plain_KindName c" and "plain_KindName d"
  shows "KindName_String c = KindName_String d \<longleftrightarrow>
     knKind c = knKind d \<and> knNamespace c = knNamespace d \<and> knName c = knName d"
  using KindName_String_inject [OF assms] by (auto simp: KindName_String_def)

theorem object_keys_distinct_witness:
  "KindName_String \<lparr>knKind = Some \<lparr>kGroup = ''apps'', kVersion = ''v1'', kResource = ''deployments'',
       kAdditionalProperties = None\<rparr>, knName = ''nginx'', knNamespace = ''default'', knResourceVersion = 7\<rparr>
   \<noteq> KindName_String \<lparr>knKind = Some \<lparr>kGroup = ''apps'', kVersion = ''v1'', kResource = ''deployments'',
       kAdditionalProperties = None\<rparr>, knName = ''default'', knNamespace = ''nginx'', knResourceVersion = 7\<rparr>"
  by (subst object_keys_distinct) (simp_all add: plain_KindName_def plain_Kind_def slash_free_def)

end
