(* ===== verification/Domain_Messages.thy ===== *)
theory Domain_Messages
  imports Domain
begin

text \<open>
  The messages client and server exchange (\<open>domain/Generic.go\<close>, \<open>GetObject.go\<close>,
  \<open>NewChecksum.go\<close>, \<open>ObjectDeleted.go\<close>, \<open>PatchObject.go\<close>, \<open>PutObject.go\<close>, \<open>Batch.go\<close>,
  \<open>BatchItems.go\<close>). Each struct is a record with its fields in the source's order, the table
  \<open>json.Unmarshal\<close> reads it with, and what \<open>json.Marshal\<close> writes (the structs have no tags, so
  the keys are the field names). The lemmas say that reading what was written gives the struct
  back, and that any message read as a \<open>Generic\<close> gives its depth, event, kind and message id.
\<close>

definition structField :: "string \<Rightarrow> (json \<Rightarrow> 'v \<Rightarrow> goerror + 'v) \<Rightarrow> ('r \<Rightarrow> 'v) \<Rightarrow>
    (('v \<Rightarrow> 'v) \<Rightarrow> 'r \<Rightarrow> 'r) \<Rightarrow> 'r field" where
  "structField name dec get upd = (name, \<lambda>v r. map_sum id (\<lambda>x. upd (\<lambda>_. x) r) (dec v (get r)))"

section \<open>The structs\<close>

definition Kind_fields :: "Kind field list" where
  "Kind_fields =
     [structField ''Group'' dec_string kGroup kGroup_update,
      structField ''Version'' dec_string kVersion kVersion_update,
      structField ''Resource'' dec_string kResource kResource_update,
      structField ''AdditionalProperties'' dec_anymap kAdditionalProperties kAdditionalProperties_update]"

definition enc_Kind :: "Kind \<Rightarrow> json" where
  "enc_Kind m = JObj
     [(''Group'', JStr (kGroup m)),
      (''Version'', JStr (kVersion m)),
      (''Resource'', JStr (kResource m)),
      (''AdditionalProperties'', enc_anymap (kAdditionalProperties m))]"

record Generic =
  genDepth :: int
  genEvent :: "Event option"
  genKind :: "Kind option"
  genMsgId :: string
  genAdditionalProperties :: "(string \<times> json) list option"

definition zero_Generic :: Generic where
  "zero_Generic = \<lparr>genDepth = 0, genEvent = None, genKind = None, genMsgId = [], genAdditionalProperties = None\<rparr>"

definition Generic_fields :: "Generic field list" where
  "Generic_fields =
     [structField ''Depth'' dec_int genDepth genDepth_update,
      structField ''Event'' dec_uint_ptr genEvent genEvent_update,
      structField ''Kind'' (dec_ptr Kind_fields zero_Kind) genKind genKind_update,
      structField ''MsgId'' dec_string genMsgId genMsgId_update,
      structField ''AdditionalProperties'' dec_anymap genAdditionalProperties genAdditionalProperties_update]"

definition enc_Generic :: "Generic \<Rightarrow> json" where
  "enc_Generic m = JObj
     [(''Depth'', JInt (genDepth m)),
      (''Event'', enc_uint_ptr (genEvent m)),
      (''Kind'', enc_ptr enc_Kind (genKind m)),
      (''MsgId'', JStr (genMsgId m)),
      (''AdditionalProperties'', enc_anymap (genAdditionalProperties m))]"

record GetObject =
  getResourceVersion :: int
  getBaseObject :: string
  getDepth :: int
  getEvent :: "Event option"
  getKind :: "Kind option"
  getMsgId :: string
  getName :: string
  getNamespace :: string
  getAdditionalProperties :: "(string \<times> json) list option"

definition zero_GetObject :: GetObject where
  "zero_GetObject = \<lparr>getResourceVersion = 0, getBaseObject = [], getDepth = 0, getEvent = None, getKind = None, getMsgId = [], getName = [], getNamespace = [], getAdditionalProperties = None\<rparr>"

definition GetObject_fields :: "GetObject field list" where
  "GetObject_fields =
     [structField ''ResourceVersion'' dec_int getResourceVersion getResourceVersion_update,
      structField ''BaseObject'' dec_string getBaseObject getBaseObject_update,
      structField ''Depth'' dec_int getDepth getDepth_update,
      structField ''Event'' dec_uint_ptr getEvent getEvent_update,
      structField ''Kind'' (dec_ptr Kind_fields zero_Kind) getKind getKind_update,
      structField ''MsgId'' dec_string getMsgId getMsgId_update,
      structField ''Name'' dec_string getName getName_update,
      structField ''Namespace'' dec_string getNamespace getNamespace_update,
      structField ''AdditionalProperties'' dec_anymap getAdditionalProperties getAdditionalProperties_update]"

definition enc_GetObject :: "GetObject \<Rightarrow> json" where
  "enc_GetObject m = JObj
     [(''ResourceVersion'', JInt (getResourceVersion m)),
      (''BaseObject'', JStr (getBaseObject m)),
      (''Depth'', JInt (getDepth m)),
      (''Event'', enc_uint_ptr (getEvent m)),
      (''Kind'', enc_ptr enc_Kind (getKind m)),
      (''MsgId'', JStr (getMsgId m)),
      (''Name'', JStr (getName m)),
      (''Namespace'', JStr (getNamespace m)),
      (''AdditionalProperties'', enc_anymap (getAdditionalProperties m))]"

record NewChecksum =
  chkResourceVersion :: int
  chkChecksum :: string
  chkDepth :: int
  chkEvent :: "Event option"
  chkKind :: "Kind option"
  chkMsgId :: string
  chkName :: string
  chkNamespace :: string
  chkAdditionalProperties :: "(string \<times> json) list option"

definition zero_NewChecksum :: NewChecksum where
  "zero_NewChecksum = \<lparr>chkResourceVersion = 0, chkChecksum = [], chkDepth = 0, chkEvent = None, chkKind = None, chkMsgId = [], chkName = [], chkNamespace = [], chkAdditionalProperties = None\<rparr>"

definition NewChecksum_fields :: "NewChecksum field list" where
  "NewChecksum_fields =
     [structField ''ResourceVersion'' dec_int chkResourceVersion chkResourceVersion_update,
      structField ''Checksum'' dec_string chkChecksum chkChecksum_update,
      structField ''Depth'' dec_int chkDepth chkDepth_update,
      structField ''Event'' dec_uint_ptr chkEvent chkEvent_update,
      structField ''Kind'' (dec_ptr Kind_fields zero_Kind) chkKind chkKind_update,
      structField ''MsgId'' dec_string chkMsgId chkMsgId_update,
      structField ''Name'' dec_string chkName chkName_update,
      structField ''Namespace'' dec_string chkNamespace chkNamespace_update,
      structField ''AdditionalProperties'' dec_anymap chkAdditionalProperties chkAdditionalProperties_update]"

definition enc_NewChecksum :: "NewChecksum \<Rightarrow> json" where
  "enc_NewChecksum m = JObj
     [(''ResourceVersion'', JInt (chkResourceVersion m)),
      (''Checksum'', JStr (chkChecksum m)),
      (''Depth'', JInt (chkDepth m)),
      (''Event'', enc_uint_ptr (chkEvent m)),
      (''Kind'', enc_ptr enc_Kind (chkKind m)),
      (''MsgId'', JStr (chkMsgId m)),
      (''Name'', JStr (chkName m)),
      (''Namespace'', JStr (chkNamespace m)),
      (''AdditionalProperties'', enc_anymap (chkAdditionalProperties m))]"

record ObjectDeleted =
  delResourceVersion :: int
  delDepth :: int
  delEvent :: "Event option"
  delKind :: "Kind option"
  delMsgId :: string
  delName :: string
  delNamespace :: string
  delAdditionalProperties :: "(string \<times> json) list option"

definition zero_ObjectDeleted :: ObjectDeleted where
  "zero_ObjectDeleted = \<lparr>delResourceVersion = 0, delDepth = 0, delEvent = None, delKind = None, delMsgId = [], delName = [], delNamespace = [], delAdditionalProperties = None\<rparr>"

definition ObjectDeleted_fields :: "ObjectDeleted field list" where
  "ObjectDeleted_fields =
     [structField ''ResourceVersion'' dec_int delResourceVersion delResourceVersion_update,
      structField ''Depth'' dec_int delDepth delDepth_update,
      structField ''Event'' dec_uint_ptr delEvent delEvent_update,
      structField ''Kind'' (dec_ptr Kind_fields zero_Kind) delKind delKind_update,
      structField ''MsgId'' dec_string delMsgId delMsgId_update,
      structField ''Name'' dec_string delName delName_update,
      structField ''Namespace'' dec_string delNamespace delNamespace_update,
      structField ''AdditionalProperties'' dec_anymap delAdditionalProperties delAdditionalProperties_update]"

definition enc_ObjectDeleted :: "ObjectDeleted \<Rightarrow> json" where
  "enc_ObjectDeleted m = JObj
     [(''ResourceVersion'', JInt (delResourceVersion m)),
      (''Depth'', JInt (delDepth m)),
      (''Event'', enc_uint_ptr (delEvent m)),
      (''Kind'', enc_ptr enc_Kind (delKind m)),
      (''MsgId'', JStr (delMsgId m)),
      (''Name'', JStr (delName m)),
      (''Namespace'', JStr (delNamespace m)),
      (''AdditionalProperties'', enc_anymap (delAdditionalProperties m))]"

record PatchObject =
  patchChecksum :: string
  patchResourceVersion :: int
  patchDepth :: int
  patchEvent :: "Event option"
  patchKind :: "Kind option"
  patchMsgId :: string
  patchName :: string
  patchNamespace :: string
  patchPatch :: string
  patchAdditionalProperties :: "(string \<times> json) list option"

definition zero_PatchObject :: PatchObject where
  "zero_PatchObject = \<lparr>patchChecksum = [], patchResourceVersion = 0, patchDepth = 0, patchEvent = None, patchKind = None, patchMsgId = [], patchName = [], patchNamespace = [], patchPatch = [], patchAdditionalProperties = None\<rparr>"

definition PatchObject_fields :: "PatchObject field list" where
  "PatchObject_fields =
     [structField ''Checksum'' dec_string patchChecksum patchChecksum_update,
      structField ''ResourceVersion'' dec_int patchResourceVersion patchResourceVersion_update,
      structField ''Depth'' dec_int patchDepth patchDepth_update,
      structField ''Event'' dec_uint_ptr patchEvent patchEvent_update,
      structField ''Kind'' (dec_ptr Kind_fields zero_Kind) patchKind patchKind_update,
      structField ''MsgId'' dec_string patchMsgId patchMsgId_update,
      structField ''Name'' dec_string patchName patchName_update,
      structField ''Namespace'' dec_string patchNamespace patchNamespace_update,
      structField ''Patch'' dec_string patchPatch patchPatch_update,
      structField ''AdditionalProperties'' dec_anymap patchAdditionalProperties patchAdditionalProperties_update]"

definition enc_PatchObject :: "PatchObject \<Rightarrow> json" where
  "enc_PatchObject m = JObj
     [(''Checksum'', JStr (patchChecksum m)),
      (''ResourceVersion'', JInt (patchResourceVersion m)),
      (''Depth'', JInt (patchDepth m)),
      (''Event'', enc_uint_ptr (patchEvent m)),
      (''Kind'', enc_ptr enc_Kind (patchKind m)),
      (''MsgId'', JStr (patchMsgId m)),
      (''Name'', JStr (patchName m)),
      (''Namespace'', JStr (patchNamespace m)),
      (''Patch'', JStr (patchPatch m)),
      (''AdditionalProperties'', enc_anymap (patchAdditionalProperties m))]"

record PutObject =
  putChecksum :: string
  putResourceVersion :: int
  putDepth :: int
  putEvent :: "Event option"
  putKind :: "Kind option"
  putMsgId :: string
  putName :: string
  putNamespace :: string
  putObject :: string
  putAdditionalProperties :: "(string \<times> json) list option"

definition zero_PutObject :: PutObject where
  "zero_PutObject = \<lparr>putChecksum = [], putResourceVersion = 0, putDepth = 0, putEvent = None, putKind = None, putMsgId = [], putName = [], putNamespace = [], putObject = [], putAdditionalProperties = None\<rparr>"

definition PutObject_fields :: "PutObject field list" where
  "PutObject_fields =
     [structField ''Checksum'' dec_string putChecksum putChecksum_update,
      structField ''ResourceVersion'' dec_int putResourceVersion putResourceVersion_update,
      structField ''Depth'' dec_int putDepth putDepth_update,
      structField ''Event'' dec_uint_ptr putEvent putEvent_update,
      structField ''Kind'' (dec_ptr Kind_fields zero_Kind) putKind putKind_update,
      structField ''MsgId'' dec_string putMsgId putMsgId_update,
      structField ''Name'' dec_string putName putName_update,
      structField ''Namespace'' dec_string putNamespace putNamespace_update,
      structField ''Object'' dec_string putObject putObject_update,
      structField ''AdditionalProperties'' dec_anymap putAdditionalProperties putAdditionalProperties_update]"

definition enc_PutObject :: "PutObject \<Rightarrow> json" where
  "enc_PutObject m = JObj
     [(''Checksum'', JStr (putChecksum m)),
      (''ResourceVersion'', JInt (putResourceVersion m)),
      (''Depth'', JInt (putDepth m)),
      (''Event'', enc_uint_ptr (putEvent m)),
      (''Kind'', enc_ptr enc_Kind (putKind m)),
      (''MsgId'', JStr (putMsgId m)),
      (''Name'', JStr (putName m)),
      (''Namespace'', JStr (putNamespace m)),
      (''Object'', JStr (putObject m)),
      (''AdditionalProperties'', enc_anymap (putAdditionalProperties m))]"

record BatchItems =
  itemsPutObject :: "PutObject list"
  itemsNewChecksum :: "NewChecksum list"
  itemsObjectDeleted :: "ObjectDeleted list"
  itemsGetObject :: "GetObject list"
  itemsPatchObject :: "PatchObject list"
  itemsAdditionalProperties :: "(string \<times> json) list option"

definition zero_BatchItems :: BatchItems where
  "zero_BatchItems = \<lparr>itemsPutObject = [], itemsNewChecksum = [], itemsObjectDeleted = [], itemsGetObject = [], itemsPatchObject = [], itemsAdditionalProperties = None\<rparr>"

definition BatchItems_fields :: "BatchItems field list" where
  "BatchItems_fields =
     [structField ''PutObject'' (dec_slice PutObject_fields zero_PutObject) itemsPutObject itemsPutObject_update,
      structField ''NewChecksum'' (dec_slice NewChecksum_fields zero_NewChecksum) itemsNewChecksum itemsNewChecksum_update,
      structField ''ObjectDeleted'' (dec_slice ObjectDeleted_fields zero_ObjectDeleted) itemsObjectDeleted itemsObjectDeleted_update,
      structField ''GetObject'' (dec_slice GetObject_fields zero_GetObject) itemsGetObject itemsGetObject_update,
      structField ''PatchObject'' (dec_slice PatchObject_fields zero_PatchObject) itemsPatchObject itemsPatchObject_update,
      structField ''AdditionalProperties'' dec_anymap itemsAdditionalProperties itemsAdditionalProperties_update]"

definition enc_BatchItems :: "BatchItems \<Rightarrow> json" where
  "enc_BatchItems m = JObj
     [(''PutObject'', enc_slice enc_PutObject (itemsPutObject m)),
      (''NewChecksum'', enc_slice enc_NewChecksum (itemsNewChecksum m)),
      (''ObjectDeleted'', enc_slice enc_ObjectDeleted (itemsObjectDeleted m)),
      (''GetObject'', enc_slice enc_GetObject (itemsGetObject m)),
      (''PatchObject'', enc_slice enc_PatchObject (itemsPatchObject m)),
      (''AdditionalProperties'', enc_anymap (itemsAdditionalProperties m))]"

record Batch =
  batchDepth :: int
  batchEvent :: "Event option"
  batchMsgId :: string
  batchKind :: "Kind option"
  batchBatchType :: string
  batchItems :: "BatchItems option"
  batchAdditionalProperties :: "(string \<times> json) list option"

definition zero_Batch :: Batch where
  "zero_Batch = \<lparr>batchDepth = 0, batchEvent = None, batchMsgId = [], batchKind = None, batchBatchType = [], batchItems = None, batchAdditionalProperties = None\<rparr>"

definition Batch_fields :: "Batch field list" where
  "Batch_fields =
     [structField ''Depth'' dec_int batchDepth batchDepth_update,
      structField ''Event'' dec_uint_ptr batchEvent batchEvent_update,
      structField ''MsgId'' dec_string batchMsgId batchMsgId_update,
      structField ''Kind'' (dec_ptr Kind_fields zero_Kind) batchKind batchKind_update,
      structField ''BatchType'' dec_string batchBatchType batchBatchType_update,
      structField ''Items'' (dec_ptr BatchItems_fields zero_BatchItems) batchItems batchItems_update,
      structField ''AdditionalProperties'' dec_anymap batchAdditionalProperties batchAdditionalProperties_update]"

definition enc_Batch :: "Batch \<Rightarrow> json" where
  "enc_Batch m = JObj
     [(''Depth'', JInt (batchDepth m)),
      (''Event'', enc_uint_ptr (batchEvent m)),
      (''MsgId'', JStr (batchMsgId m)),
      (''Kind'', enc_ptr enc_Kind (batchKind m)),
      (''BatchType'', JStr (batchBatchType m)),
      (''Items'', enc_ptr enc_BatchItems (batchItems m)),
      (''AdditionalProperties'', enc_anymap (batchAdditionalProperties m))]"


section \<open>Reading back what was written\<close>

text \<open>The keys of the structs in lower case, as \<open>Unmarshal\<close> compares them.\<close>

lemma key_lower [simp]:
  "strings_ToLower ''Group'' = ''group''"
  "strings_ToLower ''Version'' = ''version''"
  "strings_ToLower ''Resource'' = ''resource''"
  "strings_ToLower ''AdditionalProperties'' = ''additionalproperties''"
  "strings_ToLower ''Depth'' = ''depth''"
  "strings_ToLower ''Event'' = ''event''"
  "strings_ToLower ''Kind'' = ''kind''"
  "strings_ToLower ''MsgId'' = ''msgid''"
  "strings_ToLower ''ResourceVersion'' = ''resourceversion''"
  "strings_ToLower ''BaseObject'' = ''baseobject''"
  "strings_ToLower ''Name'' = ''name''"
  "strings_ToLower ''Namespace'' = ''namespace''"
  "strings_ToLower ''Checksum'' = ''checksum''"
  "strings_ToLower ''Patch'' = ''patch''"
  "strings_ToLower ''Object'' = ''object''"
  "strings_ToLower ''PutObject'' = ''putobject''"
  "strings_ToLower ''NewChecksum'' = ''newchecksum''"
  "strings_ToLower ''ObjectDeleted'' = ''objectdeleted''"
  "strings_ToLower ''GetObject'' = ''getobject''"
  "strings_ToLower ''PatchObject'' = ''patchobject''"
  "strings_ToLower ''BatchType'' = ''batchtype''"
  "strings_ToLower ''Items'' = ''items''"
  by code_simp+

definition event_in_range :: "Event option \<Rightarrow> bool" where
  "event_in_range e \<longleftrightarrow> (case e of None \<Rightarrow> True | Some n \<Rightarrow> n < 18446744073709551616)"

lemma dec_uint_ptr_enc_event [simp]:
  "event_in_range e \<Longrightarrow> dec_uint_ptr (enc_uint_ptr e) old = Inr e"
  by (rule dec_uint_ptr_enc) (simp add: event_in_range_def)

declare json_roundtrip [simp]

lemma dec_Kind_enc [simp]: "dec_struct Kind_fields (enc_Kind k) zero_Kind = Inr k"
  by (simp add: dec_struct_def Kind_fields_def enc_Kind_def zero_Kind_def structField_def)

lemma enc_Kind_not_null [simp]: "enc_Kind k \<noteq> JNull"
  by (simp add: enc_Kind_def)

lemma dec_Kind_ptr [simp]: "dec_ptr Kind_fields zero_Kind (enc_ptr enc_Kind p) None = Inr p"
  by (rule dec_ptr_enc) simp_all

lemma dec_Generic_enc:
  assumes "in_int64 (genDepth m)" and "event_in_range (genEvent m)"
  shows "dec_struct Generic_fields (enc_Generic m) zero_Generic = Inr m"
  using assms
  by (simp add: dec_struct_def Generic_fields_def enc_Generic_def zero_Generic_def structField_def)

definition wf_GetObject :: "GetObject \<Rightarrow> bool" where
  "wf_GetObject m \<longleftrightarrow> in_int64 (getResourceVersion m) \<and> in_int64 (getDepth m) \<and> event_in_range (getEvent m)"

lemma dec_GetObject_enc [simp]:
  "wf_GetObject m \<Longrightarrow> dec_struct GetObject_fields (enc_GetObject m) zero_GetObject = Inr m"
  by (simp add: dec_struct_def GetObject_fields_def enc_GetObject_def zero_GetObject_def structField_def wf_GetObject_def)

lemma dec_GetObject_slice [simp]:
  "list_all wf_GetObject ms \<Longrightarrow> dec_slice GetObject_fields zero_GetObject (enc_slice enc_GetObject ms) old = Inr ms"
  by (rule dec_slice_enc) (simp add: list_all_iff)

lemma dec_Generic_GetObject:
  "wf_GetObject m \<Longrightarrow> dec_struct Generic_fields (enc_GetObject m) zero_Generic =
     Inr \<lparr>genDepth = getDepth m, genEvent = getEvent m, genKind = getKind m, genMsgId = getMsgId m,
          genAdditionalProperties = getAdditionalProperties m\<rparr>"
  by (simp add: dec_struct_def Generic_fields_def enc_GetObject_def zero_Generic_def structField_def wf_GetObject_def)

definition wf_NewChecksum :: "NewChecksum \<Rightarrow> bool" where
  "wf_NewChecksum m \<longleftrightarrow> in_int64 (chkResourceVersion m) \<and> in_int64 (chkDepth m) \<and> event_in_range (chkEvent m)"

lemma dec_NewChecksum_enc [simp]:
  "wf_NewChecksum m \<Longrightarrow> dec_struct NewChecksum_fields (enc_NewChecksum m) zero_NewChecksum = Inr m"
  by (simp add: dec_struct_def NewChecksum_fields_def enc_NewChecksum_def zero_NewChecksum_def structField_def wf_NewChecksum_def)

lemma dec_NewChecksum_slice [simp]:
  "list_all wf_NewChecksum ms \<Longrightarrow> dec_slice NewChecksum_fields zero_NewChecksum (enc_slice enc_NewChecksum ms) old = Inr ms"
  by (rule dec_slice_enc) (simp add: list_all_iff)

lemma dec_Generic_NewChecksum:
  "wf_NewChecksum m \<Longrightarrow> dec_struct Generic_fields (enc_NewChecksum m) zero_Generic =
     Inr \<lparr>genDepth = chkDepth m, genEvent = chkEvent m, genKind = chkKind m, genMsgId = chkMsgId m,
          genAdditionalProperties = chkAdditionalProperties m\<rparr>"
  by (simp add: dec_struct_def Generic_fields_def enc_NewChecksum_def zero_Generic_def structField_def wf_NewChecksum_def)

definition wf_ObjectDeleted :: "ObjectDeleted \<Rightarrow> bool" where
  "wf_ObjectDeleted m \<longleftrightarrow> in_int64 (delResourceVersion m) \<and> in_int64 (delDepth m) \<and> event_in_range (delEvent m)"

lemma dec_ObjectDeleted_enc [simp]:
  "wf_ObjectDeleted m \<Longrightarrow> dec_struct ObjectDeleted_fields (enc_ObjectDeleted m) zero_ObjectDeleted = Inr m"
  by (simp add: dec_struct_def ObjectDeleted_fields_def enc_ObjectDeleted_def zero_ObjectDeleted_def structField_def wf_ObjectDeleted_def)

lemma dec_ObjectDeleted_slice [simp]:
  "list_all wf_ObjectDeleted ms \<Longrightarrow> dec_slice ObjectDeleted_fields zero_ObjectDeleted (enc_slice enc_ObjectDeleted ms) old = Inr ms"
  by (rule dec_slice_enc) (simp add: list_all_iff)

lemma dec_Generic_ObjectDeleted:
  "wf_ObjectDeleted m \<Longrightarrow> dec_struct Generic_fields (enc_ObjectDeleted m) zero_Generic =
     Inr \<lparr>genDepth = delDepth m, genEvent = delEvent m, genKind = delKind m, genMsgId = delMsgId m,
          genAdditionalProperties = delAdditionalProperties m\<rparr>"
  by (simp add: dec_struct_def Generic_fields_def enc_ObjectDeleted_def zero_Generic_def structField_def wf_ObjectDeleted_def)

definition wf_PatchObject :: "PatchObject \<Rightarrow> bool" where
  "wf_PatchObject m \<longleftrightarrow> in_int64 (patchResourceVersion m) \<and> in_int64 (patchDepth m) \<and> event_in_range (patchEvent m)"

lemma dec_PatchObject_enc [simp]:
  "wf_PatchObject m \<Longrightarrow> dec_struct PatchObject_fields (enc_PatchObject m) zero_PatchObject = Inr m"
  by (simp add: dec_struct_def PatchObject_fields_def enc_PatchObject_def zero_PatchObject_def structField_def wf_PatchObject_def)

lemma dec_PatchObject_slice [simp]:
  "list_all wf_PatchObject ms \<Longrightarrow> dec_slice PatchObject_fields zero_PatchObject (enc_slice enc_PatchObject ms) old = Inr ms"
  by (rule dec_slice_enc) (simp add: list_all_iff)

lemma dec_Generic_PatchObject:
  "wf_PatchObject m \<Longrightarrow> dec_struct Generic_fields (enc_PatchObject m) zero_Generic =
     Inr \<lparr>genDepth = patchDepth m, genEvent = patchEvent m, genKind = patchKind m, genMsgId = patchMsgId m,
          genAdditionalProperties = patchAdditionalProperties m\<rparr>"
  by (simp add: dec_struct_def Generic_fields_def enc_PatchObject_def zero_Generic_def structField_def wf_PatchObject_def)

definition wf_PutObject :: "PutObject \<Rightarrow> bool" where
  "wf_PutObject m \<longleftrightarrow> in_int64 (putResourceVersion m) \<and> in_int64 (putDepth m) \<and> event_in_range (putEvent m)"

lemma dec_PutObject_enc [simp]:
  "wf_PutObject m \<Longrightarrow> dec_struct PutObject_fields (enc_PutObject m) zero_PutObject = Inr m"
  by (simp add: dec_struct_def PutObject_fields_def enc_PutObject_def zero_PutObject_def structField_def wf_PutObject_def)

lemma dec_PutObject_slice [simp]:
  "list_all wf_PutObject ms \<Longrightarrow> dec_slice PutObject_fields zero_PutObject (enc_slice enc_PutObject ms) old = Inr ms"
  by (rule dec_slice_enc) (simp add: list_all_iff)

lemma dec_Generic_PutObject:
  "wf_PutObject m \<Longrightarrow> dec_struct Generic_fields (enc_PutObject m) zero_Generic =
     Inr \<lparr>genDepth = putDepth m, genEvent = putEvent m, genKind = putKind m, genMsgId = putMsgId m,
          genAdditionalProperties = putAdditionalProperties m\<rparr>"
  by (simp add: dec_struct_def Generic_fields_def enc_PutObject_def zero_Generic_def structField_def wf_PutObject_def)

definition wf_BatchItems :: "BatchItems \<Rightarrow> bool" where
  "wf_BatchItems b \<longleftrightarrow> list_all wf_PutObject (itemsPutObject b) \<and> list_all wf_NewChecksum (itemsNewChecksum b)
     \<and> list_all wf_ObjectDeleted (itemsObjectDeleted b) \<and> list_all wf_GetObject (itemsGetObject b)
     \<and> list_all wf_PatchObject (itemsPatchObject b)"

lemma dec_BatchItems_enc [simp]:
  "wf_BatchItems b \<Longrightarrow> dec_struct BatchItems_fields (enc_BatchItems b) zero_BatchItems = Inr b"
  by (simp add: dec_struct_def BatchItems_fields_def enc_BatchItems_def zero_BatchItems_def
      structField_def wf_BatchItems_def)

lemma enc_BatchItems_not_null [simp]: "enc_BatchItems b \<noteq> JNull"
  by (simp add: enc_BatchItems_def)

lemma dec_BatchItems_ptr [simp]:
  "(\<forall>b. p = Some b \<longrightarrow> wf_BatchItems b) \<Longrightarrow>
     dec_ptr BatchItems_fields zero_BatchItems (enc_ptr enc_BatchItems p) None = Inr p"
  by (rule dec_ptr_enc) simp_all

definition wf_Batch :: "Batch \<Rightarrow> bool" where
  "wf_Batch m \<longleftrightarrow> in_int64 (batchDepth m) \<and> event_in_range (batchEvent m)
     \<and> (\<forall>b. batchItems m = Some b \<longrightarrow> wf_BatchItems b)"

lemma dec_Batch_enc [simp]:
  "wf_Batch m \<Longrightarrow> dec_struct Batch_fields (enc_Batch m) zero_Batch = Inr m"
  by (simp add: dec_struct_def Batch_fields_def enc_Batch_def zero_Batch_def structField_def wf_Batch_def)

lemma dec_Generic_Batch:
  "wf_Batch m \<Longrightarrow> dec_struct Generic_fields (enc_Batch m) zero_Generic =
     Inr \<lparr>genDepth = batchDepth m, genEvent = batchEvent m, genKind = batchKind m,
          genMsgId = batchMsgId m, genAdditionalProperties = batchAdditionalProperties m\<rparr>"
  by (simp add: dec_struct_def Generic_fields_def enc_Batch_def zero_Generic_def structField_def wf_Batch_def)

lemmas dec_Generic_message = dec_Generic_GetObject dec_Generic_NewChecksum dec_Generic_ObjectDeleted
  dec_Generic_PatchObject dec_Generic_PutObject dec_Generic_Batch

section \<open>domain.BatchItems.Length\<close>

definition BatchItems_Length :: "BatchItems \<Rightarrow> nat" where
  "BatchItems_Length items = length (itemsGetObject items) + length (itemsNewChecksum items)
     + length (itemsObjectDeleted items) + length (itemsPatchObject items) + length (itemsPutObject items)"

end
