(* ===== verification/Sync_Context.thy ===== *)
theory Sync_Context
  imports Domain_Messages
begin

text \<open>
  Contexts (\<open>domain/context.go\<close>, \<open>utils/utils.go\<close>). A \<open>context.Context\<close> is the chain of
  \<open>context.WithValue\<close> calls that built it, the latest first; \<open>ctx.Value(key)\<close> walks the chain
  to the first entry for the key. Cancellation is not part of the model.
\<close>

type_synonym contextKey = string

definition ContextKeyClientIdentifier :: contextKey where
  "ContextKeyClientIdentifier = ''clientIdentifier''"
definition ContextKeyDepth :: contextKey where "ContextKeyDepth = ''depth''"
definition ContextKeyMsgId :: contextKey where "ContextKeyMsgId = ''msgId''"
definition ContextKeyAccessKey :: contextKey where "ContextKeyAccessKey = ''accessKey''"

lemmas contextKey_defs = ContextKeyClientIdentifier_def ContextKeyDepth_def ContextKeyMsgId_def
  ContextKeyAccessKey_def

text \<open>The dynamic types of the values the code stores.\<close>

datatype ctxval = CtxInt int | CtxString string | CtxClient ClientIdentifier

type_synonym Context = "(contextKey \<times> ctxval) list"

definition WithValue :: "Context \<Rightarrow> contextKey \<Rightarrow> ctxval \<Rightarrow> Context" where
  "WithValue ctx k v = (k, v) # ctx"

definition ctx_Value :: "Context \<Rightarrow> contextKey \<Rightarrow> ctxval option" where
  "ctx_Value ctx k = map_of ctx k"

lemma ctx_Value_WithValue [simp]:
  "ctx_Value (WithValue ctx k v) k' = (if k' = k then Some v else ctx_Value ctx k')"
  by (simp add: ctx_Value_def WithValue_def)

definition ContextFromGeneric :: "Context \<Rightarrow> Generic \<Rightarrow> Context" where
  "ContextFromGeneric parent generic =
     (let ctx = WithValue parent ContextKeyDepth (CtxInt (genDepth generic))
      in WithValue ctx ContextKeyMsgId (CtxString (genMsgId generic)))"

definition ContextFromIdentifiers :: "Context \<Rightarrow> ClientIdentifier \<Rightarrow> Context" where
  "ContextFromIdentifiers parent oid =
     WithValue parent ContextKeyClientIdentifier
       (CtxClient (zero_ClientIdentifier\<lparr>ciAccount := ciAccount oid, ciCluster := ciCluster oid\<rparr>))"

text \<open>\<open>ctx.Value(...).(domain.ClientIdentifier)\<close> panics when there is no such value.\<close>

definition ClientIdentifierFromContext :: "Context \<Rightarrow> ('w, ClientIdentifier) go" where
  "ClientIdentifierFromContext ctx =
     (case ctx_Value ctx ContextKeyClientIdentifier of
        Some (CtxClient oid) \<Rightarrow> ret oid
      | _ \<Rightarrow> panic ''interface conversion'')"

definition AccessKeyFromContext :: "Context \<Rightarrow> string" where
  "AccessKeyFromContext ctx =
     (case ctx_Value ctx ContextKeyAccessKey of Some (CtxString s) \<Rightarrow> s | _ \<Rightarrow> [])"

text \<open>
  \<open>utils.DeptMsgIdFromContext\<close>; the id of a message that answers no other is a fresh one,
  drawn from the uuid generator \<open>newMsgId\<close>.
\<close>

definition DeptMsgIdFromContext :: "('w, string) go \<Rightarrow> Context \<Rightarrow> ('w, int \<times> string) go" where
  "DeptMsgIdFromContext newMsgId ctx =
     (let depth = (case ctx_Value ctx ContextKeyDepth of None \<Rightarrow> CtxInt 0 | Some v \<Rightarrow> v) in
      andThen (case ctx_Value ctx ContextKeyMsgId of
                 None \<Rightarrow> andThen newMsgId (\<lambda>s. ret (CtxString s))
               | Some v \<Rightarrow> ret v) (\<lambda>msgId.
      case depth of
        CtxInt d \<Rightarrow> (case msgId of
            CtxString m \<Rightarrow> ret (d, m)
          | _ \<Rightarrow> panic ''interface conversion'')
      | _ \<Rightarrow> panic ''interface conversion''))"

section \<open>What a context carries\<close>

text \<open>The context in which a message of the given depth and id is handled.\<close>

definition carries :: "Context \<Rightarrow> int \<Rightarrow> string \<Rightarrow> bool" where
  "carries ctx d m \<longleftrightarrow> ctx_Value ctx ContextKeyDepth = Some (CtxInt d)
     \<and> ctx_Value ctx ContextKeyMsgId = Some (CtxString m)"

definition identified :: "Context \<Rightarrow> ClientIdentifier \<Rightarrow> bool" where
  "identified ctx oid \<longleftrightarrow> ctx_Value ctx ContextKeyClientIdentifier = Some (CtxClient oid)"

lemma carries_ContextFromGeneric [simp]:
  "carries (ContextFromGeneric ctx g) (genDepth g) (genMsgId g)"
  by (simp add: carries_def ContextFromGeneric_def Let_def contextKey_defs)

lemma identified_ContextFromGeneric [simp]:
  "identified (ContextFromGeneric ctx g) oid = identified ctx oid"
  by (simp add: identified_def ContextFromGeneric_def Let_def contextKey_defs)

lemma identified_ContextFromIdentifiers [simp]:
  "identified (ContextFromIdentifiers ctx oid)
     (zero_ClientIdentifier\<lparr>ciAccount := ciAccount oid, ciCluster := ciCluster oid\<rparr>)"
  by (simp add: identified_def ContextFromIdentifiers_def)

lemma length_ContextFromGeneric [simp]: "length (ContextFromGeneric ctx g) = length ctx + 2"
  by (simp add: ContextFromGeneric_def WithValue_def)

lemma DeptMsgIdFromContext_carries [simp]:
  "carries ctx d m \<Longrightarrow> DeptMsgIdFromContext newMsgId ctx = ret (d, m)"
  by (simp add: carries_def DeptMsgIdFromContext_def)

lemma ClientIdentifierFromContext_identified [simp]:
  "identified ctx oid \<Longrightarrow> ClientIdentifierFromContext ctx = ret oid"
  by (simp add: identified_def ClientIdentifierFromContext_def)

lemma keeps_ClientIdentifierFromContext [keeps_intros]:
  "preorderp R \<Longrightarrow> keeps R (ClientIdentifierFromContext ctx)"
  by (auto simp: ClientIdentifierFromContext_def intro!: keeps_intros
      split: option.splits ctxval.splits)

section \<open>The interfaces between the parts\<close>

text \<open>
  \<open>domain.Callbacks\<close>: what an adapter may ask of the synchronizer it is registered with. The
  functions act on the state \<open>'w\<close> of the connection.
\<close>

record 'w Callbacks =
  cbDeleteObject :: "Context \<Rightarrow> KindName \<Rightarrow> ('w, goerror option) go"
  cbGetObject :: "Context \<Rightarrow> KindName \<Rightarrow> string \<Rightarrow> ('w, goerror option) go"
  cbPatchObject :: "Context \<Rightarrow> KindName \<Rightarrow> string \<Rightarrow> string \<Rightarrow> ('w, goerror option) go"
  cbPutObject :: "Context \<Rightarrow> KindName \<Rightarrow> string \<Rightarrow> string \<Rightarrow> ('w, goerror option) go"
  cbVerifyObject :: "Context \<Rightarrow> KindName \<Rightarrow> string \<Rightarrow> ('w, goerror option) go"
  cbBatch :: "Context \<Rightarrow> Kind \<Rightarrow> BatchType \<Rightarrow> BatchItems \<Rightarrow> ('w, goerror option) go"

text \<open>
  \<open>adapters.Adapter\<close>: the operations of an adapter act on its own state \<open>'s\<close> and, through the
  callbacks registered with it (the first argument of each), on that of the connection.
\<close>

record ('s, 'w) Adapter =
  adStart :: "'w Callbacks \<Rightarrow> Context \<Rightarrow> ('s \<times> 'w, goerror option) go"
  adStop :: "'w Callbacks \<Rightarrow> Context \<Rightarrow> ('s \<times> 'w, goerror option) go"
  adDeleteObject :: "'w Callbacks \<Rightarrow> Context \<Rightarrow> KindName \<Rightarrow> ('s \<times> 'w, goerror option) go"
  adGetObject :: "'w Callbacks \<Rightarrow> Context \<Rightarrow> KindName \<Rightarrow> string \<Rightarrow> ('s \<times> 'w, goerror option) go"
  adPatchObject :: "'w Callbacks \<Rightarrow> Context \<Rightarrow> KindName \<Rightarrow> string \<Rightarrow> string \<Rightarrow> ('s \<times> 'w, goerror option) go"
  adPutObject :: "'w Callbacks \<Rightarrow> Context \<Rightarrow> KindName \<Rightarrow> string \<Rightarrow> string \<Rightarrow> ('s \<times> 'w, goerror option) go"
  adVerifyObject :: "'w Callbacks \<Rightarrow> Context \<Rightarrow> KindName \<Rightarrow> string \<Rightarrow> ('s \<times> 'w, goerror option) go"
  adBatch :: "'w Callbacks \<Rightarrow> Context \<Rightarrow> Kind \<Rightarrow> BatchType \<Rightarrow> BatchItems \<Rightarrow> ('s \<times> 'w, goerror option) go"

text \<open>Calling back in a given context changes the connection's state along \<open>R\<close> only.\<close>

definition callbacks_keep :: "('w \<Rightarrow> 'w \<Rightarrow> bool) \<Rightarrow> 'w Callbacks \<Rightarrow> Context \<Rightarrow> bool" where
  "callbacks_keep R cbs ctx \<longleftrightarrow>
     (\<forall>oid. keeps R (cbDeleteObject cbs ctx oid)) \<and>
     (\<forall>oid b. keeps R (cbGetObject cbs ctx oid b)) \<and>
     (\<forall>oid c p. keeps R (cbPatchObject cbs ctx oid c p)) \<and>
     (\<forall>oid c ob. keeps R (cbPutObject cbs ctx oid c ob)) \<and>
     (\<forall>oid c. keeps R (cbVerifyObject cbs ctx oid c)) \<and>
     (\<forall>k t items. keeps R (cbBatch cbs ctx k t items))"

lemma callbacks_keepD [keeps_intros]:
  assumes "callbacks_keep R cbs ctx"
  shows "keeps R (cbDeleteObject cbs ctx oid)" "keeps R (cbGetObject cbs ctx oid b)"
    "keeps R (cbPatchObject cbs ctx oid c p)" "keeps R (cbPutObject cbs ctx oid c ob)"
    "keeps R (cbVerifyObject cbs ctx oid c)" "keeps R (cbBatch cbs ctx k t items)"
  using assms by (simp_all add: callbacks_keep_def)

text \<open>
  The contract of an adapter: whatever an operation does to the connection, it does by calling
  back in the context it was given. So a relation that each callback in this context keeps
  between the connection's states before and after is kept by the whole operation. This is what
  carries the depth of a message over to every message sent in answer to it.
\<close>

locale sync_adapter =
  fixes A :: "('s, 'w) Adapter"
  assumes delete_keeps: "preorderp R \<Longrightarrow> callbacks_keep R cbs ctx \<Longrightarrow>
      keeps (snd_rel R) (adDeleteObject A cbs ctx oid)"
    and get_keeps: "preorderp R \<Longrightarrow> callbacks_keep R cbs ctx \<Longrightarrow>
      keeps (snd_rel R) (adGetObject A cbs ctx oid b)"
    and patch_keeps: "preorderp R \<Longrightarrow> callbacks_keep R cbs ctx \<Longrightarrow>
      keeps (snd_rel R) (adPatchObject A cbs ctx oid c p)"
    and put_keeps: "preorderp R \<Longrightarrow> callbacks_keep R cbs ctx \<Longrightarrow>
      keeps (snd_rel R) (adPutObject A cbs ctx oid c ob)"
    and verify_keeps: "preorderp R \<Longrightarrow> callbacks_keep R cbs ctx \<Longrightarrow>
      keeps (snd_rel R) (adVerifyObject A cbs ctx oid c)"
    and batch_keeps: "preorderp R \<Longrightarrow> callbacks_keep R cbs ctx \<Longrightarrow>
      keeps (snd_rel R) (adBatch A cbs ctx k t items)"

end
