(* ===== verification/Sync_Utils.thy ===== *)
theory Sync_Utils
  imports Sync_Context
begin

text \<open>
  Package \<open>utils\<close>: the version comparisons of \<open>utils/utils.go\<close> and the schedule handling of
  \<open>utils/ticker.go\<close>. \<open>semver.Compare\<close>, \<open>time.LoadLocation\<close> and the cron parser are libraries
  and appear as arguments.
\<close>

section \<open>Versions\<close>

definition StringValueBigger :: "string \<Rightarrow> string \<Rightarrow> bool" where
  "StringValueBigger s1 s2 =
     (case strconv_Atoi s1 of
        None \<Rightarrow> False
      | Some i1 \<Rightarrow> (case strconv_Atoi s2 of None \<Rightarrow> False | Some i2 \<Rightarrow> i1 > i2))"

definition GreaterOrEqualVersion :: "(string \<Rightarrow> string \<Rightarrow> int) \<Rightarrow> string \<Rightarrow> string \<Rightarrow> bool" where
  "GreaterOrEqualVersion semverCompare a b \<longleftrightarrow> semverCompare a b \<ge> 0"

definition IsBatchMessageSupported :: "(string \<Rightarrow> string \<Rightarrow> int) \<Rightarrow> string \<Rightarrow> bool" where
  "IsBatchMessageSupported semverCompare version =
     (if version = [] then False else GreaterOrEqualVersion semverCompare version ''v0.0.57'')"

definition PulsarMessageIDtoString :: "string \<Rightarrow> int \<Rightarrow> string" where
  "PulsarMessageIDtoString msgID batchIdx = msgID @ '':'' @ strconv_Itoa batchIdx"

text \<open>A strict order on the versions that parse: it never holds both ways nor of equal versions.\<close>

lemma StringValueBigger_Itoa:
  "in_int64 m \<Longrightarrow> in_int64 n \<Longrightarrow> StringValueBigger (strconv_Itoa m) (strconv_Itoa n) \<longleftrightarrow> n < m"
  by (simp add: StringValueBigger_def strconv_Atoi_Itoa)

lemma StringValueBigger_irrefl [simp]: "\<not> StringValueBigger s s"
  by (simp add: StringValueBigger_def split: option.splits)

lemma StringValueBigger_trans:
  "StringValueBigger a b \<Longrightarrow> StringValueBigger b c \<Longrightarrow> StringValueBigger a c"
  by (auto simp: StringValueBigger_def split: option.splits)

section \<open>Schedules\<close>

text \<open>\<open>s[lo:hi]\<close> with the run-time check of the bounds; \<open>strings.Index\<close> as the \<open>int\<close> it returns.\<close>

definition go_slice :: "string \<Rightarrow> int \<Rightarrow> int \<Rightarrow> string outcome" where
  "go_slice s lo hi =
     (if 0 \<le> lo \<and> lo \<le> hi \<and> hi \<le> int (length s) then Ret (take (nat (hi - lo)) (drop (nat lo) s))
      else Panic ''slice bounds out of range'')"

definition go_Index :: "string \<Rightarrow> string \<Rightarrow> int" where
  "go_Index s sub = (case strings_Index s sub of None \<Rightarrow> - 1 | Some i \<Rightarrow> int i)"

definition extractTZ :: "string \<Rightarrow> string outcome" where
  "extractTZ schedule =
     (let end' = go_Index schedule '' ''; eq = go_Index schedule ''='' in go_slice schedule (eq + 1) end')"

definition guaranteeTimeZone :: "(string \<Rightarrow> goerror + 'loc) \<Rightarrow> string \<Rightarrow> (goerror + string \<times> 'loc) outcome" where
  "guaranteeTimeZone loadLocation schedule =
     (let schedule = (if \<not> strings_HasPrefix schedule ''TZ='' then ''TZ=UTC '' @ schedule else schedule) in
      case extractTZ schedule of
        Panic p \<Rightarrow> Panic p
      | Ret tz \<Rightarrow> Ret (case loadLocation tz of Inl e \<Rightarrow> Inl e | Inr loc \<Rightarrow> Inr (schedule, loc)))"

text \<open>\<open>newCronTicker\<close> up to the start of the goroutine, which gets the schedule and the location.\<close>

definition newCronTicker :: "(string \<Rightarrow> goerror + 'loc) \<Rightarrow> (string \<Rightarrow> goerror + 'sched) \<Rightarrow> string \<Rightarrow>
    (goerror + 'sched \<times> 'loc) outcome" where
  "newCronTicker loadLocation parse schedule =
     (case guaranteeTimeZone loadLocation schedule of
        Panic p \<Rightarrow> Panic p
      | Ret (Inl e) \<Rightarrow> Ret (Inl e)
      | Ret (Inr (scheduleWithTZ, loc)) \<Rightarrow>
          Ret (case parse scheduleWithTZ of Inl e \<Rightarrow> Inl e | Inr cronSchedule \<Rightarrow> Inr (cronSchedule, loc)))"

text \<open>
  The goroutine: \<open>nextTick\<close> is \<open>schedule.Next\<close> in the location; each turn either the stop message
  is received (\<open>None\<close>) or the timer fires at a time. The result is what is sent on the channel and
  what the timer was set to.
\<close>

fun cronLoop :: "(int \<Rightarrow> int) \<Rightarrow> int option list \<Rightarrow> int list \<times> int list" where
  "cronLoop nextTick [] = ([], [])"
| "cronLoop nextTick (None # turns) = ([], [])"
| "cronLoop nextTick (Some tickTime # turns) =
     (case cronLoop nextTick turns of (ticks, timers) \<Rightarrow> (tickTime # ticks, nextTick tickTime # timers))"

definition cronRunner :: "(int \<Rightarrow> int) \<Rightarrow> int \<Rightarrow> int option list \<Rightarrow> int list \<times> int list" where
  "cronRunner nextTick now turns =
     (case cronLoop nextTick turns of (ticks, timers) \<Rightarrow> (ticks, nextTick now # timers))"

lemma cronRunner_stops: "fst (cronRunner nextTick now (map Some ts @ None # turns)) = ts"
  unfolding cronRunner_def by (induction ts) (auto split: prod.splits)

lemma go_Index_zone:
  assumes "CHR '' '' \<notin> set zone"
  shows "go_Index (''TZ='' @ zone @ '' '' @ rest) '' '' = 3 + int (length zone)"
    and "go_Index (''TZ='' @ s) ''='' = 2"
proof -
  have "strings_Index ((''TZ='' @ zone) @ CHR '' '' # rest) '' '' = Some (length (''TZ='' @ zone))"
    by (rule strings_Index_char) (use assms in auto)
  then show "go_Index (''TZ='' @ zone @ '' '' @ rest) '' '' = 3 + int (length zone)"
    by (simp add: go_Index_def)
  show "go_Index (''TZ='' @ s) ''='' = 2" by (simp add: go_Index_def)
qed

lemma extractTZ_zone:
  assumes "CHR '' '' \<notin> set zone"
  shows "extractTZ (''TZ='' @ zone @ '' '' @ rest) = Ret zone"
  unfolding extractTZ_def Let_def go_Index_zone [OF assms] go_slice_def by simp

lemma extractTZ_no_space:
  assumes "CHR '' '' \<notin> set s"
  shows "extractTZ (''TZ='' @ s) = Panic ''slice bounds out of range''"
proof -
  have "strings_Index (''TZ='' @ s) '' '' = None"
    by (rule strings_Index_char_None) (use assms in auto)
  then show ?thesis
    unfolding extractTZ_def Let_def using go_Index_zone(2) [of "[]" s]
    by (simp add: go_Index_def go_slice_def)
qed

end
