(* ===== verification/Core_Send.thy ===== *)
theory Core_Send
  imports Sync_Context
begin

text \<open>
  \<open>core/synchronizer.go\<close>, the sending half: one function per message (\<open>sendGetObject\<close>,
  \<open>sendNewChecksum\<close>, \<open>sendObjectDeleted\<close>, \<open>sendPatchObject\<close>, \<open>sendPutObject\<close>, \<open>sendBatch\<close>,
  \<open>sendPing\<close>) and the callbacks the synchronizer registers with its adapters.

  Two libraries are parameters, the fields of \<open>runtime\<close>: the uuid generator behind
  \<open>utils.NewMsgId\<close> and the \<open>Invoke\<close> of the outgoing \<open>ants\<close> pool. \<open>json.Marshal\<close> cannot fail on
  these structs (strings, integers, a nil map), so its error branch has no counterpart. The debug
  line after a send evaluates \<open>msg.Kind.String()\<close>, which dereferences the kind.
\<close>

record 'w runtime =
  rtNewMsgId :: "('w, string) go"
  rtOutInvoke :: "wire \<Rightarrow> ('w, goerror option) go"

definition derefKind :: "Kind option \<Rightarrow> ('w, Kind) go" where
  "derefKind p = (case p of None \<Rightarrow> panic ''nil pointer dereference'' | Some k \<Rightarrow> ret k)"

text \<open>The tail of every send: hand the message to the pool, then write the debug line.\<close>

definition invokeOut :: "'w runtime \<Rightarrow> Context \<Rightarrow> string \<Rightarrow> Kind option \<Rightarrow> json \<Rightarrow> ('w, goerror option) go" where
  "invokeOut rt ctx what kind doc =
     andThen (rtOutInvoke rt (Doc doc)) (\<lambda>err.
     case err of
       Some e \<Rightarrow> ret (Some (GoWrap (''invoke outPool on '' @ what @ '' message'') e))
     | None \<Rightarrow>
         andThen (ClientIdentifierFromContext ctx) (\<lambda>clientId.
         andThen (derefKind kind) (\<lambda>_.
         ret None)))"

section \<open>One function per message\<close>

definition sendGetObject :: "'w runtime \<Rightarrow> Context \<Rightarrow> KindName \<Rightarrow> string \<Rightarrow> ('w, goerror option) go" where
  "sendGetObject rt ctx oid baseObject =
     andThen (DeptMsgIdFromContext (rtNewMsgId rt) ctx) (\<lambda>(depth, msgId).
     let msg = zero_GetObject\<lparr>
           getBaseObject := baseObject,
           getDepth := wrap64 (depth + 1),
           getEvent := Some EventGetObject,
           getKind := knKind oid,
           getMsgId := msgId,
           getName := knName oid,
           getNamespace := knNamespace oid\<rparr>
     in invokeOut rt ctx ''get object'' (getKind msg) (enc_GetObject msg))"

text \<open>The nil check of \<open>sendNewChecksum\<close> comes after the message was handed to the pool.\<close>

definition sendNewChecksum :: "'w runtime \<Rightarrow> Context \<Rightarrow> KindName \<Rightarrow> string \<Rightarrow> ('w, goerror option) go" where
  "sendNewChecksum rt ctx oid checksum =
     andThen (DeptMsgIdFromContext (rtNewMsgId rt) ctx) (\<lambda>(depth, msgId).
     let msg = zero_NewChecksum\<lparr>
           chkChecksum := checksum,
           chkDepth := wrap64 (depth + 1),
           chkEvent := Some EventNewChecksum,
           chkKind := knKind oid,
           chkMsgId := msgId,
           chkName := knName oid,
           chkNamespace := knNamespace oid\<rparr>
     in andThen (rtOutInvoke rt (Doc (enc_NewChecksum msg))) (\<lambda>err.
     case err of
       Some e \<Rightarrow> ret (Some (GoWrap ''invoke outPool on checksum message'' e))
     | None \<Rightarrow>
         (if chkKind msg = None
          then ret (Some (GoError (''invalid resource kind. name: '' @ chkName msg)))
          else andThen (ClientIdentifierFromContext ctx) (\<lambda>clientId.
               andThen (derefKind (chkKind msg)) (\<lambda>_.
               ret None)))))"

definition sendObjectDeleted :: "'w runtime \<Rightarrow> Context \<Rightarrow> KindName \<Rightarrow> ('w, goerror option) go" where
  "sendObjectDeleted rt ctx oid =
     andThen (DeptMsgIdFromContext (rtNewMsgId rt) ctx) (\<lambda>(depth, msgId).
     let msg = zero_ObjectDeleted\<lparr>
           delDepth := wrap64 (depth + 1),
           delEvent := Some EventObjectDeleted,
           delKind := knKind oid,
           delMsgId := msgId,
           delName := knName oid,
           delNamespace := knNamespace oid\<rparr>
     in invokeOut rt ctx ''delete'' (delKind msg) (enc_ObjectDeleted msg))"

definition sendPatchObject :: "'w runtime \<Rightarrow> Context \<Rightarrow> KindName \<Rightarrow> string \<Rightarrow> string \<Rightarrow> ('w, goerror option) go" where
  "sendPatchObject rt ctx oid checksum patch =
     andThen (DeptMsgIdFromContext (rtNewMsgId rt) ctx) (\<lambda>(depth, msgId).
     let msg = zero_PatchObject\<lparr>
           patchChecksum := checksum,
           patchDepth := wrap64 (depth + 1),
           patchEvent := Some EventPatchObject,
           patchKind := knKind oid,
           patchMsgId := msgId,
           patchName := knName oid,
           patchNamespace := knNamespace oid,
           patchPatch := patch\<rparr>
     in invokeOut rt ctx ''patch'' (patchKind msg) (enc_PatchObject msg))"

definition sendPutObject :: "'w runtime \<Rightarrow> Context \<Rightarrow> KindName \<Rightarrow> string \<Rightarrow> string \<Rightarrow> ('w, goerror option) go" where
  "sendPutObject rt ctx oid checksum object =
     andThen (DeptMsgIdFromContext (rtNewMsgId rt) ctx) (\<lambda>(depth, msgId).
     let msg = zero_PutObject\<lparr>
           putChecksum := checksum,
           putDepth := wrap64 (depth + 1),
           putEvent := Some EventPutObject,
           putKind := knKind oid,
           putMsgId := msgId,
           putName := knName oid,
           putNamespace := knNamespace oid,
           putObject := object\<rparr>
     in invokeOut rt ctx ''put object'' (putKind msg) (enc_PutObject msg))"

definition sendBatch :: "'w runtime \<Rightarrow> Context \<Rightarrow> Kind \<Rightarrow> BatchType \<Rightarrow> BatchItems \<Rightarrow> ('w, goerror option) go" where
  "sendBatch rt ctx kind batchType items =
     andThen (DeptMsgIdFromContext (rtNewMsgId rt) ctx) (\<lambda>(depth, msgId).
     let msg = zero_Batch\<lparr>
           batchDepth := wrap64 (depth + 1),
           batchEvent := Some EventBatch,
           batchKind := Some kind,
           batchMsgId := msgId,
           batchBatchType := batchType,
           batchItems := Some items\<rparr>
     in invokeOut rt ctx ''batch'' (batchKind msg) (enc_Batch msg))"

text \<open>One turn of the ping loop, which sleeps 50 seconds and starts over.\<close>

definition sendPing_turn :: "'w runtime \<Rightarrow> ('w, goerror option) go" where
  "sendPing_turn rt =
     andThen (rtNewMsgId rt) (\<lambda>msgId.
     let msg = zero_Generic\<lparr>genEvent := Some EventPing, genMsgId := msgId\<rparr>
     in rtOutInvoke rt (Doc (enc_Generic msg)))"

section \<open>Callbacks\<close>

definition wrapping :: "string \<Rightarrow> ('w, goerror option) go \<Rightarrow> ('w, goerror option) go" where
  "wrapping what m = andThen m (\<lambda>err. ret (map_option (GoWrap what) err))"

definition DeleteObjectCallback :: "'w runtime \<Rightarrow> Context \<Rightarrow> KindName \<Rightarrow> ('w, goerror option) go" where
  "DeleteObjectCallback rt ctx oid = wrapping ''send delete'' (sendObjectDeleted rt ctx oid)"

definition BatchCallback :: "'w runtime \<Rightarrow> Context \<Rightarrow> Kind \<Rightarrow> BatchType \<Rightarrow> BatchItems \<Rightarrow> ('w, goerror option) go" where
  "BatchCallback rt ctx kind batchType items =
     wrapping ''send batch'' (sendBatch rt ctx kind batchType items)"

definition GetObjectCallback :: "'w runtime \<Rightarrow> bool \<Rightarrow> Context \<Rightarrow> KindName \<Rightarrow> string \<Rightarrow> ('w, goerror option) go" where
  "GetObjectCallback rt isClient ctx oid baseObject =
     (let baseObject = (if isClient then [] else baseObject)
      in wrapping ''send get object'' (sendGetObject rt ctx oid baseObject))"

definition PatchObjectCallback :: "'w runtime \<Rightarrow> Context \<Rightarrow> KindName \<Rightarrow> string \<Rightarrow> string \<Rightarrow> ('w, goerror option) go" where
  "PatchObjectCallback rt ctx oid checksum patch =
     wrapping ''send patch'' (sendPatchObject rt ctx oid checksum patch)"

definition PutObjectCallback :: "'w runtime \<Rightarrow> Context \<Rightarrow> KindName \<Rightarrow> string \<Rightarrow> string \<Rightarrow> ('w, goerror option) go" where
  "PutObjectCallback rt ctx oid checksum object =
     wrapping ''send put object'' (sendPutObject rt ctx oid checksum object)"

definition VerifyObjectCallback :: "'w runtime \<Rightarrow> Context \<Rightarrow> KindName \<Rightarrow> string \<Rightarrow> ('w, goerror option) go" where
  "VerifyObjectCallback rt ctx oid checksum =
     wrapping ''send checksum'' (sendNewChecksum rt ctx oid checksum)"

text \<open>What \<open>newSynchronizer\<close> registers with each adapter.\<close>

definition syncCallbacks :: "'w runtime \<Rightarrow> bool \<Rightarrow> 'w Callbacks" where
  "syncCallbacks rt isClient = \<lparr>
     cbDeleteObject = DeleteObjectCallback rt,
     cbGetObject = GetObjectCallback rt isClient,
     cbPatchObject = PatchObjectCallback rt,
     cbPutObject = PutObjectCallback rt,
     cbVerifyObject = VerifyObjectCallback rt,
     cbBatch = BatchCallback rt\<rparr>"

lemmas send_defs = sendGetObject_def sendNewChecksum_def sendObjectDeleted_def sendPatchObject_def
  sendPutObject_def sendBatch_def

lemmas callback_defs = DeleteObjectCallback_def BatchCallback_def GetObjectCallback_def
  PatchObjectCallback_def PutObjectCallback_def VerifyObjectCallback_def

section \<open>What is sent\<close>

text \<open>
  The documented behaviour of the two libraries, seen through \<open>sent\<close>, the messages handed over
  so far: \<open>Invoke\<close> takes a message or refuses it with an error (a released pool), and the uuid
  generator touches nothing.
\<close>

definition runtime_contract :: "'w runtime \<Rightarrow> ('w \<Rightarrow> wire list) \<Rightarrow> bool" where
  "runtime_contract rt sent \<longleftrightarrow>
     (\<forall>d w. (\<exists>w'. rtOutInvoke rt d w = (Ret None, w') \<and> sent w' = sent w @ [d]) \<or>
            (\<exists>e w'. rtOutInvoke rt d w = (Ret (Some e), w') \<and> sent w' = sent w)) \<and>
     (\<forall>w. \<exists>m w'. rtNewMsgId rt w = (Ret m, w') \<and> sent w' = sent w)"

lemma runtime_contract_Invoke:
  assumes "runtime_contract rt sent"
  obtains w' where "rtOutInvoke rt d w = (Ret None, w')" and "sent w' = sent w @ [d]"
    | e w' where "rtOutInvoke rt d w = (Ret (Some e), w')" and "sent w' = sent w"
  using assms unfolding runtime_contract_def by metis

text \<open>Depth and message id of what is on the wire.\<close>

definition frame_generic :: "wire \<Rightarrow> Generic option" where
  "frame_generic d = (case unmarshal Generic_fields zero_Generic d of Inl _ \<Rightarrow> None | Inr g \<Rightarrow> Some g)"

definition stamped :: "int \<Rightarrow> string \<Rightarrow> wire \<Rightarrow> bool" where
  "stamped d m f \<longleftrightarrow> (\<exists>g. frame_generic f = Some g \<and> genDepth g = d \<and> genMsgId g = m)"

definition emits :: "('w \<Rightarrow> wire list) \<Rightarrow> int \<Rightarrow> string \<Rightarrow> 'w \<Rightarrow> 'w \<Rightarrow> bool" where
  "emits sent d m w w' \<longleftrightarrow> (\<exists>fs. sent w' = sent w @ fs \<and> (\<forall>f \<in> set fs. stamped d m f))"

lemma preorderp_emits [keeps_intros]: "preorderp (emits sent d m)"
  unfolding preorderp_def emits_def
  by (metis (no_types, lifting) Un_iff append.assoc append_Nil2 empty_iff empty_set set_append)

lemma in_int64_0 [simp]: "in_int64 0"
  by (simp add: int64_defs)

lemma events_in_range [simp]:
  "event_in_range (Some EventGetObject)" "event_in_range (Some EventNewChecksum)"
  "event_in_range (Some EventObjectDeleted)" "event_in_range (Some EventPatchObject)"
  "event_in_range (Some EventPutObject)" "event_in_range (Some EventBatch)"
  "event_in_range (Some EventPing)"
  by (simp_all add: event_in_range_def event_defs)

text \<open>Every message struct carries the depth and id it was built with.\<close>

lemma stamped_message:
  "wf_GetObject a \<Longrightarrow> stamped (getDepth a) (getMsgId a) (Doc (enc_GetObject a))"
  "wf_NewChecksum b \<Longrightarrow> stamped (chkDepth b) (chkMsgId b) (Doc (enc_NewChecksum b))"
  "wf_ObjectDeleted c \<Longrightarrow> stamped (delDepth c) (delMsgId c) (Doc (enc_ObjectDeleted c))"
  "wf_PatchObject p \<Longrightarrow> stamped (patchDepth p) (patchMsgId p) (Doc (enc_PatchObject p))"
  "wf_PutObject q \<Longrightarrow> stamped (putDepth q) (putMsgId q) (Doc (enc_PutObject q))"
  by (simp_all add: stamped_def frame_generic_def unmarshal_def dec_Generic_message)

text \<open>For a batch the items do not matter: only the outer fields are read.\<close>

lemma stamped_Batch:
  "in_int64 (batchDepth m) \<Longrightarrow> event_in_range (batchEvent m) \<Longrightarrow>
     stamped (batchDepth m) (batchMsgId m) (Doc (enc_Batch m))"
  by (simp add: stamped_def frame_generic_def unmarshal_def dec_struct_def Generic_fields_def
      enc_Batch_def zero_Generic_def structField_def)

lemma keeps_derefKind [keeps_intros]: "preorderp R \<Longrightarrow> keeps R (derefKind p)"
  by (cases p) (auto simp: derefKind_def intro: keeps_intros)

lemma keeps_Invoke_emits:
  assumes "runtime_contract rt sent" and "stamped d m f"
  shows "keeps (emits sent d m) (rtOutInvoke rt f)"
proof (rule keepsI)
  fix w
  show "emits sent d m w (snd (rtOutInvoke rt f w))"
    by (rule runtime_contract_Invoke [OF assms(1), of f w]) (use assms(2) in \<open>auto simp: emits_def\<close>)
qed

lemma keeps_invokeOut:
  assumes "runtime_contract rt sent" and "stamped d m (Doc doc)"
  shows "keeps (emits sent d m) (invokeOut rt ctx what kind doc)"
  unfolding invokeOut_def
  by (auto intro!: keeps_intros keeps_Invoke_emits assms split: option.splits)

lemma keeps_wrapping [keeps_intros]: "preorderp R \<Longrightarrow> keeps R m \<Longrightarrow> keeps R (wrapping what m)"
  by (auto simp: wrapping_def intro!: keeps_intros)

text \<open>The zero structs the messages are built from are well formed.\<close>

lemma wf_sent_message:
  "in_int64 d \<Longrightarrow> wf_GetObject (zero_GetObject\<lparr>getBaseObject := b, getDepth := d,
     getEvent := Some EventGetObject, getKind := k, getMsgId := m, getName := n, getNamespace := ns\<rparr>)"
  "in_int64 d \<Longrightarrow> wf_NewChecksum (zero_NewChecksum\<lparr>chkChecksum := c, chkDepth := d,
     chkEvent := Some EventNewChecksum, chkKind := k, chkMsgId := m, chkName := n, chkNamespace := ns\<rparr>)"
  "in_int64 d \<Longrightarrow> wf_ObjectDeleted (zero_ObjectDeleted\<lparr>delDepth := d,
     delEvent := Some EventObjectDeleted, delKind := k, delMsgId := m, delName := n, delNamespace := ns\<rparr>)"
  "in_int64 d \<Longrightarrow> wf_PatchObject (zero_PatchObject\<lparr>patchChecksum := c, patchDepth := d,
     patchEvent := Some EventPatchObject, patchKind := k, patchMsgId := m, patchName := n,
     patchNamespace := ns, patchPatch := p\<rparr>)"
  "in_int64 d \<Longrightarrow> wf_PutObject (zero_PutObject\<lparr>putChecksum := c, putDepth := d,
     putEvent := Some EventPutObject, putKind := k, putMsgId := m, putName := n,
     putNamespace := ns, putObject := ob\<rparr>)"
  by (simp_all add: wf_GetObject_def wf_NewChecksum_def wf_ObjectDeleted_def wf_PatchObject_def
      wf_PutObject_def zero_GetObject_def zero_NewChecksum_def zero_ObjectDeleted_def
      zero_PatchObject_def zero_PutObject_def)

lemmas stamped_sent = stamped_message(1) [OF wf_sent_message(1)] stamped_message(2) [OF wf_sent_message(2)]
  stamped_message(3) [OF wf_sent_message(3)] stamped_message(4) [OF wf_sent_message(4)]
  stamped_message(5) [OF wf_sent_message(5)]

lemma keeps_sends:
  assumes rt: "runtime_contract rt sent" and ctx: "carries ctx d m"
  shows "keeps (emits sent (wrap64 (d + 1)) m) (sendGetObject rt ctx oid base)"
    "keeps (emits sent (wrap64 (d + 1)) m) (sendNewChecksum rt ctx oid chk)"
    "keeps (emits sent (wrap64 (d + 1)) m) (sendObjectDeleted rt ctx oid)"
    "keeps (emits sent (wrap64 (d + 1)) m) (sendPatchObject rt ctx oid chk patch)"
    "keeps (emits sent (wrap64 (d + 1)) m) (sendPutObject rt ctx oid chk object)"
    "keeps (emits sent (wrap64 (d + 1)) m) (sendBatch rt ctx kind bt items)"
proof -
  let ?d = "wrap64 (d + 1)"
  show "keeps (emits sent ?d m) (sendGetObject rt ctx oid base)"
    using keeps_invokeOut [OF rt] stamped_sent(1) [OF wrap64_in_int64] ctx
    by (auto simp: sendGetObject_def Let_def)
  show "keeps (emits sent ?d m) (sendNewChecksum rt ctx oid chk)"
    using stamped_sent(2) [OF wrap64_in_int64] ctx
    by (auto simp: sendNewChecksum_def Let_def intro!: keeps_intros keeps_Invoke_emits rt
        split: option.splits)
  show "keeps (emits sent ?d m) (sendObjectDeleted rt ctx oid)"
    using keeps_invokeOut [OF rt] stamped_sent(3) [OF wrap64_in_int64] ctx
    by (auto simp: sendObjectDeleted_def Let_def)
  show "keeps (emits sent ?d m) (sendPatchObject rt ctx oid chk patch)"
    using keeps_invokeOut [OF rt] stamped_sent(4) [OF wrap64_in_int64] ctx
    by (auto simp: sendPatchObject_def Let_def)
  show "keeps (emits sent ?d m) (sendPutObject rt ctx oid chk object)"
    using keeps_invokeOut [OF rt] stamped_sent(5) [OF wrap64_in_int64] ctx
    by (auto simp: sendPutObject_def Let_def)
  have "stamped ?d m (Doc (enc_Batch (zero_Batch\<lparr>batchDepth := ?d, batchEvent := Some EventBatch,
      batchKind := Some kind, batchMsgId := m, batchBatchType := bt, batchItems := Some items\<rparr>)))"
    using stamped_Batch [of "zero_Batch\<lparr>batchDepth := ?d, batchEvent := Some EventBatch,
      batchKind := Some kind, batchMsgId := m, batchBatchType := bt, batchItems := Some items\<rparr>"]
    by (simp add: wrap64_in_int64)
  then show "keeps (emits sent ?d m) (sendBatch rt ctx kind bt items)"
    using keeps_invokeOut [OF rt] ctx by (auto simp: sendBatch_def Let_def)
qed

lemma callbacks_keep_emits:
  assumes "runtime_contract rt sent" and "carries ctx d m"
  shows "callbacks_keep (emits sent (wrap64 (d + 1)) m) (syncCallbacks rt isClient) ctx"
  unfolding callbacks_keep_def syncCallbacks_def
  by (auto simp: callback_defs Let_def intro!: keeps_wrapping preorderp_emits keeps_sends [OF assms])

end
