(* ===== verification/Core_Receive.thy ===== *)
theory Core_Receive
  imports Core_Send
begin

text \<open>
  \<open>core/synchronizer.go\<close>, the receiving half: the function the incoming pool runs on every
  message (\<open>listenForSyncEvents\<close>), the fan-out over the adapters (\<open>handleSync...\<close>), the read
  loop, and starting and stopping the adapters.

  The pool function reads and assigns the variable \<open>ctx\<close> of the enclosing function, so the
  context is part of the state it runs in: the state is the context beside the adapters' state
  and the connection's. Its result is the error it writes to the log, if any; the Go function
  returns nothing.
\<close>

definition maxMessageDepth :: int where "maxMessageDepth = 8"

section \<open>Fan-out over the adapters\<close>

definition handleSyncBatch :: "('s, 'w) Adapter list \<Rightarrow> 'w Callbacks \<Rightarrow> Context \<Rightarrow> Kind \<Rightarrow> BatchType \<Rightarrow>
    BatchItems \<Rightarrow> ('s \<times> 'w, goerror option) go" where
  "handleSyncBatch adapters cbs ctx kind batchType items =
     forEach (\<lambda>adapter. wrapping ''batch'' (adBatch adapter cbs ctx kind batchType items)) adapters"

definition handleSyncGetObject :: "('s, 'w) Adapter list \<Rightarrow> 'w Callbacks \<Rightarrow> Context \<Rightarrow> KindName \<Rightarrow>
    string \<Rightarrow> ('s \<times> 'w, goerror option) go" where
  "handleSyncGetObject adapters cbs ctx oid baseObject =
     forEach (\<lambda>adapter. wrapping ''get object'' (adGetObject adapter cbs ctx oid baseObject)) adapters"

definition handleSyncNewChecksum :: "('s, 'w) Adapter list \<Rightarrow> 'w Callbacks \<Rightarrow> Context \<Rightarrow> KindName \<Rightarrow>
    string \<Rightarrow> ('s \<times> 'w, goerror option) go" where
  "handleSyncNewChecksum adapters cbs ctx oid newChecksum =
     forEach (\<lambda>adapter. wrapping ''verify object'' (adVerifyObject adapter cbs ctx oid newChecksum)) adapters"

definition handleSyncObjectDeleted :: "('s, 'w) Adapter list \<Rightarrow> 'w Callbacks \<Rightarrow> Context \<Rightarrow> KindName \<Rightarrow>
    ('s \<times> 'w, goerror option) go" where
  "handleSyncObjectDeleted adapters cbs ctx oid =
     forEach (\<lambda>adapter. wrapping ''delete object'' (adDeleteObject adapter cbs ctx oid)) adapters"

definition handleSyncPatchObject :: "('s, 'w) Adapter list \<Rightarrow> 'w Callbacks \<Rightarrow> Context \<Rightarrow> KindName \<Rightarrow>
    string \<Rightarrow> string \<Rightarrow> ('s \<times> 'w, goerror option) go" where
  "handleSyncPatchObject adapters cbs ctx oid checksum patch =
     forEach (\<lambda>adapter. wrapping ''patch object'' (adPatchObject adapter cbs ctx oid checksum patch)) adapters"

definition handleSyncPutObject :: "('s, 'w) Adapter list \<Rightarrow> 'w Callbacks \<Rightarrow> Context \<Rightarrow> KindName \<Rightarrow>
    string \<Rightarrow> string \<Rightarrow> ('s \<times> 'w, goerror option) go" where
  "handleSyncPutObject adapters cbs ctx oid checksum object =
     forEach (\<lambda>adapter. wrapping ''put object'' (adPutObject adapter cbs ctx oid checksum object)) adapters"

lemmas handleSync_defs = handleSyncBatch_def handleSyncGetObject_def handleSyncNewChecksum_def
  handleSyncObjectDeleted_def handleSyncPatchObject_def handleSyncPutObject_def

section \<open>One branch per event\<close>

text \<open>The log lines of the branches evaluate \<open>generic.Kind.String()\<close> and \<open>msg.Event.Value()\<close>.\<close>

definition derefEvent :: "Event option \<Rightarrow> ('w, Event) go" where
  "derefEvent p = (case p of None \<Rightarrow> panic ''nil pointer dereference'' | Some e \<Rightarrow> ret e)"

definition logUnmarshal :: "Generic \<Rightarrow> goerror \<Rightarrow> ('w, goerror option) go" where
  "logUnmarshal generic e =
     andThen (derefKind (genKind generic)) (\<lambda>_. ret (Some (GoWrap ''cannot unmarshal message'' e)))"

definition logHandling :: "Event option \<Rightarrow> goerror option \<Rightarrow> ('w, goerror option) go" where
  "logHandling event err =
     (case err of
        None \<Rightarrow> ret None
      | Some e \<Rightarrow> andThen (derefEvent event) (\<lambda>_. ret (Some (GoWrap ''error handling message'' e))))"

definition onBatch :: "('s, 'w) Adapter list \<Rightarrow> 'w Callbacks \<Rightarrow> Context \<Rightarrow> Generic \<Rightarrow> wire \<Rightarrow>
    ('s \<times> 'w, goerror option) go" where
  "onBatch adapters cbs ctx generic data =
     (case unmarshal Batch_fields zero_Batch data of
        Inl e \<Rightarrow> logUnmarshal generic e
      | Inr msg \<Rightarrow>
          (case (batchKind msg, batchItems msg) of
             (Some kind, Some items) \<Rightarrow>
               andThen (handleSyncBatch adapters cbs ctx kind (batchBatchType msg) items)
                 (logHandling (batchEvent msg))
           | _ \<Rightarrow> panic ''nil pointer dereference''))"

definition onGetObject :: "('s, 'w) Adapter list \<Rightarrow> 'w Callbacks \<Rightarrow> Context \<Rightarrow> Generic \<Rightarrow> wire \<Rightarrow>
    ('s \<times> 'w, goerror option) go" where
  "onGetObject adapters cbs ctx generic data =
     (case unmarshal GetObject_fields zero_GetObject data of
        Inl e \<Rightarrow> logUnmarshal generic e
      | Inr msg \<Rightarrow>
          let oid = \<lparr>knKind = getKind msg, knName = getName msg, knNamespace = getNamespace msg,
                     knResourceVersion = getResourceVersion msg\<rparr>
          in andThen (handleSyncGetObject adapters cbs ctx oid (getBaseObject msg)) (logHandling (getEvent msg)))"

definition onNewChecksum :: "('s, 'w) Adapter list \<Rightarrow> 'w Callbacks \<Rightarrow> Context \<Rightarrow> Generic \<Rightarrow> wire \<Rightarrow>
    ('s \<times> 'w, goerror option) go" where
  "onNewChecksum adapters cbs ctx generic data =
     (case unmarshal NewChecksum_fields zero_NewChecksum data of
        Inl e \<Rightarrow> logUnmarshal generic e
      | Inr msg \<Rightarrow>
          let oid = \<lparr>knKind = chkKind msg, knName = chkName msg, knNamespace = chkNamespace msg,
                     knResourceVersion = chkResourceVersion msg\<rparr>
          in andThen (handleSyncNewChecksum adapters cbs ctx oid (chkChecksum msg)) (logHandling (chkEvent msg)))"

definition onObjectDeleted :: "('s, 'w) Adapter list \<Rightarrow> 'w Callbacks \<Rightarrow> Context \<Rightarrow> Generic \<Rightarrow> wire \<Rightarrow>
    ('s \<times> 'w, goerror option) go" where
  "onObjectDeleted adapters cbs ctx generic data =
     (case unmarshal ObjectDeleted_fields zero_ObjectDeleted data of
        Inl e \<Rightarrow> logUnmarshal generic e
      | Inr msg \<Rightarrow>
          let oid = \<lparr>knKind = delKind msg, knName = delName msg, knNamespace = delNamespace msg,
                     knResourceVersion = delResourceVersion msg\<rparr>
          in andThen (handleSyncObjectDeleted adapters cbs ctx oid) (logHandling (delEvent msg)))"

definition onPatchObject :: "('s, 'w) Adapter list \<Rightarrow> 'w Callbacks \<Rightarrow> Context \<Rightarrow> Generic \<Rightarrow> wire \<Rightarrow>
    ('s \<times> 'w, goerror option) go" where
  "onPatchObject adapters cbs ctx generic data =
     (case unmarshal PatchObject_fields zero_PatchObject data of
        Inl e \<Rightarrow> logUnmarshal generic e
      | Inr msg \<Rightarrow>
          let oid = \<lparr>knKind = patchKind msg, knName = patchName msg, knNamespace = patchNamespace msg,
                     knResourceVersion = patchResourceVersion msg\<rparr>
          in andThen (handleSyncPatchObject adapters cbs ctx oid (patchChecksum msg) (patchPatch msg)) (logHandling (patchEvent msg)))"

definition onPutObject :: "('s, 'w) Adapter list \<Rightarrow> 'w Callbacks \<Rightarrow> Context \<Rightarrow> Generic \<Rightarrow> wire \<Rightarrow>
    ('s \<times> 'w, goerror option) go" where
  "onPutObject adapters cbs ctx generic data =
     (case unmarshal PutObject_fields zero_PutObject data of
        Inl e \<Rightarrow> logUnmarshal generic e
      | Inr msg \<Rightarrow>
          let oid = \<lparr>knKind = putKind msg, knName = putName msg, knNamespace = putNamespace msg,
                     knResourceVersion = putResourceVersion msg\<rparr>
          in andThen (handleSyncPutObject adapters cbs ctx oid (putChecksum msg) (putObject msg)) (logHandling (putEvent msg)))"

lemmas on_defs = onBatch_def onGetObject_def onNewChecksum_def onObjectDeleted_def onPatchObject_def
  onPutObject_def

definition dispatch :: "('s, 'w) Adapter list \<Rightarrow> 'w Callbacks \<Rightarrow> Context \<Rightarrow> Event \<Rightarrow> Generic \<Rightarrow> wire \<Rightarrow>
    ('s \<times> 'w, goerror option) go" where
  "dispatch adapters cbs ctx event generic data =
     (if event = EventBatch then onBatch adapters cbs ctx generic data
      else if event = EventGetObject then onGetObject adapters cbs ctx generic data
      else if event = EventNewChecksum then onNewChecksum adapters cbs ctx generic data
      else if event = EventObjectDeleted then onObjectDeleted adapters cbs ctx generic data
      else if event = EventPatchObject then onPatchObject adapters cbs ctx generic data
      else if event = EventPutObject then onPutObject adapters cbs ctx generic data
      else ret None)"

section \<open>The pool function and the read loop\<close>

text \<open>\<open>generic.Event.Value()\<close> in the debug line panics when the message has no event.\<close>

definition inPoolFunc :: "('s, 'w) Adapter list \<Rightarrow> 'w Callbacks \<Rightarrow> wire \<Rightarrow>
    (Context \<times> 's \<times> 'w, goerror option) go" where
  "inPoolFunc adapters cbs data =
     (if data = NoData then ret None
      else case unmarshal Generic_fields zero_Generic data of
        Inl e \<Rightarrow> ret (Some (GoWrap ''cannot unmarshal message'' e))
      | Inr generic \<Rightarrow>
          andThen (derefEvent (genEvent generic)) (\<lambda>event.
          if genDepth generic > maxMessageDepth then ret (Some (GoError ''message depth too high''))
          else
            andThen get_state (\<lambda>ctx.
            let ctx = ContextFromGeneric ctx generic in
            andThen (put_state ctx) (\<lambda>_.
            on_snd (dispatch adapters cbs ctx event generic data)))))"

text \<open>
  What the connection gives, one entry per call of \<open>readDataFunc\<close>. On the client a failed read is
  retried without end (\<open>NewBackOff(true)\<close>); on the server it is permanent. \<open>invoke\<close> is the
  incoming pool's \<open>Invoke\<close>, given the call to run; a message the pool refuses is read past.
\<close>

fun listenLoop :: "((Context \<times> 's \<times> 'w, goerror option) go \<Rightarrow> (Context \<times> 's \<times> 'w, goerror option) go) \<Rightarrow>
    bool \<Rightarrow> ('s, 'w) Adapter list \<Rightarrow> 'w Callbacks \<Rightarrow> (goerror + wire) list \<Rightarrow>
    (Context \<times> 's \<times> 'w, goerror option) go" where
  "listenLoop invoke isClient adapters cbs [] = ret None"
| "listenLoop invoke isClient adapters cbs (Inl e # reads) =
     (if isClient then listenLoop invoke isClient adapters cbs reads
      else ret (Some (GoWrap ''giving up process incoming messages'' (GoWrap ''cannot read data'' e))))"
| "listenLoop invoke isClient adapters cbs (Inr data # reads) =
     andThen (invoke (inPoolFunc adapters cbs data)) (\<lambda>_. listenLoop invoke isClient adapters cbs reads)"

section \<open>Starting and stopping\<close>

definition startAdapters :: "('s, 'w) Adapter list \<Rightarrow> 'w Callbacks \<Rightarrow> Context \<Rightarrow> ('s \<times> 'w, goerror option) go" where
  "startAdapters adapters cbs ctx =
     forEach (\<lambda>adapter. wrapping ''start adapter'' (adStart adapter cbs ctx)) adapters"

definition stopAdapters :: "('s, 'w) Adapter list \<Rightarrow> 'w Callbacks \<Rightarrow> Context \<Rightarrow> ('s \<times> 'w, goerror option) go" where
  "stopAdapters adapters cbs ctx =
     forEach (\<lambda>(idx, adapter). wrapping (''stop adapter['' @ strconv_Itoa (int idx) @ '']'') (adStop adapter cbs ctx))
       (enumerate 0 adapters)"

text \<open>\<open>Synchronizer.Start\<close>, without the ping goroutine, for what the connection gives to read.\<close>

definition Synchronizer_Start :: "((Context \<times> 's \<times> 'w, goerror option) go \<Rightarrow> (Context \<times> 's \<times> 'w, goerror option) go) \<Rightarrow>
    bool \<Rightarrow> ('s, 'w) Adapter list \<Rightarrow> 'w Callbacks \<Rightarrow> (goerror + wire) list \<Rightarrow>
    (Context \<times> 's \<times> 'w, goerror option) go" where
  "Synchronizer_Start invoke isClient adapters cbs reads =
     andThen get_state (\<lambda>ctx.
     andThen (ClientIdentifierFromContext ctx) (\<lambda>identifiers.
     andThen (on_snd (startAdapters adapters cbs ctx)) (\<lambda>err.
     case err of
       Some e \<Rightarrow> ret (Some e)
     | None \<Rightarrow> wrapping ''listen for sync events'' (listenLoop invoke isClient adapters cbs reads))))"

text \<open>\<open>Synchronizer.Stop\<close>: release the pools (\<open>release\<close> acts on the connection), then the adapters.\<close>

definition Synchronizer_Stop :: "('w, unit) go \<Rightarrow> ('s, 'w) Adapter list \<Rightarrow> 'w Callbacks \<Rightarrow> Context \<Rightarrow>
    ('s \<times> 'w, goerror option) go" where
  "Synchronizer_Stop release adapters cbs ctx =
     andThen (ClientIdentifierFromContext ctx) (\<lambda>identifier.
     andThen (on_snd release) (\<lambda>_.
     stopAdapters adapters cbs ctx))"

section \<open>What handling a message may change\<close>

lemma keeps_derefEvent [keeps_intros]: "preorderp R \<Longrightarrow> keeps R (derefEvent p)"
  by (cases p) (auto simp: derefEvent_def intro: keeps_intros)

lemma keeps_logUnmarshal [keeps_intros]: "preorderp R \<Longrightarrow> keeps R (logUnmarshal generic e)"
  by (auto simp: logUnmarshal_def intro!: keeps_intros)

lemma keeps_logHandling [keeps_intros]: "preorderp R \<Longrightarrow> keeps R (logHandling event err)"
  by (auto simp: logHandling_def intro!: keeps_intros split: option.splits)

lemma keeps_fanout:
  assumes "preorderp R" and "\<And>A. A \<in> set xs \<Longrightarrow> keeps (snd_rel R) (f A)"
  shows "keeps (snd_rel R) (forEach (\<lambda>A. wrapping what (f A)) xs)"
  by (intro keeps_forEach keeps_wrapping preorderp_snd_rel assms)

lemma keeps_branch:
  assumes "preorderp R" and "\<And>msg. keeps (snd_rel R) (h msg)"
  shows "keeps (snd_rel R) (case u of Inl e \<Rightarrow> logUnmarshal generic e
     | Inr msg \<Rightarrow> andThen (h msg) (logHandling (ev msg)))"
  by (cases u) (auto intro!: keeps_logUnmarshal keeps_andThen keeps_logHandling preorderp_snd_rel assms)

text \<open>
  The synchronizer relies on its adapters only through their contract: the fan-out, the branch
  taken for an event and the whole pool function keep what the callbacks keep.
\<close>

locale sync_adapters =
  fixes adapters :: "('s, 'w) Adapter list"
  assumes each_adapter: "A \<in> set adapters \<Longrightarrow> sync_adapter A"
begin

lemma handleSync_keeps:
  assumes "preorderp R" and "callbacks_keep R cbs ctx"
  shows "keeps (snd_rel R) (handleSyncBatch adapters cbs ctx kind bt items)"
    "keeps (snd_rel R) (handleSyncGetObject adapters cbs ctx oid base)"
    "keeps (snd_rel R) (handleSyncNewChecksum adapters cbs ctx oid c)"
    "keeps (snd_rel R) (handleSyncObjectDeleted adapters cbs ctx oid)"
    "keeps (snd_rel R) (handleSyncPatchObject adapters cbs ctx oid c p)"
    "keeps (snd_rel R) (handleSyncPutObject adapters cbs ctx oid c ob)"
proof -
  note fanout = keeps_fanout [OF assms(1)]
  note law = each_adapter [THEN sync_adapter.batch_keeps, OF _ assms]
    each_adapter [THEN sync_adapter.get_keeps, OF _ assms]
    each_adapter [THEN sync_adapter.verify_keeps, OF _ assms]
    each_adapter [THEN sync_adapter.delete_keeps, OF _ assms]
    each_adapter [THEN sync_adapter.patch_keeps, OF _ assms]
    each_adapter [THEN sync_adapter.put_keeps, OF _ assms]
  show "keeps (snd_rel R) (handleSyncBatch adapters cbs ctx kind bt items)"
    unfolding handleSync_defs by (rule fanout) (rule law)
  show "keeps (snd_rel R) (handleSyncGetObject adapters cbs ctx oid base)"
    unfolding handleSync_defs by (rule fanout) (rule law)
  show "keeps (snd_rel R) (handleSyncNewChecksum adapters cbs ctx oid c)"
    unfolding handleSync_defs by (rule fanout) (rule law)
  show "keeps (snd_rel R) (handleSyncObjectDeleted adapters cbs ctx oid)"
    unfolding handleSync_defs by (rule fanout) (rule law)
  show "keeps (snd_rel R) (handleSyncPatchObject adapters cbs ctx oid c p)"
    unfolding handleSync_defs by (rule fanout) (rule law)
  show "keeps (snd_rel R) (handleSyncPutObject adapters cbs ctx oid c ob)"
    unfolding handleSync_defs by (rule fanout) (rule law)
qed

lemma on_keeps:
  assumes "preorderp R" and "callbacks_keep R cbs ctx"
  shows "keeps (snd_rel R) (onBatch adapters cbs ctx generic data)"
    "keeps (snd_rel R) (onGetObject adapters cbs ctx generic data)"
    "keeps (snd_rel R) (onNewChecksum adapters cbs ctx generic data)"
    "keeps (snd_rel R) (onObjectDeleted adapters cbs ctx generic data)"
    "keeps (snd_rel R) (onPatchObject adapters cbs ctx generic data)"
    "keeps (snd_rel R) (onPutObject adapters cbs ctx generic data)"
proof -
  note branch = keeps_branch [OF assms(1) handleSync_keeps(1) [OF assms]]
    keeps_branch [OF assms(1) handleSync_keeps(2) [OF assms]]
    keeps_branch [OF assms(1) handleSync_keeps(3) [OF assms]]
    keeps_branch [OF assms(1) handleSync_keeps(4) [OF assms]]
    keeps_branch [OF assms(1) handleSync_keeps(5) [OF assms]]
    keeps_branch [OF assms(1) handleSync_keeps(6) [OF assms]]
  show "keeps (snd_rel R) (onGetObject adapters cbs ctx generic data)"
    unfolding onGetObject_def Let_def by (rule branch)
  show "keeps (snd_rel R) (onNewChecksum adapters cbs ctx generic data)"
    unfolding onNewChecksum_def Let_def by (rule branch)
  show "keeps (snd_rel R) (onObjectDeleted adapters cbs ctx generic data)"
    unfolding onObjectDeleted_def Let_def by (rule branch)
  show "keeps (snd_rel R) (onPatchObject adapters cbs ctx generic data)"
    unfolding onPatchObject_def Let_def by (rule branch)
  show "keeps (snd_rel R) (onPutObject adapters cbs ctx generic data)"
    unfolding onPutObject_def Let_def by (rule branch)
  show "keeps (snd_rel R) (onBatch adapters cbs ctx generic data)"
    unfolding onBatch_def
    by (auto intro!: keeps_andThen keeps_logHandling keeps_logUnmarshal keeps_panic
        handleSync_keeps(1) assms preorderp_snd_rel split: sum.splits option.splits)
qed

lemma dispatch_keeps:
  assumes "preorderp R" and "callbacks_keep R cbs ctx"
  shows "keeps (snd_rel R) (dispatch adapters cbs ctx event generic data)"
  unfolding dispatch_def by (simp add: on_keeps [OF assms] keeps_ret preorderp_snd_rel assms)

end

section \<open>The outcome of the pool function\<close>

text \<open>Messages that never reach an adapter leave everything as it was.\<close>

definition discarded :: "wire \<Rightarrow> bool" where
  "discarded data \<longleftrightarrow> (case frame_generic data of
       None \<Rightarrow> True
     | Some g \<Rightarrow> genEvent g = None \<or> genDepth g > maxMessageDepth)"

lemma inPoolFunc_discarded:
  "discarded data \<Longrightarrow> snd (inPoolFunc adapters cbs data st) = st"
  by (auto simp: inPoolFunc_def discarded_def frame_generic_def derefEvent_def
      split: sum.splits option.splits)

lemma inPoolFunc_dispatch:
  assumes "frame_generic data = Some g" and "genEvent g = Some event" and "genDepth g \<le> maxMessageDepth"
  shows "inPoolFunc adapters cbs data (ctx, sw) =
     on_snd (dispatch adapters cbs (ContextFromGeneric ctx g) event g data) (ContextFromGeneric ctx g, sw)"
proof -
  have "data \<noteq> NoData" and "unmarshal Generic_fields zero_Generic data = Inr g"
    using assms(1) by (auto simp: frame_generic_def unmarshal_def split: sum.splits)
  then show ?thesis using assms(2,3) by (cases sw) (simp add: inPoolFunc_def derefEvent_def Let_def)
qed

lemma not_discarded:
  "\<not> discarded data \<Longrightarrow>
     \<exists>g event. frame_generic data = Some g \<and> genEvent g = Some event \<and> genDepth g \<le> maxMessageDepth"
  by (auto simp: discarded_def split: option.splits)

context sync_adapters
begin

lemma inPoolFunc_keeps:
  assumes "frame_generic data = Some g" and "preorderp R"
    and "callbacks_keep R cbs (ContextFromGeneric ctx g)"
  shows "R w (snd (snd (snd (inPoolFunc adapters cbs data (ctx, s, w)))))"
proof (cases "discarded data")
  case True
  then show ?thesis by (simp add: inPoolFunc_discarded preorderp_refl assms(2))
next
  case False
  then obtain event where "genEvent g = Some event" "genDepth g \<le> maxMessageDepth"
    using not_discarded assms(1) by fastforce
  then show ?thesis
    using keepsD [OF dispatch_keeps [OF assms(2,3)], of "(s, w)"]
    by (simp add: snd_rel_def inPoolFunc_dispatch [OF assms(1)])
qed

text \<open>Everything sent while a message is handled carries the next depth and the same id.\<close>

lemma inPoolFunc_emits:
  assumes "runtime_contract rt sent" and "frame_generic data = Some g"
  shows "emits sent (wrap64 (genDepth g + 1)) (genMsgId g) w
     (snd (snd (snd (inPoolFunc adapters (syncCallbacks rt isClient) data (ctx, s, w)))))"
  using inPoolFunc_keeps [OF assms(2) preorderp_emits callbacks_keep_emits [OF assms(1)]]
    carries_ContextFromGeneric by blast

end

section \<open>Properties\<close>

text \<open>
  C25. A message whose depth exceeds \<open>maxMessageDepth\<close> reaches no adapter: the depth is reported
  and context, adapters and connection stay exactly as they were.
\<close>

theorem too_deep_is_dropped:
  assumes "frame_generic data = Some g" and "genEvent g = Some event" and "genDepth g > maxMessageDepth"
  shows "inPoolFunc adapters cbs data st = (Ret (Some (GoError ''message depth too high'')), st)"
proof -
  have "data \<noteq> NoData" and "unmarshal Generic_fields zero_Generic data = Inr g"
    using assms(1) by (auto simp: frame_generic_def unmarshal_def split: sum.splits)
  then show ?thesis using assms(2,3) by (simp add: inPoolFunc_def derefEvent_def)
qed

theorem too_deep_is_dropped_witness:
  "inPoolFunc [] (syncCallbacks \<lparr>rtNewMsgId = ret ''m'', rtOutInvoke = (\<lambda>d. ret None)\<rparr> False)
     (Doc (enc_Generic (zero_Generic\<lparr>genDepth := 9, genEvent := Some EventPutObject\<rparr>))) ([], (), ())
   = (Ret (Some (GoError ''message depth too high'')), ([], (), ()))"
  by (rule too_deep_is_dropped [where g = "zero_Generic\<lparr>genDepth := 9, genEvent := Some EventPutObject\<rparr>"])
    (simp_all add: frame_generic_def unmarshal_def dec_Generic_enc int64_defs maxMessageDepth_def)

text \<open>
  The pool function assigns the context variable of the enclosing function, so the context a
  message is handled in holds the values of every message handled before it on the connection: each
  message that is not dropped makes the chain two values longer.
\<close>

lemma listen_context_grows:
  "length (fst (snd (inPoolFunc adapters cbs data (ctx, sw)))) =
     length ctx + (if discarded data then 0 else 2)"
proof (cases "discarded data")
  case True
  then show ?thesis by (simp add: inPoolFunc_discarded)
next
  case False
  then obtain g event where "frame_generic data = Some g" "genEvent g = Some event"
    "genDepth g \<le> maxMessageDepth" using not_discarded by blast
  then show ?thesis using False by (cases sw) (simp add: inPoolFunc_dispatch)
qed

end
