(* ===== verification/Core_Protocol.thy ===== *)
theory Core_Protocol
  imports Core_Receive "HOL-Library.Multiset"
begin

text \<open>
  What the two halves of \<open>core/synchronizer.go\<close> promise together. A call an adapter makes on its
  callbacks becomes one message; the pool function of the peer turns the message into the call of
  the same kind on the peer's adapters. Then the conversation of two connected synchronizers, as a
  step relation on the messages in flight, and that it always comes to an end.
\<close>

section \<open>Calls\<close>

text \<open>The six operations that cross the connection.\<close>

datatype syncCall =
    CallDelete KindName
  | CallGet KindName string
  | CallPatch KindName string string
  | CallPut KindName string string
  | CallVerify KindName string
  | CallBatch Kind BatchType BatchItems

text \<open>The call an adapter makes on its callbacks.\<close>

fun callBack :: "'w Callbacks \<Rightarrow> Context \<Rightarrow> syncCall \<Rightarrow> ('w, goerror option) go" where
  "callBack cbs ctx (CallDelete oid) = cbDeleteObject cbs ctx oid"
| "callBack cbs ctx (CallGet oid base) = cbGetObject cbs ctx oid base"
| "callBack cbs ctx (CallPatch oid checksum patch) = cbPatchObject cbs ctx oid checksum patch"
| "callBack cbs ctx (CallPut oid checksum object) = cbPutObject cbs ctx oid checksum object"
| "callBack cbs ctx (CallVerify oid checksum) = cbVerifyObject cbs ctx oid checksum"
| "callBack cbs ctx (CallBatch kind batchType items) = cbBatch cbs ctx kind batchType items"

text \<open>The call the synchronizer makes on its adapters.\<close>

fun handleCall :: "('s, 'w) Adapter list \<Rightarrow> 'w Callbacks \<Rightarrow> Context \<Rightarrow> syncCall \<Rightarrow> ('s \<times> 'w, goerror option) go" where
  "handleCall adapters cbs ctx (CallDelete oid) = handleSyncObjectDeleted adapters cbs ctx oid"
| "handleCall adapters cbs ctx (CallGet oid base) = handleSyncGetObject adapters cbs ctx oid base"
| "handleCall adapters cbs ctx (CallPatch oid checksum patch) = handleSyncPatchObject adapters cbs ctx oid checksum patch"
| "handleCall adapters cbs ctx (CallPut oid checksum object) = handleSyncPutObject adapters cbs ctx oid checksum object"
| "handleCall adapters cbs ctx (CallVerify oid checksum) = handleSyncNewChecksum adapters cbs ctx oid checksum"
| "handleCall adapters cbs ctx (CallBatch kind batchType items) = handleSyncBatch adapters cbs ctx kind batchType items"

fun call_event :: "syncCall \<Rightarrow> Event" where
  "call_event (CallDelete _) = EventObjectDeleted"
| "call_event (CallGet _ _) = EventGetObject"
| "call_event (CallPatch _ _ _) = EventPatchObject"
| "call_event (CallPut _ _ _) = EventPutObject"
| "call_event (CallVerify _ _) = EventNewChecksum"
| "call_event (CallBatch _ _ _) = EventBatch"

fun call_kind :: "syncCall \<Rightarrow> Kind option" where
  "call_kind (CallDelete oid) = knKind oid"
| "call_kind (CallGet oid _) = knKind oid"
| "call_kind (CallPatch oid _ _) = knKind oid"
| "call_kind (CallPut oid _ _) = knKind oid"
| "call_kind (CallVerify oid _) = knKind oid"
| "call_kind (CallBatch kind _ _) = Some kind"

fun call_wf :: "syncCall \<Rightarrow> bool" where
  "call_wf (CallBatch _ _ items) = wf_BatchItems items"
| "call_wf _ = True"

text \<open>
  What arrives of a call: everything but the resource version, which no message carries, and the
  base object of a get when it is the client that asks.
\<close>

definition unversioned :: "KindName \<Rightarrow> KindName" where
  "unversioned oid = oid\<lparr>knResourceVersion := 0\<rparr>"

fun as_received :: "bool \<Rightarrow> syncCall \<Rightarrow> syncCall" where
  "as_received isClient (CallDelete oid) = CallDelete (unversioned oid)"
| "as_received isClient (CallGet oid base) = CallGet (unversioned oid) (if isClient then [] else base)"
| "as_received isClient (CallPatch oid checksum patch) = CallPatch (unversioned oid) checksum patch"
| "as_received isClient (CallPut oid checksum object) = CallPut (unversioned oid) checksum object"
| "as_received isClient (CallVerify oid checksum) = CallVerify (unversioned oid) checksum"
| "as_received isClient (CallBatch kind batchType items) = CallBatch kind batchType items"

text \<open>The message a call becomes.\<close>

fun call_doc :: "bool \<Rightarrow> int \<Rightarrow> string \<Rightarrow> syncCall \<Rightarrow> json" where
  "call_doc isClient d m (CallDelete oid) = enc_ObjectDeleted (zero_ObjectDeleted\<lparr>delDepth := d,
     delEvent := Some EventObjectDeleted, delKind := knKind oid, delMsgId := m, delName := knName oid,
     delNamespace := knNamespace oid\<rparr>)"
| "call_doc isClient d m (CallGet oid base) = enc_GetObject (zero_GetObject\<lparr>
     getBaseObject := (if isClient then [] else base), getDepth := d,
     getEvent := Some EventGetObject, getKind := knKind oid, getMsgId := m, getName := knName oid,
     getNamespace := knNamespace oid\<rparr>)"
| "call_doc isClient d m (CallPatch oid checksum patch) = enc_PatchObject (zero_PatchObject\<lparr>
     patchChecksum := checksum, patchDepth := d, patchEvent := Some EventPatchObject,
     patchKind := knKind oid, patchMsgId := m, patchName := knName oid,
     patchNamespace := knNamespace oid, patchPatch := patch\<rparr>)"
| "call_doc isClient d m (CallPut oid checksum object) = enc_PutObject (zero_PutObject\<lparr>
     putChecksum := checksum, putDepth := d, putEvent := Some EventPutObject,
     putKind := knKind oid, putMsgId := m, putName := knName oid,
     putNamespace := knNamespace oid, putObject := object\<rparr>)"
| "call_doc isClient d m (CallVerify oid checksum) = enc_NewChecksum (zero_NewChecksum\<lparr>
     chkChecksum := checksum, chkDepth := d, chkEvent := Some EventNewChecksum,
     chkKind := knKind oid, chkMsgId := m, chkName := knName oid, chkNamespace := knNamespace oid\<rparr>)"
| "call_doc isClient d m (CallBatch kind batchType items) = enc_Batch (zero_Batch\<lparr>
     batchDepth := d, batchEvent := Some EventBatch, batchKind := Some kind, batchMsgId := m,
     batchBatchType := batchType, batchItems := Some items\<rparr>)"

text \<open>
  Callbacks that accept every call and write it down, with its context, in the order it was made:
  what an adapter does to its peer is stated as the calls these receive.
\<close>

definition recorder :: "(Context \<times> syncCall) list Callbacks" where
  "recorder = \<lparr>
     cbDeleteObject = (\<lambda>ctx oid w. (Ret None, w @ [(ctx, CallDelete oid)])),
     cbGetObject = (\<lambda>ctx oid b w. (Ret None, w @ [(ctx, CallGet oid b)])),
     cbPatchObject = (\<lambda>ctx oid c p w. (Ret None, w @ [(ctx, CallPatch oid c p)])),
     cbPutObject = (\<lambda>ctx oid c ob w. (Ret None, w @ [(ctx, CallPut oid c ob)])),
     cbVerifyObject = (\<lambda>ctx oid c w. (Ret None, w @ [(ctx, CallVerify oid c)])),
     cbBatch = (\<lambda>ctx k t items w. (Ret None, w @ [(ctx, CallBatch k t items)]))\<rparr>"

lemma recorder_callBack [simp]: "callBack recorder ctx c w = (Ret None, w @ [(ctx, c)])"
  by (cases c) (simp_all add: recorder_def)

lemma recorder_simps [simp]:
  "cbDeleteObject recorder ctx oid w = (Ret None, w @ [(ctx, CallDelete oid)])"
  "cbGetObject recorder ctx oid b w = (Ret None, w @ [(ctx, CallGet oid b)])"
  "cbPatchObject recorder ctx oid c p w = (Ret None, w @ [(ctx, CallPatch oid c p)])"
  "cbPutObject recorder ctx oid c ob w = (Ret None, w @ [(ctx, CallPut oid c ob)])"
  "cbVerifyObject recorder ctx oid c w = (Ret None, w @ [(ctx, CallVerify oid c)])"
  "cbBatch recorder ctx k t items w = (Ret None, w @ [(ctx, CallBatch k t items)])"
  by (simp_all add: recorder_def)

section \<open>Sending a call\<close>

text \<open>A call on the callbacks hands exactly its message to the pool and reports the pool's answer.\<close>

fun call_errors :: "syncCall \<Rightarrow> string \<times> string" where
  "call_errors (CallDelete _) = (''send delete'', ''delete'')"
| "call_errors (CallGet _ _) = (''send get object'', ''get object'')"
| "call_errors (CallPatch _ _ _) = (''send patch'', ''patch'')"
| "call_errors (CallPut _ _ _) = (''send put object'', ''put object'')"
| "call_errors (CallVerify _ _) = (''send checksum'', ''checksum'')"
| "call_errors (CallBatch _ _ _) = (''send batch'', ''batch'')"

definition send_error :: "syncCall \<Rightarrow> goerror \<Rightarrow> goerror" where
  "send_error c e = GoWrap (fst (call_errors c)) (GoWrap (''invoke outPool on '' @ snd (call_errors c) @ '' message'') e)"

lemma run_wrapping [simp]:
  "m w = (Ret r, w') \<Longrightarrow> wrapping what m w = (Ret (map_option (GoWrap what) r), w')"
  by (simp add: wrapping_def)

lemma run_wrapping_Panic [simp]:
  "m w = (Panic p, w') \<Longrightarrow> wrapping what m w = (Panic p, w')"
  by (simp add: wrapping_def)

lemma run_invokeOut:
  assumes "identified ctx cid" and "kind = Some k" and "rtOutInvoke rt (Doc doc) w = (Ret err, w')"
  shows "invokeOut rt ctx what kind doc w =
     (Ret (map_option (GoWrap (''invoke outPool on '' @ what @ '' message'')) err), w')"
  using assms by (cases err) (simp_all add: invokeOut_def derefKind_def)

lemma callBack_sends_from:
  assumes ctx: "DeptMsgIdFromContext (rtNewMsgId rt) ctx w = (Ret (d, m), v)" "identified ctx cid"
    and kind: "call_kind c = Some k"
    and out: "rtOutInvoke rt (Doc (call_doc isClient (wrap64 (d + 1)) m c)) v = (Ret err, w')"
  shows "callBack (syncCallbacks rt isClient) ctx c w = (Ret (map_option (send_error c) err), w')"
proof -
  note sends = syncCallbacks_def callback_defs Let_def send_error_def [abs_def] option.map_comp o_def
  note invoke = run_invokeOut [OF ctx(2) refl, of rt "call_doc isClient (wrap64 (d + 1)) m c" v err w']
  show ?thesis
  proof (cases c)
    case (CallVerify oid chk)
    then show ?thesis using ctx kind out
      by (cases err) (simp_all add: sends sendNewChecksum_def derefKind_def zero_NewChecksum_def)
  next
    case (CallBatch kd bt items)
    then show ?thesis using ctx out invoke by (simp add: sends sendBatch_def)
  next
    case (CallDelete oid)
    then show ?thesis using ctx kind out invoke by (simp add: sends sendObjectDeleted_def)
  next
    case (CallGet oid b)
    then show ?thesis using ctx kind out invoke by (simp add: sends sendGetObject_def)
  next
    case (CallPatch oid chk p)
    then show ?thesis using ctx kind out invoke by (simp add: sends sendPatchObject_def)
  next
    case (CallPut oid chk ob)
    then show ?thesis using ctx kind out invoke by (simp add: sends sendPutObject_def)
  qed
qed

text \<open>While a message is handled its depth and id are those of the context.\<close>

lemma callBack_sends:
  assumes "carries ctx d m" and "identified ctx cid" and "call_kind c = Some k"
    and "rtOutInvoke rt (Doc (call_doc isClient (wrap64 (d + 1)) m c)) w = (Ret err, w')"
  shows "callBack (syncCallbacks rt isClient) ctx c w = (Ret (map_option (send_error c) err), w')"
  by (rule callBack_sends_from [OF _ assms(2-4)]) (simp add: DeptMsgIdFromContext_carries [OF assms(1)])

text \<open>A context in which no message is being handled: a callback starts a new conversation.\<close>

definition fresh :: "Context \<Rightarrow> bool" where
  "fresh ctx \<longleftrightarrow> ctx_Value ctx ContextKeyDepth = None \<and> ctx_Value ctx ContextKeyMsgId = None"

lemma DeptMsgIdFromContext_fresh:
  "fresh ctx \<Longrightarrow> DeptMsgIdFromContext new ctx = andThen new (\<lambda>m. ret (0, m))"
  by (rule ext) (auto simp: fresh_def DeptMsgIdFromContext_def andThen_def split: prod.splits outcome.splits)

lemma callBack_starts:
  assumes "fresh ctx" and "identified ctx cid" and "call_kind c = Some k"
    and "rtNewMsgId rt w = (Ret m, v)" and "rtOutInvoke rt (Doc (call_doc isClient 1 m c)) v = (Ret err, w')"
  shows "callBack (syncCallbacks rt isClient) ctx c w = (Ret (map_option (send_error c) err), w')"
proof (rule callBack_sends_from [OF _ assms(2,3)])
  show "DeptMsgIdFromContext (rtNewMsgId rt) ctx w = (Ret (0, m), v)"
    using assms(1,4) by (simp add: DeptMsgIdFromContext_fresh)
  have "wrap64 (0 + 1) = 1" by (simp add: int64_defs)
  then show "rtOutInvoke rt (Doc (call_doc isClient (wrap64 (0 + 1)) m c)) v = (Ret err, w')"
    using assms(5) by simp
qed

lemma runtime_contract_NewMsgId:
  assumes "runtime_contract rt sent"
  obtains m w' where "rtNewMsgId rt w = (Ret m, w')" and "sent w' = sent w"
  using assms unfolding runtime_contract_def by metis

section \<open>Receiving a call\<close>

definition call_generic :: "int \<Rightarrow> string \<Rightarrow> syncCall \<Rightarrow> Generic" where
  "call_generic d m c = \<lparr>genDepth = d, genEvent = Some (call_event c), genKind = call_kind c,
     genMsgId = m, genAdditionalProperties = None\<rparr>"

lemma wf_sent_Batch:
  "in_int64 d \<Longrightarrow> wf_BatchItems items \<Longrightarrow> wf_Batch (zero_Batch\<lparr>batchDepth := d,
     batchEvent := Some EventBatch, batchKind := Some kind, batchMsgId := m,
     batchBatchType := bt, batchItems := Some items\<rparr>)"
  by (simp add: wf_Batch_def)

lemmas wf_sent = wf_sent_message wf_sent_Batch

lemma zero_message_fields [simp]:
  "getAdditionalProperties zero_GetObject = None" "getResourceVersion zero_GetObject = 0"
  "chkAdditionalProperties zero_NewChecksum = None" "chkResourceVersion zero_NewChecksum = 0"
  "delAdditionalProperties zero_ObjectDeleted = None" "delResourceVersion zero_ObjectDeleted = 0"
  "patchAdditionalProperties zero_PatchObject = None" "patchResourceVersion zero_PatchObject = 0"
  "putAdditionalProperties zero_PutObject = None" "putResourceVersion zero_PutObject = 0"
  "batchAdditionalProperties zero_Batch = None"
  by (simp_all add: zero_GetObject_def zero_NewChecksum_def zero_ObjectDeleted_def
      zero_PatchObject_def zero_PutObject_def zero_Batch_def)

lemma frame_generic_call:
  assumes "in_int64 d" and "call_wf c"
  shows "frame_generic (Doc (call_doc isClient d m c)) = Some (call_generic d m c)"
  using assms
  by (cases c) (simp_all add: frame_generic_def unmarshal_def dec_Generic_message wf_sent call_generic_def)

lemma unversioned_KindName:
  "\<lparr>knKind = knKind oid, knName = knName oid, knNamespace = knNamespace oid, knResourceVersion = 0\<rparr>
     = unversioned oid"
  by (cases oid) (simp add: unversioned_def)

lemma dispatch_call:
  assumes "in_int64 d" and "call_wf c"
  shows "dispatch adapters cbs ctx (call_event c) g (Doc (call_doc isClient d m c)) =
     andThen (handleCall adapters cbs ctx (as_received isClient c)) (logHandling (Some (call_event c)))"
proof -
  note events = dispatch_def event_defs
  show ?thesis
  proof (cases c)
    case (CallDelete oid)
    then show ?thesis using assms(1) unversioned_KindName [of oid]
      by (simp add: events onObjectDeleted_def unmarshal_def wf_sent [unfolded event_defs])
  next
    case (CallGet oid b)
    then show ?thesis using assms(1) unversioned_KindName [of oid]
      by (simp add: events onGetObject_def unmarshal_def wf_sent [unfolded event_defs])
  next
    case (CallPatch oid chk p)
    then show ?thesis using assms(1) unversioned_KindName [of oid]
      by (simp add: events onPatchObject_def unmarshal_def wf_sent [unfolded event_defs])
  next
    case (CallPut oid chk ob)
    then show ?thesis using assms(1) unversioned_KindName [of oid]
      by (simp add: events onPutObject_def unmarshal_def wf_sent [unfolded event_defs])
  next
    case (CallVerify oid chk)
    then show ?thesis using assms(1) unversioned_KindName [of oid]
      by (simp add: events onNewChecksum_def unmarshal_def wf_sent [unfolded event_defs])
  next
    case (CallBatch kd bt items)
    then show ?thesis using assms
      by (simp add: events onBatch_def unmarshal_def wf_sent [unfolded event_defs])
  qed
qed

lemma inPoolFunc_call:
  assumes "in_int64 d" and "d \<le> maxMessageDepth" and "call_wf c"
  shows "inPoolFunc adapters cbs (Doc (call_doc isClient d m c)) (ctx, sw) =
     (let ctx' = ContextFromGeneric ctx (call_generic d m c) in
      on_snd (andThen (handleCall adapters cbs ctx' (as_received isClient c))
        (logHandling (Some (call_event c)))) (ctx', sw))"
  using inPoolFunc_dispatch [OF frame_generic_call [OF assms(1,3)], where event = "call_event c"] assms
  by (simp add: call_generic_def dispatch_call Let_def)

section \<open>The depth of what is read\<close>

definition field_keeps :: "('r \<Rightarrow> bool) \<Rightarrow> 'r field \<Rightarrow> bool" where
  "field_keeps P f \<longleftrightarrow> (\<forall>v r r'. P r \<longrightarrow> snd f v r = Inr r' \<longrightarrow> P r')"

lemma assign_keeps:
  "list_all (field_keeps P) fs \<Longrightarrow> P r \<Longrightarrow> assign fs k v r = Inr r' \<Longrightarrow> P r'"
  by (induction fs k v r rule: assign.induct) (auto simp: field_keeps_def split: if_splits)

lemma dec_fields_keep:
  assumes "list_all (field_keeps P) fs"
  shows "P r \<Longrightarrow> dec_fields fs kvs r = Inr r' \<Longrightarrow> P r'"
  using assms
  by (induction fs kvs r rule: dec_fields.induct) (auto split: sum.splits dest: assign_keeps)

lemma field_keeps_structField:
  "(\<And>r v x. P r \<Longrightarrow> dec v (get r) = Inr x \<Longrightarrow> P (upd (\<lambda>_. x) r)) \<Longrightarrow>
     field_keeps P (structField name dec get upd)"
  by (auto simp: field_keeps_def structField_def map_sum_def split: sum.splits)

lemma Generic_fields_int64: "list_all (field_keeps (\<lambda>r. in_int64 (genDepth r))) Generic_fields"
  unfolding Generic_fields_def list.pred_inject
  by (intro conjI TrueI field_keeps_structField)
    (auto simp: dec_int_def split: json.splits if_splits)

lemma frame_generic_in_int64: "frame_generic f = Some g \<Longrightarrow> in_int64 (genDepth g)"
  using dec_fields_keep [OF Generic_fields_int64, of zero_Generic]
  by (auto simp: frame_generic_def unmarshal_def dec_struct_def zero_Generic_def
      split: wire.splits json.splits sum.splits)

section \<open>Conversations\<close>

text \<open>
  One end of a connection: its adapters, the libraries it runs on and what they were handed, and
  which end it is. Handling a message gives the state afterwards and what was sent meanwhile.
\<close>

record ('s, 'w) endpoint =
  epAdapters :: "('s, 'w) Adapter list"
  epRuntime :: "'w runtime"
  epSent :: "'w \<Rightarrow> wire list"
  epIsClient :: bool

definition endpoint_ok :: "('s, 'w) endpoint \<Rightarrow> bool" where
  "endpoint_ok E \<longleftrightarrow> runtime_contract (epRuntime E) (epSent E) \<and> sync_adapters (epAdapters E)"

definition receive :: "('s, 'w) endpoint \<Rightarrow> wire \<Rightarrow> Context \<times> 's \<times> 'w \<Rightarrow> (Context \<times> 's \<times> 'w) \<times> wire list" where
  "receive E f st =
     (let st' = snd (inPoolFunc (epAdapters E) (syncCallbacks (epRuntime E) (epIsClient E)) f st)
      in (st', drop (length (epSent E (snd (snd st)))) (epSent E (snd (snd st')))))"

text \<open>
  Client and server with the messages in flight each way, oldest first. The pools have one worker
  each, so a message is handled to the end before the next.
\<close>

inductive converse :: "('s, 'w) endpoint \<Rightarrow> ('t, 'v) endpoint \<Rightarrow>
    ((Context \<times> 's \<times> 'w) \<times> (Context \<times> 't \<times> 'v) \<times> wire list \<times> wire list) \<Rightarrow>
    ((Context \<times> 's \<times> 'w) \<times> (Context \<times> 't \<times> 'v) \<times> wire list \<times> wire list) \<Rightarrow> bool"
  for E F where
  at_server: "receive F f sv = (sv', fs) \<Longrightarrow> converse E F (cl, sv, f # up, down) (cl, sv', up, down @ fs)"
| at_client: "receive E f cl = (cl', fs) \<Longrightarrow> converse E F (cl, sv, up, f # down) (cl', sv, up @ fs, down)"

inductive_cases converse_elim: "converse E F x y"

text \<open>How many answers deep a message may still go.\<close>

definition weight :: "wire \<Rightarrow> nat" where
  "weight f = (case frame_generic f of None \<Rightarrow> 0 | Some g \<Rightarrow> nat (maxMessageDepth + 1 - genDepth g))"

lemma stamped_weight: "stamped d m f \<Longrightarrow> weight f = nat (maxMessageDepth + 1 - d)"
  by (auto simp: stamped_def weight_def)

lemma receive_discarded: "discarded f \<Longrightarrow> receive E f st = (st, [])"
  by (simp add: receive_def inPoolFunc_discarded)

lemma receive_stamped:
  assumes "endpoint_ok E" and "frame_generic f = Some g" and "receive E f st = (st', fs)" and "x \<in> set fs"
  shows "stamped (wrap64 (genDepth g + 1)) (genMsgId g) x"
proof -
  obtain ctx s w where st: "st = (ctx, s, w)" by (cases st)
  have ok: "sync_adapters (epAdapters E)" "runtime_contract (epRuntime E) (epSent E)"
    using assms(1) by (simp_all add: endpoint_ok_def)
  have "emits (epSent E) (wrap64 (genDepth g + 1)) (genMsgId g) w (snd (snd st'))"
    using sync_adapters.inPoolFunc_emits [OF ok assms(2), of w "epIsClient E" ctx s] assms(3)
    by (auto simp: st receive_def Let_def)
  then show ?thesis
    using assms(3,4) by (auto simp: st receive_def Let_def emits_def)
qed

lemma receive_weight:
  assumes "endpoint_ok E" and "receive E f st = (st', fs)" and "x \<in> set fs"
  shows "weight x < weight f"
proof (cases "discarded f")
  case True
  then show ?thesis using assms(2,3) by (simp add: receive_discarded)
next
  case False
  then obtain g where g: "frame_generic f = Some g" and d: "genDepth g \<le> maxMessageDepth"
    using not_discarded by blast
  have "wrap64 (genDepth g + 1) = genDepth g + 1"
    using frame_generic_in_int64 [OF g] d
    by (intro wrap64_id) (simp add: int64_defs maxMessageDepth_def)
  then show ?thesis
    using stamped_weight [OF receive_stamped [OF assms(1) g assms(2,3)]] d by (simp add: weight_def g)
qed

definition in_flight :: "'a \<times> 'b \<times> wire list \<times> wire list \<Rightarrow> nat multiset" where
  "in_flight c = (case c of (_, _, up, down) \<Rightarrow> image_mset weight (mset up + mset down))"

lemma answer_decreases:
  assumes "\<And>x. x \<in> set fs \<Longrightarrow> weight x < weight f"
  shows "(I + image_mset weight (mset fs), I + {#weight f#}) \<in> mult less_than"
  by (rule one_step_implies_mult) (use assms in auto)

lemma converse_decreases:
  assumes "endpoint_ok E" and "endpoint_ok F" and "converse E F x y"
  shows "(in_flight y, in_flight x) \<in> mult less_than"
  using assms(3)
proof cases
  case (at_server f sv sv' fs cl up down)
  have "(image_mset weight (mset up + mset down) + image_mset weight (mset fs),
         image_mset weight (mset up + mset down) + {#weight f#}) \<in> mult less_than"
    using receive_weight [OF assms(2) at_server(3)] by (rule answer_decreases)
  then show ?thesis using at_server by (simp add: in_flight_def ac_simps)
next
  case (at_client f cl cl' fs sv up down)
  have "(image_mset weight (mset up + mset down) + image_mset weight (mset fs),
         image_mset weight (mset up + mset down) + {#weight f#}) \<in> mult less_than"
    using receive_weight [OF assms(1) at_client(3)] by (rule answer_decreases)
  then show ?thesis using at_client by (simp add: in_flight_def ac_simps)
qed

lemma converse_wf:
  assumes "endpoint_ok E" and "endpoint_ok F"
  shows "wf {(y, x). converse E F x y}"
proof (rule wf_subset)
  show "wf (inv_image (mult less_than) in_flight)" by (intro wf_inv_image wf_mult wf_less_than)
  show "{(y, x). converse E F x y} \<subseteq> inv_image (mult less_than) in_flight"
    using converse_decreases [OF assms] by auto
qed

text \<open>A call made on the callbacks, from the sender to the receiver.\<close>

lemma callBack_delivered:
  assumes "runtime_contract rt sent" and "carries ctx d m" and "identified ctx cid"
    and "call_kind c = Some k" and "call_wf c" and "in_int64 d" and "d < maxMessageDepth"
    and "callBack (syncCallbacks rt isClient) ctx c w = (Ret None, w')"
  shows "\<exists>f. sent w' = sent w @ [f] \<and>
     inPoolFunc adapters cbs f (peerCtx, sw) =
       (let peerCtx' = ContextFromGeneric peerCtx (call_generic (d + 1) m c) in
        on_snd (andThen (handleCall adapters cbs peerCtx' (as_received isClient c))
          (logHandling (Some (call_event c)))) (peerCtx', sw))"
proof -
  let ?f = "Doc (call_doc isClient (wrap64 (d + 1)) m c)"
  have deeper: "in_int64 (d + 1)" "d + 1 \<le> maxMessageDepth"
    using assms(6,7) by (simp_all add: int64_defs maxMessageDepth_def)
  obtain err v where out: "rtOutInvoke rt ?f w = (Ret err, v)"
    and sent: "err = None \<Longrightarrow> sent v = sent w @ [?f]"
    by (rule runtime_contract_Invoke [OF assms(1), of ?f w]) auto
  have "(Ret (map_option (send_error c) err), v) = (Ret None, w')"
    using callBack_sends [OF assms(2-4) out] assms(8) by simp
  then have "sent w' = sent w @ [?f]" using sent by simp
  moreover have "wrap64 (d + 1) = d + 1" by (rule wrap64_id [OF deeper(1)])
  ultimately show ?thesis using inPoolFunc_call [OF deeper assms(5)] by metis
qed

section \<open>Properties\<close>

text \<open>
  C1. A call that an adapter makes on its callbacks while it handles a message of a depth below the limit
  arrives at the peer as that call: one message is sent, and when the peer's pool function gets it, it makes the
  same operation on the peer's adapters with the same object, checksum and content, one deeper and under the
  same message id. Only the resource version and, for a client, the base object are left out.
\<close>

theorem callback_is_delivered:
  assumes "runtime_contract rt sent" and "carries ctx d m" and "identified ctx cid"
    and "call_kind c = Some k" and "call_wf c" and "in_int64 d" and "d < maxMessageDepth"
    and "callBack (syncCallbacks rt isClient) ctx c w = (Ret None, w')"
  shows "\<exists>f. sent w' = sent w @ [f] \<and>
     inPoolFunc adapters cbs f (peerCtx, sw) =
       (let peerCtx' = ContextFromGeneric peerCtx (call_generic (d + 1) m c) in
        on_snd (andThen (handleCall adapters cbs peerCtx' (as_received isClient c))
          (logHandling (Some (call_event c)))) (peerCtx', sw))"
  by (rule callBack_delivered [OF assms])

text \<open>A runtime that accepts everything and keeps it in a list.\<close>

definition listRuntime :: "wire list runtime" where
  "listRuntime = \<lparr>rtNewMsgId = ret ''msg'', rtOutInvoke = (\<lambda>d w. (Ret None, w @ [d]))\<rparr>"

lemma listRuntime_contract: "runtime_contract listRuntime (\<lambda>w. w)"
  by (simp add: runtime_contract_def listRuntime_def)

definition sampleKind :: Kind where
  "sampleKind = \<lparr>kGroup = ''apps'', kVersion = ''v1'', kResource = ''deployments'', kAdditionalProperties = None\<rparr>"

definition sampleId :: KindName where
  "sampleId = \<lparr>knKind = Some sampleKind, knName = ''nginx'', knNamespace = ''default'', knResourceVersion = 3\<rparr>"

definition sampleCtx :: Context where
  "sampleCtx = ContextFromGeneric (ContextFromIdentifiers [] (zero_ClientIdentifier\<lparr>ciAccount := ''a''\<rparr>))
     (zero_Generic\<lparr>genDepth := 2, genMsgId := ''msg''\<rparr>)"

lemma sampleCtx_carries: "carries sampleCtx 2 ''msg''"
  using carries_ContextFromGeneric [of "ContextFromIdentifiers [] (zero_ClientIdentifier\<lparr>ciAccount := ''a''\<rparr>)"
      "zero_Generic\<lparr>genDepth := 2, genMsgId := ''msg''\<rparr>"]
  by (simp add: sampleCtx_def)

lemma sampleCtx_identified: "identified sampleCtx (zero_ClientIdentifier\<lparr>ciAccount := ''a'', ciCluster := []\<rparr>)"
  using identified_ContextFromIdentifiers [of "[]" "zero_ClientIdentifier\<lparr>ciAccount := ''a''\<rparr>"]
  by (simp add: sampleCtx_def zero_ClientIdentifier_def)

theorem callback_is_delivered_witness:
  "\<exists>f. [Doc (call_doc False 3 ''msg'' (CallPut sampleId ''c'' ''ob''))] = [] @ [f] \<and>
     inPoolFunc [] (syncCallbacks listRuntime True) f ([], (), []) =
       (let peerCtx' = ContextFromGeneric [] (call_generic (2 + 1) ''msg'' (CallPut sampleId ''c'' ''ob'')) in
        on_snd (andThen (handleCall [] (syncCallbacks listRuntime True) peerCtx'
            (as_received False (CallPut sampleId ''c'' ''ob'')))
          (logHandling (Some (call_event (CallPut sampleId ''c'' ''ob''))))) (peerCtx', ((), [])))"
proof (rule callback_is_delivered [OF listRuntime_contract sampleCtx_carries sampleCtx_identified])
  show "callBack (syncCallbacks listRuntime False) sampleCtx (CallPut sampleId ''c'' ''ob'') [] =
      (Ret None, [Doc (call_doc False 3 ''msg'' (CallPut sampleId ''c'' ''ob''))])"
    using callBack_sends [OF sampleCtx_carries sampleCtx_identified, of "CallPut sampleId ''c'' ''ob''"
        sampleKind listRuntime False "[]" None]
    by (simp add: sampleId_def listRuntime_def int64_defs)
qed (simp_all add: sampleId_def int64_defs maxMessageDepth_def)

end
