(* ===== verification/Adapter_Libs.thy ===== *)
theory Adapter_Libs
  imports Sync_Utils Core_Protocol
begin

text \<open>
  What the adapters share: the libraries for JSON merge patches and canonical hashes, which are
  arguments of the model, and the five loops both batch handlers are made of.
\<close>

record jsonlib =
  jlCreateMergePatch :: "string \<Rightarrow> string \<Rightarrow> goerror + string"
  jlMergePatch :: "string \<Rightarrow> string \<Rightarrow> goerror + string"
  jlCanonicalHash :: "string \<Rightarrow> goerror + string"

text \<open>
  The documented behaviour of merge patches (RFC 7396) on documents \<open>ok\<close> describes (objects that
  hold no explicit null): the patch from one document to another exists, and applying it to the
  first gives the second up to the formatting, which the canonical hash does not see.
\<close>

definition merge_contract :: "jsonlib \<Rightarrow> (string \<Rightarrow> bool) \<Rightarrow> bool" where
  "merge_contract jl ok \<longleftrightarrow>
     (\<forall>a b. ok a \<longrightarrow> ok b \<longrightarrow> (\<exists>p r h. jlCreateMergePatch jl a b = Inr p \<and> jlMergePatch jl a p = Inr r
        \<and> ok r \<and> jlCanonicalHash jl r = Inr h \<and> jlCanonicalHash jl b = Inr h))"

text \<open>The pair \<open>multierr.Append\<close> and its use in a loop that never stops early.\<close>

type_synonym multierr = "goerror option \<Rightarrow> goerror option \<Rightarrow> goerror option"

definition itemId :: "Kind \<Rightarrow> string \<Rightarrow> string \<Rightarrow> int \<Rightarrow> KindName" where
  "itemId kind name namespace rv =
     \<lparr>knKind = Some kind, knName = name, knNamespace = namespace, knResourceVersion = rv\<rparr>"

definition batchItemsLoop :: "multierr \<Rightarrow> Kind \<Rightarrow>
    (KindName \<Rightarrow> string \<Rightarrow> ('w, goerror option) go) \<Rightarrow>
    (KindName \<Rightarrow> string \<Rightarrow> ('w, goerror option) go) \<Rightarrow>
    (KindName \<Rightarrow> ('w, goerror option) go) \<Rightarrow>
    (KindName \<Rightarrow> string \<Rightarrow> string \<Rightarrow> ('w, goerror option) go) \<Rightarrow>
    (KindName \<Rightarrow> string \<Rightarrow> string \<Rightarrow> ('w, goerror option) go) \<Rightarrow>
    BatchItems \<Rightarrow> ('w, goerror option) go" where
  "batchItemsLoop app kind opGet opVerify opDelete opPatch opPut items =
     andThen (forAppend app (\<lambda>item. opGet
         (itemId kind (getName item) (getNamespace item) (getResourceVersion item))
         (getBaseObject item)) None (itemsGetObject items)) (\<lambda>err.
     andThen (forAppend app (\<lambda>item. opVerify
         (itemId kind (chkName item) (chkNamespace item) (chkResourceVersion item))
         (chkChecksum item)) err (itemsNewChecksum items)) (\<lambda>err.
     andThen (forAppend app (\<lambda>item. opDelete
         (itemId kind (delName item) (delNamespace item) (delResourceVersion item)))
         err (itemsObjectDeleted items)) (\<lambda>err.
     andThen (forAppend app (\<lambda>item. opPatch
         (itemId kind (patchName item) (patchNamespace item) (patchResourceVersion item))
         (patchChecksum item) (patchPatch item)) err (itemsPatchObject items)) (\<lambda>err.
     forAppend app (\<lambda>item. opPut
         (itemId kind (putName item) (putNamespace item) (putResourceVersion item))
         (putChecksum item) (putObject item)) err (itemsPutObject items)))))"

lemma keeps_batchItemsLoop:
  assumes "preorderp R"
    and "\<And>oid b. keeps R (opGet oid b)" and "\<And>oid c. keeps R (opVerify oid c)"
    and "\<And>oid. keeps R (opDelete oid)" and "\<And>oid c p. keeps R (opPatch oid c p)"
    and "\<And>oid c ob. keeps R (opPut oid c ob)"
  shows "keeps R (batchItemsLoop app kind opGet opVerify opDelete opPatch opPut items)"
  unfolding batchItemsLoop_def by (intro keeps_andThen keeps_forAppend assms)

text \<open>Changing one part of an adapter's state.\<close>

definition modify :: "('s \<Rightarrow> 's) \<Rightarrow> ('s \<times> 'w, unit) go" where
  "modify f = andThen get_state (\<lambda>s. put_state (f s))"

lemma run_modify [simp, go_simps]: "modify f (s, w) = (Ret (), (f s, w))"
  by (simp add: modify_def)

lemma keeps_modify [keeps_intros]: "preorderp R \<Longrightarrow> keeps (snd_rel R) (modify f)"
  unfolding modify_def by (intro keeps_andThen keeps_get_state keeps_put_state preorderp_snd_rel)

text \<open>A library call: an error returns at once, wrapped; a value is used.\<close>

definition orReturn :: "string \<Rightarrow> goerror + 'a \<Rightarrow> ('a \<Rightarrow> ('w, goerror option) go) \<Rightarrow> ('w, goerror option) go" where
  "orReturn what r f = (case r of Inl e \<Rightarrow> ret (Some (GoWrap what e)) | Inr a \<Rightarrow> f a)"

lemma orReturn_simps [simp]:
  "orReturn what (Inl e) f = ret (Some (GoWrap what e))" "orReturn what (Inr a) f = f a"
  by (simp_all add: orReturn_def)

lemma keeps_orReturn [keeps_intros]:
  "preorderp R \<Longrightarrow> (\<And>a. keeps R (f a)) \<Longrightarrow> keeps R (orReturn what r f)"
  by (cases r) (auto intro: keeps_ret)

text \<open>Calling a function of a struct that was never set.\<close>

definition nilCallbacks :: "'w Callbacks" where
  "nilCallbacks = \<lparr>
     cbDeleteObject = (\<lambda>ctx oid. panic ''nil pointer dereference''),
     cbGetObject = (\<lambda>ctx oid b. panic ''nil pointer dereference''),
     cbPatchObject = (\<lambda>ctx oid c p. panic ''nil pointer dereference''),
     cbPutObject = (\<lambda>ctx oid c ob. panic ''nil pointer dereference''),
     cbVerifyObject = (\<lambda>ctx oid c. panic ''nil pointer dereference''),
     cbBatch = (\<lambda>ctx k t items. panic ''nil pointer dereference'')\<rparr>"

end
