(* ===== verification/Config.thy ===== *)
theory Config
  imports Domain
begin

text \<open>
  \<open>config/config.go\<close>: the configuration structs the components read and their validation, and the
  environment of the process. A pointer to a section is an option; how a configuration is loaded is
  in \<open>Client_Process\<close>.
\<close>

type_synonym environment = "string \<Rightarrow> string option"

definition os_Getenv :: "environment \<Rightarrow> string \<Rightarrow> string" where
  "os_Getenv env name = (case env name of None \<Rightarrow> [] | Some v \<Rightarrow> v)"

record Resource =
  rsGroup :: string
  rsVersion :: string
  rsResource :: string
  rsStrategy :: Strategy

definition Resource_String :: "Resource \<Rightarrow> string" where
  "Resource_String r = strings_Join [rsGroup r, rsVersion r, rsResource r] ''/''"

record InClusterConfig =
  cfgServerUrl :: string
  cfgNamespace :: string
  cfgClusterName :: string
  cfgExcludeNamespaces :: "string list"
  cfgIncludeNamespaces :: "string list"
  cfgAccount :: string
  cfgAccessKey :: string
  cfgResources :: "Resource list"

record HTTPEndpointConfig =
  heServerPort :: string
  heResources :: "Resource list"

record KafkaConfig =
  kcBootstrapServers :: "string list"
  kcProducerTopic :: string
  kcConsumerTopic :: string
  kcRequireTopicsExist :: bool
  kcGroupIDPrefix :: string
  kcCompressionType :: string
  kcMaxMessageBytes :: int
  kcSecurityProtocol :: string
  kcSASLMechanism :: string
  kcSASLUsername :: string
  kcSASLPassword :: string
  kcTLSCaCertPath :: string

record MessageQueueConfig =
  mqType :: string
  mqKafkaConfig :: "KafkaConfig option"

record ReconciliationTaskConfig =
  rtCronSchedule :: string
  rtTaskIntervalSeconds :: int
  rtIntervalFromConnectionSeconds :: int
  rtSendBatch :: bool

record AuthenticationServerConfig =
  auUrl :: string
  auHeaderToQueryParamMapping :: "(string \<times> string) list"
  auHeaderToHeaderMapping :: "(string \<times> string) list"

record KeepAliveTaskConfig =
  kaTaskIntervalSeconds :: int

record FeaturesProviderConfig =
  fcFeatureFlagName :: string
  fcRefreshIntervalSeconds :: int

record PrometheusConfig =
  pmEnabled :: bool
  pmPort :: int

text \<open>The Pulsar section is a struct of a library; only its presence matters.\<close>

record BackendConfig =
  bcPort :: int
  bcAuthenticationServer :: "AuthenticationServerConfig option"
  bcSubscription :: string
  bcPulsarConfig :: bool
  bcProducerTopic :: string
  bcConsumerTopic :: string
  bcConsumerWorkers :: int
  bcPrometheus :: "PrometheusConfig option"
  bcReconciliationTask :: "ReconciliationTaskConfig option"
  bcKeepAliveTask :: "KeepAliveTaskConfig option"
  bcSkipAlertsFrom :: "string list"
  bcFeaturesProvider :: "FeaturesProviderConfig option"
  bcMessageQueue :: "MessageQueueConfig option"

record Config =
  cfBackend :: BackendConfig
  cfInCluster :: InClusterConfig
  cfHTTPEndpoint :: HTTPEndpointConfig

section \<open>Validation\<close>

definition InCluster_ValidateConfig :: "InClusterConfig \<Rightarrow> goerror option" where
  "InCluster_ValidateConfig c =
     (if cfgAccessKey c = [] then Some (GoError ''access key is missing'')
      else if cfgAccount c = [] then Some (GoError ''account is missing'')
      else if cfgClusterName c = [] then Some (GoError ''cluster name is missing'')
      else if cfgServerUrl c = [] then Some (GoError ''server url is missing'')
      else if length (cfgResources c) = 0 then Some (GoError ''resources are missing'')
      else None)"

definition HTTPEndpoint_ValidateConfig :: "HTTPEndpointConfig \<Rightarrow> goerror option" where
  "HTTPEndpoint_ValidateConfig c =
     (if heServerPort c = [] then Some (GoError ''server port is missing'')
      else if length (heResources c) = 0 then Some (GoError ''resources are missing'')
      else None)"

lemma InCluster_ValidateConfig_None:
  "InCluster_ValidateConfig c = None \<longleftrightarrow> cfgAccessKey c \<noteq> [] \<and> cfgAccount c \<noteq> []
     \<and> cfgClusterName c \<noteq> [] \<and> cfgServerUrl c \<noteq> [] \<and> cfgResources c \<noteq> []"
  by (simp add: InCluster_ValidateConfig_def)

end
