(* ===== verification/Kube_Objects.thy ===== *)
theory Kube_Objects
  imports Adapter_Libs Config
begin

text \<open>
  Kubernetes objects as the in-cluster client sees them. The object type \<open>'o\<close> and everything the
  client libraries do with it are arguments (the record \<open>kubelib\<close>): accessors, field removal,
  marshalling, the nested-field helpers of \<open>unstructured\<close> and the pod-spec paths of
  \<open>workloadinterface\<close>. The code of the repository is on top of that: masking of environment
  variables (\<open>utils.MaskEnvironmentVariables\<close>) and merging of metadata (\<open>mergeMetadata\<close>).
\<close>

record 'o kubelib =
  klGetName :: "'o \<Rightarrow> string"
  klGetNamespace :: "'o \<Rightarrow> string"
  klGetResourceVersion :: "'o \<Rightarrow> string"
  klGetKind :: "'o \<Rightarrow> string"
  klGetAPIVersion :: "'o \<Rightarrow> string"
  klOwnerAPIVersions :: "'o \<Rightarrow> string list"
  klLabels :: "'o \<Rightarrow> string \<rightharpoonup> string"
  klAnnotations :: "'o \<Rightarrow> string \<rightharpoonup> string"
  klSyncChecksumMetadataKey :: string
  klIsUnstructured :: "'o \<Rightarrow> bool"
  klObject :: "'o \<Rightarrow> json"
  klSetObject :: "json \<Rightarrow> 'o \<Rightarrow> 'o"
  klEmptyObject :: 'o
  klRemoveManagedFields :: "'o \<Rightarrow> 'o"
  klRemoveSpecificFields :: "'o \<Rightarrow> string list list \<Rightarrow> goerror + 'o"
  klSetGroupVersionKind :: "string \<Rightarrow> string \<Rightarrow> 'o \<Rightarrow> 'o"
  klMarshal :: "'o \<Rightarrow> goerror + string"
  klUnmarshalJSON :: "string \<Rightarrow> goerror + 'o"
  klPodSpec :: "string \<Rightarrow> string list"
  klNestedSlice :: "json \<Rightarrow> string list \<Rightarrow> json list option"
  klSetNestedSlice :: "json \<Rightarrow> json list \<Rightarrow> string list \<Rightarrow> goerror + json"
  klSetNestedField :: "json \<Rightarrow> json \<Rightarrow> string list \<Rightarrow> goerror + json"
  klJson :: jsonlib
  klAppend :: multierr

section \<open>Masking environment variables\<close>

definition maskedValue :: string where "maskedValue = ''XXXXXX''"

text \<open>\<open>for i := range xs\<close> with an update of \<open>xs[i]\<close> that may fail.\<close>

fun updateAll :: "('a \<Rightarrow> goerror + 'a) \<Rightarrow> 'a list \<Rightarrow> goerror + 'a list" where
  "updateAll f [] = Inr []"
| "updateAll f (x # xs) =
     (case f x of Inl e \<Rightarrow> Inl e | Inr y \<Rightarrow> (case updateAll f xs of Inl e \<Rightarrow> Inl e | Inr ys \<Rightarrow> Inr (y # ys)))"

definition wrapError :: "string \<Rightarrow> goerror + 'a \<Rightarrow> goerror + 'a" where
  "wrapError what r = (case r of Inl e \<Rightarrow> Inl (GoWrap what e) | Inr a \<Rightarrow> Inr a)"

definition maskEnvVar :: "'o kubelib \<Rightarrow> json \<Rightarrow> goerror + json" where
  "maskEnvVar lib envVar =
     (case envVar of
        JObj kvs \<Rightarrow>
          (case map_of kvs ''value'' of
             Some _ \<Rightarrow> wrapError ''error setting nested field'' (klSetNestedField lib envVar (JStr maskedValue) [''value''])
           | None \<Rightarrow> Inr envVar)
      | _ \<Rightarrow> Inr envVar)"

definition maskContainer :: "'o kubelib \<Rightarrow> json \<Rightarrow> goerror + json" where
  "maskContainer lib container =
     (case container of
        JObj _ \<Rightarrow>
          (case klNestedSlice lib container [''env''] of
             None \<Rightarrow> Inr container
           | Some env \<Rightarrow>
               (case updateAll (maskEnvVar lib) env of
                  Inl e \<Rightarrow> Inl e
                | Inr env' \<Rightarrow> wrapError ''error setting nested slice'' (klSetNestedSlice lib container env' [''env''])))
      | _ \<Rightarrow> Inr container)"

definition containerTypes :: "string list" where
  "containerTypes = [''containers'', ''initContainers'', ''ephemeralContainers'']"

fun maskTypes :: "'o kubelib \<Rightarrow> string list \<Rightarrow> string list \<Rightarrow> json \<Rightarrow> goerror + json" where
  "maskTypes lib podSpecPath [] object = Inr object"
| "maskTypes lib podSpecPath (containerType # types) object =
     (case klNestedSlice lib object (podSpecPath @ [containerType]) of
        None \<Rightarrow> maskTypes lib podSpecPath types object
      | Some containers \<Rightarrow>
          (case wrapError ''error masking containers'' (updateAll (maskContainer lib) containers) of
             Inl e \<Rightarrow> Inl e
           | Inr containers' \<Rightarrow>
               (case wrapError ''error setting nested slice''
                       (klSetNestedSlice lib object containers' (podSpecPath @ [containerType])) of
                  Inl e \<Rightarrow> Inl e
                | Inr object' \<Rightarrow> maskTypes lib podSpecPath types object')))"

definition MaskEnvironmentVariables :: "'o kubelib \<Rightarrow> 'o \<Rightarrow> goerror + 'o" where
  "MaskEnvironmentVariables lib un =
     (case maskTypes lib (klPodSpec lib (klGetKind lib un)) containerTypes (klObject lib un) of
        Inl e \<Rightarrow> Inl e
      | Inr object \<Rightarrow> Inr (klSetObject lib object un))"

text \<open>
  The documented behaviour of the nested-field helpers: a slice that is set is read back, slices
  under sibling fields stay, setting a field of a map sets that key only, and setting where a
  slice was found does not fail.
\<close>

definition nested_contract :: "'o kubelib \<Rightarrow> bool" where
  "nested_contract lib \<longleftrightarrow>
     (\<forall>ob xs p ob'. klSetNestedSlice lib ob xs p = Inr ob' \<longrightarrow> klNestedSlice lib ob' p = Some xs) \<and>
     (\<forall>ob xs p s t ob'. s \<noteq> t \<longrightarrow> klSetNestedSlice lib ob xs (p @ [s]) = Inr ob' \<longrightarrow>
        klNestedSlice lib ob' (p @ [t]) = klNestedSlice lib ob (p @ [t])) \<and>
     (\<forall>ob xs ys p. klNestedSlice lib ob p = Some ys \<longrightarrow> (\<exists>ob'. klSetNestedSlice lib ob xs p = Inr ob')) \<and>
     (\<forall>kvs v k. \<exists>kvs'. klSetNestedField lib (JObj kvs) v [k] = Inr (JObj kvs') \<and> map_of kvs' = (map_of kvs)(k \<mapsto> v))"

lemma nested_contractD:
  assumes "nested_contract lib"
  shows "klSetNestedSlice lib ob xs p = Inr ob' \<Longrightarrow> klNestedSlice lib ob' p = Some xs"
    and "s \<noteq> t \<Longrightarrow> klSetNestedSlice lib ob xs (p @ [s]) = Inr ob' \<Longrightarrow>
      klNestedSlice lib ob' (p @ [t]) = klNestedSlice lib ob (p @ [t])"
    and "klNestedSlice lib ob p = Some ys \<Longrightarrow> \<exists>ob'. klSetNestedSlice lib ob xs p = Inr ob'"
    and "\<exists>kvs'. klSetNestedField lib (JObj kvs) v [k] = Inr (JObj kvs') \<and> map_of kvs' = (map_of kvs)(k \<mapsto> v)"
  using assms unfolding nested_contract_def by blast+

definition masked_var :: "json \<Rightarrow> bool" where
  "masked_var v \<longleftrightarrow> (case v of JObj kvs \<Rightarrow> map_of kvs ''value'' \<in> {None, Some (JStr maskedValue)} | _ \<Rightarrow> True)"

definition masked_container :: "'o kubelib \<Rightarrow> json \<Rightarrow> bool" where
  "masked_container lib c \<longleftrightarrow>
     (case klNestedSlice lib c [''env''] of None \<Rightarrow> True | Some env \<Rightarrow> list_all masked_var env)"

definition masked_type :: "'o kubelib \<Rightarrow> string list \<Rightarrow> json \<Rightarrow> string \<Rightarrow> bool" where
  "masked_type lib p ob t \<longleftrightarrow>
     (case klNestedSlice lib ob (p @ [t]) of None \<Rightarrow> True | Some cs \<Rightarrow> list_all (\<lambda>c. (\<exists>kvs. c = JObj kvs) \<longrightarrow> masked_container lib c) cs)"

lemma updateAll_total:
  assumes "\<And>x. \<exists>y. f x = Inr y \<and> P y"
  shows "\<exists>ys. updateAll f xs = Inr ys \<and> list_all P ys"
proof (induction xs)
  case (Cons x xs)
  then show ?case using assms [of x] by auto
qed simp

lemma maskEnvVar_masks:
  assumes "nested_contract lib"
  shows "\<exists>v'. maskEnvVar lib v = Inr v' \<and> masked_var v'"
proof (cases v)
  case (JObj kvs)
  then show ?thesis
    using nested_contractD(4) [OF assms, of kvs "JStr maskedValue" "''value''"]
    by (auto simp: maskEnvVar_def masked_var_def wrapError_def split: option.splits)
qed (simp_all add: maskEnvVar_def masked_var_def)

lemma maskContainer_masks:
  assumes "nested_contract lib"
  shows "\<exists>c'. maskContainer lib c = Inr c' \<and> ((\<exists>kvs. c' = JObj kvs) \<longrightarrow> masked_container lib c')"
proof (cases "\<exists>kvs env. c = JObj kvs \<and> klNestedSlice lib c [''env''] = Some env")
  case True
  then obtain kvs env where c: "c = JObj kvs" "klNestedSlice lib c [''env''] = Some env" by blast
  obtain env' where env': "updateAll (maskEnvVar lib) env = Inr env'" "list_all masked_var env'"
    using updateAll_total [of "maskEnvVar lib" masked_var, OF maskEnvVar_masks [OF assms]] by blast
  obtain c' where c': "klSetNestedSlice lib c env' [''env''] = Inr c'"
    using nested_contractD(3) [OF assms c(2)] by blast
  show ?thesis
    using c c' env' nested_contractD(1) [OF assms c']
    by (auto simp: maskContainer_def masked_container_def wrapError_def)
next
  case False
  then show ?thesis
    by (cases c) (auto simp: maskContainer_def masked_container_def split: option.splits)
qed

lemma maskTypes_masks:
  assumes "nested_contract lib" and "distinct types"
  shows "\<exists>ob'. maskTypes lib p types ob = Inr ob' \<and> list_all (masked_type lib p ob') types
     \<and> (\<forall>t. t \<notin> set types \<longrightarrow> klNestedSlice lib ob' (p @ [t]) = klNestedSlice lib ob (p @ [t]))"
  using assms(2)
proof (induction types arbitrary: ob)
  case (Cons t types)
  show ?case
  proof (cases "klNestedSlice lib ob (p @ [t])")
    case None
    obtain ob' where "maskTypes lib p types ob = Inr ob'" "list_all (masked_type lib p ob') types"
      "\<forall>u. u \<notin> set types \<longrightarrow> klNestedSlice lib ob' (p @ [u]) = klNestedSlice lib ob (p @ [u])"
      using Cons by (metis distinct.simps(2))
    then show ?thesis using None Cons.prems by (auto simp: masked_type_def [of lib p _ t])
  next
    case (Some cs)
    obtain cs' where cs': "updateAll (maskContainer lib) cs = Inr cs'"
      "list_all (\<lambda>c. (\<exists>kvs. c = JObj kvs) \<longrightarrow> masked_container lib c) cs'"
      using updateAll_total [of "maskContainer lib", OF maskContainer_masks [OF assms(1)]] by blast
    obtain ob1 where ob1: "klSetNestedSlice lib ob cs' (p @ [t]) = Inr ob1"
      using nested_contractD(3) [OF assms(1) Some] by blast
    obtain ob' where ob': "maskTypes lib p types ob1 = Inr ob'" "list_all (masked_type lib p ob') types"
      "\<forall>u. u \<notin> set types \<longrightarrow> klNestedSlice lib ob' (p @ [u]) = klNestedSlice lib ob1 (p @ [u])"
      using Cons by (metis distinct.simps(2))
    have "maskTypes lib p (t # types) ob = Inr ob'"
      using Some cs'(1) ob1 ob'(1) by (simp add: wrapError_def)
    moreover have "masked_type lib p ob' t"
      using ob'(3) Cons.prems cs'(2) nested_contractD(1) [OF assms(1) ob1] by (simp add: masked_type_def)
    moreover have "klNestedSlice lib ob' (p @ [u]) = klNestedSlice lib ob (p @ [u])"
      if "u \<notin> set (t # types)" for u
      using that ob'(3) nested_contractD(2) [OF assms(1) _ ob1, of u] by auto
    ultimately show ?thesis using ob'(2) by auto
  qed
qed simp

section \<open>Merging metadata\<close>

text \<open>A Go map held as an association list: assignment to a key.\<close>

fun jset :: "string \<Rightarrow> json \<Rightarrow> (string \<times> json) list \<Rightarrow> (string \<times> json) list" where
  "jset k v [] = [(k, v)]"
| "jset k v ((k', v') # kvs) = (if k' = k then (k, v) # kvs else (k', v') # jset k v kvs)"

lemma map_of_jset [simp]: "map_of (jset k v kvs) = (map_of kvs)(k \<mapsto> v)"
  by (induction kvs) auto

text \<open>\<open>for k, v := range newValues\<close>: a key the map has already is passed over.\<close>

fun addMissing :: "(string \<times> json) list \<Rightarrow> (string \<times> json) list \<Rightarrow> (string \<times> json) list" where
  "addMissing existingValues [] = existingValues"
| "addMissing existingValues ((k, v) # newValues) =
     addMissing (if map_of existingValues k \<noteq> None then existingValues else jset k v existingValues) newValues"

definition mergeField :: "(string \<times> json) list \<Rightarrow> string \<Rightarrow> (string \<times> json) list \<Rightarrow> (string \<times> json) list" where
  "mergeField new field existing =
     (case map_of existing field of
        Some (JObj existingValues) \<Rightarrow>
          (case map_of new field of
             Some (JObj newValues) \<Rightarrow> jset field (JObj (addMissing existingValues newValues)) existing
           | _ \<Rightarrow> existing)
      | _ \<Rightarrow> jset field (case map_of new field of None \<Rightarrow> JNull | Some v \<Rightarrow> v) existing)"

definition mergeMetadata :: "(string \<times> json) list \<Rightarrow> (string \<times> json) list \<Rightarrow> (string \<times> json) list" where
  "mergeMetadata existing new = mergeField new ''labels'' (mergeField new ''annotations'' existing)"

lemma map_of_addMissing:
  "map_of (addMissing ev nv) k = (case map_of ev k of Some v \<Rightarrow> Some v | None \<Rightarrow> map_of nv k)"
  by (induction ev nv rule: addMissing.induct) (auto split: option.splits if_splits)

lemma mergeField_other: "f \<noteq> field \<Longrightarrow> map_of (mergeField new field ex) f = map_of ex f"
  by (auto simp: mergeField_def split: option.splits json.splits)

lemma mergeField_same:
  assumes "map_of ex f = Some (JObj ev)" and "map_of new f = Some (JObj nv)"
  shows "map_of (mergeField new f ex) f = Some (JObj (addMissing ev nv))"
  using assms by (simp add: mergeField_def)

section \<open>Filters\<close>

definition hasParent :: "'o kubelib \<Rightarrow> 'o \<Rightarrow> bool" where
  "hasParent lib workload =
     (let kind = klGetKind lib workload in
      if kind \<notin> set [''Pod'', ''Job'', ''ReplicaSet''] then False
      else case klOwnerAPIVersions lib workload of
        owner # _ \<Rightarrow> owner \<in> set [''apps/v1'', ''batch/v1'', ''batch/v1beta1'']
      | [] \<Rightarrow>
          (if kind = ''Pod'' then
             (case klLabels lib workload ''pod-template-hash'' of
                Some podHash \<Rightarrow> podHash \<noteq> []
              | None \<Rightarrow> False)
           else False))"

section \<open>Properties\<close>

text \<open>
  C18. Secrets in environment variables never leave the cluster: after
  \<open>MaskEnvironmentVariables\<close>, which does not fail, every environment variable of every main, init
  and ephemeral container of the workload that has a literal value has the masked one.
\<close>

theorem env_values_are_masked:
  assumes "nested_contract lib" and "\<forall>ob. klObject lib (klSetObject lib ob un) = ob"
  shows "\<exists>un'. MaskEnvironmentVariables lib un = Inr un'
     \<and> list_all (masked_type lib (klPodSpec lib (klGetKind lib un)) (klObject lib un')) containerTypes"
proof -
  have "distinct containerTypes" by (simp add: containerTypes_def)
  from maskTypes_masks [OF assms(1) this, of "klPodSpec lib (klGetKind lib un)" "klObject lib un"]
  show ?thesis using assms(2) by (auto simp: MaskEnvironmentVariables_def)
qed

text \<open>An instance of the libraries on JSON trees.\<close>

fun nestedGet :: "json \<Rightarrow> string list \<Rightarrow> json option" where
  "nestedGet ob [] = Some ob"
| "nestedGet (JObj kvs) (k # p) = (case map_of kvs k of None \<Rightarrow> None | Some v \<Rightarrow> nestedGet v p)"
| "nestedGet _ (k # p) = None"

fun nestedSet :: "json \<Rightarrow> json \<Rightarrow> string list \<Rightarrow> json option" where
  "nestedSet ob v [] = Some v"
| "nestedSet (JObj kvs) v (k # p) =
     map_option (\<lambda>v'. JObj (jset k v' kvs)) (nestedSet (case map_of kvs k of None \<Rightarrow> JObj [] | Some u \<Rightarrow> u) v p)"
| "nestedSet _ v (k # p) = None"

lemma nestedGet_Set: "nestedSet ob v p = Some ob' \<Longrightarrow> nestedGet ob' p = Some v"
  by (induction ob v p arbitrary: ob' rule: nestedSet.induct) auto

lemma nestedGet_Set_sibling:
  "s \<noteq> t \<Longrightarrow> nestedSet ob v (p @ [s]) = Some ob' \<Longrightarrow> nestedGet ob' (p @ [t]) = nestedGet ob (p @ [t])"
proof (induction p arbitrary: ob ob')
  case Nil
  then show ?case by (cases ob) auto
next
  case (Cons k p)
  show ?case
  proof (cases ob)
    case (JObj kvs)
    have empty: "nestedGet (JObj []) (p @ [t]) = None" by (cases p) auto
    obtain v' where v': "nestedSet (case map_of kvs k of None \<Rightarrow> JObj [] | Some u \<Rightarrow> u) v (p @ [s]) = Some v'"
      "ob' = JObj (jset k v' kvs)"
      using Cons.prems(2) JObj by auto
    show ?thesis
      using Cons.IH [OF Cons.prems(1) v'(1)] v'(2) JObj empty by (auto split: option.splits)
  qed (use Cons in auto)
qed

lemma nestedSet_total: "nestedGet ob p = Some y \<Longrightarrow> \<exists>ob'. nestedSet ob v p = Some ob'"
  by (induction ob v p rule: nestedSet.induct) (auto split: option.splits)

definition asSlice :: "json option \<Rightarrow> json list option" where
  "asSlice r = (case r of Some (JArr xs) \<Rightarrow> Some xs | _ \<Rightarrow> None)"

definition asString :: "json option \<Rightarrow> string" where
  "asString r = (case r of Some (JStr s) \<Rightarrow> s | _ \<Rightarrow> [])"

definition orFail :: "'a option \<Rightarrow> goerror + 'a" where
  "orFail r = (case r of None \<Rightarrow> Inl (GoError ''not a map'') | Some a \<Rightarrow> Inr a)"

definition treeKube :: "json kubelib" where
  "treeKube = \<lparr>
     klGetName = (\<lambda>ob. asString (nestedGet ob [''metadata'', ''name''])),
     klGetNamespace = (\<lambda>ob. asString (nestedGet ob [''metadata'', ''namespace''])),
     klGetResourceVersion = (\<lambda>ob. asString (nestedGet ob [''metadata'', ''resourceVersion''])),
     klGetKind = (\<lambda>ob. asString (nestedGet ob [''kind''])),
     klGetAPIVersion = (\<lambda>ob. asString (nestedGet ob [''apiVersion''])),
     klOwnerAPIVersions = (\<lambda>ob. []), klLabels = (\<lambda>ob. Map.empty), klAnnotations = (\<lambda>ob. Map.empty),
     klSyncChecksumMetadataKey = ''sync-checksum'',
     klIsUnstructured = (\<lambda>ob. True), klObject = (\<lambda>ob. ob), klSetObject = (\<lambda>ob _. ob),
     klEmptyObject = JObj [], klRemoveManagedFields = (\<lambda>ob. ob),
     klRemoveSpecificFields = (\<lambda>ob _. Inr ob), klSetGroupVersionKind = (\<lambda>_ _ ob. ob),
     klMarshal = (\<lambda>ob. Inr (asString (nestedGet ob [''metadata'', ''name'']))),
     klUnmarshalJSON = (\<lambda>s. Inr (JObj [(''metadata'', JObj [(''name'', JStr s)])])),
     klPodSpec = (\<lambda>kind. [''spec'']),
     klNestedSlice = (\<lambda>ob p. asSlice (nestedGet ob p)),
     klSetNestedSlice = (\<lambda>ob xs p. orFail (nestedSet ob (JArr xs) p)),
     klSetNestedField = (\<lambda>ob v p. orFail (nestedSet ob v p)),
     klJson = \<lparr>jlCreateMergePatch = (\<lambda>a b. Inr b), jlMergePatch = (\<lambda>a p. Inr p), jlCanonicalHash = Inr\<rparr>,
     klAppend = (\<lambda>a b. case a of None \<Rightarrow> b | Some e \<Rightarrow> Some e)\<rparr>"

lemma treeKube_nested: "nested_contract treeKube"
  unfolding nested_contract_def treeKube_def
  by (auto simp: orFail_def asSlice_def nestedGet_Set nestedGet_Set_sibling split: option.splits)
    (metis not_None_eq nestedSet_total)

definition samplePod :: json where
  "samplePod = JObj [(''kind'', JStr ''Pod''), (''spec'', JObj [(''containers'',
     JArr [JObj [(''env'', JArr [JObj [(''name'', JStr ''TOKEN''), (''value'', JStr ''secret'')]])]])])]"

theorem env_values_are_masked_witness:
  "\<exists>un'. MaskEnvironmentVariables treeKube samplePod = Inr un'
     \<and> list_all (masked_type treeKube (klPodSpec treeKube (klGetKind treeKube samplePod))
         (klObject treeKube un')) containerTypes"
  by (rule env_values_are_masked [OF treeKube_nested]) (simp add: treeKube_def)

text \<open>
  When an object exists already, its own metadata wins: \<open>mergeMetadata\<close> only adds the
  annotations and labels the existing object lacks, never overrides one, and leaves every other
  metadata field, the resource version among them, as the API server has it.
\<close>

theorem existing_metadata_wins:
  assumes "field \<in> {''annotations'', ''labels''}"
    and "map_of existing field = Some (JObj ev)" and "map_of new field = Some (JObj nv)"
    and "other \<notin> {''annotations'', ''labels''}"
  shows "(\<exists>kvs. map_of (mergeMetadata existing new) field = Some (JObj kvs)
     \<and> (\<forall>k. map_of kvs k = (case map_of ev k of Some v \<Rightarrow> Some v | None \<Rightarrow> map_of nv k)))
     \<and> map_of (mergeMetadata existing new) other = map_of existing other"
  using assms
  by (auto simp: mergeMetadata_def mergeField_other mergeField_same map_of_addMissing)

theorem existing_metadata_wins_witness:
  "map_of (mergeMetadata [(''resourceVersion'', JStr ''7''), (''labels'', JObj [(''a'', JStr ''1'')])]
      [(''resourceVersion'', JStr ''3''), (''labels'', JObj [(''a'', JStr ''2''), (''b'', JStr ''3'')])])
      ''resourceVersion'' = Some (JStr ''7'')"
  using existing_metadata_wins [of "''labels''" "[(''resourceVersion'', JStr ''7''), (''labels'', JObj [(''a'', JStr ''1'')])]"
      "[(''a'', JStr ''1'')]" "[(''resourceVersion'', JStr ''3''), (''labels'', JObj [(''a'', JStr ''2''), (''b'', JStr ''3'')])]"
      "[(''a'', JStr ''2''), (''b'', JStr ''3'')]" "''resourceVersion''"]
  by simp

end
