(* ===== verification/Incluster_Client.thy ===== *)
theory Incluster_Client
  imports Kube_Objects
begin

text \<open>
  \<open>adapters/incluster/v1/client.go\<close> and \<open>no_op_dynamic_client.go\<close>: the client that watches one
  resource of the cluster. Its state is the record \<open>Client\<close>; the cluster behind the API server is
  a state of its own, \<open>'k\<close>, that the calls of the record \<open>kubeapi\<close> act on (the dynamic and the
  storage clientset, the pager, \<open>retry.RetryOnConflict\<close>, the classification of API errors and
  the unspecified order of \<open>mapset\<close>'s \<open>ToSlice\<close> are libraries). The connection is a third part
  of the state, reached through the callbacks only.
\<close>

datatype dynamicInterface = DynamicClient | NoOpDynamicClient

record Client =
  icDynamicClient :: dynamicInterface
  icStorageClient :: bool
  icAccount :: string
  icCluster :: string
  icExcludeNamespaces :: "string list"
  icIncludeNamespaces :: "string list"
  icOperatorNamespace :: string
  icKind :: Kind
  icCallbacks :: bool
  icShadowObjects :: "string \<rightharpoonup> string"
  icStrategy :: Strategy

text \<open>
  \<open>icStorageClient\<close> tells whether there is a storage client, \<open>icCallbacks\<close> whether callbacks were
  registered. The group, version and resource of \<open>res\<close> are those of the kind.

  Of the calls: the first argument of \<open>apiGet\<close> and \<open>apiList\<close> tells the storage client from the
  dynamic one; \<open>apiList\<close> gives the objects the pager visited and the error that ended it, if any.
\<close>

record ('o, 'k) kubeapi =
  apiGet :: "bool \<Rightarrow> Kind \<Rightarrow> string \<Rightarrow> string \<Rightarrow> ('k, goerror + 'o) go"
  apiList :: "bool \<Rightarrow> Kind \<Rightarrow> ('k, 'o list \<times> goerror option) go"
  apiCreate :: "Kind \<Rightarrow> string \<Rightarrow> 'o \<Rightarrow> ('k, goerror option) go"
  apiUpdate :: "Kind \<Rightarrow> string \<Rightarrow> 'o \<Rightarrow> ('k, goerror option) go"
  apiDelete :: "Kind \<Rightarrow> string \<Rightarrow> string \<Rightarrow> ('k, goerror option) go"
  apiRetryOnConflict :: "('o \<times> 'k, goerror option) go \<Rightarrow> ('o \<times> 'k, goerror option) go"
  apiIsAlreadyExists :: "goerror \<Rightarrow> bool"
  apiIsForbidden :: "goerror \<Rightarrow> bool"
  apiToSlice :: "string list \<Rightarrow> string list"

definition kubescapeCustomResourceGroup :: string where
  "kubescapeCustomResourceGroup = ''spdx.softwarecomposition.kubescape.io''"

definition NewClient :: "dynamicInterface \<Rightarrow> bool \<Rightarrow> InClusterConfig \<Rightarrow> Resource \<Rightarrow> Client" where
  "NewClient dynamicClient storageClient cfg r = \<lparr>
     icDynamicClient = dynamicClient, icStorageClient = storageClient,
     icAccount = cfgAccount cfg, icCluster = cfgClusterName cfg,
     icExcludeNamespaces = cfgExcludeNamespaces cfg, icIncludeNamespaces = cfgIncludeNamespaces cfg,
     icOperatorNamespace = cfgNamespace cfg,
     icKind = \<lparr>kGroup = rsGroup r, kVersion = rsVersion r, kResource = rsResource r, kAdditionalProperties = None\<rparr>,
     icCallbacks = False, icShadowObjects = Map.empty, icStrategy = rsStrategy r\<rparr>"

section \<open>State\<close>

definition on_cluster :: "('k, 'a) go \<Rightarrow> ((Client \<times> 'k) \<times> 'w, 'a) go" where
  "on_cluster m s = (case s of ((c, k), w) \<Rightarrow> case m k of (r, k') \<Rightarrow> (r, ((c, k'), w)))"

definition get_client :: "((Client \<times> 'k) \<times> 'w, Client) go" where
  "get_client = andThen get_state (\<lambda>(c, k). ret c)"

definition set_shadow :: "string \<Rightarrow> string option \<Rightarrow> ((Client \<times> 'k) \<times> 'w, unit) go" where
  "set_shadow key v = modify (\<lambda>(c, k). (c\<lparr>icShadowObjects := (icShadowObjects c)(key := v)\<rparr>, k))"

definition clientCallbacks :: "Client \<Rightarrow> 'w Callbacks \<Rightarrow> 'w Callbacks" where
  "clientCallbacks c cbs = (if icCallbacks c then cbs else nilCallbacks)"

definition client_RegisterCallbacks :: "Client \<Rightarrow> Client" where
  [simp]: "client_RegisterCallbacks c = c\<lparr>icCallbacks := True\<rparr>"

definition client_IsRelated :: "Client \<Rightarrow> ClientIdentifier \<Rightarrow> bool" where
  "client_IsRelated c cid \<longleftrightarrow> icAccount c = ciAccount cid \<and> icCluster c = ciCluster cid"

definition client_Stop :: "Context \<Rightarrow> ('w, goerror option) go" where
  [simp]: "client_Stop ctx = ret None"

text \<open>\<open>c.callbacks.F(...)\<close>\<close>

definition calling :: "'w Callbacks \<Rightarrow> ('w Callbacks \<Rightarrow> ('w, 'a) go) \<Rightarrow> ((Client \<times> 'k) \<times> 'w, 'a) go" where
  "calling cbs f = andThen get_client (\<lambda>c. on_snd (f (clientCallbacks c cbs)))"

lemma run_on_cluster [simp, go_simps]: "on_cluster m ((c, k), w) = (fst (m k), ((c, snd (m k)), w))"
  by (simp add: on_cluster_def split: prod.splits)

lemma run_get_client [simp, go_simps]: "get_client ((c, k), w) = (Ret c, ((c, k), w))"
  by (simp add: get_client_def)

lemma run_set_shadow [simp, go_simps]:
  "set_shadow key v ((c, k), w) = (Ret (), ((c\<lparr>icShadowObjects := (icShadowObjects c)(key := v)\<rparr>, k), w))"
  by (simp add: set_shadow_def)

lemma run_calling [simp, go_simps]:
  "calling cbs f ((c, k), w) = (fst (f (clientCallbacks c cbs) w), ((c, k), snd (f (clientCallbacks c cbs) w)))"
  by (simp add: calling_def)

lemma keeps_on_cluster [keeps_intros]: "preorderp R \<Longrightarrow> keeps (snd_rel R) (on_cluster m)"
  by (auto simp: keeps_def snd_rel_def on_cluster_def preorderp_refl split: prod.splits)

lemma keeps_get_client [keeps_intros]: "preorderp R \<Longrightarrow> keeps (snd_rel R) get_client"
  unfolding get_client_def by (auto intro!: keeps_intros split: prod.splits)

lemma keeps_set_shadow [keeps_intros]: "preorderp R \<Longrightarrow> keeps (snd_rel R) (set_shadow key v)"
  unfolding set_shadow_def by (rule keeps_modify)

lemma callbacks_keep_client:
  "preorderp R \<Longrightarrow> callbacks_keep R cbs ctx \<Longrightarrow> callbacks_keep R (clientCallbacks c cbs) ctx"
  by (simp add: clientCallbacks_def nilCallbacks_def callbacks_keep_def keeps_panic)

lemma keeps_calling:
  assumes "preorderp R" and "callbacks_keep R cbs ctx"
  shows "keeps (snd_rel R) (calling cbs (\<lambda>cb. cbDeleteObject cb ctx oid))"
    "keeps (snd_rel R) (calling cbs (\<lambda>cb. cbGetObject cb ctx oid b))"
    "keeps (snd_rel R) (calling cbs (\<lambda>cb. cbPatchObject cb ctx oid chk p))"
    "keeps (snd_rel R) (calling cbs (\<lambda>cb. cbPutObject cb ctx oid chk ob))"
    "keeps (snd_rel R) (calling cbs (\<lambda>cb. cbVerifyObject cb ctx oid chk))"
  unfolding calling_def
  by (intro keeps_andThen keeps_get_client keeps_on_snd preorderp_snd_rel assms(1)
      callbacks_keepD [OF callbacks_keep_client [OF assms]])+

section \<open>Talking to the API server\<close>

text \<open>\<open>no_op_dynamic_client.go\<close>: what a client for an unknown kind talks to.\<close>

definition dynGet :: "'o kubelib \<Rightarrow> ('o, 'k) kubeapi \<Rightarrow> Client \<Rightarrow> string \<Rightarrow> string \<Rightarrow> ('k, goerror + 'o) go" where
  "dynGet lib api c namespace name =
     (case icDynamicClient c of
        DynamicClient \<Rightarrow> apiGet api False (icKind c) namespace name
      | NoOpDynamicClient \<Rightarrow> ret (Inr (klEmptyObject lib)))"

definition dynList :: "'o kubelib \<Rightarrow> ('o, 'k) kubeapi \<Rightarrow> Client \<Rightarrow> ('k, 'o list \<times> goerror option) go" where
  "dynList lib api c =
     (case icDynamicClient c of
        DynamicClient \<Rightarrow> apiList api False (icKind c)
      | NoOpDynamicClient \<Rightarrow> ret ([klEmptyObject lib], None))"

definition dynCreate :: "('o, 'k) kubeapi \<Rightarrow> Client \<Rightarrow> string \<Rightarrow> 'o \<Rightarrow> ('k, goerror option) go" where
  "dynCreate api c namespace obj =
     (case icDynamicClient c of
        DynamicClient \<Rightarrow> apiCreate api (icKind c) namespace obj
      | NoOpDynamicClient \<Rightarrow> ret None)"

definition dynUpdate :: "('o, 'k) kubeapi \<Rightarrow> Client \<Rightarrow> string \<Rightarrow> 'o \<Rightarrow> ('k, goerror option) go" where
  "dynUpdate api c namespace obj =
     (case icDynamicClient c of
        DynamicClient \<Rightarrow> apiUpdate api (icKind c) namespace obj
      | NoOpDynamicClient \<Rightarrow> ret None)"

definition dynDelete :: "('o, 'k) kubeapi \<Rightarrow> Client \<Rightarrow> string \<Rightarrow> string \<Rightarrow> ('k, goerror option) go" where
  "dynDelete api c namespace name =
     (case icDynamicClient c of
        DynamicClient \<Rightarrow> apiDelete api (icKind c) namespace name
      | NoOpDynamicClient \<Rightarrow> ret None)"

definition storageResources :: "string list" where
  "storageResources = [''applicationprofiles'', ''networkneighborhoods'', ''sbomsyfts'',
     ''seccompprofiles'', ''vulnerabilitymanifests'']"

definition usesStorage :: "Client \<Rightarrow> bool" where
  "usesStorage c \<longleftrightarrow> icStorageClient c \<and> kGroup (icKind c) = kubescapeCustomResourceGroup
     \<and> kResource (icKind c) \<in> set storageResources"

definition chooseLister :: "'o kubelib \<Rightarrow> ('o, 'k) kubeapi \<Rightarrow> Client \<Rightarrow> ('k, 'o list \<times> goerror option) go" where
  "chooseLister lib api c = (if usesStorage c then apiList api True (icKind c) else dynList lib api c)"

definition getResource :: "'o kubelib \<Rightarrow> ('o, 'k) kubeapi \<Rightarrow> Client \<Rightarrow> string \<Rightarrow> string \<Rightarrow> ('k, goerror + 'o) go" where
  "getResource lib api c namespace name =
     (if usesStorage c then apiGet api True (icKind c) namespace name else dynGet lib api c namespace name)"

section \<open>Filters, marshalling, checksums\<close>

definition skipNamespace :: "Client \<Rightarrow> string \<Rightarrow> bool" where
  "skipNamespace c ns =
     (if length (icIncludeNamespaces c) > 0 then ns \<notin> set (icIncludeNamespaces c)
      else if length (icExcludeNamespaces c) > 0 then ns \<in> set (icExcludeNamespaces c)
      else False)"

definition isFiltered :: "'o kubelib \<Rightarrow> Client \<Rightarrow> 'o \<Rightarrow> bool" where
  "isFiltered lib c workload =
     (let namespace = klGetNamespace lib workload in
      if namespace \<noteq> [] \<and> namespace = icOperatorNamespace c then False
      else if namespace \<noteq> [] \<and> skipNamespace c namespace then True
      else hasParent lib workload)"

definition sbomFieldsToRemove :: "string list list" where
  "sbomFieldsToRemove = [[''spec'', ''syft'', ''descriptor''], [''spec'', ''syft'', ''files''],
     [''spec'', ''syft'', ''artifactRelationships'']]"

definition fieldsToRemove :: "string \<rightharpoonup> string list list" where
  "fieldsToRemove = map_of
     [(''default'', []),
      (''/v1/nodes'', [[''status'', ''conditions'']]),
      (''spdx.softwarecomposition.kubescape.io/v1beta1/sbomsyfts'', sbomFieldsToRemove),
      (''spdx.softwarecomposition.kubescape.io/v1beta1/sbomsyftfiltereds'', sbomFieldsToRemove)]"

text \<open>The bytes, and the object as the function leaves it: it works on its argument in place.\<close>

definition filterAndMarshal :: "'o kubelib \<Rightarrow> Client \<Rightarrow> 'o \<Rightarrow> goerror + string \<times> 'o" where
  "filterAndMarshal lib c d =
     (let d = klRemoveManagedFields lib d;
          marshalled = (\<lambda>d. case klMarshal lib d of Inl e \<Rightarrow> Inl e | Inr bytes \<Rightarrow> Inr (bytes, d)) in
      if klIsUnstructured lib d then
        let toRemove = (case fieldsToRemove (Kind_String (icKind c)) of
            Some fs \<Rightarrow> fs
          | None \<Rightarrow> (case fieldsToRemove ''default'' of Some fs \<Rightarrow> fs | None \<Rightarrow> [])) in
        case klRemoveSpecificFields lib d toRemove of
          Inl e \<Rightarrow> Inl (GoWrap ''remove specific fields'' e)
        | Inr d \<Rightarrow>
            (case MaskEnvironmentVariables lib d of
               Inl e \<Rightarrow> Inl (GoWrap ''mask environment variables'' e)
             | Inr d \<Rightarrow> marshalled d)
      else marshalled (klSetGroupVersionKind lib (kGroup (icKind c)) (kVersion (icKind c)) d))"

text \<open>For the storage's own kinds the object is fetched anew; otherwise the given one is used (and changed).\<close>

definition getObjectFromMeta :: "'o kubelib \<Rightarrow> ('o, 'k) kubeapi \<Rightarrow> Client \<Rightarrow> 'o \<Rightarrow> ('k, goerror + string \<times> 'o) go" where
  "getObjectFromMeta lib api c d =
     (if kGroup (icKind c) = kubescapeCustomResourceGroup then
        andThen (getResource lib api c (klGetNamespace lib d) (klGetName lib d)) (\<lambda>r.
        case r of
          Inl e \<Rightarrow> ret (Inl (GoWrap ''get resource'' e))
        | Inr obj \<Rightarrow> ret (case filterAndMarshal lib c obj of Inl e \<Rightarrow> Inl e | Inr (bytes, _) \<Rightarrow> Inr (bytes, d)))
      else ret (filterAndMarshal lib c d))"

definition getChecksum :: "'o kubelib \<Rightarrow> ('o, 'k) kubeapi \<Rightarrow> Client \<Rightarrow> 'o \<Rightarrow> ('k, goerror + string) go" where
  "getChecksum lib api c d =
     (case klAnnotations lib d (klSyncChecksumMetadataKey lib) of
        Some checksum \<Rightarrow> ret (Inr checksum)
      | None \<Rightarrow>
          andThen (getObjectFromMeta lib api c d) (\<lambda>r.
          case r of
            Inl e \<Rightarrow> ret (Inl (GoWrap ''get object'' e))
          | Inr (object, _) \<Rightarrow> ret (wrapError ''calculate checksum'' (jlCanonicalHash (klJson lib) object))))"

end
