(* ===== verification/Incluster_Ops.thy ===== *)
theory Incluster_Ops
  imports Incluster_Client
begin

text \<open>
  The operations of \<open>adapters/incluster/v1/client.go\<close>: sending a put or a patch, the five
  operations the server asks for, the two batch handlers and the loop over watch events.
\<close>

section \<open>Put or patch\<close>

text \<open>
  The regular expression \<open>emptyPatch\<close>: an opening, digits, a closing. \<open>Match\<close> looks for it
  anywhere in the text.
\<close>

definition patchOpening :: string where
  "patchOpening = ''{'' @ [CHR 0x22] @ ''metadata'' @ [CHR 0x22] @ '':{'' @ [CHR 0x22] @ ''resourceVersion''
     @ [CHR 0x22] @ '':'' @ [CHR 0x22]"

definition patchClosing :: string where
  "patchClosing = [CHR 0x22] @ ''}}''"

definition isDigit :: "char \<Rightarrow> bool" where
  "isDigit ch \<longleftrightarrow> digit_value ch \<noteq> None"

definition emptyPatch_at :: "string \<Rightarrow> bool" where
  "emptyPatch_at s \<longleftrightarrow> strings_HasPrefix s patchOpening \<and>
     (let rest = drop (length patchOpening) s; digits = takeWhile isDigit rest in
      digits \<noteq> [] \<and> strings_HasPrefix (dropWhile isDigit rest) patchClosing)"

fun emptyPatch_Match :: "string \<Rightarrow> bool" where
  "emptyPatch_Match [] = emptyPatch_at []"
| "emptyPatch_Match (ch # s) = (emptyPatch_at (ch # s) \<or> emptyPatch_Match s)"

definition sending :: "string \<Rightarrow> ((Client \<times> 'k) \<times> 'w, goerror option) go \<Rightarrow>
    ((Client \<times> 'k) \<times> 'w, goerror option) go \<Rightarrow> ((Client \<times> 'k) \<times> 'w, goerror option) go" where
  "sending what send afterwards =
     andThen send (\<lambda>err. case err of Some e \<Rightarrow> ret (Some (GoWrap what e)) | None \<Rightarrow> afterwards)"

definition callPutOrPatch :: "'o kubelib \<Rightarrow> 'w Callbacks \<Rightarrow> Context \<Rightarrow> KindName \<Rightarrow> string \<Rightarrow> string \<Rightarrow> string \<Rightarrow>
    ((Client \<times> 'k) \<times> 'w, goerror option) go" where
  "callPutOrPatch lib cbs ctx oid checksum baseObject newObject =
     andThen get_client (\<lambda>c.
     let key = KindName_String oid;
         known = andThen (set_shadow key (Some newObject)) (\<lambda>_. ret None)
     in
     if icStrategy c = PatchStrategy then
       andThen (if baseObject \<noteq> [] then set_shadow key (Some baseObject) else ret ()) (\<lambda>_.
       andThen get_client (\<lambda>c.
       case icShadowObjects c key of
         Some oldObject \<Rightarrow>
           orReturn ''create merge patch'' (jlCreateMergePatch (klJson lib) oldObject newObject) (\<lambda>patch.
           if emptyPatch_Match patch then ret None
           else
             orReturn ''verifying patch'' (jlMergePatch (klJson lib) oldObject patch) (\<lambda>mergeResult.
             orReturn ''calculate checksum'' (jlCanonicalHash (klJson lib) mergeResult) (\<lambda>checksum.
             sending ''send patch object'' (calling cbs (\<lambda>cb. cbPatchObject cb ctx oid checksum patch)) known)))
       | None \<Rightarrow> sending ''send put object'' (calling cbs (\<lambda>cb. cbPutObject cb ctx oid checksum newObject)) known))
     else sending ''send put object'' (calling cbs (\<lambda>cb. cbPutObject cb ctx oid checksum newObject)) (ret None))"

definition callVerifyObject :: "'o kubelib \<Rightarrow> 'w Callbacks \<Rightarrow> Context \<Rightarrow> KindName \<Rightarrow> string \<Rightarrow>
    ((Client \<times> 'k) \<times> 'w, goerror option) go" where
  "callVerifyObject lib cbs ctx oid object =
     orReturn ''calculate checksum'' (jlCanonicalHash (klJson lib) object) (\<lambda>checksum.
     sending ''send checksum'' (calling cbs (\<lambda>cb. cbVerifyObject cb ctx oid checksum)) (ret None))"

section \<open>Operations the server asks for\<close>

definition client_DeleteObject :: "('o, 'k) kubeapi \<Rightarrow> 'w Callbacks \<Rightarrow> Context \<Rightarrow> KindName \<Rightarrow>
    ((Client \<times> 'k) \<times> 'w, goerror option) go" where
  "client_DeleteObject api cbs ctx oid =
     andThen get_client (\<lambda>c.
     andThen (if icStrategy c = PatchStrategy then set_shadow (KindName_String oid) None else ret ()) (\<lambda>_.
     on_cluster (dynDelete api c (knNamespace oid) (knName oid))))"

definition client_GetObject :: "'o kubelib \<Rightarrow> ('o, 'k) kubeapi \<Rightarrow> 'w Callbacks \<Rightarrow> Context \<Rightarrow> KindName \<Rightarrow> string \<Rightarrow>
    ((Client \<times> 'k) \<times> 'w, goerror option) go" where
  "client_GetObject lib api cbs ctx oid baseObject =
     andThen get_client (\<lambda>c.
     andThen (on_cluster (getResource lib api c (knNamespace oid) (knName oid))) (\<lambda>r.
     orReturn ''get resource'' r (\<lambda>obj.
     orReturn ''marshal resource'' (filterAndMarshal lib c obj) (\<lambda>(newObject, obj).
     andThen (on_cluster (getChecksum lib api c obj)) (\<lambda>r.
     let checksum = (case r of Inl _ \<Rightarrow> [] | Inr checksum \<Rightarrow> checksum) in
     callPutOrPatch lib cbs ctx oid checksum baseObject newObject)))))"

text \<open>
  The body \<open>RetryOnConflict\<close> runs: the object is in the state beside the cluster, since every
  attempt rewrites its metadata. A type assertion that fails panics.
\<close>

definition updateAttempt :: "'o kubelib \<Rightarrow> ('o, 'k) kubeapi \<Rightarrow> Client \<Rightarrow> string \<Rightarrow> ('o \<times> 'k, goerror option) go" where
  "updateAttempt lib api c namespace =
     andThen get_state (\<lambda>obj.
     andThen (on_snd (dynGet lib api c namespace (klGetName lib obj))) (\<lambda>r.
     case r of
       Inl getErr \<Rightarrow> ret (Some getErr)
     | Inr result \<Rightarrow>
         (case (klObject lib result, klObject lib obj) of
            (JObj resultFields, JObj objFields) \<Rightarrow>
              (case (map_of resultFields ''metadata'', map_of objFields ''metadata'') of
                 (Some (JObj existing), Some (JObj new)) \<Rightarrow>
                   (case klSetNestedField lib (JObj objFields) (JObj (mergeMetadata existing new)) [''metadata''] of
                      Inl e \<Rightarrow> ret (Some (GoWrap ''set nested field'' e))
                    | Inr object \<Rightarrow>
                        andThen (put_state (klSetObject lib object obj)) (\<lambda>_.
                        on_snd (dynUpdate api c namespace (klSetObject lib object obj))))
               | _ \<Rightarrow> panic ''interface conversion'')
          | _ \<Rightarrow> panic ''interface conversion'')))"

definition putCluster :: "'o kubelib \<Rightarrow> ('o, 'k) kubeapi \<Rightarrow> Client \<Rightarrow> KindName \<Rightarrow> string \<Rightarrow> ('k, goerror option) go" where
  "putCluster lib api c oid object =
     orReturn ''unmarshal object'' (klUnmarshalJSON lib object) (\<lambda>obj.
     andThen (dynCreate api c (knNamespace oid) obj) (\<lambda>err.
     case err of
       None \<Rightarrow> ret None
     | Some e \<Rightarrow>
         if apiIsAlreadyExists api e \<or> apiIsForbidden api e then
           (\<lambda>k. case apiRetryOnConflict api (updateAttempt lib api c (knNamespace oid)) (obj, k) of
                  (r, (_, k')) \<Rightarrow> (r, k'))
         else ret (Some (GoWrap ''apply resource'' e))))"

definition client_PutObject :: "'o kubelib \<Rightarrow> ('o, 'k) kubeapi \<Rightarrow> 'w Callbacks \<Rightarrow> Context \<Rightarrow> KindName \<Rightarrow> string \<Rightarrow>
    string \<Rightarrow> ((Client \<times> 'k) \<times> 'w, goerror option) go" where
  "client_PutObject lib api cbs ctx oid checksum object =
     andThen get_client (\<lambda>c. on_cluster (putCluster lib api c oid object))"

text \<open>The unexported \<open>patchObject\<close>: the base object to ask with, and the error.\<close>

definition client_patchObject :: "'o kubelib \<Rightarrow> ('o, 'k) kubeapi \<Rightarrow> 'w Callbacks \<Rightarrow> Context \<Rightarrow> KindName \<Rightarrow> string \<Rightarrow>
    string \<Rightarrow> ((Client \<times> 'k) \<times> 'w, string \<times> goerror option) go" where
  "client_patchObject lib api cbs ctx oid checksum patch =
     andThen get_client (\<lambda>c.
     if icStrategy c \<noteq> PatchStrategy then
       andThen (derefKind (knKind oid)) (\<lambda>kind.
       ret ([], Some (GoError (''patch strategy not enabled for resource '' @ Kind_String kind))))
     else
       andThen (on_cluster (getResource lib api c (knNamespace oid) (knName oid))) (\<lambda>r.
       case r of
         Inl e \<Rightarrow> ret ([], Some (GoWrap ''get resource'' e))
       | Inr obj \<Rightarrow>
           (case filterAndMarshal lib c obj of
              Inl e \<Rightarrow> ret ([], Some (GoWrap ''marshal resource'' e))
            | Inr (object, _) \<Rightarrow>
                (case jlMergePatch (klJson lib) object patch of
                   Inl e \<Rightarrow> ret (object, Some (GoWrap ''apply patch'' e))
                 | Inr modified \<Rightarrow>
                     (case jlCanonicalHash (klJson lib) modified of
                        Inl e \<Rightarrow> ret (object, Some (GoWrap ''calculate checksum'' e))
                      | Inr newChecksum \<Rightarrow>
                          if newChecksum \<noteq> checksum then
                            ret (object, Some (GoError (''checksum mismatch: '' @ newChecksum @ '' != '' @ checksum)))
                          else
                            andThen (set_shadow (KindName_String oid) (Some modified)) (\<lambda>_.
                            andThen (client_PutObject lib api cbs ctx oid checksum modified) (\<lambda>err.
                            ret (object, err))))))))"

definition client_PatchObject :: "'o kubelib \<Rightarrow> ('o, 'k) kubeapi \<Rightarrow> 'w Callbacks \<Rightarrow> Context \<Rightarrow> KindName \<Rightarrow> string \<Rightarrow>
    string \<Rightarrow> ((Client \<times> 'k) \<times> 'w, goerror option) go" where
  "client_PatchObject lib api cbs ctx oid checksum patch =
     andThen (client_patchObject lib api cbs ctx oid checksum patch) (\<lambda>(baseObject, err).
     if err \<noteq> None then calling cbs (\<lambda>cb. cbGetObject cb ctx oid baseObject) else ret None)"

definition client_verifyObject :: "'o kubelib \<Rightarrow> ('o, 'k) kubeapi \<Rightarrow> Client \<Rightarrow> KindName \<Rightarrow> string \<Rightarrow>
    ('k, string \<times> goerror option) go" where
  "client_verifyObject lib api c oid newChecksum =
     andThen (getResource lib api c (knNamespace oid) (knName oid)) (\<lambda>r.
     case r of
       Inl e \<Rightarrow> ret ([], Some (GoWrap ''get resource'' e))
     | Inr obj \<Rightarrow>
         (case filterAndMarshal lib c obj of
            Inl e \<Rightarrow> ret ([], Some (GoWrap ''marshal resource'' e))
          | Inr (object, _) \<Rightarrow>
              (case jlCanonicalHash (klJson lib) object of
                 Inl e \<Rightarrow> ret (object, Some (GoWrap ''calculate checksum'' e))
               | Inr checksum \<Rightarrow>
                   if checksum \<noteq> newChecksum then
                     ret (object, Some (GoError (''checksum mismatch: '' @ newChecksum @ '' != '' @ checksum)))
                   else ret (object, None))))"

definition client_VerifyObject :: "'o kubelib \<Rightarrow> ('o, 'k) kubeapi \<Rightarrow> 'w Callbacks \<Rightarrow> Context \<Rightarrow> KindName \<Rightarrow> string \<Rightarrow>
    ((Client \<times> 'k) \<times> 'w, goerror option) go" where
  "client_VerifyObject lib api cbs ctx oid newChecksum =
     andThen get_client (\<lambda>c.
     andThen (on_cluster (client_verifyObject lib api c oid newChecksum)) (\<lambda>(baseObject, err).
     if err \<noteq> None then calling cbs (\<lambda>cb. cbGetObject cb ctx oid baseObject) else ret None))"

section \<open>Batches\<close>

text \<open>The maps by namespace and name; a later entry for the same key replaces an earlier one.\<close>

definition objKey :: "string \<Rightarrow> string \<Rightarrow> string" where
  "objKey namespace name = namespace @ ''/'' @ name"

definition clientItemsOf :: "'o kubelib \<Rightarrow> 'o list \<Rightarrow> (string \<times> 'o) list" where
  "clientItemsOf lib objs = map (\<lambda>item. (objKey (klGetNamespace lib item) (klGetName lib item), item)) objs"

definition serverItemsOf :: "NewChecksum list \<Rightarrow> (string \<times> NewChecksum) list" where
  "serverItemsOf items = map (\<lambda>item. (objKey (chkNamespace item) (chkName item), item)) items"

definition lastOf :: "(string \<times> 'a) list \<Rightarrow> string \<rightharpoonup> 'a" where
  "lastOf kvs = map_of (rev kvs)"

definition keySet :: "(string \<times> 'a) list \<Rightarrow> string list" where
  "keySet kvs = remdups (map fst kvs)"

text \<open>The three loops; a turn that ends with \<open>continue\<close> appends nothing.\<close>

definition reconcileDelete :: "'w Callbacks \<Rightarrow> Context \<Rightarrow> Client \<Rightarrow> (string \<rightharpoonup> NewChecksum) \<Rightarrow> string \<Rightarrow>
    ((Client \<times> 'k) \<times> 'w, goerror option) go" where
  "reconcileDelete cbs ctx c serverItems k =
     (let item = (case serverItems k of Some item \<Rightarrow> item | None \<Rightarrow> zero_NewChecksum) in
      andThen (derefKind (chkKind item)) (\<lambda>_.
      calling cbs (\<lambda>cb. cbDeleteObject cb ctx
        (itemId (icKind c) (chkName item) (chkNamespace item) (chkResourceVersion item)))))"

definition reconcileCommon :: "'o kubelib \<Rightarrow> ('o, 'k) kubeapi \<Rightarrow> 'w Callbacks \<Rightarrow> Context \<Rightarrow> Client \<Rightarrow>
    (string \<rightharpoonup> NewChecksum) \<Rightarrow> (string \<rightharpoonup> 'o) \<Rightarrow> string \<Rightarrow> ((Client \<times> 'k) \<times> 'w, goerror option) go" where
  "reconcileCommon lib api cbs ctx c serverItems clientItems k =
     (case (serverItems k, clientItems k) of
        (Some item, Some resource) \<Rightarrow>
          andThen (derefKind (chkKind item)) (\<lambda>_.
          let currentVersion = ToResourceVersion (klGetResourceVersion lib resource) in
          if currentVersion = chkResourceVersion item then ret None
          else
            andThen (on_cluster (getObjectFromMeta lib api c resource)) (\<lambda>r.
            orReturn ''marshal resource'' r (\<lambda>(newObject, resource).
            andThen (on_cluster (getChecksum lib api c resource)) (\<lambda>r.
            orReturn ''get checksum'' r (\<lambda>checksum.
            calling cbs (\<lambda>cb. cbPutObject cb ctx
              (itemId (icKind c) (chkName item) (chkNamespace item) (chkResourceVersion item))
              checksum newObject))))))
      | _ \<Rightarrow> panic ''nil pointer dereference'')"

definition reconcileMissing :: "'o kubelib \<Rightarrow> 'w Callbacks \<Rightarrow> Context \<Rightarrow> Client \<Rightarrow> (string \<rightharpoonup> 'o) \<Rightarrow> string \<Rightarrow>
    ((Client \<times> 'k) \<times> 'w, goerror option) go" where
  "reconcileMissing lib cbs ctx c clientItems k =
     (case clientItems k of
        Some item \<Rightarrow>
          if isFiltered lib c item then ret None
          else
            let oid = itemId (icKind c) (klGetName lib item) (klGetNamespace lib item)
                  (ToResourceVersion (klGetResourceVersion lib item)) in
            orReturn ''marshal resource'' (filterAndMarshal lib c item) (\<lambda>(newObject, _).
            andThen (set_shadow (KindName_String oid) None) (\<lambda>_.
            callVerifyObject lib cbs ctx oid newObject))
      | None \<Rightarrow> panic ''nil pointer dereference'')"

definition reconcileBatchProcessingFunc :: "'o kubelib \<Rightarrow> ('o, 'k) kubeapi \<Rightarrow> 'w Callbacks \<Rightarrow> Context \<Rightarrow>
    BatchItems \<Rightarrow> ((Client \<times> 'k) \<times> 'w, goerror option) go" where
  "reconcileBatchProcessingFunc lib api cbs ctx items =
     andThen get_client (\<lambda>c.
     if length (itemsNewChecksum items) = 0 then
       ret (Some (GoError (''reconciliation batch ('' @ kResource (icKind c) @
         '') was empty - expected at least one NewChecksum message'')))
     else
       andThen (on_cluster (chooseLister lib api c)) (\<lambda>(objs, err).
       case err of
         Some e \<Rightarrow> ret (Some (GoWrap ''reconciliation: list resources'' e))
       | None \<Rightarrow>
           let clientItems = lastOf (clientItemsOf lib objs);
               clientItemsSet = keySet (clientItemsOf lib objs);
               serverItems = lastOf (serverItemsOf (itemsNewChecksum items));
               serverItemsSet = keySet (serverItemsOf (itemsNewChecksum items))
           in
           andThen (forAppend (klAppend lib) (reconcileDelete cbs ctx c serverItems) None
             (apiToSlice api (filter (\<lambda>k. k \<notin> set clientItemsSet) serverItemsSet))) (\<lambda>err.
           andThen (forAppend (klAppend lib) (reconcileCommon lib api cbs ctx c serverItems clientItems) err
             (apiToSlice api (filter (\<lambda>k. k \<in> set clientItemsSet) serverItemsSet))) (\<lambda>err.
           andThen (forAppend (klAppend lib) (reconcileMissing lib cbs ctx c clientItems) err
             (apiToSlice api (filter (\<lambda>k. k \<notin> set serverItemsSet) clientItemsSet))) (\<lambda>err.
           ret None)))))"

definition defaultBatchProcessingFunc :: "'o kubelib \<Rightarrow> ('o, 'k) kubeapi \<Rightarrow> 'w Callbacks \<Rightarrow> Context \<Rightarrow>
    BatchItems \<Rightarrow> ((Client \<times> 'k) \<times> 'w, goerror option) go" where
  "defaultBatchProcessingFunc lib api cbs ctx items =
     andThen get_client (\<lambda>c.
     batchItemsLoop (klAppend lib) (icKind c) (client_GetObject lib api cbs ctx)
       (client_VerifyObject lib api cbs ctx) (client_DeleteObject api cbs ctx)
       (client_PatchObject lib api cbs ctx) (client_PutObject lib api cbs ctx) items)"

definition client_Batch :: "'o kubelib \<Rightarrow> ('o, 'k) kubeapi \<Rightarrow> 'w Callbacks \<Rightarrow> Context \<Rightarrow> Kind \<Rightarrow> BatchType \<Rightarrow>
    BatchItems \<Rightarrow> ((Client \<times> 'k) \<times> 'w, goerror option) go" where
  "client_Batch lib api cbs ctx kind batchType items =
     (if batchType = DefaultBatch then defaultBatchProcessingFunc lib api cbs ctx items
      else if batchType = ReconciliationBatch then reconcileBatchProcessingFunc lib api cbs ctx items
      else ret (Some (GoError (''batch type '' @ batchType @ '' not supported''))))"

section \<open>Watch events\<close>

datatype watchType = Added | Modified | Deleted | Bookmark | Error

text \<open>
  One turn of the loop in \<open>Start\<close>; the object is absent when it is no \<open>metav1.Object\<close>. The result
  is the error that is logged.
\<close>

definition handleEvent :: "'o kubelib \<Rightarrow> ('o, 'k) kubeapi \<Rightarrow> 'w Callbacks \<Rightarrow> Context \<Rightarrow> watchType \<times> 'o option \<Rightarrow>
    ((Client \<times> 'k) \<times> 'w, goerror option) go" where
  "handleEvent lib api cbs ctx event =
     (case event of
        (_, None) \<Rightarrow> ret None
      | (eventType, Some d) \<Rightarrow>
          andThen get_client (\<lambda>c.
          if isFiltered lib c d then ret None
          else
            let oid = itemId (icKind c) (klGetName lib d) (klGetNamespace lib d)
                  (ToResourceVersion (klGetResourceVersion lib d)) in
            case eventType of
              Added \<Rightarrow>
                andThen (on_cluster (getChecksum lib api c d)) (\<lambda>r.
                orReturn ''cannot get checksum'' r (\<lambda>checksum.
                sending ''cannot handle added resource'' (calling cbs (\<lambda>cb. cbVerifyObject cb ctx oid checksum)) (ret None)))
            | Deleted \<Rightarrow>
                andThen (calling cbs (\<lambda>cb. cbDeleteObject cb ctx oid)) (\<lambda>err.
                andThen (if icStrategy c = PatchStrategy then set_shadow (KindName_String oid) None else ret ()) (\<lambda>_.
                ret (map_option (GoWrap ''cannot handle deleted resource'') err)))
            | Modified \<Rightarrow>
                andThen (on_cluster (getObjectFromMeta lib api c d)) (\<lambda>r.
                orReturn ''cannot get object'' r (\<lambda>(newObject, d).
                andThen (on_cluster (getChecksum lib api c d)) (\<lambda>r.
                let checksum = (case r of Inl _ \<Rightarrow> [] | Inr checksum \<Rightarrow> checksum) in
                sending ''cannot handle modified resource'' (callPutOrPatch lib cbs ctx oid checksum [] newObject) (ret None))))
            | _ \<Rightarrow> ret None))"

definition storageItem :: "'o kubelib \<Rightarrow> ('o, 'k) kubeapi \<Rightarrow> 'w Callbacks \<Rightarrow> Context \<Rightarrow> 'o \<Rightarrow>
    ((Client \<times> 'k) \<times> 'w, goerror option) go" where
  "storageItem lib api cbs ctx d =
     andThen get_client (\<lambda>c.
     let oid = itemId (icKind c) (klGetName lib d) (klGetNamespace lib d)
           (ToResourceVersion (klGetResourceVersion lib d)) in
     andThen (on_cluster (getChecksum lib api c d)) (\<lambda>r.
     case r of
       Inl _ \<Rightarrow> ret None
     | Inr checksum \<Rightarrow> andThen (calling cbs (\<lambda>cb. cbVerifyObject cb ctx oid checksum)) (\<lambda>_. ret None)))"

text \<open>The version to watch from: that of the last object listed.\<close>

definition getExistingStorageObjects :: "'o kubelib \<Rightarrow> ('o, 'k) kubeapi \<Rightarrow> 'w Callbacks \<Rightarrow> Context \<Rightarrow>
    ((Client \<times> 'k) \<times> 'w, goerror + string) go" where
  "getExistingStorageObjects lib api cbs ctx =
     andThen get_client (\<lambda>c.
     andThen (on_cluster (chooseLister lib api c)) (\<lambda>(objs, err).
     andThen (forEach (storageItem lib api cbs ctx) objs) (\<lambda>_.
     ret (case err of
        Some e \<Rightarrow> Inl (GoWrap ''list resources'' e)
      | None \<Rightarrow> Inr (if objs = [] then [] else klGetResourceVersion lib (last objs))))))"

text \<open>The loop over what comes out of the event queue.\<close>

fun eventLoop :: "'o kubelib \<Rightarrow> ('o, 'k) kubeapi \<Rightarrow> 'w Callbacks \<Rightarrow> Context \<Rightarrow> (watchType \<times> 'o option) list \<Rightarrow>
    ((Client \<times> 'k) \<times> 'w, unit) go" where
  "eventLoop lib api cbs ctx [] = ret ()"
| "eventLoop lib api cbs ctx (event # events) =
     andThen (handleEvent lib api cbs ctx event) (\<lambda>_. eventLoop lib api cbs ctx events)"

end
