(* ===== verification/Incluster_Adapter.thy ===== *)
theory Incluster_Adapter
  imports Incluster_Ops
begin

text \<open>
  \<open>adapters/incluster/v1/adapter.go\<close>: one client per configured resource, found by the kind of the
  object; a kind nobody configured gets a client of its own that talks to nothing. The adapter
  meets the contract of \<open>sync_adapter\<close>, so everything the synchronizer promises holds with it.
\<close>

record 'k InCluster =
  iaCfg :: InClusterConfig
  iaStorageClient :: bool
  iaClients :: "string \<rightharpoonup> Client"
  iaCluster :: 'k

definition NewInClusterAdapter :: "InClusterConfig \<Rightarrow> bool \<Rightarrow> 'k \<Rightarrow> 'k InCluster" where
  "NewInClusterAdapter cfg storageClient cluster =
     \<lparr>iaCfg = cfg, iaStorageClient = storageClient, iaClients = Map.empty, iaCluster = cluster\<rparr>"

definition GetClientByKind :: "'k InCluster \<Rightarrow> Kind \<Rightarrow> Client" where
  "GetClientByKind a kind =
     (case iaClients a (Kind_String kind) of
        Some client \<Rightarrow> client
      | None \<Rightarrow> NewClient NoOpDynamicClient False (iaCfg a)
          \<lparr>rsGroup = kGroup kind, rsVersion = kVersion kind, rsResource = kResource kind, rsStrategy = ''copy''\<rparr>)"

text \<open>An operation of the client for a kind; the client is (put) in the map, with its new state.\<close>

definition with_client :: "Kind \<Rightarrow> ((Client \<times> 'k) \<times> 'w, 'a) go \<Rightarrow> ('k InCluster \<times> 'w, 'a) go" where
  "with_client kind m s =
     (case s of (a, w) \<Rightarrow>
        (case m ((GetClientByKind a kind, iaCluster a), w) of
           (r, ((client, cluster), w')) \<Rightarrow>
             (r, (a\<lparr>iaClients := (iaClients a)(Kind_String kind \<mapsto> client), iaCluster := cluster\<rparr>, w'))))"

definition for_object :: "KindName \<Rightarrow> ((Client \<times> 'k) \<times> 'w, goerror option) go \<Rightarrow>
    ('k InCluster \<times> 'w, goerror option) go" where
  "for_object oid m =
     (case knKind oid of
        None \<Rightarrow> ret (Some (GoWrap ''failed to get client for resource <nil>''
                   (GoError (''invalid resource kind. resource name: '' @ knName oid))))
      | Some kind \<Rightarrow> with_client kind m)"

definition ic_DeleteObject :: "('o, 'k) kubeapi \<Rightarrow> 'w Callbacks \<Rightarrow> Context \<Rightarrow> KindName \<Rightarrow>
    ('k InCluster \<times> 'w, goerror option) go" where
  "ic_DeleteObject api cbs ctx oid = for_object oid (client_DeleteObject api cbs ctx oid)"

definition ic_GetObject :: "'o kubelib \<Rightarrow> ('o, 'k) kubeapi \<Rightarrow> 'w Callbacks \<Rightarrow> Context \<Rightarrow> KindName \<Rightarrow> string \<Rightarrow>
    ('k InCluster \<times> 'w, goerror option) go" where
  "ic_GetObject lib api cbs ctx oid baseObject = for_object oid (client_GetObject lib api cbs ctx oid baseObject)"

definition ic_PatchObject :: "'o kubelib \<Rightarrow> ('o, 'k) kubeapi \<Rightarrow> 'w Callbacks \<Rightarrow> Context \<Rightarrow> KindName \<Rightarrow> string \<Rightarrow> string \<Rightarrow>
    ('k InCluster \<times> 'w, goerror option) go" where
  "ic_PatchObject lib api cbs ctx oid checksum patch =
     for_object oid (client_PatchObject lib api cbs ctx oid checksum patch)"

definition ic_PutObject :: "'o kubelib \<Rightarrow> ('o, 'k) kubeapi \<Rightarrow> 'w Callbacks \<Rightarrow> Context \<Rightarrow> KindName \<Rightarrow> string \<Rightarrow> string \<Rightarrow>
    ('k InCluster \<times> 'w, goerror option) go" where
  "ic_PutObject lib api cbs ctx oid checksum object =
     for_object oid (client_PutObject lib api cbs ctx oid checksum object)"

definition ic_VerifyObject :: "'o kubelib \<Rightarrow> ('o, 'k) kubeapi \<Rightarrow> 'w Callbacks \<Rightarrow> Context \<Rightarrow> KindName \<Rightarrow> string \<Rightarrow>
    ('k InCluster \<times> 'w, goerror option) go" where
  "ic_VerifyObject lib api cbs ctx oid checksum = for_object oid (client_VerifyObject lib api cbs ctx oid checksum)"

definition ic_Batch :: "'o kubelib \<Rightarrow> ('o, 'k) kubeapi \<Rightarrow> 'w Callbacks \<Rightarrow> Context \<Rightarrow> Kind \<Rightarrow> BatchType \<Rightarrow> BatchItems \<Rightarrow>
    ('k InCluster \<times> 'w, goerror option) go" where
  "ic_Batch lib api cbs ctx kind batchType items =
     with_client kind (client_Batch lib api cbs ctx kind batchType items)"

text \<open>\<open>Start\<close> registers the clients; the goroutine it starts for each runs \<open>Client.Start\<close>.\<close>

definition registerClient :: "Resource \<Rightarrow> 'k InCluster \<Rightarrow> 'k InCluster" where
  "registerClient r a =
     a\<lparr>iaClients := (iaClients a)(Resource_String r \<mapsto>
       client_RegisterCallbacks (NewClient DynamicClient (iaStorageClient a) (iaCfg a) r))\<rparr>"

definition ic_Start :: "'w Callbacks \<Rightarrow> Context \<Rightarrow> ('k InCluster \<times> 'w, goerror option) go" where
  "ic_Start cbs ctx = andThen (modify (\<lambda>a. fold registerClient (cfgResources (iaCfg a)) a)) (\<lambda>_. ret None)"

definition ic_Stop :: "'w Callbacks \<Rightarrow> Context \<Rightarrow> ('k InCluster \<times> 'w, goerror option) go" where
  [simp]: "ic_Stop cbs ctx = ret None"

definition ic_IsRelated :: "'k InCluster \<Rightarrow> ClientIdentifier \<Rightarrow> bool" where
  "ic_IsRelated a oid \<longleftrightarrow> cfgAccount (iaCfg a) = ciAccount oid \<and> cfgClusterName (iaCfg a) = ciCluster oid"

definition inclusterAdapter :: "'o kubelib \<Rightarrow> ('o, 'k) kubeapi \<Rightarrow> ('k InCluster, 'w) Adapter" where
  "inclusterAdapter lib api = \<lparr>
     adStart = ic_Start,
     adStop = ic_Stop,
     adDeleteObject = ic_DeleteObject api,
     adGetObject = ic_GetObject lib api,
     adPatchObject = ic_PatchObject lib api,
     adPutObject = ic_PutObject lib api,
     adVerifyObject = ic_VerifyObject lib api,
     adBatch = ic_Batch lib api\<rparr>"

text \<open>Every client is related to the same account and cluster as the adapter, and found under its kind.\<close>

lemma ic_Start_clients:
  fixes a :: "'k InCluster"
  assumes "r \<in> set (cfgResources (iaCfg a))"
  obtains a' c where "ic_Start cbs ctx (a, w) = (Ret None, (a', w))" and "iaClients a' (Resource_String r) = Some c"
    and "Kind_String (icKind c) = Resource_String r" and "icCallbacks c" and "client_IsRelated c = ic_IsRelated a"
proof -
  define known where "known b k \<longleftrightarrow> (\<exists>c. iaClients b k = Some c \<and> Kind_String (icKind c) = k \<and> icCallbacks c
    \<and> client_IsRelated c = ic_IsRelated a)" for b :: "'k InCluster" and k
  have "iaCfg b = iaCfg a \<Longrightarrow> r \<in> set rs \<or> known b (Resource_String r) \<Longrightarrow>
      known (fold registerClient rs b) (Resource_String r)" for rs and b :: "'k InCluster"
  proof (induction rs arbitrary: b)
    case (Cons x rs)
    have "known (registerClient x b) (Resource_String x)"
      using Cons.prems(1)
      by (auto simp: known_def registerClient_def NewClient_def Kind_String_def Resource_String_def client_IsRelated_def
          ic_IsRelated_def fun_eq_iff)
    then have "known (registerClient x b) (Resource_String r)" if "x = r \<or> known b (Resource_String r)"
      using that by (cases "Resource_String x = Resource_String r") (auto simp: known_def registerClient_def)
    then show ?case using Cons.IH [of "registerClient x b"] Cons.prems by (auto simp: registerClient_def)
  qed simp
  from this [OF refl] assms have "known (fold registerClient (cfgResources (iaCfg a)) a) (Resource_String r)" by blast
  then show thesis using that unfolding known_def by (auto simp: ic_Start_def)
qed

section \<open>The clients act on the connection through their callbacks only\<close>

lemma keeps_sending [keeps_intros]:
  "preorderp R \<Longrightarrow> keeps (snd_rel R) m \<Longrightarrow> keeps (snd_rel R) n \<Longrightarrow> keeps (snd_rel R) (sending what m n)"
  unfolding sending_def by (auto intro!: keeps_intros split: option.splits)

lemma keeps_callPutOrPatch:
  assumes "preorderp R" and "callbacks_keep R cbs ctx"
  shows "keeps (snd_rel R) (callPutOrPatch lib cbs ctx oid chk base new)"
  unfolding callPutOrPatch_def Let_def
  by (auto intro!: keeps_intros keeps_calling assms split: option.splits)

lemma keeps_callVerifyObject:
  assumes "preorderp R" and "callbacks_keep R cbs ctx"
  shows "keeps (snd_rel R) (callVerifyObject lib cbs ctx oid ob)"
  unfolding callVerifyObject_def by (auto intro!: keeps_intros keeps_calling assms)

lemma keeps_client_ops:
  assumes "preorderp R" and "callbacks_keep R cbs ctx"
  shows "keeps (snd_rel R) (client_DeleteObject api cbs ctx oid)"
    "keeps (snd_rel R) (client_GetObject lib api cbs ctx oid b)"
    "keeps (snd_rel R) (client_PutObject lib api cbs ctx oid chk ob)"
    "keeps (snd_rel R) (client_VerifyObject lib api cbs ctx oid chk)"
  unfolding client_DeleteObject_def client_GetObject_def client_PutObject_def client_VerifyObject_def
  by (auto intro!: keeps_intros keeps_calling keeps_callPutOrPatch assms split: prod.splits)

lemma keeps_client_PatchObject:
  assumes "preorderp R" and "callbacks_keep R cbs ctx"
  shows "keeps (snd_rel R) (client_PatchObject lib api cbs ctx oid chk p)"
  unfolding client_PatchObject_def client_patchObject_def
  by (auto intro!: keeps_intros keeps_derefKind keeps_calling keeps_client_ops assms
      split: prod.splits sum.splits)

lemma keeps_reconcile_steps:
  assumes "preorderp R" and "callbacks_keep R cbs ctx"
  shows "keeps (snd_rel R) (reconcileDelete cbs ctx c si k)"
    "keeps (snd_rel R) (reconcileCommon lib api cbs ctx c si ci k)"
    "keeps (snd_rel R) (reconcileMissing lib cbs ctx c ci k)"
  unfolding reconcileDelete_def reconcileCommon_def reconcileMissing_def Let_def
  by (auto intro!: keeps_intros keeps_derefKind keeps_calling keeps_callVerifyObject assms
      split: prod.splits option.splits)

lemma keeps_client_Batch:
  assumes "preorderp R" and "callbacks_keep R cbs ctx"
  shows "keeps (snd_rel R) (client_Batch lib api cbs ctx kind bt items)"
  unfolding client_Batch_def defaultBatchProcessingFunc_def reconcileBatchProcessingFunc_def Let_def
  by (auto intro!: keeps_intros keeps_batchItemsLoop keeps_client_ops keeps_client_PatchObject
      keeps_reconcile_steps assms split: prod.splits option.splits)

lemma keeps_with_client [keeps_intros]:
  assumes "keeps (snd_rel R) m"
  shows "keeps (snd_rel R) (with_client kind m)"
proof (rule keepsI)
  fix s :: "'a InCluster \<times> 'b"
  obtain a w where s: "s = (a, w)" by (cases s)
  show "snd_rel R s (snd (with_client kind m s))"
    using keepsD [OF assms, of "((GetClientByKind a kind, iaCluster a), w)"]
    by (auto simp: s with_client_def snd_rel_def split: prod.splits)
qed

lemma keeps_for_object [keeps_intros]:
  "preorderp R \<Longrightarrow> keeps (snd_rel R) m \<Longrightarrow> keeps (snd_rel R) (for_object oid m)"
  unfolding for_object_def by (auto intro!: keeps_intros split: option.splits)

interpretation incluster: sync_adapter "inclusterAdapter lib api"
  by unfold_locales
    (simp_all add: inclusterAdapter_def ic_DeleteObject_def ic_GetObject_def ic_PatchObject_def
      ic_PutObject_def ic_VerifyObject_def ic_Batch_def keeps_for_object keeps_with_client
      keeps_client_ops keeps_client_PatchObject keeps_client_Batch)

interpretation incluster_end: sync_adapters "[inclusterAdapter lib api]"
  by (rule sync_adapters.intro) (simp add: incluster.sync_adapter_axioms)

end
