(* ===== verification/Incluster_Reconcile.thy ===== *)
theory Incluster_Reconcile
  imports Incluster_Adapter
begin

text \<open>
  What a reconciliation batch does, as a specification: the list of calls the client owes the
  server for a listing of the cluster and the server's items. The loops of
  \<open>reconcileBatchProcessingFunc\<close> are shown to make exactly these calls. This is for the kinds the
  API server lists in full; the storage's own kinds are fetched again one by one.
\<close>

section \<open>Specification\<close>

definition checksumOf :: "'o kubelib \<Rightarrow> Client \<Rightarrow> 'o \<Rightarrow> goerror + string" where
  "checksumOf lib c d =
     (case klAnnotations lib d (klSyncChecksumMetadataKey lib) of
        Some checksum \<Rightarrow> Inr checksum
      | None \<Rightarrow>
          (case filterAndMarshal lib c d of
             Inl e \<Rightarrow> Inl (GoWrap ''get object'' e)
           | Inr (object, _) \<Rightarrow> wrapError ''calculate checksum'' (jlCanonicalHash (klJson lib) object)))"

definition serverId :: "Client \<Rightarrow> NewChecksum \<Rightarrow> KindName" where
  "serverId c item = itemId (icKind c) (chkName item) (chkNamespace item) (chkResourceVersion item)"

definition clientId :: "'o kubelib \<Rightarrow> Client \<Rightarrow> 'o \<Rightarrow> KindName" where
  "clientId lib c d = itemId (icKind c) (klGetName lib d) (klGetNamespace lib d)
     (ToResourceVersion (klGetResourceVersion lib d))"

text \<open>An object both sides have is sent when the versions differ.\<close>

definition commonCalls :: "'o kubelib \<Rightarrow> Client \<Rightarrow> NewChecksum \<Rightarrow> 'o \<Rightarrow> syncCall list" where
  "commonCalls lib c item d =
     (if ToResourceVersion (klGetResourceVersion lib d) = chkResourceVersion item then []
      else case filterAndMarshal lib c d of
        Inl _ \<Rightarrow> []
      | Inr (object, d') \<Rightarrow>
          (case checksumOf lib c d' of Inl _ \<Rightarrow> [] | Inr checksum \<Rightarrow> [CallPut (serverId c item) checksum object]))"

text \<open>An object only the cluster has is announced by its checksum, unless it is filtered.\<close>

definition missingCalls :: "'o kubelib \<Rightarrow> Client \<Rightarrow> 'o \<Rightarrow> syncCall list" where
  "missingCalls lib c d =
     (if isFiltered lib c d then []
      else case filterAndMarshal lib c d of
        Inl _ \<Rightarrow> []
      | Inr (object, _) \<Rightarrow>
          (case jlCanonicalHash (klJson lib) object of
             Inl _ \<Rightarrow> []
           | Inr checksum \<Rightarrow> [CallVerify (clientId lib c d) checksum]))"

definition serverOnly :: "'o kubelib \<Rightarrow> 'o list \<Rightarrow> NewChecksum list \<Rightarrow> string list" where
  "serverOnly lib objs items =
     filter (\<lambda>k. k \<notin> set (keySet (clientItemsOf lib objs))) (keySet (serverItemsOf items))"

definition inBoth :: "'o kubelib \<Rightarrow> 'o list \<Rightarrow> NewChecksum list \<Rightarrow> string list" where
  "inBoth lib objs items =
     filter (\<lambda>k. k \<in> set (keySet (clientItemsOf lib objs))) (keySet (serverItemsOf items))"

definition clientOnly :: "'o kubelib \<Rightarrow> 'o list \<Rightarrow> NewChecksum list \<Rightarrow> string list" where
  "clientOnly lib objs items =
     filter (\<lambda>k. k \<notin> set (keySet (serverItemsOf items))) (keySet (clientItemsOf lib objs))"

definition reconcile_plan :: "'o kubelib \<Rightarrow> (string list \<Rightarrow> string list) \<Rightarrow> Client \<Rightarrow> 'o list \<Rightarrow>
    NewChecksum list \<Rightarrow> syncCall list" where
  "reconcile_plan lib toSlice c objs items =
     (let cl = lastOf (clientItemsOf lib objs); sv = lastOf (serverItemsOf items) in
      concat (map (\<lambda>k. [CallDelete (serverId c (the (sv k)))]) (toSlice (serverOnly lib objs items))) @
      concat (map (\<lambda>k. commonCalls lib c (the (sv k)) (the (cl k))) (toSlice (inBoth lib objs items))) @
      concat (map (\<lambda>k. missingCalls lib c (the (cl k))) (toSlice (clientOnly lib objs items))))"

section \<open>Loops that record\<close>

text \<open>Callbacks that take every call, and a log of what they were given, as \<open>enc\<close> writes it.\<close>

definition takes :: "'w Callbacks \<Rightarrow> Context \<Rightarrow> ('w \<Rightarrow> 'e list) \<Rightarrow> (syncCall \<Rightarrow> 'e) \<Rightarrow> bool" where
  "takes cbs ctx log enc \<longleftrightarrow>
     (\<forall>c w. call_kind c \<noteq> None \<longrightarrow> (\<exists>w'. callBack cbs ctx c w = (Ret None, w') \<and> log w' = log w @ [enc c]))"

lemma takesD:
  "takes cbs ctx log enc \<Longrightarrow> call_kind c = Some kd \<Longrightarrow>
     \<exists>w'. callBack cbs ctx c w = (Ret None, w') \<and> log w' = log w @ [enc c]"
  unfolding takes_def by simp

lemma takes_choice:
  assumes "takes cbs ctx log enc" and "\<And>x. call_kind (f x) \<noteq> None"
  shows "\<exists>v. \<forall>x. callBack cbs ctx (f x) w = (Ret None, v x) \<and> log (v x) = log w @ [enc (f x)]"
  by (rule choice) (use assms in \<open>simp add: takes_def\<close>)

lemma recorder_takes: "takes recorder ctx (\<lambda>w. w) (Pair ctx)"
proof -
  have "callBack recorder ctx c w = (Ret None, w @ [(ctx, c)])" for c w by (cases c) simp_all
  then show ?thesis by (simp add: takes_def)
qed

text \<open>Without the reference objects of some keys.\<close>

definition drop_shadows :: "string set \<Rightarrow> Client \<times> 'k \<Rightarrow> Client \<times> 'k" where
  "drop_shadows K s = ((fst s)\<lparr>icShadowObjects := icShadowObjects (fst s) |` (- K)\<rparr>, snd s)"

lemma drop_shadows_simps [simp]:
  "drop_shadows {} s = s" "drop_shadows K (drop_shadows L s) = drop_shadows (L \<union> K) s"
  by (cases s; simp add: drop_shadows_def restrict_map_def fun_eq_iff)+

lemma drop_shadows_one: "drop_shadows {key} (c, k) = (c\<lparr>icShadowObjects := (icShadowObjects c)(key := None)\<rparr>, k)"
  by (simp add: drop_shadows_def restrict_complement_singleton_eq)

text \<open>The parts of the state the loops leave alone: everything but the shadow objects.\<close>

definition same_client :: "Client \<Rightarrow> 'k \<Rightarrow> Client \<times> 'k \<Rightarrow> bool" where
  "same_client c k s \<longleftrightarrow> (\<exists>sh. s = (c\<lparr>icShadowObjects := sh\<rparr>, k))"

lemma same_client_drop [simp]: "same_client c k s \<Longrightarrow> same_client c k (drop_shadows K s)"
  by (auto simp: same_client_def drop_shadows_def)

lemma same_client_refl: "same_client c k (c, k)"
  unfolding same_client_def by (rule exI [of _ "icShadowObjects c"]) simp

text \<open>Code that returns a value in \<open>V\<close>, makes exactly the calls \<open>cs\<close> and drops the reference objects of \<open>K\<close>.\<close>

definition records :: "(Client \<times> 'k \<Rightarrow> bool) \<Rightarrow> ('w \<Rightarrow> 'e list) \<Rightarrow> (syncCall \<Rightarrow> 'e) \<Rightarrow> ((Client \<times> 'k) \<times> 'w, 'a) go \<Rightarrow>
    syncCall list \<Rightarrow> string set \<Rightarrow> ('a \<Rightarrow> bool) \<Rightarrow> bool" where
  "records I log enc m cs K V \<longleftrightarrow>
     (\<forall>s w. I s \<longrightarrow> (\<exists>a w'. m (s, w) = (Ret a, (drop_shadows K s, w')) \<and> log w' = log w @ map enc cs \<and> V a))"

lemma recordsD:
  assumes "records I log enc m cs K V" and "I s"
  obtains a w' where "m (s, w) = (Ret a, (drop_shadows K s, w'))" "log w' = log w @ map enc cs" "V a"
  using assms unfolding records_def by blast

lemma records_ret: "V a \<Longrightarrow> records I log enc (ret a) [] {} V"
  by (simp add: records_def)

lemma records_andThen:
  assumes "records (same_client c k) log enc m cs K V" and "\<And>a. V a \<Longrightarrow> records (same_client c k) log enc (f a) ds L U"
  shows "records (same_client c k) log enc (andThen m f) (cs @ ds) (K \<union> L) U"
  unfolding records_def
proof (intro allI impI)
  fix s w
  assume s: "same_client c k s"
  obtain a v where m: "m (s, w) = (Ret a, (drop_shadows K s, v))" and v: "log v = log w @ map enc cs" "V a"
    by (rule recordsD [OF assms(1) s, where w = w])
  obtain b v' where "f a (drop_shadows K s, v) = (Ret b, (drop_shadows L (drop_shadows K s), v'))"
    "log v' = log v @ map enc ds" "U b" by (rule recordsD [OF assms(2) [OF v(2)] same_client_drop [OF s], where w = v])
  then show "\<exists>b w'. andThen m f (s, w) = (Ret b, (drop_shadows (K \<union> L) s, w')) \<and> log w' = log w @ map enc (cs @ ds) \<and> U b"
    using m v by simp
qed

lemma records_forAppend:
  assumes "\<And>x. x \<in> set xs \<Longrightarrow> records (same_client c k) log enc (f x) (cs x) (K x) (\<lambda>_. True)"
  shows "records (same_client c k) log enc (forAppend app f err xs) (concat (map cs xs)) (\<Union>x \<in> set xs. K x) (\<lambda>_. True)"
  using assms
  by (induction xs arbitrary: err) (auto intro: records_ret intro!: records_andThen)

lemma keySet_lastOf: "k \<in> set (keySet kvs) \<longleftrightarrow> (\<exists>v. lastOf kvs k = Some v)"
  by (auto simp: keySet_def lastOf_def map_of_eq_None_iff simp flip: not_None_eq)

lemma lastOf_in: "lastOf kvs k = Some v \<Longrightarrow> (k, v) \<in> set kvs"
  by (auto simp: lastOf_def dest!: map_of_SomeD)

lemma getObjectFromMeta_listed:
  "kGroup (icKind c) \<noteq> kubescapeCustomResourceGroup \<Longrightarrow> getObjectFromMeta lib api c d = ret (filterAndMarshal lib c d)"
  by (simp add: getObjectFromMeta_def)

lemma getChecksum_listed:
  "kGroup (icKind c) \<noteq> kubescapeCustomResourceGroup \<Longrightarrow> getChecksum lib api c d = ret (checksumOf lib c d)"
  by (auto simp: getChecksum_def checksumOf_def getObjectFromMeta_def split: option.splits sum.splits)

lemma reconcileDelete_records:
  assumes "takes cbs ctx log enc" and "icCallbacks c" and "sv key = Some item" and "chkKind item = Some kd"
  shows "records (same_client c k) log enc (reconcileDelete cbs ctx c sv key)
     [CallDelete (serverId c (the (sv key)))] {} (\<lambda>_. True)"
  unfolding records_def
proof (intro allI impI)
  fix s w
  assume "same_client c k s"
  moreover have "\<exists>w'. callBack cbs ctx (CallDelete (serverId c item)) w = (Ret None, w')
    \<and> log w' = log w @ [enc (CallDelete (serverId c item))]"
    by (rule takesD [OF assms(1)]) (simp add: serverId_def itemId_def)
  ultimately show "\<exists>a w'. reconcileDelete cbs ctx c sv key (s, w) = (Ret a, (drop_shadows {} s, w'))
      \<and> log w' = log w @ map enc [CallDelete (serverId c (the (sv key)))] \<and> True"
    using assms(2-) by (auto simp: reconcileDelete_def same_client_def derefKind_def clientCallbacks_def serverId_def)
qed

lemma reconcileCommon_records:
  assumes "takes cbs ctx log enc" and "icCallbacks c" and "sv key = Some item" and "chkKind item = Some kd"
    and "cl key = Some d" and "kGroup (icKind c) \<noteq> kubescapeCustomResourceGroup"
  shows "records (same_client c k) log enc (reconcileCommon lib api cbs ctx c sv cl key)
     (commonCalls lib c (the (sv key)) (the (cl key))) {} (\<lambda>_. True)"
  unfolding records_def
proof (intro allI impI)
  fix s w
  assume "same_client c k s"
  moreover obtain v where "callBack cbs ctx (CallPut (serverId c item) chk ob) w = (Ret None, v chk ob)"
    "log (v chk ob) = log w @ [enc (CallPut (serverId c item) chk ob)]" for chk ob
    using takes_choice [OF assms(1), of "\<lambda>(chk, ob). CallPut (serverId c item) chk ob" w]
    by (auto simp: serverId_def itemId_def)
  ultimately show "\<exists>a w'. reconcileCommon lib api cbs ctx c sv cl key (s, w) = (Ret a, (drop_shadows {} s, w'))
      \<and> log w' = log w @ map enc (commonCalls lib c (the (sv key)) (the (cl key))) \<and> True"
    using assms(2-)
    by (auto simp: reconcileCommon_def derefKind_def getObjectFromMeta_listed getChecksum_listed
        commonCalls_def clientCallbacks_def serverId_def same_client_def split: sum.splits)
qed

text \<open>The objects that are announced lose their reference object.\<close>

definition announced :: "'o kubelib \<Rightarrow> Client \<Rightarrow> 'o \<Rightarrow> string set" where
  "announced lib c d =
     (if isFiltered lib c d \<or> isl (filterAndMarshal lib c d) then {} else {KindName_String (clientId lib c d)})"

lemma reconcileMissing_records:
  assumes "takes cbs ctx log enc" and "icCallbacks c" and "cl key = Some d"
  shows "records (same_client c k) log enc (reconcileMissing lib cbs ctx c cl key)
     (missingCalls lib c (the (cl key))) (announced lib c (the (cl key))) (\<lambda>_. True)"
  unfolding records_def
proof (intro allI impI)
  fix s w
  assume "same_client c k s"
  moreover obtain v where "callBack cbs ctx (CallVerify (clientId lib c d) chk) w = (Ret None, v chk)"
    "log (v chk) = log w @ [enc (CallVerify (clientId lib c d) chk)]" for chk
    using takes_choice [OF assms(1), of "\<lambda>chk. CallVerify (clientId lib c d) chk" w]
    by (auto simp: clientId_def itemId_def)
  ultimately show "\<exists>a w'. reconcileMissing lib cbs ctx c cl key (s, w) = (Ret a, (drop_shadows (announced lib c (the (cl key))) s, w'))
      \<and> log w' = log w @ map enc (missingCalls lib c (the (cl key))) \<and> True"
    using assms(2-)
    by (auto simp: reconcileMissing_def callVerifyObject_def sending_def missingCalls_def Let_def
        clientCallbacks_def clientId_def same_client_def announced_def drop_shadows_one split: sum.splits)
qed

section \<open>The loops implement the specification\<close>

definition slice_contract :: "(string list \<Rightarrow> string list) \<Rightarrow> bool" where
  "slice_contract toSlice \<longleftrightarrow> (\<forall>xs. distinct xs \<longrightarrow> distinct (toSlice xs) \<and> set (toSlice xs) = set xs)"

lemma slice_set:
  assumes "slice_contract toSlice"
  shows "set (toSlice (serverOnly lib objs items)) = set (serverOnly lib objs items)"
    "set (toSlice (inBoth lib objs items)) = set (inBoth lib objs items)"
    "set (toSlice (clientOnly lib objs items)) = set (clientOnly lib objs items)"
  using assms by (simp_all add: slice_contract_def serverOnly_def inBoth_def clientOnly_def keySet_def)

lemma plan_keys:
  assumes "slice_contract toSlice"
  shows "k \<in> set (toSlice (serverOnly lib objs items)) \<Longrightarrow> \<exists>item. lastOf (serverItemsOf items) k = Some item"
    "k \<in> set (toSlice (inBoth lib objs items)) \<Longrightarrow>
      \<exists>item d. lastOf (serverItemsOf items) k = Some item \<and> lastOf (clientItemsOf lib objs) k = Some d"
    "k \<in> set (toSlice (clientOnly lib objs items)) \<Longrightarrow> \<exists>d. lastOf (clientItemsOf lib objs) k = Some d"
  using slice_set [OF assms, of lib objs items]
  by (auto simp: serverOnly_def inBoth_def clientOnly_def keySet_lastOf)

lemma serverItem_kind:
  assumes "\<forall>item \<in> set items. chkKind item \<noteq> None" and "lastOf (serverItemsOf items) k = Some item"
  shows "\<exists>kd. chkKind item = Some kd"
  using assms(1) lastOf_in [OF assms(2)] by (auto simp: serverItemsOf_def)

text \<open>What the loops drop: the reference objects of what only the cluster has.\<close>

definition planDrops :: "'o kubelib \<Rightarrow> Client \<Rightarrow> 'o list \<Rightarrow> NewChecksum list \<Rightarrow> string set" where
  "planDrops lib c objs items =
     (\<Union>k \<in> set (clientOnly lib objs items). announced lib c (the (lastOf (clientItemsOf lib objs) k)))"

lemma reconcile_loops_record:
  fixes lib :: "'o kubelib" and objs :: "'o list"
  assumes cbs: "takes cbs ctx log enc" and c: "icCallbacks c" "kGroup (icKind c) \<noteq> kubescapeCustomResourceGroup"
    and kinds: "\<forall>item \<in> set items. chkKind item \<noteq> None" and sl: "slice_contract toSlice"
  defines "sv \<equiv> lastOf (serverItemsOf items)" and "cl \<equiv> lastOf (clientItemsOf lib objs)"
  shows "records (same_client c k) log enc
     (andThen (forAppend app (reconcileDelete cbs ctx c sv) None (toSlice (serverOnly lib objs items))) (\<lambda>err.
      andThen (forAppend app (reconcileCommon lib api cbs ctx c sv cl) err (toSlice (inBoth lib objs items))) (\<lambda>err.
      andThen (forAppend app (reconcileMissing lib cbs ctx c cl) err (toSlice (clientOnly lib objs items))) (\<lambda>err.
      ret (None :: goerror option)))))
     (reconcile_plan lib toSlice c objs items) (planDrops lib c objs items) (\<lambda>v. v = None)"
proof -
  have del: "records (same_client c k) log enc (forAppend app (reconcileDelete cbs ctx c sv) err (toSlice (serverOnly lib objs items)))
      (concat (map (\<lambda>key. [CallDelete (serverId c (the (sv key)))]) (toSlice (serverOnly lib objs items))))
      (\<Union>x \<in> set (toSlice (serverOnly lib objs items)). {}) (\<lambda>_. True)" for err
    unfolding sv_def
    by (rule records_forAppend) (metis plan_keys(1) [OF sl] serverItem_kind [OF kinds] reconcileDelete_records [OF cbs c(1)])
  have com: "records (same_client c k) log enc (forAppend app (reconcileCommon lib api cbs ctx c sv cl) err (toSlice (inBoth lib objs items)))
      (concat (map (\<lambda>key. commonCalls lib c (the (sv key)) (the (cl key))) (toSlice (inBoth lib objs items))))
      (\<Union>x \<in> set (toSlice (inBoth lib objs items)). {}) (\<lambda>_. True)" for err
  proof (rule records_forAppend)
    fix key
    assume "key \<in> set (toSlice (inBoth lib objs items))"
    then obtain item d where 1: "sv key = Some item" "cl key = Some d" using plan_keys(2) [OF sl] unfolding sv_def cl_def by blast
    obtain kd where kd: "chkKind item = Some kd" using serverItem_kind [OF kinds] 1(1) unfolding sv_def by blast
    show "records (same_client c k) log enc (reconcileCommon lib api cbs ctx c sv cl key)
        (commonCalls lib c (the (sv key)) (the (cl key))) {} (\<lambda>_. True)"
      by (rule reconcileCommon_records) (rule cbs c 1 kd)+
  qed
  have mis: "records (same_client c k) log enc (forAppend app (reconcileMissing lib cbs ctx c cl) err (toSlice (clientOnly lib objs items)))
      (concat (map (\<lambda>key. missingCalls lib c (the (cl key))) (toSlice (clientOnly lib objs items))))
      (\<Union>key \<in> set (toSlice (clientOnly lib objs items)). announced lib c (the (cl key))) (\<lambda>_. True)" for err
    unfolding cl_def
    by (rule records_forAppend) (metis plan_keys(3) [OF sl] reconcileMissing_records [OF cbs c(1)])
  have "planDrops lib c objs items = (\<Union>x \<in> set (toSlice (serverOnly lib objs items)). {}) \<union>
      ((\<Union>x \<in> set (toSlice (inBoth lib objs items)). {}) \<union>
      ((\<Union>key \<in> set (toSlice (clientOnly lib objs items)). announced lib c (the (cl key))) \<union> {}))"
    by (simp add: planDrops_def cl_def slice_set(3) [OF sl])
  moreover have "reconcile_plan lib toSlice c objs items =
      concat (map (\<lambda>key. [CallDelete (serverId c (the (sv key)))]) (toSlice (serverOnly lib objs items))) @
      concat (map (\<lambda>key. commonCalls lib c (the (sv key)) (the (cl key))) (toSlice (inBoth lib objs items))) @
      concat (map (\<lambda>key. missingCalls lib c (the (cl key))) (toSlice (clientOnly lib objs items))) @ []"
    by (simp add: reconcile_plan_def Let_def sv_def cl_def)
  ultimately show ?thesis
    by (simp only:) (rule records_andThen [OF del], rule records_andThen [OF com], rule records_andThen [OF mis],
      rule records_ret, rule refl)
qed

lemma reconcile_sends_plan:
  assumes "takes cbs ctx log enc" and "icCallbacks c" and "kGroup (icKind c) \<noteq> kubescapeCustomResourceGroup"
    and "chooseLister lib api c k = (Ret (objs, None), k')" and "itemsNewChecksum items \<noteq> []"
    and "\<forall>item \<in> set (itemsNewChecksum items). chkKind item \<noteq> None" and "slice_contract (apiToSlice api)"
  shows "\<exists>w'. reconcileBatchProcessingFunc lib api cbs ctx items ((c, k), w) =
       (Ret None, (drop_shadows (planDrops lib c objs (itemsNewChecksum items)) (c, k'), w'))
     \<and> log w' = log w @ map enc (reconcile_plan lib (apiToSlice api) c objs (itemsNewChecksum items))"
  by (rule recordsD [OF reconcile_loops_record [OF assms(1-3,6,7), of k' "klAppend lib" lib objs api] same_client_refl, where w = w])
    (use assms(4,5) in \<open>simp add: reconcileBatchProcessingFunc_def Let_def serverOnly_def inBoth_def clientOnly_def\<close>)

lemma reconcile_runs_plan:
  assumes "icCallbacks c" and "kGroup (icKind c) \<noteq> kubescapeCustomResourceGroup"
    and "chooseLister lib api c k = (Ret (objs, None), k')" and "itemsNewChecksum items \<noteq> []"
    and "\<forall>item \<in> set (itemsNewChecksum items). chkKind item \<noteq> None"
    and "slice_contract (apiToSlice api)"
  shows "\<exists>sh. reconcileBatchProcessingFunc lib api recorder ctx items ((c, k), w) =
     (Ret None, ((c\<lparr>icShadowObjects := sh\<rparr>, k'),
        w @ map (Pair ctx) (reconcile_plan lib (apiToSlice api) c objs (itemsNewChecksum items))))"
  using reconcile_sends_plan [OF recorder_takes assms, where w = w] by (auto simp: drop_shadows_def)

lemma serverOnly_iff:
  "k \<in> set (serverOnly lib objs items) \<longleftrightarrow> (\<exists>item. lastOf (serverItemsOf items) k = Some item)
     \<and> (\<forall>d \<in> set objs. objKey (klGetNamespace lib d) (klGetName lib d) \<noteq> k)"
proof -
  have "k \<in> set (keySet (clientItemsOf lib objs)) \<longleftrightarrow> (\<exists>d \<in> set objs. objKey (klGetNamespace lib d) (klGetName lib d) = k)"
    by (auto simp: keySet_def clientItemsOf_def)
  then show ?thesis by (auto simp: serverOnly_def keySet_lastOf [of k "serverItemsOf items"])
qed

lemma plan_deletes:
  assumes "slice_contract toSlice"
  shows "CallDelete oid \<in> set (reconcile_plan lib toSlice c objs items) \<longleftrightarrow>
     (\<exists>k item. lastOf (serverItemsOf items) k = Some item \<and> oid = serverId c item
        \<and> (\<forall>d \<in> set objs. objKey (klGetNamespace lib d) (klGetName lib d) \<noteq> k))"
proof -
  have "CallDelete oid \<notin> set (commonCalls lib c item d)" "CallDelete oid \<notin> set (missingCalls lib c d)" for item d
    by (auto simp: commonCalls_def missingCalls_def split: sum.splits)
  then have "CallDelete oid \<in> set (reconcile_plan lib toSlice c objs items) \<longleftrightarrow>
     (\<exists>k \<in> set (serverOnly lib objs items). oid = serverId c (the (lastOf (serverItemsOf items) k)))"
    using slice_set [OF assms, of lib objs items] by (auto simp: reconcile_plan_def Let_def)
  also have "\<dots> \<longleftrightarrow> (\<exists>k item. lastOf (serverItemsOf items) k = Some item \<and> oid = serverId c item
        \<and> (\<forall>d \<in> set objs. objKey (klGetNamespace lib d) (klGetName lib d) \<noteq> k))"
    by (metis option.sel serverOnly_iff)
  finally show ?thesis .
qed

section \<open>Properties\<close>

text \<open>
  C12. A reconciliation batch brings the server in line with the cluster: with the cluster listed,
  the client makes exactly the calls of the specification, in the order of the slices, whatever
  that order is: a delete for what only the server has, a put for what differs in version, a
  checksum for what only the cluster has and is not filtered. Apart from the shadow objects the
  client's own state stays.
\<close>

theorem reconcile_makes_planned_calls:
  assumes "icCallbacks c" and "kGroup (icKind c) \<noteq> kubescapeCustomResourceGroup"
    and "chooseLister lib api c k = (Ret (objs, None), k')" and "itemsNewChecksum items \<noteq> []"
    and "\<forall>item \<in> set (itemsNewChecksum items). chkKind item \<noteq> None"
    and "slice_contract (apiToSlice api)"
  shows "\<exists>sh. reconcileBatchProcessingFunc lib api recorder ctx items ((c, k), w) =
     (Ret None, ((c\<lparr>icShadowObjects := sh\<rparr>, k'),
        w @ map (Pair ctx) (reconcile_plan lib (apiToSlice api) c objs (itemsNewChecksum items))))"
  using assms by (rule reconcile_runs_plan)

text \<open>A cluster of two deployments listed by an API whose other calls succeed.\<close>

definition sampleObject :: "string \<Rightarrow> string \<Rightarrow> json" where
  "sampleObject name rv = JObj [(''kind'', JStr ''Deployment''), (''metadata'', JObj [(''name'', JStr name),
     (''namespace'', JStr ''default''), (''resourceVersion'', JStr rv)])]"

definition treeApi :: "(json, json list) kubeapi" where
  "treeApi = \<lparr>
     apiGet = (\<lambda>_ _ _ name k. (Ret (case filter (\<lambda>ob. klGetName treeKube ob = name) k of
        [] \<Rightarrow> Inl (GoError ''not found'') | ob # _ \<Rightarrow> Inr ob), k)),
     apiList = (\<lambda>_ _ k. (Ret (k, None), k)),
     apiCreate = (\<lambda>_ _ ob k. if klGetName treeKube ob \<in> set (map (klGetName treeKube) k)
        then (Ret (Some (GoError ''already exists'')), k) else (Ret None, k @ [ob])),
     apiUpdate = (\<lambda>_ _ ob k. (Ret None, map (\<lambda>x. if klGetName treeKube x = klGetName treeKube ob then ob else x) k)),
     apiDelete = (\<lambda>_ _ name k. (Ret None, filter (\<lambda>ob. klGetName treeKube ob \<noteq> name) k)),
     apiRetryOnConflict = (\<lambda>m. m),
     apiIsAlreadyExists = (\<lambda>e. e = GoError ''already exists''), apiIsForbidden = (\<lambda>e. False),
     apiToSlice = rev\<rparr>"

definition sampleConfig :: InClusterConfig where
  "sampleConfig = \<lparr>cfgServerUrl = ''u'', cfgNamespace = ''kubescape'', cfgClusterName = ''c'',
     cfgExcludeNamespaces = [''kube-system''], cfgIncludeNamespaces = [], cfgAccount = ''a'',
     cfgAccessKey = ''k'', cfgResources = [\<lparr>rsGroup = ''apps'', rsVersion = ''v1'',
       rsResource = ''deployments'', rsStrategy = PatchStrategy\<rparr>]\<rparr>"

definition sampleClient :: Client where
  "sampleClient = (NewClient DynamicClient False sampleConfig (hd (cfgResources sampleConfig)))\<lparr>icCallbacks := True\<rparr>"

definition sampleItems :: BatchItems where
  "sampleItems = zero_BatchItems\<lparr>itemsNewChecksum := [
     zero_NewChecksum\<lparr>chkName := ''gone'', chkNamespace := ''default'', chkKind := Some sampleKind, chkResourceVersion := 1\<rparr>,
     zero_NewChecksum\<lparr>chkName := ''nginx'', chkNamespace := ''default'', chkKind := Some sampleKind, chkResourceVersion := 2\<rparr>]\<rparr>"

lemma sampleClient_simps:
  "icCallbacks sampleClient" "icStrategy sampleClient = PatchStrategy" "icDynamicClient sampleClient = DynamicClient"
  "kGroup (icKind sampleClient) = ''apps''" "\<not> usesStorage sampleClient"
  by (simp_all add: sampleClient_def NewClient_def sampleConfig_def usesStorage_def)

lemma treeApi_slices: "slice_contract (apiToSlice treeApi)"
  by (simp add: slice_contract_def treeApi_def)

theorem reconcile_makes_planned_calls_witness:
  "\<exists>sh. reconcileBatchProcessingFunc treeKube treeApi recorder [] sampleItems
      ((sampleClient, [sampleObject ''nginx'' ''3'', sampleObject ''new'' ''4'']), []) =
     (Ret None, ((sampleClient\<lparr>icShadowObjects := sh\<rparr>, [sampleObject ''nginx'' ''3'', sampleObject ''new'' ''4'']),
        [] @ map (Pair []) (reconcile_plan treeKube (apiToSlice treeApi) sampleClient
          [sampleObject ''nginx'' ''3'', sampleObject ''new'' ''4''] (itemsNewChecksum sampleItems))))"
  by (rule reconcile_makes_planned_calls)
    (simp_all add: sampleClient_simps kubescapeCustomResourceGroup_def chooseLister_def dynList_def
      treeApi_slices sampleItems_def, simp add: treeApi_def)

text \<open>
  C17. Reconciliation deletes on the server exactly what is no longer in the cluster: of the calls a
  reconciliation batch makes, one is a delete for an object if and only if the server listed it and no object of
  the cluster has its namespace and name.
\<close>

theorem reconcile_deletes_only_gone:
  assumes "icCallbacks c" and "kGroup (icKind c) \<noteq> kubescapeCustomResourceGroup"
    and "chooseLister lib api c k = (Ret (objs, None), k')" and "itemsNewChecksum items \<noteq> []"
    and "\<forall>item \<in> set (itemsNewChecksum items). chkKind item \<noteq> None"
    and "slice_contract (apiToSlice api)"
  shows "\<exists>c' calls. reconcileBatchProcessingFunc lib api recorder ctx items ((c, k), w) = (Ret None, ((c', k'), w @ calls))
     \<and> (\<forall>oid. (ctx, CallDelete oid) \<in> set calls \<longleftrightarrow>
          (\<exists>key item. lastOf (serverItemsOf (itemsNewChecksum items)) key = Some item \<and> oid = serverId c item
             \<and> (\<forall>d \<in> set objs. objKey (klGetNamespace lib d) (klGetName lib d) \<noteq> key)))"
proof -
  let ?plan = "reconcile_plan lib (apiToSlice api) c objs (itemsNewChecksum items)"
  obtain sh where "reconcileBatchProcessingFunc lib api recorder ctx items ((c, k), w) =
      (Ret None, ((c\<lparr>icShadowObjects := sh\<rparr>, k'), w @ map (Pair ctx) ?plan))"
    using reconcile_runs_plan [OF assms, of ctx w] by blast
  moreover have "(ctx, CallDelete oid) \<in> set (map (Pair ctx) ?plan) \<longleftrightarrow> CallDelete oid \<in> set ?plan" for oid by auto
  ultimately show ?thesis using plan_deletes [OF assms(6), of _ lib c objs "itemsNewChecksum items"] by blast
qed

lemma sample_gone:
  "lastOf (serverItemsOf (itemsNewChecksum sampleItems)) ''default/gone'' = Some (hd (itemsNewChecksum sampleItems))"
  "\<forall>d \<in> set [sampleObject ''nginx'' ''3'', sampleObject ''new'' ''4'']. objKey (klGetNamespace treeKube d) (klGetName treeKube d) \<noteq> ''default/gone''"
  by (simp_all add: lastOf_def serverItemsOf_def sampleItems_def objKey_def treeKube_def sampleObject_def asString_def)

theorem reconcile_deletes_only_gone_witness:
  "\<exists>c' calls. reconcileBatchProcessingFunc treeKube treeApi recorder [] sampleItems
      ((sampleClient, [sampleObject ''nginx'' ''3'', sampleObject ''new'' ''4'']), []) =
        (Ret None, ((c', [sampleObject ''nginx'' ''3'', sampleObject ''new'' ''4'']), calls))
     \<and> ([], CallDelete (serverId sampleClient (hd (itemsNewChecksum sampleItems)))) \<in> set calls"
proof -
  have "\<exists>c' calls. reconcileBatchProcessingFunc treeKube treeApi recorder [] sampleItems
      ((sampleClient, [sampleObject ''nginx'' ''3'', sampleObject ''new'' ''4'']), []) =
        (Ret None, ((c', [sampleObject ''nginx'' ''3'', sampleObject ''new'' ''4'']), [] @ calls))
     \<and> (\<forall>oid. ([], CallDelete oid) \<in> set calls \<longleftrightarrow>
          (\<exists>key item. lastOf (serverItemsOf (itemsNewChecksum sampleItems)) key = Some item \<and> oid = serverId sampleClient item
             \<and> (\<forall>d \<in> set [sampleObject ''nginx'' ''3'', sampleObject ''new'' ''4''].
                  objKey (klGetNamespace treeKube d) (klGetName treeKube d) \<noteq> key)))"
    by (rule reconcile_deletes_only_gone)
      (simp_all add: sampleClient_simps kubescapeCustomResourceGroup_def chooseLister_def dynList_def
        treeApi_slices sampleItems_def, simp add: treeApi_def)
  then show ?thesis using sample_gone by (metis append_Nil)
qed

text \<open>
  Reconciliation swallows its errors: once the cluster is listed, whatever the callbacks and
  the API answer, the batch handler does not return an error. The errors it collects with
  \<open>multierr.Append\<close> are dropped by the final \<open>return nil\<close>, while the default batch handler returns them.
\<close>

theorem reconcile_swallows_errors:
  assumes "chooseLister lib api c k = (Ret (objs, None), k')" and "itemsNewChecksum items \<noteq> []"
  shows "fst (reconcileBatchProcessingFunc lib api cbs ctx items ((c, k), w)) \<noteq> Ret (Some e)"
  using assms by (auto simp: reconcileBatchProcessingFunc_def Let_def andThen_def split: prod.splits outcome.splits)

definition failingCallbacks :: "unit Callbacks" where
  "failingCallbacks = \<lparr>cbDeleteObject = (\<lambda>_ _. ret (Some (GoError ''down''))),
     cbGetObject = (\<lambda>_ _ _. ret (Some (GoError ''down''))), cbPatchObject = (\<lambda>_ _ _ _. ret (Some (GoError ''down''))),
     cbPutObject = (\<lambda>_ _ _ _. ret (Some (GoError ''down''))), cbVerifyObject = (\<lambda>_ _ _. ret (Some (GoError ''down''))),
     cbBatch = (\<lambda>_ _ _ _. ret (Some (GoError ''down'')))\<rparr>"

theorem reconcile_swallows_errors_witness:
  "fst (reconcileBatchProcessingFunc treeKube treeApi failingCallbacks [] sampleItems
     ((sampleClient, [sampleObject ''nginx'' ''3'']), ())) \<noteq> Ret (Some (GoError ''down''))"
  by (rule reconcile_swallows_errors)
    (simp_all add: sampleClient_simps chooseLister_def dynList_def sampleItems_def, simp add: treeApi_def)

end
