(* ===== verification/Incluster_Properties.thy ===== *)
theory Incluster_Properties
  imports Incluster_Reconcile
begin

text \<open>
  What the in-cluster client does for a change in the cluster and for a request of the server,
  stated as the calls its peer receives.
\<close>

section \<open>Put or patch\<close>

lemma run_sending [simp]:
  "send s = (Ret None, s') \<Longrightarrow> sending what send afterwards s = afterwards s'"
  "send s = (Ret (Some e), s') \<Longrightarrow> sending what send afterwards s = (Ret (Some (GoWrap what e)), s')"
  by (simp_all add: sending_def)

text \<open>The object a patch is made against: the one the server sent, else the last one sent.\<close>

definition referenceObject :: "Client \<Rightarrow> string \<Rightarrow> string \<Rightarrow> string option" where
  "referenceObject c key base = (if base \<noteq> [] then Some base else icShadowObjects c key)"

text \<open>The call the client answers with, and what it remembers of the object.\<close>

inductive putOrPatch :: "'o kubelib \<Rightarrow> Client \<Rightarrow> KindName \<Rightarrow> string \<Rightarrow> string \<Rightarrow> string \<Rightarrow> syncCall \<Rightarrow> bool"
  for lib c oid chk base new where
  put: "icStrategy c \<noteq> PatchStrategy \<or> referenceObject c (KindName_String oid) base = None \<Longrightarrow>
    putOrPatch lib c oid chk base new (CallPut oid chk new)"
| patch: "icStrategy c = PatchStrategy \<Longrightarrow> referenceObject c (KindName_String oid) base = Some old \<Longrightarrow>
    jlCreateMergePatch (klJson lib) old new = Inr p \<Longrightarrow> \<not> emptyPatch_Match p \<Longrightarrow>
    jlMergePatch (klJson lib) old p = Inr r \<Longrightarrow> jlCanonicalHash (klJson lib) r = Inr h \<Longrightarrow>
    putOrPatch lib c oid chk base new (CallPatch oid h p)"

definition remembered :: "Client \<Rightarrow> KindName \<Rightarrow> string \<Rightarrow> Client" where
  "remembered c oid new =
     (if icStrategy c = PatchStrategy
      then c\<lparr>icShadowObjects := (icShadowObjects c)(KindName_String oid \<mapsto> new)\<rparr> else c)"

lemma callPutOrPatch_sends:
  assumes "putOrPatch lib c oid chk base new call" and "icCallbacks c" and "callBack cbs ctx call w = (Ret None, w')"
  shows "callPutOrPatch lib cbs ctx oid chk base new ((c, k), w) = (Ret None, ((remembered c oid new, k), w'))"
  using assms
  by (cases rule: putOrPatch.cases)
    (auto simp: callPutOrPatch_def clientCallbacks_def Let_def referenceObject_def remembered_def split: if_splits)

lemma callPutOrPatch_empty:
  assumes "icStrategy c = PatchStrategy" and "referenceObject c (KindName_String oid) base = Some old"
    and "jlCreateMergePatch (klJson lib) old new = Inr p" and "emptyPatch_Match p"
  shows "\<exists>sh. callPutOrPatch lib cbs ctx oid chk base new ((c, k), w) = (Ret None, ((c\<lparr>icShadowObjects := sh\<rparr>, k), w))"
  using assms
  by (auto simp: callPutOrPatch_def Let_def referenceObject_def split: if_splits)
    (metis Client.surjective Client.update_convs(10))

lemma callPutOrPatch_patch:
  assumes "icCallbacks c" and "icStrategy c = PatchStrategy"
    and "referenceObject c (KindName_String oid) base = Some old"
    and "jlCreateMergePatch (klJson lib) old new = Inr p" and "\<not> emptyPatch_Match p"
    and "jlMergePatch (klJson lib) old p = Inr r" and "jlCanonicalHash (klJson lib) r = Inr h"
  shows "callPutOrPatch lib recorder ctx oid chk base new ((c, k), w) =
     (Ret None, ((c\<lparr>icShadowObjects := (icShadowObjects c)(KindName_String oid \<mapsto> new)\<rparr>, k),
        w @ [(ctx, CallPatch oid h p)]))"
  using callPutOrPatch_sends [OF putOrPatch.patch [OF assms(2-7)] assms(1) recorder_callBack] assms(2)
  by (simp add: remembered_def)

section \<open>The regular expression\<close>

lemma emptyPatch_Match_iff: "emptyPatch_Match s \<longleftrightarrow> (\<exists>p t. s = p @ t \<and> emptyPatch_at t)"
proof (induction s)
  case (Cons ch s)
  show ?case
  proof
    assume "emptyPatch_Match (ch # s)"
    then show "\<exists>p t. ch # s = p @ t \<and> emptyPatch_at t"
      using Cons by (auto intro: exI [of _ "[]"]) (metis append_Cons)
  next
    assume "\<exists>p t. ch # s = p @ t \<and> emptyPatch_at t"
    then obtain p t where pt: "ch # s = p @ t" "emptyPatch_at t" by blast
    show "emptyPatch_Match (ch # s)" using pt Cons by (cases p) auto
  qed
qed auto

lemma emptyPatch_at_intro:
  assumes "ds \<noteq> []" and "\<forall>d \<in> set ds. isDigit d"
  shows "emptyPatch_at (patchOpening @ ds @ patchClosing @ t)"
proof -
  have "\<not> isDigit (CHR 0x22)" by (simp add: isDigit_def digit_value_def)
  then have "takeWhile isDigit (ds @ patchClosing @ t) = ds" "dropWhile isDigit (ds @ patchClosing @ t) = patchClosing @ t"
    using assms(2) by (simp_all add: patchClosing_def takeWhile_tail dropWhile_append2)
  then show ?thesis
    using assms(1) strings_HasPrefix_iff by (auto simp: emptyPatch_at_def Let_def)
qed

section \<open>Properties\<close>

text \<open>
  C14. With the patch strategy the patch the client sends reproduces the object: applied to the
  reference object (the one the server sent along, else the last one sent) it gives a document with
  the canonical hash of the new object, and that hash travels with the patch. The new object
  becomes the reference for the next change. Only a patch the code takes for empty is not sent.
\<close>

theorem patch_reproduces_object:
  assumes "merge_contract (klJson lib) ok" and "ok old" and "ok new"
    and "icCallbacks c" and "icStrategy c = PatchStrategy"
    and "referenceObject c (KindName_String oid) base = Some old"
  shows "\<exists>p r h. jlCreateMergePatch (klJson lib) old new = Inr p \<and> jlMergePatch (klJson lib) old p = Inr r
     \<and> jlCanonicalHash (klJson lib) r = Inr h \<and> jlCanonicalHash (klJson lib) new = Inr h
     \<and> (emptyPatch_Match p \<or>
        callPutOrPatch lib recorder ctx oid chk base new ((c, k), w) =
          (Ret None, ((c\<lparr>icShadowObjects := (icShadowObjects c)(KindName_String oid \<mapsto> new)\<rparr>, k),
             w @ [(ctx, CallPatch oid h p)])))"
proof -
  obtain p r h where prh: "jlCreateMergePatch (klJson lib) old new = Inr p" "jlMergePatch (klJson lib) old p = Inr r"
    "jlCanonicalHash (klJson lib) r = Inr h" "jlCanonicalHash (klJson lib) new = Inr h"
    using assms(1-3) unfolding merge_contract_def by blast
  show ?thesis
  proof (intro exI conjI)
    show "emptyPatch_Match p \<or> callPutOrPatch lib recorder ctx oid chk base new ((c, k), w) =
        (Ret None, ((c\<lparr>icShadowObjects := (icShadowObjects c)(KindName_String oid \<mapsto> new)\<rparr>, k),
           w @ [(ctx, CallPatch oid h p)]))"
      by (cases "emptyPatch_Match p") (simp_all add: callPutOrPatch_patch [OF assms(4-6) prh(1) _ prh(2,3)])
  qed (rule prh)+
qed

lemma treeKube_merge: "merge_contract (klJson treeKube) (\<lambda>_. True)"
  by (simp add: merge_contract_def treeKube_def)

theorem patch_reproduces_object_witness:
  "\<exists>p r h. jlCreateMergePatch (klJson treeKube) ''base'' ''new'' = Inr p \<and> jlMergePatch (klJson treeKube) ''base'' p = Inr r
     \<and> jlCanonicalHash (klJson treeKube) r = Inr h \<and> jlCanonicalHash (klJson treeKube) ''new'' = Inr h
     \<and> (emptyPatch_Match p \<or>
        callPutOrPatch treeKube recorder [] sampleId [] ''base'' ''new'' ((sampleClient, ()), []) =
          (Ret None, ((sampleClient\<lparr>icShadowObjects := (icShadowObjects sampleClient)(KindName_String sampleId \<mapsto> ''new'')\<rparr>, ()),
             [] @ [([], CallPatch sampleId h p)])))"
  by (rule patch_reproduces_object [OF treeKube_merge])
    (simp_all add: sampleClient_simps referenceObject_def)

text \<open>
  The check for an empty patch is not anchored: a patch that changes anything at all is
  dropped, and nothing is sent to the server, as soon as the text of the expression occurs
  somewhere inside it, for instance in an embedded object template. The comment says that only
  patches containing nothing but a resource version are skipped.
\<close>

theorem nested_version_patch_is_dropped:
  assumes "icStrategy c = PatchStrategy" and "referenceObject c (KindName_String oid) base = Some old"
    and "ds \<noteq> []" and "\<forall>d \<in> set ds. isDigit d"
    and "jlCreateMergePatch (klJson lib) old new = Inr (before @ patchOpening @ ds @ patchClosing @ after)"
  shows "\<exists>sh. callPutOrPatch lib cbs ctx oid chk base new ((c, k), w) = (Ret None, ((c\<lparr>icShadowObjects := sh\<rparr>, k), w))"
  using assms(1,2,5)
  by (rule callPutOrPatch_empty) (use emptyPatch_at_intro [OF assms(3,4)] in \<open>auto simp: emptyPatch_Match_iff\<close>)

definition templatePatch :: string where
  "templatePatch = ''{'' @ [CHR 0x22] @ ''spec'' @ [CHR 0x22] @ '':{'' @ [CHR 0x22] @ ''template'' @ [CHR 0x22] @ '':''
     @ patchOpening @ ''7'' @ patchClosing @ '','' @ [CHR 0x22] @ ''replicas'' @ [CHR 0x22] @ '':3}}''"

theorem nested_version_patch_is_dropped_witness:
  "\<exists>sh. callPutOrPatch treeKube recorder [] sampleId [] ''old'' templatePatch ((sampleClient, ()), []) =
     (Ret None, ((sampleClient\<lparr>icShadowObjects := sh\<rparr>, ()), []))"
  by (rule nested_version_patch_is_dropped [where old = "''old''" and ds = "''7''"
        and before = "''{'' @ [CHR 0x22] @ ''spec'' @ [CHR 0x22] @ '':{'' @ [CHR 0x22] @ ''template'' @ [CHR 0x22] @ '':''"
        and after = "'','' @ [CHR 0x22] @ ''replicas'' @ [CHR 0x22] @ '':3}}''"])
    (simp_all add: sampleClient_simps referenceObject_def treeKube_def templatePatch_def isDigit_def digit_value_def)

text \<open>
  What is filtered stays in the cluster: a watch event for an object that is filtered changes
  nothing and sends nothing. Filtered are the objects of a skipped namespace and those with a
  parent; an object of the operator's namespace never is.
\<close>

theorem filtered_events_are_silent:
  assumes "klGetNamespace lib d \<noteq> icOperatorNamespace c \<or> klGetNamespace lib d = []"
    and "hasParent lib d \<or> klGetNamespace lib d \<noteq> [] \<and> skipNamespace c (klGetNamespace lib d)"
  shows "handleEvent lib api cbs ctx (eventType, Some d) ((c, k), w) = (Ret None, ((c, k), w))"
  using assms by (auto simp: handleEvent_def isFiltered_def Let_def)

theorem filtered_events_are_silent_witness:
  "handleEvent treeKube treeApi recorder [] (Added, Some (JObj [(''kind'', JStr ''Deployment''),
      (''metadata'', JObj [(''name'', JStr ''dns''), (''namespace'', JStr ''kube-system'')])])) ((sampleClient, []), [])
   = (Ret None, ((sampleClient, []), []))"
  by (rule filtered_events_are_silent)
    (simp_all add: treeKube_def asString_def sampleClient_def NewClient_def sampleConfig_def skipNamespace_def)

text \<open>
  A deleted object is reported and forgotten: the server gets a delete for it, and with the
  patch strategy no reference object is left, so that an object created again under the same name
  is sent in full.
\<close>

theorem deleted_object_is_forgotten:
  assumes "\<not> isFiltered lib c d" and "icCallbacks c" and "icStrategy c = PatchStrategy"
  shows "\<exists>c'. handleEvent lib api recorder ctx (Deleted, Some d) ((c, k), w) =
       (Ret None, ((c', k), w @ [(ctx, CallDelete (clientId lib c d))]))
     \<and> referenceObject c' (KindName_String (clientId lib c d)) [] = None"
  using assms by (simp add: handleEvent_def Let_def clientCallbacks_def clientId_def referenceObject_def)

theorem deleted_object_is_forgotten_witness:
  "\<exists>c'. handleEvent treeKube treeApi recorder [] (Deleted, Some (sampleObject ''nginx'' ''3'')) ((sampleClient, []), []) =
       (Ret None, ((c', []), [] @ [([], CallDelete (clientId treeKube sampleClient (sampleObject ''nginx'' ''3'')))]))
     \<and> referenceObject c' (KindName_String (clientId treeKube sampleClient (sampleObject ''nginx'' ''3''))) [] = None"
  by (rule deleted_object_is_forgotten)
    (simp_all add: sampleClient_simps isFiltered_def hasParent_def treeKube_def asString_def sampleObject_def
      skipNamespace_def sampleClient_def NewClient_def sampleConfig_def Let_def)

text \<open>
  A patch that does not fit changes nothing: when the patched object does not have the checksum
  that came with it, the cluster and the reference objects stay as they are and the client asks for
  the object, handing its own along.
\<close>

theorem mismatched_patch_asks_for_object:
  assumes "icCallbacks c" and "icStrategy c = PatchStrategy"
    and "getResource lib api c (knNamespace oid) (knName oid) k = (Ret (Inr obj), k')"
    and "filterAndMarshal lib c obj = Inr (object, obj')" and "jlMergePatch (klJson lib) object patch = Inr modified"
    and "jlCanonicalHash (klJson lib) modified = Inr h" and "h \<noteq> checksum"
  shows "client_PatchObject lib api recorder ctx oid checksum patch ((c, k), w) =
     (Ret None, ((c, k'), w @ [(ctx, CallGet oid object)]))"
  using assms by (simp add: client_PatchObject_def client_patchObject_def clientCallbacks_def)

theorem mismatched_patch_asks_for_object_witness:
  "client_PatchObject treeKube treeApi recorder [] sampleId ''wrong'' ''patch'' ((sampleClient, [sampleObject ''nginx'' ''3'']), []) =
     (Ret None, ((sampleClient, [sampleObject ''nginx'' ''3'']), [] @ [([], CallGet sampleId ''nginx'')]))"
  by (rule mismatched_patch_asks_for_object [where obj = "sampleObject ''nginx'' ''3''"
        and obj' = "sampleObject ''nginx'' ''3''" and modified = "''patch''" and h = "''patch''"])
    (simp_all add: sampleClient_simps getResource_def dynGet_def treeApi_def treeKube_def sampleObject_def
      asString_def sampleId_def filterAndMarshal_def MaskEnvironmentVariables_def containerTypes_def asSlice_def
      fieldsToRemove_def Let_def split: option.splits)

text \<open>
  A message for a kind nobody configured is not discarded: the client created for it has no
  callbacks, so a get for any object of that kind ends in a nil call, although the comment says the
  empty client discards the messages.
\<close>

theorem unknown_kind_get_panics:
  assumes "knKind oid = Some kind" and "iaClients a (Kind_String kind) = None"
    and "filterAndMarshal lib (GetClientByKind a kind) (klEmptyObject lib) = Inr (bytes, d)"
    and "kGroup kind \<noteq> kubescapeCustomResourceGroup"
  shows "fst (ic_GetObject lib api cbs ctx oid base (a, w)) = Panic ''nil pointer dereference''"
proof -
  define c where "c = GetClientByKind a kind"
  have c: "icDynamicClient c = NoOpDynamicClient" "\<not> usesStorage c" "\<not> icCallbacks c" "icStrategy c \<noteq> PatchStrategy"
    "kGroup (icKind c) \<noteq> kubescapeCustomResourceGroup"
    using assms(2,4) by (simp_all add: c_def GetClientByKind_def NewClient_def usesStorage_def PatchStrategy_def)
  have "fst (client_GetObject lib api cbs ctx oid base ((c, iaCluster a), w)) = Panic ''nil pointer dereference''"
    using c assms(3) [folded c_def]
    by (simp add: client_GetObject_def getResource_def dynGet_def getChecksum_listed callPutOrPatch_def Let_def
        sending_def clientCallbacks_def nilCallbacks_def andThen_def)
  then show ?thesis
    using assms(1) by (auto simp: ic_GetObject_def for_object_def with_client_def c_def [symmetric] split: prod.splits)
qed

theorem unknown_kind_get_panics_witness:
  "fst (ic_GetObject treeKube treeApi recorder [] sampleId [] (NewInClusterAdapter sampleConfig False [], [])) =
     Panic ''nil pointer dereference''"
  by (rule unknown_kind_get_panics [where kind = sampleKind and bytes = "[]" and d = "JObj []"])
    (simp_all add: sampleId_def sampleKind_def NewInClusterAdapter_def treeKube_def filterAndMarshal_def
      MaskEnvironmentVariables_def containerTypes_def asSlice_def asString_def fieldsToRemove_def Let_def
      kubescapeCustomResourceGroup_def split: option.splits)

end
