(* ===== verification/Mock_Adapter.thy ===== *)
theory Mock_Adapter
  imports Adapter_Libs
begin

text \<open>
  \<open>adapters/mock.go\<close>, the in-memory adapter: the reference for what a client with the patch
  strategy and a backend that keeps the newest version do. It is registered as either end
  (\<open>NewMockAdapter\<close>). The three \<open>TestCall...\<close> operations, which stand for local changes, are
  modelled with the others.
\<close>

record MockAdapter =
  moCheckResourceVersion :: bool
  moPatchStrategy :: bool
  moResources :: "string \<rightharpoonup> string"
  moShadowObjects :: "string \<rightharpoonup> string"

record mocklib =
  mlJson :: jsonlib
  mlResourceVersion :: "string \<Rightarrow> goerror + string"
  mlAppend :: multierr

definition NewMockAdapter :: "bool \<Rightarrow> MockAdapter" where
  "NewMockAdapter isClient = \<lparr>moCheckResourceVersion = \<not> isClient, moPatchStrategy = isClient,
     moResources = Map.empty, moShadowObjects = Map.empty\<rparr>"

section \<open>Operations\<close>

definition saveIfNewer :: "mocklib \<Rightarrow> KindName \<Rightarrow> string \<Rightarrow> MockAdapter \<Rightarrow> MockAdapter" where
  "saveIfNewer lib oid newObject m =
     (let saved = m\<lparr>moResources := (moResources m)(KindName_String oid \<mapsto> newObject)\<rparr> in
      if moCheckResourceVersion m then
        (case mlResourceVersion lib newObject of
           Inl _ \<Rightarrow> saved
         | Inr new \<Rightarrow>
             (case moResources m (KindName_String oid) of
                None \<Rightarrow> saved
              | Some oldObject \<Rightarrow>
                  (case mlResourceVersion lib oldObject of
                     Inl _ \<Rightarrow> saved
                   | Inr old \<Rightarrow> if \<not> StringValueBigger new old then m else saved)))
      else saved)"

definition mock_DeleteObject :: "'w Callbacks \<Rightarrow> Context \<Rightarrow> KindName \<Rightarrow> (MockAdapter \<times> 'w, goerror option) go" where
  "mock_DeleteObject cbs ctx oid =
     andThen (modify (\<lambda>m. m\<lparr>moResources := (moResources m)(KindName_String oid := None)\<rparr>)) (\<lambda>_. ret None)"

definition mock_GetObject :: "mocklib \<Rightarrow> 'w Callbacks \<Rightarrow> Context \<Rightarrow> KindName \<Rightarrow> string \<Rightarrow>
    (MockAdapter \<times> 'w, goerror option) go" where
  "mock_GetObject lib cbs ctx oid baseObject =
     andThen get_state (\<lambda>m.
     case moResources m (KindName_String oid) of
       None \<Rightarrow> ret (Some (GoError ''object not found''))
     | Some object \<Rightarrow>
         if moPatchStrategy m then
           andThen (if baseObject \<noteq> [] then
                      modify (\<lambda>m. m\<lparr>moShadowObjects := (moShadowObjects m)(KindName_String oid \<mapsto> baseObject)\<rparr>)
                    else ret ()) (\<lambda>_.
           andThen get_state (\<lambda>m.
           case moShadowObjects m (KindName_String oid) of
             Some oldObject \<Rightarrow>
               orReturn ''create merge patch'' (jlCreateMergePatch (mlJson lib) oldObject object) (\<lambda>patch.
               orReturn ''verifying patch'' (jlMergePatch (mlJson lib) oldObject patch) (\<lambda>mergeResult.
               orReturn ''calculate checksum'' (jlCanonicalHash (mlJson lib) mergeResult) (\<lambda>checksum.
               on_snd (cbPatchObject cbs ctx oid checksum patch))))
           | None \<Rightarrow> on_snd (cbPutObject cbs ctx oid [] object)))
         else on_snd (cbPutObject cbs ctx oid [] object))"

text \<open>The unexported \<open>patchObject\<close>: a base object to ask with and an error, or success.\<close>

definition mock_patchObject :: "mocklib \<Rightarrow> KindName \<Rightarrow> string \<Rightarrow> string \<Rightarrow>
    (MockAdapter \<times> 'w, string \<times> goerror option) go" where
  "mock_patchObject lib oid checksum patch =
     andThen get_state (\<lambda>m.
     case moResources m (KindName_String oid) of
       None \<Rightarrow> ret ([], Some (GoError ''object not found''))
     | Some object \<Rightarrow>
         (case jlMergePatch (mlJson lib) object patch of
            Inl e \<Rightarrow> ret (object, Some (GoWrap ''apply patch'' e))
          | Inr modified \<Rightarrow>
              (case jlCanonicalHash (mlJson lib) modified of
                 Inl e \<Rightarrow> ret (object, Some (GoWrap ''calculate checksum'' e))
               | Inr newChecksum \<Rightarrow>
                   if newChecksum \<noteq> checksum then
                     ret (object, Some (GoError (''checksum mismatch: '' @ newChecksum @ '' != '' @ checksum)))
                   else
                     andThen (modify (saveIfNewer lib oid modified)) (\<lambda>_.
                     andThen (modify (\<lambda>m. m\<lparr>moShadowObjects := (moShadowObjects m)(KindName_String oid \<mapsto> modified)\<rparr>)) (\<lambda>_.
                     ret ([], None))))))"

definition mock_PatchObject :: "mocklib \<Rightarrow> 'w Callbacks \<Rightarrow> Context \<Rightarrow> KindName \<Rightarrow> string \<Rightarrow> string \<Rightarrow>
    (MockAdapter \<times> 'w, goerror option) go" where
  "mock_PatchObject lib cbs ctx oid checksum patch =
     andThen (mock_patchObject lib oid checksum patch) (\<lambda>(baseObject, err).
     if err \<noteq> None then on_snd (cbGetObject cbs ctx oid baseObject) else ret None)"

definition mock_PutObject :: "mocklib \<Rightarrow> 'w Callbacks \<Rightarrow> Context \<Rightarrow> KindName \<Rightarrow> string \<Rightarrow> string \<Rightarrow>
    (MockAdapter \<times> 'w, goerror option) go" where
  "mock_PutObject lib cbs ctx oid checksum object =
     andThen (modify (saveIfNewer lib oid object)) (\<lambda>_. ret None)"

definition mock_verifyObject :: "mocklib \<Rightarrow> KindName \<Rightarrow> string \<Rightarrow> MockAdapter \<Rightarrow> string \<times> goerror option" where
  "mock_verifyObject lib oid newChecksum m =
     (case moResources m (KindName_String oid) of
        None \<Rightarrow> ([], Some (GoError ''object not found''))
      | Some object \<Rightarrow>
          (case jlCanonicalHash (mlJson lib) object of
             Inl e \<Rightarrow> ([], Some (GoWrap ''calculate checksum'' e))
           | Inr checksum \<Rightarrow>
               if checksum \<noteq> newChecksum then
                 (object, Some (GoError (''checksum mismatch: '' @ newChecksum @ '' != '' @ checksum)))
               else (object, None)))"

definition mock_VerifyObject :: "mocklib \<Rightarrow> 'w Callbacks \<Rightarrow> Context \<Rightarrow> KindName \<Rightarrow> string \<Rightarrow>
    (MockAdapter \<times> 'w, goerror option) go" where
  "mock_VerifyObject lib cbs ctx oid newChecksum =
     andThen get_state (\<lambda>m.
     let (baseObject, err) = mock_verifyObject lib oid newChecksum m in
     if err \<noteq> None then on_snd (cbGetObject cbs ctx oid baseObject) else ret None)"

definition mock_Batch :: "mocklib \<Rightarrow> 'w Callbacks \<Rightarrow> Context \<Rightarrow> Kind \<Rightarrow> BatchType \<Rightarrow> BatchItems \<Rightarrow>
    (MockAdapter \<times> 'w, goerror option) go" where
  "mock_Batch lib cbs ctx kind batchType items =
     batchItemsLoop (mlAppend lib) kind (mock_GetObject lib cbs ctx) (mock_VerifyObject lib cbs ctx)
       (mock_DeleteObject cbs ctx) (mock_PatchObject lib cbs ctx) (mock_PutObject lib cbs ctx) items"

section \<open>Local changes\<close>

definition TestCallDeleteObject :: "'w Callbacks \<Rightarrow> Context \<Rightarrow> KindName \<Rightarrow> (MockAdapter \<times> 'w, goerror option) go" where
  "TestCallDeleteObject cbs ctx oid =
     (let ctx = ContextFromGeneric ctx zero_Generic in
      andThen (modify (\<lambda>m. m\<lparr>moResources := (moResources m)(KindName_String oid := None)\<rparr>)) (\<lambda>_.
      andThen (on_snd (cbDeleteObject cbs ctx oid)) (\<lambda>err.
      case err of
        Some e \<Rightarrow> ret (Some (GoWrap ''send delete'' e))
      | None \<Rightarrow>
          andThen (modify (\<lambda>m. if moPatchStrategy m
             then m\<lparr>moShadowObjects := (moShadowObjects m)(KindName_String oid := None)\<rparr> else m)) (\<lambda>_.
          ret None))))"

definition TestCallPutOrPatch :: "mocklib \<Rightarrow> 'w Callbacks \<Rightarrow> Context \<Rightarrow> KindName \<Rightarrow> string \<Rightarrow> string \<Rightarrow>
    (MockAdapter \<times> 'w, goerror option) go" where
  "TestCallPutOrPatch lib cbs ctx oid baseObject newObject =
     (let ctx = ContextFromGeneric ctx zero_Generic; key = KindName_String oid;
          known = modify (\<lambda>m. m\<lparr>moShadowObjects := (moShadowObjects m)(key \<mapsto> newObject)\<rparr>);
          afterwards = (\<lambda>what err. case err of
              Some e \<Rightarrow> ret (Some (GoWrap what e))
            | None \<Rightarrow> andThen known (\<lambda>_. ret None))
      in
      andThen (modify (\<lambda>m. m\<lparr>moResources := (moResources m)(key \<mapsto> newObject)\<rparr>)) (\<lambda>_.
      andThen get_state (\<lambda>m.
      if moPatchStrategy m then
        andThen (if baseObject \<noteq> [] then
                   modify (\<lambda>m. m\<lparr>moShadowObjects := (moShadowObjects m)(key \<mapsto> baseObject)\<rparr>)
                 else ret ()) (\<lambda>_.
        andThen get_state (\<lambda>m.
        case moShadowObjects m key of
          Some oldObject \<Rightarrow>
            orReturn ''create merge patch'' (jlCreateMergePatch (mlJson lib) oldObject newObject) (\<lambda>patch.
            orReturn ''verifying patch'' (jlMergePatch (mlJson lib) oldObject patch) (\<lambda>mergeResult.
            orReturn ''calculate checksum'' (jlCanonicalHash (mlJson lib) mergeResult) (\<lambda>checksum.
            andThen (on_snd (cbPatchObject cbs ctx oid checksum patch)) (afterwards ''send patch object''))))
        | None \<Rightarrow> andThen (on_snd (cbPutObject cbs ctx oid [] newObject)) (afterwards ''send put object'')))
      else wrapping ''send put object'' (on_snd (cbPutObject cbs ctx oid [] newObject)))))"

definition TestCallVerifyObject :: "mocklib \<Rightarrow> 'w Callbacks \<Rightarrow> Context \<Rightarrow> KindName \<Rightarrow> string \<Rightarrow>
    (MockAdapter \<times> 'w, goerror option) go" where
  "TestCallVerifyObject lib cbs ctx oid object =
     (let ctx = ContextFromGeneric ctx zero_Generic in
      andThen (modify (\<lambda>m. m\<lparr>moResources := (moResources m)(KindName_String oid \<mapsto> object)\<rparr>)) (\<lambda>_.
      orReturn ''calculate checksum'' (jlCanonicalHash (mlJson lib) object) (\<lambda>checksum.
      wrapping ''send checksum'' (on_snd (cbVerifyObject cbs ctx oid checksum)))))"

section \<open>The mock is an adapter\<close>

definition mock_Start :: "'w Callbacks \<Rightarrow> Context \<Rightarrow> (MockAdapter \<times> 'w, goerror option) go" where
  [simp]: "mock_Start cbs ctx = ret None"

definition mock_Stop :: "'w Callbacks \<Rightarrow> Context \<Rightarrow> (MockAdapter \<times> 'w, goerror option) go" where
  [simp]: "mock_Stop cbs ctx = ret None"

definition mock_IsRelated :: "MockAdapter \<Rightarrow> ClientIdentifier \<Rightarrow> bool" where
  "mock_IsRelated m cid \<longleftrightarrow> True"

definition mockAdapter :: "mocklib \<Rightarrow> (MockAdapter, 'w) Adapter" where
  "mockAdapter lib = \<lparr>
     adStart = mock_Start,
     adStop = mock_Stop,
     adDeleteObject = mock_DeleteObject,
     adGetObject = mock_GetObject lib,
     adPatchObject = mock_PatchObject lib,
     adPutObject = mock_PutObject lib,
     adVerifyObject = mock_VerifyObject lib,
     adBatch = mock_Batch lib\<rparr>"

lemma mock_keeps:
  assumes "preorderp R" and "callbacks_keep R cbs ctx"
  shows "keeps (snd_rel R) (mock_DeleteObject cbs ctx oid)"
    "keeps (snd_rel R) (mock_GetObject lib cbs ctx oid b)"
    "keeps (snd_rel R) (mock_PatchObject lib cbs ctx oid c p)"
    "keeps (snd_rel R) (mock_PutObject lib cbs ctx oid c ob)"
    "keeps (snd_rel R) (mock_VerifyObject lib cbs ctx oid c)"
proof -
  note intros = keeps_intros assms
  show "keeps (snd_rel R) (mock_DeleteObject cbs ctx oid)"
    unfolding mock_DeleteObject_def by (intro intros)
  show "keeps (snd_rel R) (mock_PutObject lib cbs ctx oid c ob)"
    unfolding mock_PutObject_def by (intro intros)
  show "keeps (snd_rel R) (mock_VerifyObject lib cbs ctx oid c)"
    unfolding mock_VerifyObject_def by (auto intro!: intros split: prod.splits)
  show "keeps (snd_rel R) (mock_PatchObject lib cbs ctx oid c p)"
    unfolding mock_PatchObject_def mock_patchObject_def
    by (auto intro!: intros split: option.splits sum.splits prod.splits)
  show "keeps (snd_rel R) (mock_GetObject lib cbs ctx oid b)"
    unfolding mock_GetObject_def by (auto intro!: intros split: option.splits)
qed

interpretation mock: sync_adapter "mockAdapter lib"
  by unfold_locales
    (simp_all add: mockAdapter_def mock_keeps mock_Batch_def keeps_batchItemsLoop preorderp_snd_rel)

interpretation mock_end: sync_adapters "[mockAdapter lib]"
  by (rule sync_adapters.intro) (simp add: mock.sync_adapter_axioms)

section \<open>What the operations do\<close>

lemma modify_then [simp]: "andThen (modify f) g (s, w) = g () (f s, w)"
  by simp

lemma get_then [simp]: "andThen get_state g (s, w) = g s (s, w)"
  by simp

text \<open>\<open>new\<close> is stored over \<open>old\<close>.\<close>

definition supersedes :: "mocklib \<Rightarrow> string \<Rightarrow> string \<Rightarrow> bool" where
  "supersedes lib new old \<longleftrightarrow>
     (case (mlResourceVersion lib new, mlResourceVersion lib old) of
        (Inr n, Inr v) \<Rightarrow> StringValueBigger n v
      | _ \<Rightarrow> True)"

lemma saveIfNewer_Resources:
  "moResources (saveIfNewer lib oid ob m) =
     (case moResources m (KindName_String oid) of
        Some old \<Rightarrow> if moCheckResourceVersion m \<and> \<not> supersedes lib ob old then moResources m
                    else (moResources m)(KindName_String oid \<mapsto> ob)
      | None \<Rightarrow> (moResources m)(KindName_String oid \<mapsto> ob))"
  by (auto simp: saveIfNewer_def supersedes_def Let_def split: option.splits sum.splits)

lemma saveIfNewer_rest [simp]:
  "moCheckResourceVersion (saveIfNewer lib oid ob m) = moCheckResourceVersion m"
  "moPatchStrategy (saveIfNewer lib oid ob m) = moPatchStrategy m"
  "moShadowObjects (saveIfNewer lib oid ob m) = moShadowObjects m"
  by (auto simp: saveIfNewer_def Let_def split: option.splits sum.splits)

text \<open>Asked with the server's object, the client answers with a patch against that object.\<close>

lemma mock_GetObject_patch:
  assumes "merge_contract (mlJson lib) ok" and "ok base" and "ok ob" and "base \<noteq> []"
    and "moPatchStrategy m" and "moResources m (KindName_String oid) = Some ob"
  obtains p r h where "jlMergePatch (mlJson lib) base p = Inr r"
    and "jlCanonicalHash (mlJson lib) r = Inr h" and "jlCanonicalHash (mlJson lib) ob = Inr h"
    and "mock_GetObject lib recorder ctx oid base (m, w) =
       (Ret None, (m\<lparr>moShadowObjects := (moShadowObjects m)(KindName_String oid \<mapsto> base)\<rparr>,
        w @ [(ctx, CallPatch oid h p)]))"
proof -
  obtain p r h where "jlCreateMergePatch (mlJson lib) base ob = Inr p"
    "jlMergePatch (mlJson lib) base p = Inr r" "jlCanonicalHash (mlJson lib) r = Inr h"
    "jlCanonicalHash (mlJson lib) ob = Inr h"
    using assms(1-3) unfolding merge_contract_def by blast
  then show thesis using that [of p r h] assms(4-6) by (simp add: mock_GetObject_def)
qed

text \<open>A patch that fits is applied without a word; one that does not is answered with a get.\<close>

lemma mock_PatchObject_applied:
  assumes "moResources m (KindName_String oid) = Some base" and "jlMergePatch (mlJson lib) base p = Inr r"
    and "jlCanonicalHash (mlJson lib) r = Inr h"
  shows "\<exists>m'. mock_PatchObject lib cbs ctx oid h p (m, w) = (Ret None, (m', w))
     \<and> moResources m' = moResources (saveIfNewer lib oid r m)"
  using assms by (simp add: mock_PatchObject_def mock_patchObject_def)

lemma mock_PatchObject_missing:
  assumes "moResources m (KindName_String oid) = None"
  shows "mock_PatchObject lib recorder ctx oid h p (m, w) = (Ret None, (m, w @ [(ctx, CallGet oid [])]))"
  using assms by (simp add: mock_PatchObject_def mock_patchObject_def)

lemma mock_GetObject_shadow:
  assumes "moPatchStrategy m" and "moResources m (KindName_String oid) = Some ob"
    and "moShadowObjects m (KindName_String oid) = Some old" and "jlCreateMergePatch (mlJson lib) old ob = Inr p"
    and "jlMergePatch (mlJson lib) old p = Inr r" and "jlCanonicalHash (mlJson lib) r = Inr h"
  shows "mock_GetObject lib recorder ctx oid [] (m, w) = (Ret None, (m, w @ [(ctx, CallPatch oid h p)]))"
  using assms by (simp add: mock_GetObject_def)

end
