(* ===== verification/Replication.thy ===== *)
theory Replication
  imports Incluster_Properties Mock_Adapter
begin

text \<open>
  A cluster and a server that keeps copies, connected: what an event of the watch leads to. The two
  ends are an in-cluster adapter and the reference server, the messages travel as in
  \<open>Core_Protocol\<close>. An event starts a conversation; this theory shows where it ends.
\<close>

section \<open>The two ends\<close>

definition inclusterEnd :: "'o kubelib \<Rightarrow> ('o, 'k) kubeapi \<Rightarrow> 'w runtime \<Rightarrow> ('w \<Rightarrow> wire list) \<Rightarrow>
    ('k InCluster, 'w) endpoint" where
  "inclusterEnd lib api rt sent =
     \<lparr>epAdapters = [inclusterAdapter lib api], epRuntime = rt, epSent = sent, epIsClient = True\<rparr>"

definition referenceEnd :: "mocklib \<Rightarrow> 'v runtime \<Rightarrow> ('v \<Rightarrow> wire list) \<Rightarrow> (MockAdapter, 'v) endpoint" where
  "referenceEnd lib rt sent =
     \<lparr>epAdapters = [mockAdapter lib], epRuntime = rt, epSent = sent, epIsClient = False\<rparr>"

lemma inclusterEnd_ok: "runtime_contract rt sent \<Longrightarrow> endpoint_ok (inclusterEnd lib api rt sent)"
  by (simp add: endpoint_ok_def inclusterEnd_def incluster_end.sync_adapters_axioms)

lemma referenceEnd_ok: "runtime_contract rt sent \<Longrightarrow> endpoint_ok (referenceEnd lib rt sent)"
  by (simp add: endpoint_ok_def referenceEnd_def mock_end.sync_adapters_axioms)

section \<open>Where a conversation ends\<close>

text \<open>
  \<open>y\<close> is reached from \<open>x\<close>, nothing is in flight there, every run from \<open>x\<close> ends, and every run that
  cannot go on is at \<open>y\<close>.
\<close>

definition settles where
  "settles E F x y \<longleftrightarrow> (converse E F)\<^sup>*\<^sup>* x y \<and> (\<forall>z. \<not> converse E F y z) \<and> termip (converse E F) x
     \<and> (\<forall>y'. (converse E F)\<^sup>*\<^sup>* x y' \<longrightarrow> (\<forall>z. \<not> converse E F y' z) \<longrightarrow> y' = y)"

lemma settles_done: "settles E F (cl, sv, [], []) (cl, sv, [], [])"
proof -
  have "\<not> converse E F (cl, sv, [], []) z" for z by (auto elim: converse_elim)
  moreover have "termip (converse E F) (cl, sv, [], [])" by (rule accp.intros) (use calculation in simp)
  ultimately show ?thesis unfolding settles_def by (metis converse_rtranclpE rtranclp.rtrancl_refl)
qed

lemma settles_only:
  assumes "converse E F x x'" and "\<And>z. converse E F x z \<Longrightarrow> z = x'" and "settles E F x' y"
  shows "settles E F x y"
proof -
  have "termip (converse E F) x" by (rule accp.intros) (use assms(2,3) in \<open>auto simp: settles_def\<close>)
  then show ?thesis using assms unfolding settles_def
    by (metis converse_rtranclp_into_rtranclp converse_rtranclpE)
qed

lemma settles_server:
  assumes "receive F f sv = (sv', fs)" and "settles E F (cl, sv', [], fs) y"
  shows "settles E F (cl, sv, [f], []) y"
  by (rule settles_only [OF _ _ assms(2)])
    (use assms(1) converse.at_server [OF assms(1), of E cl "[]" "[]"] in \<open>auto elim!: converse_elim\<close>)

lemma settles_client:
  assumes "receive E f cl = (cl', fs)" and "settles E F (cl', sv, fs, []) y"
  shows "settles E F (cl, sv, [], [f]) y"
  by (rule settles_only [OF _ _ assms(2)])
    (use assms(1) converse.at_client [OF assms(1), of F sv "[]" "[]"] in \<open>auto elim!: converse_elim\<close>)

section \<open>A pool that takes every message\<close>

definition accepting :: "'w runtime \<Rightarrow> ('w \<Rightarrow> wire list) \<Rightarrow> bool" where
  "accepting rt sent \<longleftrightarrow> runtime_contract rt sent \<and> (\<forall>d w. fst (rtOutInvoke rt d w) = Ret None)"

lemma accepting_Invoke:
  assumes "accepting rt sent"
  obtains w' where "rtOutInvoke rt d w = (Ret None, w')" and "sent w' = sent w @ [d]"
proof -
  have rt: "runtime_contract rt sent" "fst (rtOutInvoke rt d w) = Ret None"
    using assms by (simp_all add: accepting_def)
  show thesis
    by (rule runtime_contract_Invoke [OF rt(1), of d w]) (use rt(2) that in auto)
qed

lemma listRuntime_accepting: "accepting listRuntime (\<lambda>w. w)"
  using listRuntime_contract by (simp add: accepting_def listRuntime_def)

text \<open>A call made while a message of depth \<open>d\<close> is handled, and one made in the context of the process.\<close>

lemma callBack_accepted:
  assumes "accepting rt sent" and "carries ctx d m" and "identified ctx cid" and "call_kind c = Some k" and "in_int64 (d + 1)"
  obtains w' where "callBack (syncCallbacks rt isClient) ctx c w = (Ret None, w')"
    and "sent w' = sent w @ [Doc (call_doc isClient (d + 1) m c)]"
proof -
  obtain w' where "rtOutInvoke rt (Doc (call_doc isClient (d + 1) m c)) w = (Ret None, w')"
    and "sent w' = sent w @ [Doc (call_doc isClient (d + 1) m c)]"
    by (rule accepting_Invoke [OF assms(1)])
  then show thesis
    using callBack_sends [OF assms(2-4), of rt isClient w None w'] wrap64_id [OF assms(5)] that by simp
qed

lemma callBack_opens:
  assumes "accepting rt sent" and "fresh ctx" and "identified ctx cid" and "call_kind c = Some k"
  obtains m w' where "callBack (syncCallbacks rt isClient) ctx c w = (Ret None, w')"
    and "sent w' = sent w @ [Doc (call_doc isClient 1 m c)]"
proof -
  have rt: "runtime_contract rt sent" using assms(1) by (simp add: accepting_def)
  obtain m v where new: "rtNewMsgId rt w = (Ret m, v)" "sent v = sent w"
    by (rule runtime_contract_NewMsgId [OF rt])
  obtain w' where "rtOutInvoke rt (Doc (call_doc isClient 1 m c)) v = (Ret None, w')"
    and "sent w' = sent v @ [Doc (call_doc isClient 1 m c)]"
    by (rule accepting_Invoke [OF assms(1)])
  then show thesis
    using callBack_starts [OF assms(2-4) new(1), of isClient None w'] new(2) that by simp
qed

section \<open>Handling one message\<close>

lemma receive_call:
  assumes "epAdapters E = [A]" and "in_int64 d" and "d \<le> maxMessageDepth" and "call_wf c"
    and "ctx' = ContextFromGeneric ctx (call_generic d m c)"
    and "handleCall [A] (syncCallbacks (epRuntime E) (epIsClient E)) ctx' (as_received peer c) (s, w) = (r, (s', w'))"
  shows "receive E (Doc (call_doc peer d m c)) (ctx, s, w) =
     ((ctx', s', w'), drop (length (epSent E w)) (epSent E w'))"
  using assms(1,5,6) inPoolFunc_call [OF assms(2-4), of "[A]" "syncCallbacks (epRuntime E) (epIsClient E)" peer m ctx "(s, w)"]
  by (cases r) (auto simp: receive_def Let_def logHandling_def derefEvent_def andThen_def split: option.splits)

lemma call_generic_ctx:
  "carries (ContextFromGeneric ctx (call_generic d m c)) d m"
  "identified (ContextFromGeneric ctx (call_generic d m c)) cid = identified ctx cid"
  using carries_ContextFromGeneric [of ctx "call_generic d m c"] by (simp_all add: call_generic_def)

lemma callBack_answers:
  assumes "accepting rt sent" and "identified ctx cid" and "call_kind c = Some k" and "in_int64 d" and "d \<le> maxMessageDepth"
  shows "\<exists>w'. callBack (syncCallbacks rt isClient) (ContextFromGeneric ctx (call_generic d m c0)) c w = (Ret None, w')
     \<and> sent w' = sent w @ [Doc (call_doc isClient (d + 1) m c)]"
proof -
  have ctx: "identified (ContextFromGeneric ctx (call_generic d m c0)) cid" using assms(2) by simp
  have deeper: "in_int64 (d + 1)" using assms(4,5) by (simp add: int64_defs maxMessageDepth_def)
  obtain w' where "callBack (syncCallbacks rt isClient) (ContextFromGeneric ctx (call_generic d m c0)) c w = (Ret None, w')"
    and "sent w' = sent w @ [Doc (call_doc isClient (d + 1) m c)]"
    by (rule callBack_accepted [OF assms(1) call_generic_ctx(1) ctx assms(3) deeper])
  then show ?thesis by blast
qed

lemma unversioned_simps [simp]:
  "KindName_String (unversioned oid) = KindName_String oid" "knKind (unversioned oid) = knKind oid"
  "knName (unversioned oid) = knName oid" "knNamespace (unversioned oid) = knNamespace oid"
  "unversioned (unversioned oid) = unversioned oid"
  by (simp_all add: unversioned_def KindName_String_def)

fun adapterCall :: "('s, 'w) Adapter \<Rightarrow> 'w Callbacks \<Rightarrow> Context \<Rightarrow> syncCall \<Rightarrow> ('s \<times> 'w, goerror option) go" where
  "adapterCall A cbs ctx (CallDelete oid) = adDeleteObject A cbs ctx oid"
| "adapterCall A cbs ctx (CallGet oid base) = adGetObject A cbs ctx oid base"
| "adapterCall A cbs ctx (CallPatch oid checksum patch) = adPatchObject A cbs ctx oid checksum patch"
| "adapterCall A cbs ctx (CallPut oid checksum object) = adPutObject A cbs ctx oid checksum object"
| "adapterCall A cbs ctx (CallVerify oid checksum) = adVerifyObject A cbs ctx oid checksum"
| "adapterCall A cbs ctx (CallBatch kind batchType items) = adBatch A cbs ctx kind batchType items"

lemma handleCall_single:
  "adapterCall A cbs ctx c sw = (Ret r, sw') \<Longrightarrow> \<exists>r'. handleCall [A] cbs ctx c sw = (Ret r', sw')"
  by (cases c; cases r) (simp_all add: handleSync_defs wrapping_def)

lemma receive_single:
  assumes "epAdapters E = [A]" and "in_int64 d" and "d \<le> maxMessageDepth" and "call_wf c"
    and "ctx' = ContextFromGeneric ctx (call_generic d m c)"
    and "adapterCall A (syncCallbacks (epRuntime E) (epIsClient E)) ctx' (as_received peer c) (s, w) = (Ret r, (s', w'))"
  shows "receive E (Doc (call_doc peer d m c)) (ctx, s, w) =
     ((ctx', s', w'), drop (length (epSent E w)) (epSent E w'))"
  using receive_call [OF assms(1-5)] handleCall_single [OF assms(6)] by blast

section \<open>The server\<close>

lemma saveIfNewer_unversioned [simp]: "saveIfNewer lib (unversioned oid) = saveIfNewer lib oid"
  by (simp only: saveIfNewer_def [abs_def] unversioned_simps)

text \<open>What the server asks with when it does not have what it should.\<close>

definition serverBase :: "MockAdapter \<Rightarrow> KindName \<Rightarrow> string" where
  "serverBase sv oid = (case moResources sv (KindName_String oid) of None \<Rightarrow> [] | Some object \<Rightarrow> object)"

lemma server_put:
  assumes "in_int64 d" and "d \<le> maxMessageDepth"
  shows "\<exists>ctx'. receive (referenceEnd mlib rt sent) (Doc (call_doc True d m (CallPut oid chk new))) (ctx, sv, v) =
     ((ctx', saveIfNewer mlib oid new sv, v), [])"
  using receive_single [of "referenceEnd mlib rt sent" "mockAdapter mlib" d "CallPut oid chk new" _ ctx m True sv v None
      "saveIfNewer mlib oid new sv" v, OF _ assms _ refl]
  by (simp add: referenceEnd_def mockAdapter_def mock_PutObject_def)

lemma server_delete:
  assumes "in_int64 d" and "d \<le> maxMessageDepth"
  shows "\<exists>ctx'. receive (referenceEnd mlib rt sent) (Doc (call_doc True d m (CallDelete oid))) (ctx, sv, v) =
     ((ctx', sv\<lparr>moResources := (moResources sv)(KindName_String oid := None)\<rparr>, v), [])"
  using receive_single [of "referenceEnd mlib rt sent" "mockAdapter mlib" d "CallDelete oid" _ ctx m True sv v None
      "sv\<lparr>moResources := (moResources sv)(KindName_String oid := None)\<rparr>" v, OF _ assms _ refl]
  by (simp add: referenceEnd_def mockAdapter_def mock_DeleteObject_def)

lemma server_verified:
  assumes "in_int64 d" and "d \<le> maxMessageDepth"
    and "moResources sv (KindName_String oid) = Some ob" and "jlCanonicalHash (mlJson mlib) ob = Inr chk"
  shows "\<exists>ctx'. receive (referenceEnd mlib rt sent) (Doc (call_doc True d m (CallVerify oid chk))) (ctx, sv, v) =
     ((ctx', sv, v), [])"
  using receive_single [of "referenceEnd mlib rt sent" "mockAdapter mlib" d "CallVerify oid chk" _ ctx m True sv v None
      sv v, OF _ assms(1,2) _ refl] assms(3,4)
  by (simp add: referenceEnd_def mockAdapter_def mock_VerifyObject_def mock_verifyObject_def)

lemma server_patched:
  assumes "in_int64 d" and "d \<le> maxMessageDepth"
    and "moResources sv (KindName_String oid) = Some ob" and "jlMergePatch (mlJson mlib) ob p = Inr x"
    and "jlCanonicalHash (mlJson mlib) x = Inr h"
  shows "\<exists>ctx' sv'. receive (referenceEnd mlib rt sent) (Doc (call_doc True d m (CallPatch oid h p))) (ctx, sv, v) =
     ((ctx', sv', v), []) \<and> moResources sv' = moResources (saveIfNewer mlib oid x sv)"
proof -
  obtain sv' where "mock_PatchObject mlib (syncCallbacks rt False)
        (ContextFromGeneric ctx (call_generic d m (CallPatch oid h p))) (unversioned oid) h p (sv, v) = (Ret None, (sv', v))"
    and "moResources sv' = moResources (saveIfNewer mlib oid x sv)"
    using mock_PatchObject_applied [of sv "unversioned oid" ob mlib p x h "syncCallbacks rt False"
        "ContextFromGeneric ctx (call_generic d m (CallPatch oid h p))" v] assms(3-5) by auto
  then show ?thesis
    using receive_single [of "referenceEnd mlib rt sent" "mockAdapter mlib" d "CallPatch oid h p" _ ctx m True sv v None
        sv' v, OF _ assms(1,2) _ refl]
    by (simp add: referenceEnd_def mockAdapter_def)
qed

text \<open>A checksum or a patch that does not fit is answered with a get.\<close>

lemma server_asks:
  assumes "accepting rt sent" and "identified ctx cid" and "knKind oid = Some kind"
    and "in_int64 d" and "d \<le> maxMessageDepth" and "call_wf c"
    and "\<And>ctx'. adapterCall (mockAdapter mlib) (syncCallbacks rt False) ctx' (as_received True c) (sv, v) =
        on_snd (cbGetObject (syncCallbacks rt False) ctx' (unversioned oid) base) (sv, v)"
  shows "\<exists>ctx' v'. receive (referenceEnd mlib rt sent) (Doc (call_doc True d m c)) (ctx, sv, v) =
     ((ctx', sv, v'), [Doc (call_doc False (d + 1) m (CallGet (unversioned oid) base))])"
proof -
  let ?ctx = "ContextFromGeneric ctx (call_generic d m c)"
  obtain v' where get: "cbGetObject (syncCallbacks rt False) ?ctx (unversioned oid) base v = (Ret None, v')"
    and sent: "sent v' = sent v @ [Doc (call_doc False (d + 1) m (CallGet (unversioned oid) base))]"
    using callBack_answers [OF assms(1,2) _ assms(4,5), of "CallGet (unversioned oid) base" kind False m c v] assms(3)
    by auto
  have "adapterCall (mockAdapter mlib) (syncCallbacks rt False) ?ctx (as_received True c) (sv, v) = (Ret None, (sv, v'))"
    using assms(7) get by simp
  then show ?thesis
    using receive_single [of "referenceEnd mlib rt sent" "mockAdapter mlib" d c _ ctx m True sv v None sv v', OF _ assms(4-6) refl] sent
    by (simp add: referenceEnd_def)
qed

lemma server_asks_verify:
  assumes "accepting rt sent" and "identified ctx cid" and "knKind oid = Some kind" and "in_int64 d" and "d \<le> maxMessageDepth"
    and "\<And>ob. moResources sv (KindName_String oid) = Some ob \<Longrightarrow> \<exists>h. jlCanonicalHash (mlJson mlib) ob = Inr h \<and> h \<noteq> chk"
  shows "\<exists>ctx' v'. receive (referenceEnd mlib rt sent) (Doc (call_doc True d m (CallVerify oid chk))) (ctx, sv, v) =
     ((ctx', sv, v'), [Doc (call_doc False (d + 1) m (CallGet (unversioned oid) (serverBase sv oid)))])"
  by (rule server_asks [OF assms(1-5)])
    (use assms(6) in \<open>auto simp: mockAdapter_def mock_VerifyObject_def mock_verifyObject_def serverBase_def split: option.splits\<close>)

lemma server_asks_patch:
  assumes "accepting rt sent" and "identified ctx cid" and "knKind oid = Some kind" and "in_int64 d" and "d \<le> maxMessageDepth"
    and "moResources sv (KindName_String oid) = Some ob"
    and "\<And>x. jlMergePatch (mlJson mlib) ob p = Inr x \<Longrightarrow> jlCanonicalHash (mlJson mlib) x \<noteq> Inr h"
  shows "\<exists>ctx' v'. receive (referenceEnd mlib rt sent) (Doc (call_doc True d m (CallPatch oid h p))) (ctx, sv, v) =
     ((ctx', sv, v'), [Doc (call_doc False (d + 1) m (CallGet (unversioned oid) ob))])"
proof (rule server_asks [OF assms(1-5)])
  show "adapterCall (mockAdapter mlib) (syncCallbacks rt False) ctx' (as_received True (CallPatch oid h p)) (sv, v) =
      on_snd (cbGetObject (syncCallbacks rt False) ctx' (unversioned oid) ob) (sv, v)" for ctx'
  proof (cases "jlMergePatch (mlJson mlib) ob p")
    case (Inr x)
    then show ?thesis using assms(6,7)
      by (cases "jlCanonicalHash (mlJson mlib) x") (auto simp: mockAdapter_def mock_PatchObject_def mock_patchObject_def)
  qed (simp add: mockAdapter_def mock_PatchObject_def mock_patchObject_def assms(6))
qed simp

section \<open>The client\<close>

text \<open>What the cluster holds for an object, as the client would send it; reading it may change the cluster's state.\<close>

definition clusterObject :: "'o kubelib \<Rightarrow> ('o, 'k) kubeapi \<Rightarrow> Client \<Rightarrow> KindName \<Rightarrow> 'k \<Rightarrow> string \<Rightarrow> string \<Rightarrow> 'k \<Rightarrow> bool" where
  "clusterObject lib api c oid k new chk k' \<longleftrightarrow>
     (\<exists>obj k1 obj' r. getResource lib api c (knNamespace oid) (knName oid) k = (Ret (Inr obj), k1)
        \<and> filterAndMarshal lib c obj = Inr (new, obj') \<and> getChecksum lib api c obj' k1 = (Ret r, k')
        \<and> chk = (case r of Inl _ \<Rightarrow> [] | Inr checksum \<Rightarrow> checksum))"

lemma client_GetObject_answers:
  assumes "clusterObject lib api c oid k new chk k'" and "putOrPatch lib c oid chk base new call" and "icCallbacks c"
    and "callBack cbs ctx call w = (Ret None, w')"
  shows "client_GetObject lib api cbs ctx oid base ((c, k), w) = (Ret None, ((remembered c oid new, k'), w'))"
  using assms(1) callPutOrPatch_sends [OF assms(2-4)] by (auto simp: clusterObject_def client_GetObject_def)

lemma putOrPatch_kind: "putOrPatch lib c oid chk base new call \<Longrightarrow> call_kind call = knKind oid \<and> call_wf call"
  by (auto elim!: putOrPatch.cases)

lemma client_answers:
  assumes "accepting rt sent" and "identified ctx cid" and "in_int64 d" and "d \<le> maxMessageDepth"
    and "knKind oid = Some (icKind c)" and "iaClients a (Kind_String (icKind c)) = Some c" and "icCallbacks c"
    and "clusterObject lib api c oid (iaCluster a) new chk k'" and "putOrPatch lib c (unversioned oid) chk base new call"
  shows "\<exists>ctx' w'. receive (inclusterEnd lib api rt sent) (Doc (call_doc False d m (CallGet (unversioned oid) base))) (ctx, a, w) =
     ((ctx', a\<lparr>iaClients := (iaClients a)(Kind_String (icKind c) \<mapsto> remembered c oid new), iaCluster := k'\<rparr>, w'),
       [Doc (call_doc True (d + 1) m call)])"
proof -
  let ?a = "a\<lparr>iaClients := (iaClients a)(Kind_String (icKind c) \<mapsto> remembered c oid new), iaCluster := k'\<rparr>"
  let ?ctx = "ContextFromGeneric ctx (call_generic d m (CallGet (unversioned oid) base))"
  obtain w' where send: "callBack (syncCallbacks rt True) ?ctx call w = (Ret None, w')"
    and sent: "sent w' = sent w @ [Doc (call_doc True (d + 1) m call)]"
    using callBack_answers [OF assms(1,2) _ assms(3,4), of call "icKind c" True m "CallGet (unversioned oid) base" w]
      assms(5) putOrPatch_kind [OF assms(9)] by auto
  have "clusterObject lib api c (unversioned oid) (iaCluster a) new chk k'" using assms(8) by (simp add: clusterObject_def)
  note got = client_GetObject_answers [OF this assms(9,7) send]
  then have "adapterCall (inclusterAdapter lib api) (syncCallbacks rt True) ?ctx (CallGet (unversioned oid) base) (a, w)
      = (Ret None, (?a, w'))"
    using assms(5,6)
    by (simp add: inclusterAdapter_def ic_GetObject_def for_object_def with_client_def GetClientByKind_def remembered_def)
  then show ?thesis
    using receive_single [of "inclusterEnd lib api rt sent" "inclusterAdapter lib api" d "CallGet (unversioned oid) base"
        ?ctx ctx m False a w None ?a w', OF _ assms(3,4) _ refl] sent
    by (auto simp: inclusterEnd_def)
qed

text \<open>What a client reads depends on its kind and its connections; the strategy and the reference objects have no part in it.\<close>

lemma reads_parts:
  assumes "icKind c' = icKind c" and "icDynamicClient c' = icDynamicClient c" and "icStorageClient c' = icStorageClient c"
  shows "getResource lib api c' = getResource lib api c" and "filterAndMarshal lib c' = filterAndMarshal lib c"
    and "getObjectFromMeta lib api c' = getObjectFromMeta lib api c" and "getChecksum lib api c' = getChecksum lib api c"
    and "clusterObject lib api c' = clusterObject lib api c"
proof -
  show 1: "getResource lib api c' = getResource lib api c"
    by (intro ext) (simp only: getResource_def dynGet_def usesStorage_def assms)
  show 2: "filterAndMarshal lib c' = filterAndMarshal lib c"
    by (intro ext) (simp only: filterAndMarshal_def assms)
  show 3: "getObjectFromMeta lib api c' = getObjectFromMeta lib api c"
    by (intro ext) (simp only: getObjectFromMeta_def assms 1 2)
  show 4: "getChecksum lib api c' = getChecksum lib api c"
    by (intro ext) (simp only: getChecksum_def 3)
  show "clusterObject lib api c' = clusterObject lib api c"
    by (intro ext) (simp only: clusterObject_def 1 2 4)
qed

lemma shadows_read [simp]:
  "getResource lib api (c\<lparr>icShadowObjects := sh\<rparr>) = getResource lib api c"
  "filterAndMarshal lib (c\<lparr>icShadowObjects := sh\<rparr>) = filterAndMarshal lib c"
  "getObjectFromMeta lib api (c\<lparr>icShadowObjects := sh\<rparr>) = getObjectFromMeta lib api c"
  "getChecksum lib api (c\<lparr>icShadowObjects := sh\<rparr>) = getChecksum lib api c"
  "clusterObject lib api (c\<lparr>icShadowObjects := sh\<rparr>) = clusterObject lib api c"
  by (rule reads_parts; simp)+

lemma strategy_read [simp]:
  "getResource lib api (c\<lparr>icStrategy := st\<rparr>) = getResource lib api c"
  "filterAndMarshal lib (c\<lparr>icStrategy := st\<rparr>) = filterAndMarshal lib c"
  "getObjectFromMeta lib api (c\<lparr>icStrategy := st\<rparr>) = getObjectFromMeta lib api c"
  "getChecksum lib api (c\<lparr>icStrategy := st\<rparr>) = getChecksum lib api c"
  "clusterObject lib api (c\<lparr>icStrategy := st\<rparr>) = clusterObject lib api c"
  by (rule reads_parts; simp)+

lemma remembered_simps [simp]:
  "icKind (remembered c oid ob) = icKind c" "icCallbacks (remembered c oid ob) = icCallbacks c"
  "icStrategy (remembered c oid ob) = icStrategy c" "clusterObject lib api (remembered c oid ob) = clusterObject lib api c"
  by (simp_all add: remembered_def)

section \<open>Repair\<close>

text \<open>
  The copy of \<open>new\<close> can be brought to the server: there is none, and the client has no reference to
  patch; or there is one that is older and differs in more than its version.
\<close>

definition repairable :: "'o kubelib \<Rightarrow> mocklib \<Rightarrow> (string \<Rightarrow> bool) \<Rightarrow> Client \<Rightarrow> MockAdapter \<Rightarrow> KindName \<Rightarrow> string \<Rightarrow> bool" where
  "repairable lib mlib ok c sv oid new \<longleftrightarrow> ok new \<and>
     (case moResources sv (KindName_String oid) of
        None \<Rightarrow> icStrategy c \<noteq> PatchStrategy \<or> icShadowObjects c (KindName_String oid) = None
      | Some ob \<Rightarrow> ob \<noteq> [] \<and> ok ob
          \<and> (\<forall>x. jlCanonicalHash (klJson lib) x = jlCanonicalHash (klJson lib) new \<longrightarrow> supersedes mlib x ob)
          \<and> (\<forall>p. icStrategy c = PatchStrategy \<and> jlCreateMergePatch (klJson lib) ob new = Inr p \<longrightarrow> \<not> emptyPatch_Match p))"

text \<open>The server has a copy of \<open>new\<close>, the same up to formatting, and what else it had.\<close>

definition copied :: "jsonlib \<Rightarrow> MockAdapter \<Rightarrow> MockAdapter \<Rightarrow> KindName \<Rightarrow> string \<Rightarrow> bool" where
  "copied jl sv sv' oid new \<longleftrightarrow>
     (\<exists>x h. moResources sv' = (moResources sv)(KindName_String oid \<mapsto> x)
        \<and> jlCanonicalHash jl x = Inr h \<and> jlCanonicalHash jl new = Inr h)"

lemma copied_unversioned [simp]: "copied jl sv sv' (unversioned oid) new = copied jl sv sv' oid new"
  by (simp add: copied_def)

lemma merge_contract_hash: "merge_contract jl ok \<Longrightarrow> ok a \<Longrightarrow> \<exists>h. jlCanonicalHash jl a = Inr h"
  unfolding merge_contract_def by blast

lemma saved_is_copied:
  assumes "repairable lib mlib ok c sv oid new" and "jlCanonicalHash (klJson lib) x = Inr h"
    and "jlCanonicalHash (klJson lib) new = Inr h" and "moResources sv' = moResources (saveIfNewer mlib oid x sv)"
  shows "copied (klJson lib) sv sv' oid new"
  using assms by (auto simp: copied_def repairable_def saveIfNewer_Resources split: option.splits if_splits)

text \<open>A call that leaves the server with the copy it should have.\<close>

definition mends :: "mocklib \<Rightarrow> MockAdapter \<Rightarrow> KindName \<Rightarrow> string \<Rightarrow> syncCall \<Rightarrow> bool" where
  "mends mlib sv oid new call \<longleftrightarrow> (\<exists>x h. jlCanonicalHash (mlJson mlib) x = Inr h \<and> jlCanonicalHash (mlJson mlib) new = Inr h
     \<and> (\<forall>ob. moResources sv (KindName_String oid) = Some ob \<longrightarrow> supersedes mlib x ob)
     \<and> ((\<exists>chk. call = CallPut oid chk x) \<or>
        (\<exists>p ob. call = CallPatch oid h p \<and> moResources sv (KindName_String oid) = Some ob \<and> jlMergePatch (mlJson mlib) ob p = Inr x)))"

lemma mends_received:
  assumes "mends mlib sv oid new call" and "in_int64 d" and "d \<le> maxMessageDepth"
  shows "\<exists>ctx' sv'. receive (referenceEnd mlib rt sent) (Doc (call_doc True d m call)) (ctx, sv, v) = ((ctx', sv', v), [])
     \<and> copied (mlJson mlib) sv sv' oid new"
proof -
  obtain x h where x: "jlCanonicalHash (mlJson mlib) x = Inr h" "jlCanonicalHash (mlJson mlib) new = Inr h"
    "\<And>ob. moResources sv (KindName_String oid) = Some ob \<Longrightarrow> supersedes mlib x ob"
    and call: "(\<exists>chk. call = CallPut oid chk x) \<or> (\<exists>p ob. call = CallPatch oid h p \<and>
       moResources sv (KindName_String oid) = Some ob \<and> jlMergePatch (mlJson mlib) ob p = Inr x)"
    using assms(1) unfolding mends_def by blast
  have "moResources (saveIfNewer mlib oid x sv) = (moResources sv)(KindName_String oid \<mapsto> x)"
    using x(3) by (auto simp: saveIfNewer_Resources split: option.splits)
  then have copied: "copied (mlJson mlib) sv sv' oid new" if "moResources sv' = moResources (saveIfNewer mlib oid x sv)" for sv'
    using that x(1,2) unfolding copied_def by auto
  from call show ?thesis
  proof
    assume "\<exists>chk. call = CallPut oid chk x"
    then show ?thesis using server_put [OF assms(2,3), of mlib rt sent m oid _ x ctx sv v] copied [OF refl] by blast
  next
    assume "\<exists>p ob. call = CallPatch oid h p \<and> moResources sv (KindName_String oid) = Some ob \<and> jlMergePatch (mlJson mlib) ob p = Inr x"
    then obtain p ob where "call = CallPatch oid h p" "moResources sv (KindName_String oid) = Some ob" "jlMergePatch (mlJson mlib) ob p = Inr x"
      by blast
    then show ?thesis using server_patched [OF assms(2,3) _ _ x(1), of sv oid ob p rt sent m ctx v] copied by auto
  qed
qed

lemma repairable_answer:
  assumes lib: "merge_contract (klJson lib) ok" "mlJson mlib = klJson lib" and server: "repairable lib mlib ok c sv oid new"
  shows "\<exists>call. putOrPatch lib c (unversioned oid) chk (serverBase sv oid) new call \<and> mends mlib sv (unversioned oid) new call"
proof (cases "icStrategy c = PatchStrategy \<and> moResources sv (KindName_String oid) \<noteq> None")
  case True
  then obtain ob where ob: "moResources sv (KindName_String oid) = Some ob" by blast
  then have "ob \<noteq> []" "ok ob" "ok new" using server by (simp_all add: repairable_def)
  then obtain p r h where prh: "jlCreateMergePatch (klJson lib) ob new = Inr p" "jlMergePatch (klJson lib) ob p = Inr r"
    "jlCanonicalHash (klJson lib) r = Inr h" "jlCanonicalHash (klJson lib) new = Inr h"
    using lib(1) unfolding merge_contract_def by blast
  have "putOrPatch lib c (unversioned oid) chk (serverBase sv oid) new (CallPatch (unversioned oid) h p)"
    by (rule putOrPatch.patch [OF _ _ prh(1) _ prh(2,3)])
      (use True ob \<open>ob \<noteq> []\<close> prh(1) server in \<open>simp_all add: serverBase_def referenceObject_def repairable_def\<close>)
  moreover have "mends mlib sv (unversioned oid) new (CallPatch (unversioned oid) h p)"
    unfolding mends_def by (rule exI [of _ r], rule exI [of _ h]) (use prh ob lib(2) server in \<open>simp add: repairable_def\<close>)
  ultimately show ?thesis by blast
next
  case False
  then have "putOrPatch lib c (unversioned oid) chk (serverBase sv oid) new (CallPut (unversioned oid) chk new)"
    using server by (intro putOrPatch.put) (auto simp: serverBase_def referenceObject_def repairable_def)
  moreover obtain h where h: "jlCanonicalHash (klJson lib) new = Inr h"
    using merge_contract_hash [OF lib(1)] server by (auto simp: repairable_def)
  have "mends mlib sv (unversioned oid) new (CallPut (unversioned oid) chk new)"
    unfolding mends_def by (rule exI [of _ new], rule exI [of _ h]) (use h lib(2) server in \<open>auto simp: repairable_def\<close>)
  ultimately show ?thesis by blast
qed

lemma get_repairs:
  assumes rt: "accepting rtC sentC" and lib: "merge_contract (klJson lib) ok" "mlJson mlib = klJson lib"
    and ctx: "identified ctxC cidC" and d: "in_int64 d" "d < maxMessageDepth"
    and client: "knKind oid = Some (icKind c)" "iaClients a (Kind_String (icKind c)) = Some c" "icCallbacks c"
      "clusterObject lib api c oid (iaCluster a) new chk k'"
    and server: "repairable lib mlib ok c sv oid new"
  shows "\<exists>cl' ctxS' sv' v'. settles (inclusterEnd lib api rtC sentC) (referenceEnd mlib rtS sentS)
       ((ctxC, a, w), (ctxS, sv, v), [], [Doc (call_doc False d m (CallGet (unversioned oid) (serverBase sv oid)))])
       (cl', (ctxS', sv', v'), [], [])
     \<and> copied (klJson lib) sv sv' oid new"
proof -
  have deeper: "in_int64 (d + 1)" "d + 1 \<le> maxMessageDepth" "d \<le> maxMessageDepth"
    using d by (simp_all add: int64_defs maxMessageDepth_def)
  obtain call where call: "putOrPatch lib c (unversioned oid) chk (serverBase sv oid) new call"
    and mends: "mends mlib sv (unversioned oid) new call"
    using repairable_answer [OF lib server] by blast
  obtain ctxS' sv' where rec: "receive (referenceEnd mlib rtS sentS) (Doc (call_doc True (d + 1) m call)) (ctxS, sv, v) = ((ctxS', sv', v), [])"
    and saved: "copied (klJson lib) sv sv' oid new"
    using mends_received [OF mends deeper(1,2), of rtS sentS m ctxS v] lib(2) by auto
  obtain ctxC' a' w' where "receive (inclusterEnd lib api rtC sentC)
       (Doc (call_doc False d m (CallGet (unversioned oid) (serverBase sv oid)))) (ctxC, a, w) =
     ((ctxC', a', w'), [Doc (call_doc True (d + 1) m call)])"
    using client_answers [OF rt ctx d(1) deeper(3) client call] by blast
  then have "settles (inclusterEnd lib api rtC sentC) (referenceEnd mlib rtS sentS)
       ((ctxC, a, w), (ctxS, sv, v), [], [Doc (call_doc False d m (CallGet (unversioned oid) (serverBase sv oid)))])
       ((ctxC', a', w'), (ctxS', sv', v), [], [])"
    by (rule settles_client) (rule settles_server [OF rec settles_done])
  then show ?thesis using saved by blast
qed

text \<open>A checksum, and a patch against whatever reference: the copy is right, or it is repaired.\<close>

lemma verify_repairs:
  assumes rt: "accepting rtC sentC" "accepting rtS sentS" and lib: "merge_contract (klJson lib) ok" "mlJson mlib = klJson lib"
    and ctx: "identified ctxC cidC" "identified ctxS cidS" and d: "in_int64 d" "d + 1 < maxMessageDepth"
    and client: "knKind oid = Some (icKind c)" "iaClients a (Kind_String (icKind c)) = Some c" "icCallbacks c"
      "clusterObject lib api c oid (iaCluster a) new chk' k'"
    and server: "repairable lib mlib ok c sv oid new" and chk: "jlCanonicalHash (klJson lib) new = Inr chk"
  shows "\<exists>cl' ctxS' sv' v'. settles (inclusterEnd lib api rtC sentC) (referenceEnd mlib rtS sentS)
       ((ctxC, a, w), (ctxS, sv, v), [Doc (call_doc True d m (CallVerify oid chk))], []) (cl', (ctxS', sv', v'), [], [])
     \<and> copied (klJson lib) sv sv' oid new"
proof (cases "\<exists>ob. moResources sv (KindName_String oid) = Some ob \<and> jlCanonicalHash (klJson lib) ob = Inr chk")
  case True
  then obtain ob where ob: "moResources sv (KindName_String oid) = Some ob" "jlCanonicalHash (klJson lib) ob = Inr chk" by blast
  then obtain ctx' where "receive (referenceEnd mlib rtS sentS) (Doc (call_doc True d m (CallVerify oid chk))) (ctxS, sv, v) = ((ctx', sv, v), [])"
    using server_verified [OF d(1), of sv oid ob mlib chk rtS sentS m ctxS v] d(2) lib(2) by auto
  moreover have "copied (klJson lib) sv sv oid new"
    unfolding copied_def by (intro exI [of _ ob] exI [of _ chk]) (simp add: ob chk map_upd_triv)
  ultimately show ?thesis using settles_server [OF _ settles_done] by blast
next
  case False
  have d': "in_int64 (d + 1)" "d \<le> maxMessageDepth" using d by (simp_all add: int64_defs maxMessageDepth_def)
  have "\<exists>h. jlCanonicalHash (mlJson mlib) ob = Inr h \<and> h \<noteq> chk" if "moResources sv (KindName_String oid) = Some ob" for ob
    using that False server merge_contract_hash [OF lib(1), of ob] lib(2) by (auto simp: repairable_def)
  then obtain ctx' v' where asks: "receive (referenceEnd mlib rtS sentS) (Doc (call_doc True d m (CallVerify oid chk))) (ctxS, sv, v) =
     ((ctx', sv, v'), [Doc (call_doc False (d + 1) m (CallGet (unversioned oid) (serverBase sv oid)))])"
    using server_asks_verify [OF rt(2) ctx(2) client(1) d(1) d'(2)] by blast
  then show ?thesis
    using settles_server [OF asks] get_repairs [OF rt(1) lib ctx(1) d'(1) d(2) client server,
        where rtS = rtS and sentS = sentS and w = w and ctxS = ctx' and v = v' and m = m] by blast
qed

lemma patch_repairs:
  assumes rt: "accepting rtC sentC" "accepting rtS sentS" and lib: "merge_contract (klJson lib) ok" "mlJson mlib = klJson lib"
    and ctx: "identified ctxC cidC" "identified ctxS cidS" and d: "in_int64 d" "d + 1 < maxMessageDepth"
    and client: "knKind oid = Some (icKind c)" "iaClients a (Kind_String (icKind c)) = Some c" "icCallbacks c"
      "clusterObject lib api c oid (iaCluster a) new chk' k'"
    and server: "repairable lib mlib ok c sv oid new" "moResources sv (KindName_String oid) = Some ob"
    and h: "jlCanonicalHash (klJson lib) new = Inr h"
  shows "\<exists>cl' ctxS' sv' v'. settles (inclusterEnd lib api rtC sentC) (referenceEnd mlib rtS sentS)
       ((ctxC, a, w), (ctxS, sv, v), [Doc (call_doc True d m (CallPatch oid h p))], []) (cl', (ctxS', sv', v'), [], [])
     \<and> copied (klJson lib) sv sv' oid new"
proof (cases "\<exists>x. jlMergePatch (klJson lib) ob p = Inr x \<and> jlCanonicalHash (klJson lib) x = Inr h")
  case True
  then obtain x where x: "jlMergePatch (klJson lib) ob p = Inr x" "jlCanonicalHash (klJson lib) x = Inr h" by blast
  then obtain ctx' sv' where "receive (referenceEnd mlib rtS sentS) (Doc (call_doc True d m (CallPatch oid h p))) (ctxS, sv, v) = ((ctx', sv', v), [])"
    and "moResources sv' = moResources (saveIfNewer mlib oid x sv)"
    using server_patched [OF d(1) _ server(2), of mlib p x h rtS sentS m ctxS v] d(2) lib(2) by auto
  then show ?thesis using settles_server [OF _ settles_done] saved_is_copied [OF server(1) x(2) h] by blast
next
  case False
  have d': "in_int64 (d + 1)" "d \<le> maxMessageDepth" using d by (simp_all add: int64_defs maxMessageDepth_def)
  obtain ctx' v' where asks: "receive (referenceEnd mlib rtS sentS) (Doc (call_doc True d m (CallPatch oid h p))) (ctxS, sv, v) =
     ((ctx', sv, v'), [Doc (call_doc False (d + 1) m (CallGet (unversioned oid) (serverBase sv oid)))])"
    using server_asks_patch [OF rt(2) ctx(2) client(1) d(1) d'(2) server(2), of mlib p h m v] False lib(2) server(2)
    by (auto simp: serverBase_def)
  then show ?thesis
    using settles_server [OF asks] get_repairs [OF rt(1) lib ctx(1) d'(1) d(2) client server(1),
        where rtS = rtS and sentS = sentS and w = w and ctxS = ctx' and v = v' and m = m] by blast
qed

section \<open>Events\<close>

lemma clientId_kind [simp]: "knKind (clientId lib c d) = Some (icKind c)"
  by (simp add: clientId_def itemId_def)

text \<open>A call the client of a kind makes, as the adapter sees it.\<close>

lemma with_client_run:
  assumes "iaClients a (Kind_String kind) = Some c" and "m ((c, iaCluster a), w) = (r, ((c', k'), w'))"
  shows "with_client kind m (a, w) =
     (r, (a\<lparr>iaClients := (iaClients a)(Kind_String kind \<mapsto> c'), iaCluster := k'\<rparr>, w'))"
  using assms by (simp add: with_client_def GetClientByKind_def)

lemma added_sends:
  assumes "accepting rt sent" and "fresh ctx" and "identified ctx cid" and "icCallbacks c" and "\<not> isFiltered lib c d"
    and "getChecksum lib api c d k = (Ret (Inr chk), k')"
  obtains m w' where "handleEvent lib api (syncCallbacks rt True) ctx (Added, Some d) ((c, k), w) = (Ret None, ((c, k'), w'))"
    and "sent w' = sent w @ [Doc (call_doc True 1 m (CallVerify (clientId lib c d) chk))]"
proof -
  obtain m w' where "callBack (syncCallbacks rt True) ctx (CallVerify (clientId lib c d) chk) w = (Ret None, w')"
    and "sent w' = sent w @ [Doc (call_doc True 1 m (CallVerify (clientId lib c d) chk))]"
    by (rule callBack_opens [OF assms(1-3), of "CallVerify (clientId lib c d) chk" "icKind c" True w]) simp
  then show thesis
    using that [of w' m] assms(4-6)
    by (simp add: handleEvent_def clientCallbacks_def clientId_def Let_def)
qed

definition unremembered :: "Client \<Rightarrow> KindName \<Rightarrow> Client" where
  "unremembered c oid =
     (if icStrategy c = PatchStrategy then c\<lparr>icShadowObjects := (icShadowObjects c)(KindName_String oid := None)\<rparr> else c)"

lemma deleted_sends:
  assumes "accepting rt sent" and "fresh ctx" and "identified ctx cid" and "icCallbacks c" and "\<not> isFiltered lib c d"
  obtains m w' where "handleEvent lib api (syncCallbacks rt True) ctx (Deleted, Some d) ((c, k), w) =
      (Ret None, ((unremembered c (clientId lib c d), k), w'))"
    and "sent w' = sent w @ [Doc (call_doc True 1 m (CallDelete (clientId lib c d)))]"
proof -
  obtain m w' where "callBack (syncCallbacks rt True) ctx (CallDelete (clientId lib c d)) w = (Ret None, w')"
    and "sent w' = sent w @ [Doc (call_doc True 1 m (CallDelete (clientId lib c d)))]"
    by (rule callBack_opens [OF assms(1-3), of "CallDelete (clientId lib c d)" "icKind c" True w]) simp
  then show thesis
    using that [of w' m] assms(4,5)
    by (cases "icStrategy c = PatchStrategy") (simp_all add: unremembered_def handleEvent_def clientCallbacks_def clientId_def Let_def)
qed

lemma modified_sends:
  assumes "accepting rt sent" and "fresh ctx" and "identified ctx cid" and "icCallbacks c" and "\<not> isFiltered lib c d"
    and "getObjectFromMeta lib api c d k = (Ret (Inr (new, d')), k1)" and "getChecksum lib api c d' k1 = (Ret r, k')"
    and "putOrPatch lib c (clientId lib c d) (case r of Inl _ \<Rightarrow> [] | Inr chk \<Rightarrow> chk) [] new call"
  obtains m w' where "handleEvent lib api (syncCallbacks rt True) ctx (Modified, Some d) ((c, k), w) =
      (Ret None, ((remembered c (clientId lib c d) new, k'), w'))"
    and "sent w' = sent w @ [Doc (call_doc True 1 m call)]"
proof -
  obtain m w' where send: "callBack (syncCallbacks rt True) ctx call w = (Ret None, w')"
    and "sent w' = sent w @ [Doc (call_doc True 1 m call)]"
    by (rule callBack_opens [OF assms(1-3), of call "icKind c" True w]) (use putOrPatch_kind [OF assms(8)] in simp)
  moreover have "sending what (callPutOrPatch lib (syncCallbacks rt True) ctx (clientId lib c d)
      (case r of Inl _ \<Rightarrow> [] | Inr chk \<Rightarrow> chk) [] new) (ret None) ((c, k'), w)
      = (Ret None, ((remembered c (clientId lib c d) new, k'), w'))" for what
    by (subst run_sending(1)) (rule callPutOrPatch_sends [OF assms(8,4) send], simp)
  ultimately show thesis
    using that [of w' m] assms(5-7) by (simp add: handleEvent_def clientId_def Let_def)
qed

text \<open>What the two ends rely on: pools that take messages, and a patch library both share.\<close>

definition connected :: "'w runtime \<Rightarrow> ('w \<Rightarrow> wire list) \<Rightarrow> 'v runtime \<Rightarrow> ('v \<Rightarrow> wire list) \<Rightarrow> 'o kubelib \<Rightarrow> mocklib \<Rightarrow>
    (string \<Rightarrow> bool) \<Rightarrow> bool" where
  "connected rtC sentC rtS sentS lib mlib ok \<longleftrightarrow> accepting rtC sentC \<and> accepting rtS sentS
     \<and> merge_contract (klJson lib) ok \<and> mlJson mlib = klJson lib"

lemma connectedD:
  assumes "connected rtC sentC rtS sentS lib mlib ok"
  shows "accepting rtC sentC" "accepting rtS sentS" "merge_contract (klJson lib) ok" "mlJson mlib = klJson lib"
  using assms by (simp_all add: connected_def)

text \<open>A cluster of one deployment, and a server with an old copy of it.\<close>

definition sampleMockLib :: mocklib where
  "sampleMockLib = \<lparr>mlJson = klJson treeKube, mlResourceVersion = Inr, mlAppend = klAppend treeKube\<rparr>"

definition unversionedLib :: mocklib where
  "unversionedLib = sampleMockLib\<lparr>mlResourceVersion := (\<lambda>_. Inl (GoError ''none''))\<rparr>"

abbreviation nginx :: json where "nginx \<equiv> sampleObject ''nginx'' ''3''"

abbreviation oldCopy :: MockAdapter where
  "oldCopy \<equiv> (NewMockAdapter False)\<lparr>moResources := [KindName_String (clientId treeKube sampleClient nginx) \<mapsto> ''old'']\<rparr>"

abbreviation startedAdapter :: "json list InCluster" where
  "startedAdapter \<equiv> (NewInClusterAdapter sampleConfig False [nginx])\<lparr>iaClients := [Kind_String (icKind sampleClient) \<mapsto> sampleClient]\<rparr>"

abbreviation processCtx :: Context where
  "processCtx \<equiv> ContextFromIdentifiers [] (zero_ClientIdentifier\<lparr>ciAccount := ''a''\<rparr>)"

lemma processCtx_fresh: "fresh processCtx"
  by (simp add: fresh_def ContextFromIdentifiers_def contextKey_defs ctx_Value_def WithValue_def)

lemma sample_reads:
  "filterAndMarshal treeKube sampleClient nginx = Inr (''nginx'', nginx)"
  "getResource treeKube treeApi sampleClient ''default'' ''nginx'' [nginx] = (Ret (Inr nginx), [nginx])"
  "\<not> isFiltered treeKube sampleClient nginx"
  by (simp_all add: filterAndMarshal_def MaskEnvironmentVariables_def containerTypes_def asSlice_def fieldsToRemove_def treeKube_def
      sampleObject_def asString_def Let_def getResource_def dynGet_def sampleClient_simps treeApi_def isFiltered_def hasParent_def
      skipNamespace_def sampleClient_def NewClient_def sampleConfig_def usesStorage_def wrapError_def split: option.splits)

lemma sample_checksum:
  "getObjectFromMeta treeKube treeApi sampleClient nginx [nginx] = (Ret (Inr (''nginx'', nginx)), [nginx])"
  "getChecksum treeKube treeApi sampleClient nginx [nginx] = (Ret (Inr ''nginx''), [nginx])"
proof -
  show 1: "getObjectFromMeta treeKube treeApi sampleClient nginx [nginx] = (Ret (Inr (''nginx'', nginx)), [nginx])"
    by (simp add: getObjectFromMeta_def sample_reads sampleClient_simps kubescapeCustomResourceGroup_def)
  have "klAnnotations treeKube nginx (klSyncChecksumMetadataKey treeKube) = None" "jlCanonicalHash (klJson treeKube) ob = Inr ob" for ob
    by (simp_all add: treeKube_def)
  then show "getChecksum treeKube treeApi sampleClient nginx [nginx] = (Ret (Inr ''nginx''), [nginx])"
    by (simp add: getChecksum_def 1 wrapError_def)
qed

lemma sample_json: "jlCanonicalHash (klJson treeKube) ob = Inr ob" "icShadowObjects sampleClient = Map.empty"
  by (simp_all add: treeKube_def sampleClient_def NewClient_def)

lemma sample_object: "clusterObject treeKube treeApi sampleClient (clientId treeKube sampleClient nginx) [nginx] ''nginx'' ''nginx'' [nginx]"
proof -
  have "knNamespace (clientId treeKube sampleClient nginx) = ''default''" "knName (clientId treeKube sampleClient nginx) = ''nginx''"
    by (simp_all add: clientId_def itemId_def treeKube_def asString_def sampleObject_def)
  then show ?thesis by (auto simp: clusterObject_def sample_reads sample_checksum)
qed

lemma sample_connected: "connected listRuntime (\<lambda>w. w) listRuntime (\<lambda>w. w) treeKube unversionedLib (\<lambda>_. True)"
  using listRuntime_accepting treeKube_merge by (simp add: connected_def unversionedLib_def sampleMockLib_def)

lemma sample_repairable:
  "icStrategy c = PatchStrategy \<Longrightarrow> repairable treeKube unversionedLib (\<lambda>_. True) c oldCopy (clientId treeKube sampleClient nginx) ''nginx''"
  by (simp add: repairable_def unversionedLib_def supersedes_def treeKube_def emptyPatch_at_def patchOpening_def)

section \<open>Properties\<close>

text \<open>
  An object that is added to the cluster arrives at the server: the client of its kind sends one
  message, and the conversation this starts ends, whatever order things happen in, with a copy of the
  object on the server, the same up to formatting and beside what the server had before. The server
  may have no copy, an older one or the right one already. (An object that the filter drops, a server
  that lost a copy the client still patches, and a copy that differs in its version only are left out.)
\<close>

theorem added_object_arrives:
  assumes net: "connected rtC sentC rtS sentS lib mlib ok"
    and ctx: "fresh ctx" "identified ctx cid" "identified ctxC cidC" "identified ctxS cidS"
    and client: "iaClients a (Kind_String (icKind c)) = Some c" "icCallbacks c" "\<not> isFiltered lib c d"
      "getChecksum lib api c d (iaCluster a) = (Ret (Inr chk), k1)"
      "clusterObject lib api c (clientId lib c d) k1 new chk' k2" "jlCanonicalHash (klJson lib) new = Inr chk"
    and server: "repairable lib mlib ok c sv (clientId lib c d) new"
  shows "\<exists>a1 w1 f cl' ctxS' sv' v'.
     with_client (icKind c) (handleEvent lib api (syncCallbacks rtC True) ctx (Added, Some d)) (a, w) = (Ret None, (a1, w1))
     \<and> sentC w1 = sentC w @ [f]
     \<and> settles (inclusterEnd lib api rtC sentC) (referenceEnd mlib rtS sentS)
         ((ctxC, a1, w1), (ctxS, sv, v), [f], []) (cl', (ctxS', sv', v'), [], [])
     \<and> copied (klJson lib) sv sv' (clientId lib c d) new"
proof -
  note net = connectedD [OF net]
  obtain m w1 where event: "handleEvent lib api (syncCallbacks rtC True) ctx (Added, Some d) ((c, iaCluster a), w) = (Ret None, ((c, k1), w1))"
    and sent: "sentC w1 = sentC w @ [Doc (call_doc True 1 m (CallVerify (clientId lib c d) chk))]"
    by (rule added_sends [OF net(1) ctx(1,2) client(2-4)])
  let ?a = "a\<lparr>iaClients := (iaClients a)(Kind_String (icKind c) \<mapsto> c), iaCluster := k1\<rparr>"
  have "\<exists>cl' ctxS' sv' v'. settles (inclusterEnd lib api rtC sentC) (referenceEnd mlib rtS sentS)
      ((ctxC, ?a, w1), (ctxS, sv, v), [Doc (call_doc True 1 m (CallVerify (clientId lib c d) chk))], []) (cl', (ctxS', sv', v'), [], [])
      \<and> copied (klJson lib) sv sv' (clientId lib c d) new"
    by (rule verify_repairs [OF net ctx(3,4) _ _ _ _ client(2) _ server client(6)])
      (use client(5) in \<open>simp_all add: int64_defs maxMessageDepth_def\<close>)
  moreover have "with_client (icKind c) (handleEvent lib api (syncCallbacks rtC True) ctx (Added, Some d)) (a, w) = (Ret None, (?a, w1))"
    by (rule with_client_run [OF client(1)]) (rule event)
  ultimately show ?thesis using sent by blast
qed

theorem added_object_arrives_witness:
  "\<exists>a1 w1 f cl' ctxS' sv' v'.
     with_client (icKind sampleClient) (handleEvent treeKube treeApi (syncCallbacks listRuntime True) processCtx (Added, Some nginx))
         (startedAdapter, []) = (Ret None, (a1, w1))
     \<and> w1 = [] @ [f]
     \<and> settles (inclusterEnd treeKube treeApi listRuntime (\<lambda>w. w)) (referenceEnd unversionedLib listRuntime (\<lambda>w. w))
         ((processCtx, a1, w1), (processCtx, oldCopy, []), [f], []) (cl', (ctxS', sv', v'), [], [])
     \<and> copied (klJson treeKube) oldCopy sv' (clientId treeKube sampleClient nginx) ''nginx''"
  by (rule added_object_arrives [OF sample_connected processCtx_fresh identified_ContextFromIdentifiers
        identified_ContextFromIdentifiers identified_ContextFromIdentifiers, where chk = "''nginx''" and chk' = "''nginx''"
        and ?k1.0 = "[nginx]" and ?k2.0 = "[nginx]"])
    (simp_all add: NewInClusterAdapter_def sampleClient_simps sample_reads sample_checksum sample_object sample_repairable sample_json)

lemma first_depth: "in_int64 1" "1 + 2 \<le> maxMessageDepth" "1 \<le> maxMessageDepth" "1 + 1 < maxMessageDepth"
  by (simp_all add: int64_defs maxMessageDepth_def)

text \<open>A modified object goes out as a patch of a copy the server has, or as a whole.\<close>

lemma modified_call:
  assumes "merge_contract (klJson lib) ok" and server: "repairable lib mlib ok c sv oid new"
    and reference: "\<And>old p. icStrategy c = PatchStrategy \<Longrightarrow> icShadowObjects c (KindName_String oid) = Some old \<Longrightarrow>
      ok old \<and> (jlCreateMergePatch (klJson lib) old new = Inr p \<longrightarrow> \<not> emptyPatch_Match p)"
  obtains (patch) h p ob where "putOrPatch lib c oid chk [] new (CallPatch oid h p)"
      "moResources sv (KindName_String oid) = Some ob" "jlCanonicalHash (klJson lib) new = Inr h"
  | (put) h where "putOrPatch lib c oid chk [] new (CallPut oid chk new)" "jlCanonicalHash (klJson lib) new = Inr h"
proof (cases "icStrategy c = PatchStrategy \<and> icShadowObjects c (KindName_String oid) \<noteq> None")
  case True
  then obtain old where old: "icStrategy c = PatchStrategy" "icShadowObjects c (KindName_String oid) = Some old" by blast
  have "ok new" using server by (simp add: repairable_def)
  then obtain p x h where pxh: "jlCreateMergePatch (klJson lib) old new = Inr p" "jlMergePatch (klJson lib) old p = Inr x"
    "jlCanonicalHash (klJson lib) x = Inr h" "jlCanonicalHash (klJson lib) new = Inr h"
    using assms(1) reference [OF old] unfolding merge_contract_def by blast
  obtain ob where ob: "moResources sv (KindName_String oid) = Some ob"
    using server True by (auto simp: repairable_def split: option.splits)
  have "putOrPatch lib c oid chk [] new (CallPatch oid h p)"
    by (rule putOrPatch.patch [OF _ _ pxh(1) _ pxh(2,3)])
      (use True old reference [OF old, of p] pxh(1) in \<open>simp_all add: referenceObject_def\<close>)
  then show thesis by (rule patch [OF _ ob pxh(4)])
next
  case False
  obtain h where "jlCanonicalHash (klJson lib) new = Inr h"
    using merge_contract_hash [OF assms(1)] server by (auto simp: repairable_def)
  moreover have "putOrPatch lib c oid chk [] new (CallPut oid chk new)"
    using False by (intro putOrPatch.put) (auto simp: referenceObject_def)
  ultimately show thesis using put by blast
qed

lemma modified_call_repairs:
  assumes net: "accepting rtC sentC" "accepting rtS sentS" "merge_contract (klJson lib) ok" "mlJson mlib = klJson lib"
    and ctx: "identified ctxC cidC" "identified ctxS cidS"
    and client: "iaClients a (Kind_String (icKind c)) = Some (remembered c oid new)" "icCallbacks c" "knKind oid = Some (icKind c)"
      "clusterObject lib api (remembered c oid new) oid (iaCluster a) new chk' k'"
    and reference: "\<And>old p. icStrategy c = PatchStrategy \<Longrightarrow> icShadowObjects c (KindName_String oid) = Some old \<Longrightarrow>
      ok old \<and> (jlCreateMergePatch (klJson lib) old new = Inr p \<longrightarrow> \<not> emptyPatch_Match p)"
    and server: "repairable lib mlib ok c sv oid new"
  shows "\<exists>call. putOrPatch lib c oid chk [] new call \<and>
     (\<forall>m w. \<exists>cl' ctxS' sv' v'. settles (inclusterEnd lib api rtC sentC) (referenceEnd mlib rtS sentS)
        ((ctxC, a, w), (ctxS, sv, v), [Doc (call_doc True 1 m call)], []) (cl', (ctxS', sv', v'), [], [])
        \<and> copied (klJson lib) sv sv' oid new)"
proof (rule modified_call [OF net(3) server, where chk = chk], goal_cases)
  case 1
  then show ?case by (rule reference)
next
  case (2 h p ob)
  have "repairable lib mlib ok (remembered c oid new) sv oid new" using server 2(2) by (simp add: repairable_def)
  then have "\<exists>cl' ctxS' sv' v'. settles (inclusterEnd lib api rtC sentC) (referenceEnd mlib rtS sentS)
      ((ctxC, a, w), (ctxS, sv, v), [Doc (call_doc True 1 m (CallPatch oid h p))], []) (cl', (ctxS', sv', v'), [], [])
      \<and> copied (klJson lib) sv sv' oid new" for m w
    by (rule patch_repairs [OF net ctx first_depth(1,4) _ _ _ _ _ 2(2,3), rotated 4]) (use client in simp_all)
  then show ?case using 2(1) by blast
next
  case (3 h)
  have "\<exists>cl' ctxS' sv' v'. settles (inclusterEnd lib api rtC sentC) (referenceEnd mlib rtS sentS)
      ((ctxC, a, w), (ctxS, sv, v), [Doc (call_doc True 1 m (CallPut oid chk new))], []) (cl', (ctxS', sv', v'), [], [])
      \<and> copied (klJson lib) sv sv' oid new" for m w
    using server_put [OF first_depth(1,3), of mlib rtS sentS m oid chk new ctxS sv v] settles_server [OF _ settles_done]
      saved_is_copied [OF server 3(2,2) refl] by blast
  then show ?case using 3(1) by blast
qed

text \<open>
  C13. An object that is modified in the cluster arrives at the server, with a patch or as a whole: when the
  client's reference object is not what the server has, so that its patch does not fit, the server asks back
  with its own copy and is sent a patch for that. The conversation ends with a copy of the new object on the
  server, in every order of events. The conditions: the object is not filtered, can be read in the cluster, and
  does not change meanwhile; the server's copy, if it has one, is one the new object replaces; if the kind is
  synchronized by patch, the server has a copy when the client has a reference object, and neither the patch
  from the reference nor that from the server's copy is taken for one of the version only; the event is handled
  before the server's answer, and nothing else happens to the object.
\<close>

theorem modified_object_arrives:
  assumes net: "connected rtC sentC rtS sentS lib mlib ok"
    and ctx: "fresh ctx" "identified ctx cid" "identified ctxC cidC" "identified ctxS cidS"
    and client: "iaClients a (Kind_String (icKind c)) = Some c" "icCallbacks c" "\<not> isFiltered lib c d"
      "getObjectFromMeta lib api c d (iaCluster a) = (Ret (Inr (new, d')), k1)" "getChecksum lib api c d' k1 = (Ret r, k2)"
      "clusterObject lib api c (clientId lib c d) k2 new chk' k3"
    and reference: "\<And>old p. icStrategy c = PatchStrategy \<Longrightarrow> icShadowObjects c (KindName_String (clientId lib c d)) = Some old \<Longrightarrow>
      ok old \<and> (jlCreateMergePatch (klJson lib) old new = Inr p \<longrightarrow> \<not> emptyPatch_Match p)"
    and server: "repairable lib mlib ok c sv (clientId lib c d) new"
  shows "\<exists>a1 w1 f cl' ctxS' sv' v'.
     with_client (icKind c) (handleEvent lib api (syncCallbacks rtC True) ctx (Modified, Some d)) (a, w) = (Ret None, (a1, w1))
     \<and> sentC w1 = sentC w @ [f]
     \<and> settles (inclusterEnd lib api rtC sentC) (referenceEnd mlib rtS sentS)
         ((ctxC, a1, w1), (ctxS, sv, v), [f], []) (cl', (ctxS', sv', v'), [], [])
     \<and> copied (klJson lib) sv sv' (clientId lib c d) new"
proof -
  let ?oid = "clientId lib c d" and ?c = "remembered c (clientId lib c d) new"
  let ?a = "a\<lparr>iaClients := (iaClients a)(Kind_String (icKind c) \<mapsto> ?c), iaCluster := k2\<rparr>"
  note net = connectedD [OF net]
  have "\<exists>call. putOrPatch lib c ?oid (case r of Inl _ \<Rightarrow> [] | Inr chk \<Rightarrow> chk) [] new call \<and>
     (\<forall>m w. \<exists>cl' ctxS' sv' v'. settles (inclusterEnd lib api rtC sentC) (referenceEnd mlib rtS sentS)
        ((ctxC, ?a, w), (ctxS, sv, v), [Doc (call_doc True 1 m call)], []) (cl', (ctxS', sv', v'), [], [])
        \<and> copied (klJson lib) sv sv' ?oid new)"
    by (rule modified_call_repairs [OF net ctx(3,4) _ client(2) _ _ reference server, where chk' = chk' and k' = k3]) (use client(6) in simp_all)
  then obtain call where call: "putOrPatch lib c ?oid (case r of Inl _ \<Rightarrow> [] | Inr chk \<Rightarrow> chk) [] new call"
    and settled: "\<And>m w. \<exists>cl' ctxS' sv' v'. settles (inclusterEnd lib api rtC sentC) (referenceEnd mlib rtS sentS)
        ((ctxC, ?a, w), (ctxS, sv, v), [Doc (call_doc True 1 m call)], []) (cl', (ctxS', sv', v'), [], [])
        \<and> copied (klJson lib) sv sv' ?oid new" by blast
  obtain m w1 where event: "handleEvent lib api (syncCallbacks rtC True) ctx (Modified, Some d) ((c, iaCluster a), w) = (Ret None, ((?c, k2), w1))"
    and sent: "sentC w1 = sentC w @ [Doc (call_doc True 1 m call)]"
    by (rule modified_sends [OF net(1) ctx(1,2) client(2-5) call])
  have "with_client (icKind c) (handleEvent lib api (syncCallbacks rtC True) ctx (Modified, Some d)) (a, w) = (Ret None, (?a, w1))"
    by (rule with_client_run [OF client(1)]) (rule event)
  then show ?thesis using sent settled [of w1 m] by blast
qed

theorem modified_object_arrives_witness:
  "\<exists>a1 w1 f cl' ctxS' sv' v'.
     with_client (icKind sampleClient) (handleEvent treeKube treeApi (syncCallbacks listRuntime True) processCtx (Modified, Some nginx))
         (startedAdapter, []) = (Ret None, (a1, w1))
     \<and> w1 = [] @ [f]
     \<and> settles (inclusterEnd treeKube treeApi listRuntime (\<lambda>w. w)) (referenceEnd unversionedLib listRuntime (\<lambda>w. w))
         ((processCtx, a1, w1), (processCtx, oldCopy, []), [f], []) (cl', (ctxS', sv', v'), [], [])
     \<and> copied (klJson treeKube) oldCopy sv' (clientId treeKube sampleClient nginx) ''nginx''"
  by (rule modified_object_arrives [OF sample_connected processCtx_fresh identified_ContextFromIdentifiers
        identified_ContextFromIdentifiers identified_ContextFromIdentifiers, where r = "Inr ''nginx''" and chk' = "''nginx''"
        and d' = nginx and ?k1.0 = "[nginx]" and ?k2.0 = "[nginx]" and ?k3.0 = "[nginx]"])
    (simp_all add: NewInClusterAdapter_def sampleClient_simps sample_reads sample_checksum sample_object sample_repairable sample_json)

text \<open>
  An object that is deleted in the cluster disappears from the server: one message, after which
  the server has no copy of it and still has every other.
\<close>

theorem deleted_object_disappears:
  assumes net: "connected rtC sentC rtS sentS lib mlib ok"
    and ctx: "fresh ctx" "identified ctx cid"
    and client: "iaClients a (Kind_String (icKind c)) = Some c" "icCallbacks c" "\<not> isFiltered lib c d"
  shows "\<exists>a1 w1 f ctxS' sv'.
     with_client (icKind c) (handleEvent lib api (syncCallbacks rtC True) ctx (Deleted, Some d)) (a, w) = (Ret None, (a1, w1))
     \<and> sentC w1 = sentC w @ [f]
     \<and> settles (inclusterEnd lib api rtC sentC) (referenceEnd mlib rtS sentS)
         ((ctxC, a1, w1), (ctxS, sv, v), [f], []) ((ctxC, a1, w1), (ctxS', sv', v), [], [])
     \<and> moResources sv' = (moResources sv)(KindName_String (clientId lib c d) := None)"
proof -
  let ?c = "unremembered c (clientId lib c d)"
  obtain m w1 where event: "handleEvent lib api (syncCallbacks rtC True) ctx (Deleted, Some d) ((c, iaCluster a), w) = (Ret None, ((?c, iaCluster a), w1))"
    and sent: "sentC w1 = sentC w @ [Doc (call_doc True 1 m (CallDelete (clientId lib c d)))]"
    by (rule deleted_sends [OF connectedD(1) [OF net] ctx client(2,3)])
  let ?a = "a\<lparr>iaClients := (iaClients a)(Kind_String (icKind c) \<mapsto> ?c), iaCluster := iaCluster a\<rparr>"
  have run: "with_client (icKind c) (handleEvent lib api (syncCallbacks rtC True) ctx (Deleted, Some d)) (a, w) = (Ret None, (?a, w1))"
    by (rule with_client_run [OF client(1)]) (rule event)
  obtain ctx' where rec: "receive (referenceEnd mlib rtS sentS) (Doc (call_doc True 1 m (CallDelete (clientId lib c d)))) (ctxS, sv, v) =
     ((ctx', sv\<lparr>moResources := (moResources sv)(KindName_String (clientId lib c d) := None)\<rparr>, v), [])"
    using server_delete [of 1 mlib rtS sentS m "clientId lib c d" ctxS sv v] by (auto simp: int64_defs maxMessageDepth_def)
  show ?thesis
    by (intro exI conjI) (rule run, rule sent, rule settles_server [OF rec settles_done], simp)
qed

theorem deleted_object_disappears_witness:
  "\<exists>a1 w1 f ctxS' sv'.
     with_client (icKind sampleClient) (handleEvent treeKube treeApi (syncCallbacks listRuntime True) processCtx (Deleted, Some nginx))
         (startedAdapter, []) = (Ret None, (a1, w1))
     \<and> w1 = [] @ [f]
     \<and> settles (inclusterEnd treeKube treeApi listRuntime (\<lambda>w. w)) (referenceEnd unversionedLib listRuntime (\<lambda>w. w))
         ((processCtx, a1, w1), (processCtx, oldCopy, []), [f], []) ((processCtx, a1, w1), (ctxS', sv', []), [], [])
     \<and> moResources sv' = (moResources oldCopy)(KindName_String (clientId treeKube sampleClient nginx) := None)"
  by (rule deleted_object_disappears [OF sample_connected processCtx_fresh identified_ContextFromIdentifiers])
    (simp_all add: NewInClusterAdapter_def sampleClient_simps sample_reads)

end
