(* ===== verification/Convergence.thy ===== *)
theory Convergence
  imports Replication
begin

text \<open>
  Many conversations at once: a reconciliation batch makes the client send one message for every object
  that is not as it should be, and the exchanges these start run beside each other. Each is about an
  object of its own, so they do not disturb each other; when nothing is in flight any more, the
  server's copies are what the cluster has.
\<close>

section \<open>How every run ends\<close>

definition ends_with :: "('x \<Rightarrow> 'x \<Rightarrow> bool) \<Rightarrow> 'x \<Rightarrow> ('x \<Rightarrow> bool) \<Rightarrow> bool" where
  "ends_with R x P \<longleftrightarrow> termip R x \<and> (\<forall>y. R\<^sup>*\<^sup>* x y \<longrightarrow> (\<forall>z. \<not> R y z) \<longrightarrow> P y)"

lemma ends_with_invariant:
  assumes "wf {(y, x). R x y}" and "J x" and step: "\<And>y z. J y \<Longrightarrow> R y z \<Longrightarrow> J z"
    and stuck: "\<And>y. J y \<Longrightarrow> (\<And>z. \<not> R y z) \<Longrightarrow> P y"
  shows "ends_with R x P"
proof -
  have "wfp R\<inverse>\<inverse>" using assms(1) by (simp add: wfp_def conversep.simps)
  then have "termip R x" by (rule accp_wfpD)
  moreover have "J y" if "R\<^sup>*\<^sup>* x y" for y
    using that by (induction rule: rtranclp_induct) (use assms(2) step in blast)+
  ultimately show ?thesis unfolding ends_with_def using stuck by blast
qed

lemma ends_with_mono: "ends_with R x P \<Longrightarrow> (\<And>y. P y \<Longrightarrow> Q y) \<Longrightarrow> ends_with R x Q"
  unfolding ends_with_def by blast

lemma ends_with_only:
  assumes "R x x'" and "\<And>z. R x z \<Longrightarrow> z = x'" and "ends_with R x' P"
  shows "ends_with R x P"
proof -
  have "termip R x" by (rule accp.intros) (use assms(2,3) in \<open>auto simp: ends_with_def\<close>)
  then show ?thesis using assms unfolding ends_with_def by (metis converse_rtranclpE)
qed

text \<open>A conversation that cannot go on has no messages in flight.\<close>

lemma converse_stuck:
  assumes "\<And>z. \<not> converse E F (cl, sv, up, down) z"
  shows "up = [] \<and> down = []"
  using assms by (metis converse.intros list.exhaust surj_pair)

section \<open>Messages in flight\<close>

type_synonym message = "int \<times> string \<times> syncCall"

fun frame :: "bool \<Rightarrow> message \<Rightarrow> wire" where
  "frame isClient (d, m, call) = Doc (call_doc isClient d m call)"

fun callKey :: "syncCall \<Rightarrow> string" where
  "callKey (CallDelete oid) = KindName_String oid"
| "callKey (CallGet oid _) = KindName_String oid"
| "callKey (CallPatch oid _ _) = KindName_String oid"
| "callKey (CallPut oid _ _) = KindName_String oid"
| "callKey (CallVerify oid _) = KindName_String oid"
| "callKey (CallBatch kind _ _) = Kind_String kind"

abbreviation msgKey :: "message \<Rightarrow> string" where "msgKey u \<equiv> callKey (snd (snd u))"

text \<open>What the server should have under a key, and whether it has.\<close>

definition agrees :: "jsonlib \<Rightarrow> (string \<rightharpoonup> string) \<Rightarrow> MockAdapter \<Rightarrow> string \<Rightarrow> bool" where
  "agrees jl want sv key \<longleftrightarrow>
     (case want key of
        None \<Rightarrow> moResources sv key = None
      | Some new \<Rightarrow> \<exists>x h. moResources sv key = Some x \<and> jlCanonicalHash jl x = Inr h \<and> jlCanonicalHash jl new = Inr h)"

text \<open>Messages that lead there: to the server, and the one the server asks with.\<close>

inductive fits :: "'o kubelib \<Rightarrow> ('o, 'k) kubeapi \<Rightarrow> mocklib \<Rightarrow> (string \<Rightarrow> bool) \<Rightarrow> (string \<rightharpoonup> string) \<Rightarrow> 'k \<Rightarrow>
    Client \<Rightarrow> MockAdapter \<Rightarrow> message \<Rightarrow> bool"
  for lib api mlib ok want k c sv where
  delete: "want (KindName_String oid) = None \<Longrightarrow> in_int64 d \<Longrightarrow> d \<le> maxMessageDepth \<Longrightarrow>
    fits lib api mlib ok want k c sv (d, m, CallDelete oid)"
| mend: "want (KindName_String oid) = Some new \<Longrightarrow> in_int64 d \<Longrightarrow> d \<le> maxMessageDepth \<Longrightarrow>
    mends mlib sv oid new call \<Longrightarrow> fits lib api mlib ok want k c sv (d, m, call)"
| verify: "want (KindName_String oid) = Some new \<Longrightarrow> in_int64 d \<Longrightarrow> d + 2 \<le> maxMessageDepth \<Longrightarrow>
    jlCanonicalHash (klJson lib) new = Inr chk \<Longrightarrow> knKind oid = Some (icKind c) \<Longrightarrow>
    clusterObject lib api c oid k new chk' k \<Longrightarrow> repairable lib mlib ok c sv oid new \<Longrightarrow>
    fits lib api mlib ok want k c sv (d, m, CallVerify oid chk)"
| patch: "want (KindName_String oid) = Some new \<Longrightarrow> in_int64 d \<Longrightarrow> d + 2 \<le> maxMessageDepth \<Longrightarrow>
    jlCanonicalHash (klJson lib) new = Inr h \<Longrightarrow> knKind oid = Some (icKind c) \<Longrightarrow>
    clusterObject lib api c oid k new chk' k \<Longrightarrow> repairable lib mlib ok c sv oid new \<Longrightarrow>
    moResources sv (KindName_String oid) = Some ob \<Longrightarrow> fits lib api mlib ok want k c sv (d, m, CallPatch oid h p)"

inductive asks :: "'o kubelib \<Rightarrow> ('o, 'k) kubeapi \<Rightarrow> mocklib \<Rightarrow> (string \<Rightarrow> bool) \<Rightarrow> (string \<rightharpoonup> string) \<Rightarrow> 'k \<Rightarrow>
    Client \<Rightarrow> MockAdapter \<Rightarrow> message \<Rightarrow> bool"
  for lib api mlib ok want k c sv where
  asks: "want (KindName_String oid) = Some new \<Longrightarrow> in_int64 d \<Longrightarrow> d + 1 \<le> maxMessageDepth \<Longrightarrow>
    knKind oid = Some (icKind c) \<Longrightarrow> clusterObject lib api c oid k new chk k \<Longrightarrow> repairable lib mlib ok c sv oid new \<Longrightarrow>
    asks lib api mlib ok want k c sv (d, m, CallGet (unversioned oid) (serverBase sv oid))"

text \<open>A message is about its own key only.\<close>

lemma mends_local:
  assumes "mends mlib sv oid new call" and "moResources sv' (callKey call) = moResources sv (callKey call)"
  shows "mends mlib sv' oid new call"
  using assms by (auto simp: mends_def)

lemma repairable_local:
  assumes "repairable lib mlib ok (c\<lparr>icShadowObjects := sh\<rparr>) sv oid new"
    and "moResources sv' (KindName_String oid) = moResources sv (KindName_String oid)" and "sh' (KindName_String oid) = sh (KindName_String oid)"
  shows "repairable lib mlib ok (c\<lparr>icShadowObjects := sh'\<rparr>) sv' oid new"
  using assms by (simp add: repairable_def split: option.splits)

lemma fits_local:
  assumes "fits lib api mlib ok want k (c\<lparr>icShadowObjects := sh\<rparr>) sv u"
    and "moResources sv' (msgKey u) = moResources sv (msgKey u)" and "sh' (msgKey u) = sh (msgKey u)"
  shows "fits lib api mlib ok want k (c\<lparr>icShadowObjects := sh'\<rparr>) sv' u"
  using assms
proof (cases rule: fits.cases)
  case (delete oid d m)
  then show ?thesis by (auto intro: fits.delete)
next
  case (mend oid new d call m)
  then show ?thesis using assms(2) mends_local [OF mend(5)] by (auto intro: fits.mend)
next
  case (verify oid new d chk chk' m)
  then show ?thesis using assms(2,3) repairable_local [OF verify(8)] by (auto intro: fits.verify)
next
  case (patch oid new d h chk' ob m p)
  then show ?thesis using assms(2,3) repairable_local [OF patch(8)] by (auto intro: fits.patch)
qed

lemma asks_local:
  assumes "asks lib api mlib ok want k (c\<lparr>icShadowObjects := sh\<rparr>) sv u"
    and "moResources sv' (msgKey u) = moResources sv (msgKey u)" and "sh' (msgKey u) = sh (msgKey u)"
  shows "asks lib api mlib ok want k (c\<lparr>icShadowObjects := sh'\<rparr>) sv' u"
  using assms(1)
proof (cases rule: asks.cases)
  case (asks oid new d chk m)
  then have "serverBase sv oid = serverBase sv' oid" using assms(2) by (simp add: serverBase_def)
  then show ?thesis using asks assms(2,3) repairable_local [OF asks(7)] by (auto intro: asks.asks)
qed

section \<open>One step of each side\<close>

lemma receive_context:
  assumes "epAdapters E = [A]" and "in_int64 d" and "d \<le> maxMessageDepth" and "call_wf call"
    and "receive E (Doc (call_doc peer d m call)) (ctx, s, w) = ((ctx', sw), fs)" and "identified ctx cid"
  shows "identified ctx' cid"
proof -
  let ?ctx = "ContextFromGeneric ctx (call_generic d m call)"
  obtain r s' w' where "handleCall [A] (syncCallbacks (epRuntime E) (epIsClient E)) ?ctx (as_received peer call) (s, w) = (r, (s', w'))"
    by (metis surj_pair)
  then show ?thesis
    using receive_call [OF assms(1-4) refl] assms(5,6) by (fastforce simp: call_generic_ctx(2))
qed

lemma fits_call:
  assumes "fits lib api mlib ok want k c sv (d, m, call)"
  shows "in_int64 d" "d \<le> maxMessageDepth" "call_wf call"
  using assms by (auto elim!: fits.cases simp: mends_def)

lemma mends_key: "mends mlib sv oid new call \<Longrightarrow> callKey call = KindName_String oid"
  by (auto simp: mends_def)

text \<open>The server is done with the key of a message, or asks for it.\<close>

definition answered where
  "answered lib api mlib ok want k c sv call out \<longleftrightarrow> (\<exists>ctx' sv' v' rs. out = ((ctx', sv', v'), map (frame False) rs)
     \<and> (\<forall>key. key \<noteq> callKey call \<longrightarrow> moResources sv' key = moResources sv key)
     \<and> (rs = [] \<and> agrees (klJson lib) want sv' (callKey call) \<or> (\<exists>r. rs = [r] \<and> msgKey r = callKey call \<and> asks lib api mlib ok want k c sv' r)))"

lemma answered_done:
  assumes "out = ((ctx', sv', v'), [])" and "\<And>key. key \<noteq> callKey call \<Longrightarrow> moResources sv' key = moResources sv key"
    and "agrees (klJson lib) want sv' (callKey call)"
  shows "answered lib api mlib ok want k c sv call out"
  using assms unfolding answered_def by (intro exI [of _ ctx'] exI [of _ sv'] exI [of _ v'] exI [of _ "[]"]) simp

lemma answered_get:
  assumes "out = ((ctx', sv, v'), [Doc (call_doc False (d + 1) m (CallGet (unversioned oid) (serverBase sv oid)))])"
    and "callKey call = KindName_String oid" and "want (KindName_String oid) = Some new" and "in_int64 d" and "d + 2 \<le> maxMessageDepth"
    and "knKind oid = Some (icKind c)" and "clusterObject lib api c oid k new chk k" and "repairable lib mlib ok c sv oid new"
  shows "answered lib api mlib ok want k c sv call out"
proof -
  have d: "in_int64 (d + 1)" "d + 1 + 1 \<le> maxMessageDepth" using assms(4,5) by (simp_all add: int64_defs maxMessageDepth_def)
  have "asks lib api mlib ok want k c sv (d + 1, m, CallGet (unversioned oid) (serverBase sv oid))"
    by (rule asks.asks) (rule assms d)+
  then show ?thesis
    unfolding answered_def assms(1)
    by (intro exI [of _ ctx'] exI [of _ v'] exI [of _ "[(d + 1, m, CallGet (unversioned oid) (serverBase sv oid))]"] exI [of _ sv])
      (simp add: assms(2))
qed

lemma verify_answered:
  assumes rt: "accepting rtS sentS" "identified ctxS cidS" and lib: "merge_contract (klJson lib) ok" "mlJson mlib = klJson lib"
    and want: "want (KindName_String oid) = Some new" "jlCanonicalHash (klJson lib) new = Inr chk" and d: "in_int64 d" "d + 2 \<le> maxMessageDepth"
    and c: "knKind oid = Some (icKind c)" "clusterObject lib api c oid k new chk' k" "repairable lib mlib ok c sv oid new"
  shows "answered lib api mlib ok want k c sv (CallVerify oid chk)
     (receive (referenceEnd mlib rtS sentS) (frame True (d, m, CallVerify oid chk)) (ctxS, sv, v))"
proof (cases "\<exists>ob. moResources sv (KindName_String oid) = Some ob \<and> jlCanonicalHash (klJson lib) ob = Inr chk")
  case True
  then obtain ob where ob: "moResources sv (KindName_String oid) = Some ob" "jlCanonicalHash (klJson lib) ob = Inr chk" by blast
  have "d \<le> maxMessageDepth" using d(2) by simp
  then obtain ctx' where "receive (referenceEnd mlib rtS sentS) (frame True (d, m, CallVerify oid chk)) (ctxS, sv, v) = ((ctx', sv, v), [])"
    using server_verified [OF d(1) _ ob(1), of mlib chk rtS sentS m ctxS v] ob(2) lib(2) by auto
  then show ?thesis by (rule answered_done) (use ob want in \<open>simp_all add: agrees_def\<close>)
next
  case False
  have "\<exists>h. jlCanonicalHash (mlJson mlib) ob = Inr h \<and> h \<noteq> chk" if "moResources sv (KindName_String oid) = Some ob" for ob
    using that False c(3) merge_contract_hash [OF lib(1), of ob] lib(2) by (auto simp: repairable_def)
  moreover have "d \<le> maxMessageDepth" using d(2) by simp
  ultimately obtain ctx' v' where "receive (referenceEnd mlib rtS sentS) (frame True (d, m, CallVerify oid chk)) (ctxS, sv, v) =
     ((ctx', sv, v'), [Doc (call_doc False (d + 1) m (CallGet (unversioned oid) (serverBase sv oid)))])"
    using server_asks_verify [OF rt c(1) d(1)] by fastforce
  then show ?thesis by (rule answered_get [where want = want, OF _ _ want(1) d c]) simp
qed

lemma patch_answered:
  assumes rt: "accepting rtS sentS" "identified ctxS cidS" and lib: "mlJson mlib = klJson lib"
    and want: "want (KindName_String oid) = Some new" "jlCanonicalHash (klJson lib) new = Inr h" and d: "in_int64 d" "d + 2 \<le> maxMessageDepth"
    and c: "knKind oid = Some (icKind c)" "clusterObject lib api c oid k new chk' k" "repairable lib mlib ok c sv oid new"
    and ob: "moResources sv (KindName_String oid) = Some ob"
  shows "answered lib api mlib ok want k c sv (CallPatch oid h p)
     (receive (referenceEnd mlib rtS sentS) (frame True (d, m, CallPatch oid h p)) (ctxS, sv, v))"
proof (cases "\<exists>x. jlMergePatch (klJson lib) ob p = Inr x \<and> jlCanonicalHash (klJson lib) x = Inr h")
  case True
  then obtain x where x: "jlMergePatch (klJson lib) ob p = Inr x" "jlCanonicalHash (klJson lib) x = Inr h" by blast
  have "d \<le> maxMessageDepth" using d(2) by simp
  then obtain ctx' sv' where received: "receive (referenceEnd mlib rtS sentS) (frame True (d, m, CallPatch oid h p)) (ctxS, sv, v) = ((ctx', sv', v), [])"
    and saved: "moResources sv' = moResources (saveIfNewer mlib oid x sv)"
    using server_patched [OF d(1) _ ob, of mlib p x h rtS sentS m ctxS v] x lib by auto
  have "copied (klJson lib) sv sv' oid new" by (rule saved_is_copied [OF c(3) x(2) want(2) saved])
  then show ?thesis using want(1) by (intro answered_done [OF received]) (auto simp: agrees_def copied_def)
next
  case False
  have "d \<le> maxMessageDepth" using d(2) by simp
  then obtain ctx' v' where "receive (referenceEnd mlib rtS sentS) (frame True (d, m, CallPatch oid h p)) (ctxS, sv, v) =
     ((ctx', sv, v'), [Doc (call_doc False (d + 1) m (CallGet (unversioned oid) (serverBase sv oid)))])"
    using server_asks_patch [OF rt c(1) d(1) _ ob, of mlib p h m v] False lib ob by (auto simp: serverBase_def)
  then show ?thesis by (rule answered_get [where want = want, OF _ _ want(1) d c]) simp
qed

lemma server_step:
  assumes "accepting rtS sentS" and "merge_contract (klJson lib) ok" and jl: "mlJson mlib = klJson lib"
    and "identified ctxS cidS" and "fits lib api mlib ok want k c sv (d, m, call)"
  shows "answered lib api mlib ok want k c sv call (receive (referenceEnd mlib rtS sentS) (frame True (d, m, call)) (ctxS, sv, v))"
  using assms(5)
proof (cases rule: fits.cases)
  case (delete oid)
  then obtain ctx' sv' where received: "receive (referenceEnd mlib rtS sentS) (frame True (d, m, CallDelete oid)) (ctxS, sv, v) = ((ctx', sv', v), [])"
    "moResources sv' = (moResources sv)(KindName_String oid := None)"
    using server_delete [of d mlib rtS sentS m oid ctxS sv v] by auto
  show ?thesis unfolding delete(1) by (rule answered_done [OF received(1)]) (use delete(2) received(2) in \<open>simp_all add: agrees_def\<close>)
next
  case (mend oid new)
  obtain ctx' sv' where received: "receive (referenceEnd mlib rtS sentS) (frame True (d, m, call)) (ctxS, sv, v) = ((ctx', sv', v), [])"
    "copied (mlJson mlib) sv sv' oid new"
    using mends_received [OF mend(4) mend(2,3), of rtS sentS m ctxS v] by auto
  show ?thesis
    by (rule answered_done [OF received(1)]) (use jl mends_key [OF mend(4)] mend(1) received(2) in \<open>auto simp: agrees_def copied_def\<close>)
next
  case (verify oid new chk chk')
  show ?thesis unfolding verify(1)
    by (rule verify_answered [where want = want, OF assms(1,4,2) jl verify(2,5,3,4,6,7,8)])
next
  case (patch oid new h chk' ob p)
  show ?thesis unfolding patch(1)
    by (rule patch_answered [where want = want, OF assms(1,4) jl patch(2,5,3,4,6,7,8,9)])
qed

text \<open>The client answers with what mends the copy.\<close>

lemma client_step:
  assumes "accepting rtC sentC" and lib: "merge_contract (klJson lib) ok" "mlJson mlib = klJson lib"
    and "identified ctxC cidC" and client: "iaClients a (Kind_String (icKind c)) = Some c" "icCallbacks c" "iaCluster a = k"
    and asks: "asks lib api mlib ok want k c sv (d, m, call)"
  shows "\<exists>ctx' w' oid new r. receive (inclusterEnd lib api rtC sentC) (frame False (d, m, call)) (ctxC, a, w) =
       ((ctx', a\<lparr>iaClients := (iaClients a)(Kind_String (icKind c) \<mapsto> remembered c oid new), iaCluster := k\<rparr>, w'), [frame True r])
     \<and> KindName_String oid = callKey call \<and> msgKey r = callKey call
     \<and> (\<forall>c'. fits lib api mlib ok want k c' sv r)"
  using asks
proof (cases rule: asks.cases)
  case (asks oid new chk)
  have d: "d \<le> maxMessageDepth" "in_int64 (d + 1)" "d + 1 \<le> maxMessageDepth"
    using asks(3,4) by (simp_all add: int64_defs maxMessageDepth_def)
  obtain answer where answer: "putOrPatch lib c (unversioned oid) chk (serverBase sv oid) new answer" "mends mlib sv (unversioned oid) new answer"
    using repairable_answer [OF lib asks(7)] by blast
  have fits: "fits lib api mlib ok want k c' sv (d + 1, m, answer)" for c'
    by (rule fits.mend [OF _ d(2,3) answer(2)]) (simp add: asks(2))
  obtain ctx' w' where answered: "receive (inclusterEnd lib api rtC sentC) (Doc (call_doc False d m (CallGet (unversioned oid) (serverBase sv oid)))) (ctxC, a, w) =
     ((ctx', a\<lparr>iaClients := (iaClients a)(Kind_String (icKind c) \<mapsto> remembered c oid new), iaCluster := k\<rparr>, w'),
       [Doc (call_doc True (d + 1) m answer)])"
    using client_answers [OF assms(1,4) asks(3) d(1) asks(5) client(1,2) _ answer(1)] client(3) asks(6) by blast
  show ?thesis
    by (rule exI [of _ ctx'], rule exI [of _ w'], rule exI [of _ oid], rule exI [of _ new], rule exI [of _ "(d + 1, m, answer)"])
      (use answered asks(1) mends_key [OF answer(2)] fits in simp)
qed

section \<open>The invariant\<close>

text \<open>
  Each key of \<open>K\<close> has one message in flight that leads to what is wanted, or is as it should be; the
  server's other copies are those it had in \<open>sv0\<close>, the client's other reference objects those of \<open>c\<close>. The
  cluster, read through the client, stays the same.
\<close>

definition in_progress :: "'o kubelib \<Rightarrow> ('o, 'k) kubeapi \<Rightarrow> mocklib \<Rightarrow> (string \<Rightarrow> bool) \<Rightarrow> (string \<rightharpoonup> string) \<Rightarrow> 'k \<Rightarrow>
    Client \<Rightarrow> string set \<Rightarrow> MockAdapter \<Rightarrow> Client \<Rightarrow> MockAdapter \<Rightarrow> message list \<Rightarrow> message list \<Rightarrow> bool" where
  "in_progress lib api mlib ok want k c K sv0 c' sv us ds \<longleftrightarrow>
     distinct (map msgKey (us @ ds)) \<and> msgKey ` set (us @ ds) \<subseteq> K
     \<and> (\<forall>u \<in> set us. fits lib api mlib ok want k c' sv u) \<and> (\<forall>u \<in> set ds. asks lib api mlib ok want k c' sv u)
     \<and> (\<forall>key \<in> K - msgKey ` set (us @ ds). agrees (klJson lib) want sv key)
     \<and> (\<forall>key. key \<notin> K \<longrightarrow> moResources sv key = moResources sv0 key)
     \<and> (\<exists>sh. c' = c\<lparr>icShadowObjects := sh\<rparr> \<and> (\<forall>key. key \<notin> K \<longrightarrow> sh key = icShadowObjects c key))"

lemma agrees_local: "moResources sv' key = moResources sv key \<Longrightarrow> agrees jl want sv' key = agrees jl want sv key"
  by (simp add: agrees_def split: option.splits)

lemma distinct_handled:
  assumes "distinct (map f (u # us))" and "rs = [] \<or> (\<exists>r. rs = [r] \<and> f r = f u)"
  shows "distinct (map f (us @ rs))" "f ` set (us @ rs) \<subseteq> f ` set (u # us)"
  using assms by (auto simp: image_iff)

text \<open>No other message is about the key of the one that is handled.\<close>

lemma in_progress_others:
  assumes "in_progress lib api mlib ok want k c K sv0 c' sv us ds" and "us @ ds = us1 @ u # us2" and "x \<in> set us1 \<union> set us2"
  shows "msgKey x \<noteq> msgKey u"
proof -
  have "distinct (map msgKey (us1 @ u # us2))" using assms(1,2) by (simp only: in_progress_def)
  then have "msgKey u \<notin> msgKey ` (set us1 \<union> set us2)" by (simp only: map_append list.map distinct_append distinct.simps set_map list.set image_Un) blast
  then show ?thesis using assms(3) by (metis imageI)
qed

lemma in_progress_server:
  assumes inv: "in_progress lib api mlib ok want k c K sv0 c' sv (u # us) ds"
    and other: "\<And>key. key \<noteq> msgKey u \<Longrightarrow> moResources sv' key = moResources sv key"
    and rs: "rs = [] \<and> agrees (klJson lib) want sv' (msgKey u) \<or>
      (\<exists>r. rs = [r] \<and> msgKey r = msgKey u \<and> asks lib api mlib ok want k c' sv' r)"
  shows "in_progress lib api mlib ok want k c K sv0 c' sv' us (ds @ rs)"
proof -
  obtain sh where c': "c' = c\<lparr>icShadowObjects := sh\<rparr>" "\<forall>key. key \<notin> K \<longrightarrow> sh key = icShadowObjects c key"
    using inv by (auto simp: in_progress_def)
  have keys: "msgKey x \<noteq> msgKey u" if "x \<in> set us \<union> set ds" for x
    by (rule in_progress_others [OF inv, of "[]" _ "us @ ds"]) (use that in auto)
  have 1: "fits lib api mlib ok want k c' sv' x" if "x \<in> set us" for x
    using inv that keys [of x] other [of "msgKey x"] 
    by (auto simp: in_progress_def c'(1) intro!: fits_local [where sh = sh and sv = sv and sv' = sv'])
  have 2: "asks lib api mlib ok want k c' sv' x" if "x \<in> set ds" for x
    using inv that keys [of x] other [of "msgKey x"] 
    by (auto simp: in_progress_def c'(1) intro!: asks_local [where sh = sh and sv = sv and sv' = sv'])
  have 3: "agrees (klJson lib) want sv' key" if "key \<in> K - msgKey ` set (us @ ds @ rs)" for key
    using inv rs that other [of key] agrees_local [of sv' key sv] by (cases "key = msgKey u") (auto simp: in_progress_def)
  have 4: "moResources sv' key = moResources sv0 key" if "key \<notin> K" for key
    using inv that other [of key] by (auto simp: in_progress_def)
  have 5: "distinct (map msgKey (us @ ds @ rs))" "msgKey ` set (us @ ds @ rs) \<subseteq> K"
  proof -
    have "distinct (map msgKey (u # us @ ds))" "msgKey ` set (u # us @ ds) \<subseteq> K"
      using inv unfolding in_progress_def append_Cons by blast+
    then show "distinct (map msgKey (us @ ds @ rs))" "msgKey ` set (us @ ds @ rs) \<subseteq> K"
      using distinct_handled [of msgKey u "us @ ds" rs] rs unfolding append_assoc by blast+
  qed
  have 6: "asks lib api mlib ok want k c' sv' x" if "x \<in> set (ds @ rs)" for x
    using that 2 rs unfolding set_append by (metis UnE empty_iff empty_set list.set_intros(1) set_ConsD)
  show ?thesis unfolding in_progress_def using 1 3 4 5 6 c' by blast
qed

lemma in_progress_client:
  assumes inv: "in_progress lib api mlib ok want k c K sv0 c' sv us (u # ds)"
    and c'': "c'' = remembered c' oid new" "KindName_String oid = msgKey u"
    and r: "msgKey r = msgKey u" "\<And>c'. fits lib api mlib ok want k c' sv r"
  shows "in_progress lib api mlib ok want k c K sv0 c'' sv (us @ [r]) ds"
proof -
  obtain sh where sh: "c' = c\<lparr>icShadowObjects := sh\<rparr>" "\<forall>key. key \<notin> K \<longrightarrow> sh key = icShadowObjects c key"
    using inv by (auto simp: in_progress_def)
  obtain sh' where sh': "c'' = c\<lparr>icShadowObjects := sh'\<rparr>" "\<And>key. key \<noteq> msgKey u \<Longrightarrow> sh' key = sh key"
  proof (cases "icStrategy c = PatchStrategy")
    case True
    then show thesis using c'' by (intro that [of "sh(msgKey u \<mapsto> new)"]) (simp_all add: remembered_def sh(1))
  next
    case False
    then show thesis using c'' by (intro that [of sh]) (simp_all add: remembered_def sh(1))
  qed
  have keys: "msgKey x \<noteq> msgKey u" if "x \<in> set us \<union> set ds" for x
    by (rule in_progress_others [OF inv, of us _ ds]) (use that in auto)
  have "fits lib api mlib ok want k c'' sv x" if "x \<in> set us" for x
    using inv that keys [of x] sh'(2) [of "msgKey x"] 
    by (auto simp: in_progress_def sh(1) sh'(1) intro!: fits_local [where sh = sh and sv = sv and sv' = sv and sh' = sh'])
  moreover have "asks lib api mlib ok want k c'' sv x" if "x \<in> set ds" for x
    using inv that keys [of x] sh'(2) [of "msgKey x"] 
    by (auto simp: in_progress_def sh(1) sh'(1) intro!: asks_local [where sh = sh and sv = sv and sv' = sv and sh' = sh'])
  moreover have "sh' key = icShadowObjects c key" if "key \<notin> K" for key
    using inv that sh(2) sh'(2) [of key] by (fastforce simp: in_progress_def)
  ultimately show ?thesis using inv r sh'(1) by (auto simp: in_progress_def)
qed

text \<open>The invariant of the two ends with what is in flight.\<close>

fun converging where
  "converging lib api mlib ok want k c cidC cidS K sv0 ((ctxC, a, w), (ctxS, sv, v), up, down) \<longleftrightarrow>
     identified ctxC cidC \<and> identified ctxS cidS \<and> iaCluster a = k
     \<and> (\<exists>c' us ds. iaClients a (Kind_String (icKind c)) = Some c' \<and> up = map (frame True) us \<and> down = map (frame False) ds
          \<and> in_progress lib api mlib ok want k c K sv0 c' sv us ds)"

lemma in_progress_client_kind:
  "in_progress lib api mlib ok want k c K sv0 c' sv us ds \<Longrightarrow> icKind c' = icKind c \<and> icCallbacks c' = icCallbacks c"
  by (auto simp: in_progress_def)

lemma converging_server:
  assumes net: "connected rtC sentC rtS sentS lib mlib ok"
    and inv: "converging lib api mlib ok want k c cidC cidS K sv0 (cl, (ctxS, sv, v), f # up, down)"
    and rec: "receive (referenceEnd mlib rtS sentS) f (ctxS, sv, v) = (st, fs)"
  shows "converging lib api mlib ok want k c cidC cidS K sv0 (cl, st, up, down @ fs)"
proof -
  note net = connectedD [OF net]
  obtain ctxC a w where cl: "cl = (ctxC, a, w)" by (cases cl)
  obtain c' d m call us ds where ids: "identified ctxC cidC" "identified ctxS cidS" and a: "iaCluster a = k" "iaClients a (Kind_String (icKind c)) = Some c'"
    and frames: "f = frame True (d, m, call)" "up = map (frame True) us" "down = map (frame False) ds"
    and prog: "in_progress lib api mlib ok want k c K sv0 c' sv ((d, m, call) # us) ds"
    using inv by (auto simp: cl Cons_eq_map_conv)
  then have fits: "fits lib api mlib ok want k c' sv (d, m, call)" by (simp add: in_progress_def)
  obtain ctx' sv' v' rs where step: "receive (referenceEnd mlib rtS sentS) f (ctxS, sv, v) = ((ctx', sv', v'), map (frame False) rs)"
    "\<And>key. key \<noteq> callKey call \<Longrightarrow> moResources sv' key = moResources sv key"
    "rs = [] \<and> agrees (klJson lib) want sv' (callKey call) \<or> (\<exists>r. rs = [r] \<and> msgKey r = callKey call \<and> asks lib api mlib ok want k c' sv' r)"
    using server_step [OF net(2-4) ids(2) fits, of v] frames(1) unfolding answered_def by blast
  have "identified ctx' cidS"
    by (rule receive_context [OF _ fits_call [OF fits], of "referenceEnd mlib rtS sentS" "mockAdapter mlib" True m ctxS sv v])
      (use step(1) frames(1) ids(2) in \<open>simp_all add: referenceEnd_def\<close>)
  moreover have "in_progress lib api mlib ok want k c K sv0 c' sv' us (ds @ rs)"
    by (rule in_progress_server [OF prog]) (use step(2,3) in auto)
  moreover have "st = (ctx', sv', v')" "fs = map (frame False) rs" using rec step(1) by simp_all
  ultimately show ?thesis
    unfolding cl frames(2,3) using ids(1) a
    by (simp only: converging.simps) (metis map_append)
qed

lemma asks_call:
  assumes "asks lib api mlib ok want k c sv (d, m, call)"
  shows "in_int64 d" "d \<le> maxMessageDepth" "call_wf call"
  using assms by (auto elim!: asks.cases)

lemma converging_client:
  assumes net: "connected rtC sentC rtS sentS lib mlib ok" and c: "icCallbacks c"
    and inv: "converging lib api mlib ok want k c cidC cidS K sv0 ((ctxC, a, w), sv', up, f # down)"
    and rec: "receive (inclusterEnd lib api rtC sentC) f (ctxC, a, w) = (st, fs)"
  shows "converging lib api mlib ok want k c cidC cidS K sv0 (st, sv', up @ fs, down)"
proof -
  note net = connectedD [OF net]
  obtain ctxS sv v where sv': "sv' = (ctxS, sv, v)" by (cases sv')
  obtain c' d m call us ds where ids: "identified ctxC cidC" "identified ctxS cidS" and a: "iaCluster a = k" "iaClients a (Kind_String (icKind c)) = Some c'"
    and frames: "f = frame False (d, m, call)" "up = map (frame True) us" "down = map (frame False) ds"
    and prog: "in_progress lib api mlib ok want k c K sv0 c' sv us ((d, m, call) # ds)"
    using inv by (auto simp: sv' Cons_eq_map_conv)
  then have asks: "asks lib api mlib ok want k c' sv (d, m, call)" by (simp add: in_progress_def)
  note kind = in_progress_client_kind [OF prog]
  obtain ctx' w' oid new r where step: "receive (inclusterEnd lib api rtC sentC) f (ctxC, a, w) =
       ((ctx', a\<lparr>iaClients := (iaClients a)(Kind_String (icKind c) \<mapsto> remembered c' oid new), iaCluster := k\<rparr>, w'), [frame True r])"
    and r: "KindName_String oid = callKey call" "msgKey r = callKey call" "\<And>c'. fits lib api mlib ok want k c' sv r"
    using client_step [OF net(1,3,4) ids(1) _ _ a(1) asks, of w] a(2) c kind frames(1) by auto
  have "identified ctx' cidC"
    by (rule receive_context [OF _ asks_call [OF asks], of "inclusterEnd lib api rtC sentC" "inclusterAdapter lib api" False m ctxC a w])
      (use step(1) frames(1) ids(1) in \<open>simp_all add: inclusterEnd_def\<close>)
  moreover have "in_progress lib api mlib ok want k c K sv0 (remembered c' oid new) sv (us @ [r]) ds"
    by (rule in_progress_client [OF prog refl]) (use r in auto)
  moreover have "st = (ctx', a\<lparr>iaClients := (iaClients a)(Kind_String (icKind c) \<mapsto> remembered c' oid new), iaCluster := k\<rparr>, w')"
    "fs = [frame True r]" using rec step by simp_all
  ultimately show ?thesis
    unfolding sv' frames(2,3) using ids(2)
    by (auto simp: simp del: frame.simps) (metis (no_types, lifting) list.simps(8,9) map_append)
qed

lemma converging_step:
  assumes net: "connected rtC sentC rtS sentS lib mlib ok" and c: "icCallbacks c"
    and inv: "converging lib api mlib ok want k c cidC cidS K sv0 x"
    and step: "converse (inclusterEnd lib api rtC sentC) (referenceEnd mlib rtS sentS) x y"
  shows "converging lib api mlib ok want k c cidC cidS K sv0 y"
  using step inv
proof (cases rule: converse.cases)
  case (at_server f sv sv' fs cl up down)
  then show ?thesis using inv by (cases sv) (auto intro: converging_server [OF net] simp del: converging.simps)
next
  case (at_client f cl cl' fs sv up down)
  then show ?thesis using inv by (cases cl) (auto intro: converging_client [OF net c] simp del: converging.simps)
qed

lemma connected_ends_ok:
  assumes "connected rtC sentC rtS sentS lib mlib ok"
  shows "endpoint_ok (inclusterEnd lib api rtC sentC)" "endpoint_ok (referenceEnd mlib rtS sentS)"
  using connectedD [OF assms] by (simp_all add: accepting_def inclusterEnd_ok referenceEnd_ok)

text \<open>With nothing in flight, all of \<open>K\<close> is as it should be.\<close>

fun settled where
  "settled jl want K sv0 (cl, (ctxS, sv, v), up, down) \<longleftrightarrow>
     (\<forall>key \<in> K. agrees jl want sv key) \<and> (\<forall>key. key \<notin> K \<longrightarrow> moResources sv key = moResources sv0 key)"

lemma converging_settled:
  assumes "converging lib api mlib ok want k c cidC cidS K sv0 (cl, sv, [], [])"
  shows "settled (klJson lib) want K sv0 (cl, sv, [], [])"
  using assms by (cases cl; cases sv) (auto simp: in_progress_def)

lemma converging_ends:
  assumes net: "connected rtC sentC rtS sentS lib mlib ok" and c: "icCallbacks c"
    and start: "converging lib api mlib ok want k c cidC cidS K sv0 x"
  shows "ends_with (converse (inclusterEnd lib api rtC sentC) (referenceEnd mlib rtS sentS)) x (settled (klJson lib) want K sv0)"
proof (rule ends_with_invariant [where J = "converging lib api mlib ok want k c cidC cidS K sv0", OF converse_wf [OF connected_ends_ok [OF net]] start])
  fix y
  assume y: "converging lib api mlib ok want k c cidC cidS K sv0 y"
    and stuck: "\<And>z. \<not> converse (inclusterEnd lib api rtC sentC) (referenceEnd mlib rtS sentS) y z"
  obtain cl sv up down where "y = (cl, sv, up, down)" by (cases y) auto
  then show "settled (klJson lib) want K sv0 y"
    using y stuck converse_stuck [of "inclusterEnd lib api rtC sentC" "referenceEnd mlib rtS sentS" cl sv up down]
      converging_settled [of lib api mlib ok want k c cidC cidS K sv0 cl sv] by blast
qed (rule converging_step [OF net c])

end
