(* ===== verification/Reconciliation.thy ===== *)
theory Reconciliation
  imports Convergence
begin

text \<open>
  A reconciliation from the server's list to the last answer: the server sends what it has of a kind,
  the client compares it with the cluster, and the exchanges this starts end with the server having
  what the cluster has.
\<close>

section \<open>Keys\<close>

text \<open>The key of the server's store for an object key (namespace and name) of the reconciliation.\<close>

definition storeKey :: "Client \<Rightarrow> string \<Rightarrow> string" where
  "storeKey c k = Kind_String (icKind c) @ ''/'' @ k"

lemma storeKey_inject [simp]: "storeKey c k = storeKey c k' \<longleftrightarrow> k = k'"
  by (simp add: storeKey_def)

lemma storeKey_ids:
  "KindName_String (clientId lib c d) = storeKey c (objKey (klGetNamespace lib d) (klGetName lib d))"
  "KindName_String (serverId c item) = storeKey c (objKey (chkNamespace item) (chkName item))"
  by (simp_all add: KindName_String_def clientId_def serverId_def itemId_def storeKey_def objKey_def)

lemma lastOf_keys:
  "lastOf (clientItemsOf lib objs) k = Some d \<Longrightarrow> d \<in> set objs \<and> KindName_String (clientId lib c d) = storeKey c k"
  "lastOf (serverItemsOf items) k = Some item \<Longrightarrow> item \<in> set items \<and> KindName_String (serverId c item) = storeKey c k"
  using lastOf_in [of "clientItemsOf lib objs" k d] lastOf_in [of "serverItemsOf items" k item]
  by (auto simp: clientItemsOf_def serverItemsOf_def storeKey_ids)

section \<open>The plan by keys\<close>

definition planKeys :: "'o kubelib \<Rightarrow> (string list \<Rightarrow> string list) \<Rightarrow> 'o list \<Rightarrow> NewChecksum list \<Rightarrow> string list" where
  "planKeys lib toSlice objs items =
     toSlice (serverOnly lib objs items) @ toSlice (inBoth lib objs items) @ toSlice (clientOnly lib objs items)"

definition planFor :: "'o kubelib \<Rightarrow> Client \<Rightarrow> 'o list \<Rightarrow> NewChecksum list \<Rightarrow> string \<Rightarrow> syncCall list" where
  "planFor lib c objs items k =
     (case (lastOf (serverItemsOf items) k, lastOf (clientItemsOf lib objs) k) of
        (Some item, None) \<Rightarrow> [CallDelete (serverId c item)]
      | (Some item, Some d) \<Rightarrow> commonCalls lib c item d
      | (None, Some d) \<Rightarrow> missingCalls lib c d
      | (None, None) \<Rightarrow> [])"

lemma slice_keys:
  assumes "slice_contract toSlice"
  shows "k \<in> set (toSlice (serverOnly lib objs items)) \<longleftrightarrow> lastOf (serverItemsOf items) k \<noteq> None \<and> lastOf (clientItemsOf lib objs) k = None"
    "k \<in> set (toSlice (inBoth lib objs items)) \<longleftrightarrow> lastOf (serverItemsOf items) k \<noteq> None \<and> lastOf (clientItemsOf lib objs) k \<noteq> None"
    "k \<in> set (toSlice (clientOnly lib objs items)) \<longleftrightarrow> lastOf (serverItemsOf items) k = None \<and> lastOf (clientItemsOf lib objs) k \<noteq> None"
  unfolding slice_set [OF assms] by (auto simp: serverOnly_def inBoth_def clientOnly_def keySet_lastOf)

lemma plan_by_keys:
  assumes "slice_contract toSlice"
  shows "reconcile_plan lib toSlice c objs items = concat (map (planFor lib c objs items) (planKeys lib toSlice objs items))"
proof -
  let ?sv = "lastOf (serverItemsOf items)" and ?cl = "lastOf (clientItemsOf lib objs)"
  have "map (\<lambda>k. [CallDelete (serverId c (the (?sv k)))]) (toSlice (serverOnly lib objs items)) =
      map (planFor lib c objs items) (toSlice (serverOnly lib objs items))"
    by (rule map_cong [OF refl]) (auto simp: slice_keys [OF assms] planFor_def)
  moreover have "map (\<lambda>k. commonCalls lib c (the (?sv k)) (the (?cl k))) (toSlice (inBoth lib objs items)) =
      map (planFor lib c objs items) (toSlice (inBoth lib objs items))"
    by (rule map_cong [OF refl]) (auto simp: slice_keys [OF assms] planFor_def)
  moreover have "map (\<lambda>k. missingCalls lib c (the (?cl k))) (toSlice (clientOnly lib objs items)) =
      map (planFor lib c objs items) (toSlice (clientOnly lib objs items))"
    by (rule map_cong [OF refl]) (auto simp: slice_keys [OF assms] planFor_def)
  ultimately show ?thesis by (simp only: reconcile_plan_def Let_def planKeys_def map_append concat_append)
qed

lemma planKeys_set:
  "slice_contract toSlice \<Longrightarrow> k \<in> set (planKeys lib toSlice objs items) \<longleftrightarrow>
     lastOf (serverItemsOf items) k \<noteq> None \<or> lastOf (clientItemsOf lib objs) k \<noteq> None"
  by (auto simp: planKeys_def slice_keys)

lemma planKeys_distinct: "slice_contract toSlice \<Longrightarrow> distinct (planKeys lib toSlice objs items)"
  by (auto simp: planKeys_def slice_keys)
    (simp_all add: slice_contract_def serverOnly_def inBoth_def clientOnly_def keySet_def)

lemma planFor_single: "planFor lib c objs items k = [] \<or> (\<exists>call. planFor lib c objs items k = [call] \<and> callKey call = storeKey c k)"
proof (cases "lastOf (serverItemsOf items) k"; cases "lastOf (clientItemsOf lib objs) k")
qed (auto simp: planFor_def commonCalls_def missingCalls_def lastOf_keys split: sum.splits)

lemma distinct_concat_keys:
  assumes "distinct ks" and "inj h" and "\<And>k. f k = [] \<or> (\<exists>x. f k = [x] \<and> g x = h k)"
  shows "distinct (map g (concat (map f ks)))"
  using assms(1)
proof (induction ks)
  case (Cons k ks)
  have "g x \<noteq> h k" if "x \<in> set (concat (map f ks))" for x
  proof -
    obtain k' where "k' \<in> set ks" "x \<in> set (f k')" using \<open>x \<in> set (concat (map f ks))\<close> by auto
    then show ?thesis using Cons(2) assms(3) [of k'] injD [OF assms(2), of k k'] by auto
  qed
  then have "h k \<notin> g ` set (concat (map f ks))" by (metis imageE)
  then show ?case using Cons assms(3) [of k] by auto
qed simp

section \<open>What is relied on\<close>

text \<open>
  An object of the listing can be marshalled and hashed, and the API server, asked for it, gives it
  as it was listed.
\<close>

definition readable :: "'o kubelib \<Rightarrow> ('o, 'k) kubeapi \<Rightarrow> (string \<Rightarrow> bool) \<Rightarrow> Client \<Rightarrow> 'k \<Rightarrow> 'o \<Rightarrow> bool" where
  "readable lib api ok c k d \<longleftrightarrow>
     (\<exists>new d' chk chk'. filterAndMarshal lib c d = Inr (new, d') \<and> ok new \<and> checksumOf lib c d' = Inr chk
        \<and> clusterObject lib api c (clientId lib c d) k new chk' k)"

text \<open>
  The server's list names what it has of the kind. A copy whose version is that of the cluster is a
  copy of the object; otherwise the cluster has a newer version.
\<close>

definition lists_copies :: "'o kubelib \<Rightarrow> mocklib \<Rightarrow> Client \<Rightarrow> 'o list \<Rightarrow> NewChecksum list \<Rightarrow> MockAdapter \<Rightarrow> bool" where
  "lists_copies lib mlib c objs items sv \<longleftrightarrow>
     (\<forall>k. case lastOf (serverItemsOf items) k of
        None \<Rightarrow> moResources sv (storeKey c k) = None
      | Some item \<Rightarrow> \<exists>ob. moResources sv (storeKey c k) = Some ob
          \<and> (\<forall>d new d'. lastOf (clientItemsOf lib objs) k = Some d \<longrightarrow> filterAndMarshal lib c d = Inr (new, d') \<longrightarrow>
               (if ToResourceVersion (klGetResourceVersion lib d) = chkResourceVersion item
                then \<exists>h. jlCanonicalHash (klJson lib) ob = Inr h \<and> jlCanonicalHash (klJson lib) new = Inr h
                else supersedes mlib new ob)))"

lemma lists_copiesD:
  assumes "lists_copies lib mlib c objs items sv" and "lastOf (serverItemsOf items) k = Some item"
    and "lastOf (clientItemsOf lib objs) k = Some d" and "filterAndMarshal lib c d = Inr (new, d')"
  obtains ob where "moResources sv (storeKey c k) = Some ob"
    and "if ToResourceVersion (klGetResourceVersion lib d) = chkResourceVersion item
      then \<exists>h. jlCanonicalHash (klJson lib) ob = Inr h \<and> jlCanonicalHash (klJson lib) new = Inr h else supersedes mlib new ob"
proof -
  have "case lastOf (serverItemsOf items) k of None \<Rightarrow> moResources sv (storeKey c k) = None
      | Some item \<Rightarrow> \<exists>ob. moResources sv (storeKey c k) = Some ob
          \<and> (\<forall>d new d'. lastOf (clientItemsOf lib objs) k = Some d \<longrightarrow> filterAndMarshal lib c d = Inr (new, d') \<longrightarrow>
               (if ToResourceVersion (klGetResourceVersion lib d) = chkResourceVersion item
                then \<exists>h. jlCanonicalHash (klJson lib) ob = Inr h \<and> jlCanonicalHash (klJson lib) new = Inr h
                else supersedes mlib new ob))"
    using assms(1) unfolding lists_copies_def by blast
  then show thesis using assms(2-4) that by auto
qed

lemma lists_copies_none:
  "lists_copies lib mlib c objs items sv \<Longrightarrow> lastOf (serverItemsOf items) k = None \<Longrightarrow> moResources sv (storeKey c k) = None"
  unfolding lists_copies_def by (drule spec [of _ k]) simp

text \<open>
  The server has what the cluster has: a copy of every object, apart from those that are filtered and
  were not there before, and nothing else of the kind.
\<close>

definition copy_of :: "'o kubelib \<Rightarrow> Client \<Rightarrow> MockAdapter \<Rightarrow> string \<Rightarrow> 'o \<Rightarrow> bool" where
  "copy_of lib c sv k d \<longleftrightarrow>
     (\<exists>new d' x h. filterAndMarshal lib c d = Inr (new, d') \<and> moResources sv (storeKey c k) = Some x
        \<and> jlCanonicalHash (klJson lib) x = Inr h \<and> jlCanonicalHash (klJson lib) new = Inr h)"

definition mirrors :: "'o kubelib \<Rightarrow> Client \<Rightarrow> 'o list \<Rightarrow> NewChecksum list \<Rightarrow> MockAdapter \<Rightarrow> bool" where
  "mirrors lib c objs items sv \<longleftrightarrow>
     (\<forall>k. case lastOf (clientItemsOf lib objs) k of
        None \<Rightarrow> moResources sv (storeKey c k) = None
      | Some d \<Rightarrow> if isFiltered lib c d \<and> lastOf (serverItemsOf items) k = None then moResources sv (storeKey c k) = None
          else copy_of lib c sv k d)"

section \<open>Every key has its message\<close>

text \<open>What the server should have under a key of its store.\<close>

definition wanted :: "'o kubelib \<Rightarrow> Client \<Rightarrow> 'o list \<Rightarrow> string \<rightharpoonup> string" where
  "wanted lib c objs key =
     (case lastOf (clientItemsOf lib objs) (drop (length (Kind_String (icKind c)) + 1) key) of
        None \<Rightarrow> None
      | Some d \<Rightarrow> (case filterAndMarshal lib c d of Inl _ \<Rightarrow> None | Inr (new, _) \<Rightarrow> Some new))"

lemma wanted_storeKey:
  "wanted lib c objs (storeKey c k) = (case lastOf (clientItemsOf lib objs) k of
     None \<Rightarrow> None | Some d \<Rightarrow> (case filterAndMarshal lib c d of Inl _ \<Rightarrow> None | Inr (new, _) \<Rightarrow> Some new))"
  by (simp add: wanted_def storeKey_def)

definition concerned :: "'o kubelib \<Rightarrow> Client \<Rightarrow> 'o list \<Rightarrow> NewChecksum list \<Rightarrow> string set" where
  "concerned lib c objs items = storeKey c ` {k. lastOf (serverItemsOf items) k \<noteq> None \<or>
     (\<exists>d. lastOf (clientItemsOf lib objs) k = Some d \<and> \<not> isFiltered lib c d)}"

lemma planFor_fits:
  assumes lib: "merge_contract (klJson lib) ok" "mlJson mlib = klJson lib" and objs: "\<And>d. d \<in> set objs \<Longrightarrow> readable lib api ok c k1 d"
    and sv: "lists_copies lib mlib c objs items sv" and d: "in_int64 d" "d + 2 \<le> maxMessageDepth"
    and c': "c' = c\<lparr>icShadowObjects := sh\<rparr>" "\<And>key. key \<in> planDrops lib c objs items \<Longrightarrow> sh key = None"
    and call: "planFor lib c objs items k = [call]"
  shows "fits lib api mlib ok (wanted lib c objs) k1 c' sv (d, m, call)"
proof -
  have d': "d \<le> maxMessageDepth" using d(2) by simp
  show ?thesis
  proof (cases "lastOf (clientItemsOf lib objs) k")
    case None
    then obtain item where item: "lastOf (serverItemsOf items) k = Some item" and del: "call = CallDelete (serverId c item)"
      using call by (auto simp: planFor_def split: option.splits)
    show ?thesis unfolding del
      by (rule fits.delete) (use None lastOf_keys(2) [OF item, of c] d(1) d' in \<open>simp_all add: wanted_storeKey\<close>)
  next
    case (Some x)
    note key = lastOf_keys(1) [OF Some, of c]
    obtain new x' chk chk' where x: "filterAndMarshal lib c x = Inr (new, x')" "ok new" "checksumOf lib c x' = Inr chk"
      "clusterObject lib api c (clientId lib c x) k1 new chk' k1"
      using objs [of x] key unfolding readable_def by blast
    have want: "wanted lib c objs (storeKey c k) = Some new" by (simp add: wanted_storeKey Some x(1))
    obtain h where h: "jlCanonicalHash (klJson lib) new = Inr h" using merge_contract_hash [OF lib(1) x(2)] by blast
    show ?thesis
    proof (cases "lastOf (serverItemsOf items) k")
      case item: (Some item)
      have put: "call = CallPut (serverId c item) chk new" and ver: "ToResourceVersion (klGetResourceVersion lib x) \<noteq> chkResourceVersion item"
        using call Some item x by (auto simp: planFor_def commonCalls_def split: if_splits)
      obtain ob where "moResources sv (storeKey c k) = Some ob" "supersedes mlib new ob"
        by (rule lists_copiesD [OF sv item Some x(1)]) (use ver in simp)
      then have "mends mlib sv (serverId c item) new call"
        unfolding mends_def put
        using h lib(2) lastOf_keys(2) [OF item, of c] by auto
      then show ?thesis by (rule fits.mend [rotated 3]) (use want lastOf_keys(2) [OF item, of c] d(1) d' in simp_all)
    next
      case None
      have ver: "call = CallVerify (clientId lib c x) h" and unf: "\<not> isFiltered lib c x"
        using call Some None x h by (auto simp: planFor_def missingCalls_def split: if_splits)
      have "storeKey c k \<in> planDrops lib c objs items"
        unfolding planDrops_def
        by (rule UN_I [of k]) (use Some None unf x(1) key in \<open>simp_all add: clientOnly_def keySet_lastOf announced_def\<close>)
      then have "repairable lib mlib ok c' sv (clientId lib c x) new"
        using lists_copies_none [OF sv None] key x(2) c' by (simp add: repairable_def)
      then show ?thesis unfolding ver
        by (intro fits.verify [where chk' = chk']) (use want key d h x(4) c' in \<open>simp_all\<close>)
    qed
  qed
qed

lemma planFor_none_agrees:
  assumes lib: "merge_contract (klJson lib) ok" and objs: "\<And>d. d \<in> set objs \<Longrightarrow> readable lib api ok c k1 d"
    and sv: "lists_copies lib mlib c objs items sv" and key: "storeKey c k \<in> concerned lib c objs items" and none: "planFor lib c objs items k = []"
  shows "agrees (klJson lib) (wanted lib c objs) sv (storeKey c k)"
proof -
  have key': "lastOf (serverItemsOf items) k \<noteq> None \<or> (\<exists>d. lastOf (clientItemsOf lib objs) k = Some d \<and> \<not> isFiltered lib c d)"
    using key by (auto simp: concerned_def)
  then obtain x where x: "lastOf (clientItemsOf lib objs) k = Some x" using none by (auto simp: planFor_def split: option.splits)
  obtain new x' chk chk' where r: "filterAndMarshal lib c x = Inr (new, x')" "ok new" "checksumOf lib c x' = Inr chk"
    using objs [of x] lastOf_keys(1) [OF x, of c] unfolding readable_def by blast
  obtain h where h: "jlCanonicalHash (klJson lib) new = Inr h" using merge_contract_hash [OF lib r(2)] by blast
  obtain item where item: "lastOf (serverItemsOf items) k = Some item" "ToResourceVersion (klGetResourceVersion lib x) = chkResourceVersion item"
    using none x r h key' by (auto simp: planFor_def commonCalls_def missingCalls_def split: option.splits if_splits)
  show ?thesis
    by (rule lists_copiesD [OF sv item(1) x r(1)]) (use item(2) x r(1) in \<open>auto simp: agrees_def wanted_storeKey\<close>)
qed

section \<open>The batch starts the exchanges\<close>

lemma ends_with_client:
  assumes "receive E f cl = (cl', fs)" and "ends_with (converse E F) (cl', sv, fs, []) P"
  shows "ends_with (converse E F) (cl, sv, [], [f]) P"
  by (rule ends_with_only [OF _ _ assms(2)])
    (use assms(1) converse.at_client [OF assms(1), of F sv "[]" "[]"] in \<open>auto elim!: converse_elim\<close>)

lemma accepting_takes:
  assumes "accepting rt sent" and "identified ctx cid" and "in_int64 d" and "d \<le> maxMessageDepth"
  shows "takes (syncCallbacks rt isClient) (ContextFromGeneric ctx (call_generic d m c0)) sent (\<lambda>c. Doc (call_doc isClient (d + 1) m c))"
  unfolding takes_def using callBack_answers [OF assms(1,2) _ assms(3,4)] by blast

lemma batch_received:
  assumes "accepting rt sent" and "identified ctx cid" and "in_int64 d" and "d \<le> maxMessageDepth"
    and client: "iaClients a (Kind_String (icKind c)) = Some c" "icCallbacks c" "kGroup (icKind c) \<noteq> kubescapeCustomResourceGroup"
      "chooseLister lib api c (iaCluster a) = (Ret (objs, None), k1)" "slice_contract (apiToSlice api)"
    and batch: "itemsNewChecksum items \<noteq> []" "\<forall>item \<in> set (itemsNewChecksum items). chkKind item \<noteq> None" "wf_BatchItems items"
  shows "\<exists>w'. receive (inclusterEnd lib api rt sent) (Doc (call_doc False d m (CallBatch (icKind c) ReconciliationBatch items))) (ctx, a, w) =
     ((ContextFromGeneric ctx (call_generic d m (CallBatch (icKind c) ReconciliationBatch items)),
       a\<lparr>iaClients := (iaClients a)(Kind_String (icKind c) \<mapsto> fst (drop_shadows (planDrops lib c objs (itemsNewChecksum items)) (c, k1))),
         iaCluster := k1\<rparr>, w'),
      map (\<lambda>call. frame True (d + 1, m, call)) (reconcile_plan lib (apiToSlice api) c objs (itemsNewChecksum items)))"
proof -
  let ?ctx = "ContextFromGeneric ctx (call_generic d m (CallBatch (icKind c) ReconciliationBatch items))"
  let ?c = "fst (drop_shadows (planDrops lib c objs (itemsNewChecksum items)) (c, k1))"
  let ?a = "a\<lparr>iaClients := (iaClients a)(Kind_String (icKind c) \<mapsto> ?c), iaCluster := k1\<rparr>"
  obtain w' where "reconcileBatchProcessingFunc lib api (syncCallbacks rt True) ?ctx items ((c, iaCluster a), w) = (Ret None, ((?c, k1), w'))"
    and sent: "sent w' = sent w @ map (\<lambda>c. Doc (call_doc True (d + 1) m c)) (reconcile_plan lib (apiToSlice api) c objs (itemsNewChecksum items))"
    using reconcile_sends_plan [OF accepting_takes [OF assms(1-4), of True m "CallBatch (icKind c) ReconciliationBatch items"]
        client(2-4) batch(1,2) client(5), where w = w] by (auto simp: drop_shadows_def)
  then have "client_Batch lib api (syncCallbacks rt True) ?ctx (icKind c) ReconciliationBatch items ((c, iaCluster a), w) = (Ret None, ((?c, k1), w'))"
    by (simp add: client_Batch_def DefaultBatch_def ReconciliationBatch_def)
  then have "with_client (icKind c) (client_Batch lib api (syncCallbacks rt True) ?ctx (icKind c) ReconciliationBatch items) (a, w) = (Ret None, (?a, w'))"
    by (rule with_client_run [OF client(1)])
  then have "adapterCall (inclusterAdapter lib api) (syncCallbacks rt True) ?ctx (CallBatch (icKind c) ReconciliationBatch items) (a, w) = (Ret None, (?a, w'))"
    by (simp add: inclusterAdapter_def ic_Batch_def)
  then show ?thesis
    using receive_single [of "inclusterEnd lib api rt sent" "inclusterAdapter lib api" d "CallBatch (icKind c) ReconciliationBatch items"
        ?ctx ctx m False a w None ?a w', OF _ assms(3,4) _ refl] sent batch(3)
    by (intro exI [of _ w']) (simp add: inclusterEnd_def)
qed

lemma planDrops_concerned: "planDrops lib c objs items \<subseteq> concerned lib c objs items"
proof
  fix key
  assume "key \<in> planDrops lib c objs items"
  then obtain k where k: "k \<in> set (clientOnly lib objs items)" "key \<in> announced lib c (the (lastOf (clientItemsOf lib objs) k))"
    by (auto simp: planDrops_def)
  then obtain d where d: "lastOf (clientItemsOf lib objs) k = Some d" by (auto simp: clientOnly_def keySet_lastOf)
  then have "key = storeKey c k \<and> \<not> isFiltered lib c d"
    using k(2) lastOf_keys(1) [OF d, of c] by (auto simp: announced_def split: if_splits)
  then show "key \<in> concerned lib c objs items" using d by (auto simp: concerned_def)
qed

lemma plan_in_progress:
  assumes lib: "merge_contract (klJson lib) ok" "mlJson mlib = klJson lib" and objs: "\<And>x. x \<in> set objs \<Longrightarrow> readable lib api ok c k1 x"
    and sv: "lists_copies lib mlib c objs items sv" and d: "in_int64 d" "d + 2 \<le> maxMessageDepth" and sl: "slice_contract toSlice"
    and c': "c' = fst (drop_shadows (planDrops lib c objs items) (c, k1))"
  shows "in_progress lib api mlib ok (wanted lib c objs) k1 c (concerned lib c objs items) sv c' sv
     (map (\<lambda>call. (d, m, call)) (reconcile_plan lib toSlice c objs items)) []"
proof -
  let ?plan = "concat (map (planFor lib c objs items) (planKeys lib toSlice objs items))"
  obtain sh where sh: "c' = c\<lparr>icShadowObjects := sh\<rparr>" "\<And>key. key \<in> planDrops lib c objs items \<Longrightarrow> sh key = None"
      "\<forall>key. key \<notin> concerned lib c objs items \<longrightarrow> sh key = icShadowObjects c key"
    by (rule that [of "icShadowObjects c |` (- planDrops lib c objs items)"])
      (use c' planDrops_concerned [of lib c objs items] in \<open>auto simp: drop_shadows_def restrict_map_def\<close>)
  have call: "\<exists>k. planFor lib c objs items k = [call] \<and> callKey call = storeKey c k \<and> k \<in> set (planKeys lib toSlice objs items)" if "call \<in> set ?plan" for call
  proof -
    obtain k where "k \<in> set (planKeys lib toSlice objs items)" "call \<in> set (planFor lib c objs items k)"
      using \<open>call \<in> set ?plan\<close> by auto
    then show ?thesis using planFor_single [of lib c objs items k] by (intro exI [of _ k]) auto
  qed
  have "distinct (map callKey ?plan)"
    by (rule distinct_concat_keys [OF planKeys_distinct [OF sl], where h = "storeKey c"]) (simp_all add: inj_def planFor_single)
  moreover have "callKey call \<in> concerned lib c objs items" if "call \<in> set ?plan" for call
    using call [OF that]
    by (auto simp: concerned_def planFor_def missingCalls_def planKeys_set [OF sl] split: option.splits if_splits)
  moreover have "fits lib api mlib ok (wanted lib c objs) k1 c' sv (d, m, call)" if "call \<in> set ?plan" for call
    using call [OF that] planFor_fits [OF lib objs sv d sh(1,2)] by blast
  moreover have "agrees (klJson lib) (wanted lib c objs) sv key" if key: "key \<in> concerned lib c objs items" "key \<notin> callKey ` set ?plan" for key
  proof -
    obtain k where k: "key = storeKey c k" "k \<in> set (planKeys lib toSlice objs items)"
      using key(1) by (auto simp: concerned_def planKeys_set [OF sl])
    then have "planFor lib c objs items k = []" using key(2) planFor_single [of lib c objs items k] by force
    then show ?thesis using planFor_none_agrees [OF lib(1) objs sv] key(1) k(1) by blast
  qed
  moreover have "map msgKey (map (\<lambda>call. (d, m, call)) ?plan @ []) = map callKey ?plan"
    "msgKey ` set (map (\<lambda>call. (d, m, call)) ?plan @ []) = callKey ` set ?plan"
    by (simp_all only: append_Nil2 map_map comp_def snd_conv set_map image_image)
  ultimately show ?thesis
    using sh(1,3) unfolding in_progress_def plan_by_keys [OF sl]
    by (simp only:) (simp only: set_map ball_simps list.set empty_iff, blast)
qed

lemma agreement_mirrors:
  assumes "lists_copies lib mlib c objs items sv" and "\<And>x. x \<in> set objs \<Longrightarrow> readable lib api ok c k1 x"
    and agree: "\<And>key. key \<in> concerned lib c objs items \<Longrightarrow> agrees (klJson lib) (wanted lib c objs) sv' key"
    and other: "\<And>key. key \<notin> concerned lib c objs items \<Longrightarrow> moResources sv' key = moResources sv key"
  shows "mirrors lib c objs items sv'"
  unfolding mirrors_def
proof
  fix k
  have key: "storeKey c k \<in> concerned lib c objs items \<longleftrightarrow> lastOf (serverItemsOf items) k \<noteq> None \<or>
     (\<exists>d. lastOf (clientItemsOf lib objs) k = Some d \<and> \<not> isFiltered lib c d)" by (auto simp: concerned_def)
  show "case lastOf (clientItemsOf lib objs) k of
        None \<Rightarrow> moResources sv' (storeKey c k) = None
      | Some d \<Rightarrow> if isFiltered lib c d \<and> lastOf (serverItemsOf items) k = None then moResources sv' (storeKey c k) = None
          else copy_of lib c sv' k d"
  proof (cases "storeKey c k \<in> concerned lib c objs items")
    case False
    then show ?thesis using key other [OF False] lists_copies_none [OF assms(1), of k] by (auto split: option.splits)
  next
    case True
    show ?thesis
    proof (cases "lastOf (clientItemsOf lib objs) k")
      case None
      then show ?thesis using agree [OF True] by (simp add: agrees_def wanted_storeKey)
    next
      case (Some d)
      obtain new d' where "filterAndMarshal lib c d = Inr (new, d')"
        using assms(2) [of d] lastOf_keys(1) [OF Some, of c] by (auto simp: readable_def)
      then show ?thesis using Some True key agree [OF True] by (auto simp: agrees_def wanted_storeKey copy_of_def)
    qed
  qed
qed

section \<open>A sample\<close>

text \<open>A cluster of two deployments, and a server with an old copy of one and a copy of one that is gone.\<close>

abbreviation twoObjects :: "json list" where "twoObjects \<equiv> [sampleObject ''nginx'' ''3'', sampleObject ''new'' ''4'']"

abbreviation twoCopies :: MockAdapter where
  "twoCopies \<equiv> (NewMockAdapter False)\<lparr>moResources :=
     [storeKey sampleClient ''default/gone'' \<mapsto> ''x'', storeKey sampleClient ''default/nginx'' \<mapsto> ''old'']\<rparr>"

abbreviation clusterAdapter :: "json list InCluster" where
  "clusterAdapter \<equiv> (NewInClusterAdapter sampleConfig False twoObjects)\<lparr>iaClients := [Kind_String (icKind sampleClient) \<mapsto> sampleClient]\<rparr>"

lemma sampleObject_simps:
  "klGetName treeKube (sampleObject n rv) = n" "klGetNamespace treeKube (sampleObject n rv) = ''default''"
  "klGetResourceVersion treeKube (sampleObject n rv) = rv"
  "filterAndMarshal treeKube sampleClient (sampleObject n rv) = Inr (n, sampleObject n rv)"
  "klAnnotations treeKube (sampleObject n rv) (klSyncChecksumMetadataKey treeKube) = None"
  by (simp_all add: filterAndMarshal_def MaskEnvironmentVariables_def containerTypes_def asSlice_def fieldsToRemove_def treeKube_def
      sampleObject_def asString_def Let_def split: option.splits)

lemma sampleObject_checksum: "checksumOf treeKube sampleClient (sampleObject n rv) = Inr n"
  by (simp add: checksumOf_def sampleObject_simps wrapError_def) (simp add: treeKube_def)

lemma sample_readable: "x \<in> set twoObjects \<Longrightarrow> readable treeKube treeApi (\<lambda>_. True) sampleClient twoObjects x"
proof -
  assume "x \<in> set twoObjects"
  then obtain n rv where x: "x = sampleObject n rv" "x \<in> set twoObjects" "(n, rv) \<in> {(''nginx'', ''3''), (''new'', ''4'')}" by auto
  have "getResource treeKube treeApi sampleClient ''default'' n twoObjects = (Ret (Inr x), twoObjects)"
    using x by (auto simp: getResource_def dynGet_def sampleClient_simps treeApi_def sampleObject_simps wrapError_def)
  moreover have "getChecksum treeKube treeApi sampleClient x twoObjects = (Ret (Inr n), twoObjects)"
    by (simp add: getChecksum_listed sampleClient_simps kubescapeCustomResourceGroup_def x(1) sampleObject_checksum)
  ultimately show ?thesis
    by (simp add: readable_def clusterObject_def x(1) sampleObject_simps sampleObject_checksum clientId_def itemId_def)
qed

lemma sample_batch: "wf_BatchItems sampleItems" "itemsNewChecksum sampleItems \<noteq> []"
  "\<forall>item \<in> set (itemsNewChecksum sampleItems). chkKind item \<noteq> None"
  by (simp_all add: sampleItems_def wf_BatchItems_def wf_NewChecksum_def zero_BatchItems_def zero_NewChecksum_def int64_defs event_in_range_def)

lemma sample_lists: "lists_copies treeKube unversionedLib sampleClient twoObjects (itemsNewChecksum sampleItems) twoCopies"
proof -
  have "ToResourceVersion ''3'' = 3" by code_simp
  then show ?thesis
    by (auto simp: lists_copies_def lastOf_def serverItemsOf_def clientItemsOf_def sampleItems_def objKey_def sampleObject_simps
        unversionedLib_def supersedes_def split: option.splits if_splits)
qed

section \<open>Properties\<close>

text \<open>
  C4. Reconciliation brings the server in line with the cluster: whatever the server has of a kind, when it
  sends its list to the client, every run of what follows ends, in whatever order the two sides handle their
  messages, and ends with the server having a copy of every object of the cluster, the same up to formatting,
  and nothing else of that kind; the copies of other kinds are as they were. Copies the server lost are among
  what is restored; a filtered object it did not list is not copied. (The kind is not one of the storage; the
  cluster does not change meanwhile and its objects can be read; the versions in the server's list tell the
  truth about its copies, and a copy of another version than the cluster's is one the cluster's object
  replaces.)
\<close>

theorem reconciliation_converges:
  assumes net: "connected rtC sentC rtS sentS lib mlib ok" and ctx: "identified ctxC cidC" "identified ctxS cidS"
    and client: "iaClients a (Kind_String (icKind c)) = Some c" "icCallbacks c" "kGroup (icKind c) \<noteq> kubescapeCustomResourceGroup"
      "chooseLister lib api c (iaCluster a) = (Ret (objs, None), k1)" "slice_contract (apiToSlice api)"
      "\<forall>x \<in> set objs. readable lib api ok c k1 x"
    and batch: "itemsNewChecksum items \<noteq> []" "\<forall>item \<in> set (itemsNewChecksum items). chkKind item \<noteq> None" "wf_BatchItems items"
      "in_int64 d" "d + 3 \<le> maxMessageDepth"
    and server: "lists_copies lib mlib c objs (itemsNewChecksum items) sv"
  shows "ends_with (converse (inclusterEnd lib api rtC sentC) (referenceEnd mlib rtS sentS))
     ((ctxC, a, w), (ctxS, sv, v), [], [Doc (call_doc False d m (CallBatch (icKind c) ReconciliationBatch items))])
     (\<lambda>(cl, (ctxS', sv', v'), up, down). mirrors lib c objs (itemsNewChecksum items) sv'
        \<and> (\<forall>key. key \<notin> range (storeKey c) \<longrightarrow> moResources sv' key = moResources sv key))"
proof -
  note net' = connectedD [OF net]
  have d: "d \<le> maxMessageDepth" "in_int64 (d + 1)" "d + 1 + 2 \<le> maxMessageDepth"
    using batch(4,5) by (simp_all add: int64_defs maxMessageDepth_def)
  have objs: "\<And>x. x \<in> set objs \<Longrightarrow> readable lib api ok c k1 x" using client(6) by blast
  let ?items = "itemsNewChecksum items"
  let ?c = "fst (drop_shadows (planDrops lib c objs ?items) (c, k1))"
  let ?K = "concerned lib c objs ?items"
  obtain ctx' a' w' where rec: "receive (inclusterEnd lib api rtC sentC) (Doc (call_doc False d m (CallBatch (icKind c) ReconciliationBatch items))) (ctxC, a, w) =
     ((ctx', a', w'), map (\<lambda>call. frame True (d + 1, m, call)) (reconcile_plan lib (apiToSlice api) c objs ?items))"
    and a': "iaClients a' (Kind_String (icKind c)) = Some ?c" "iaCluster a' = k1" and ctx': "identified ctx' cidC"
    using batch_received [OF net'(1) ctx(1) batch(4) d(1) client(1-5) batch(1-3), of m w] ctx(1) by auto
  have "converging lib api mlib ok (wanted lib c objs) k1 c cidC cidS ?K sv
      ((ctx', a', w'), (ctxS, sv, v), map (\<lambda>call. frame True (d + 1, m, call)) (reconcile_plan lib (apiToSlice api) c objs ?items), [])"
    unfolding converging.simps
    by (intro conjI exI [of _ ?c] exI [of _ "map (\<lambda>call. (d + 1, m, call)) (reconcile_plan lib (apiToSlice api) c objs ?items)"]
          exI [of _ "[]"])
      (rule ctx ctx' a' plan_in_progress [OF net'(3,4) objs server d(2,3) client(5) refl] | simp)+
  note ends = converging_ends [OF net client(2) this]
  have "?K \<subseteq> range (storeKey c)" by (auto simp: concerned_def)
  then have end_state: "mirrors lib c objs ?items sv' \<and> (\<forall>key. key \<notin> range (storeKey c) \<longrightarrow> moResources sv' key = moResources sv key)"
    if "\<forall>key \<in> ?K. agrees (klJson lib) (wanted lib c objs) sv' key" "\<forall>key. key \<notin> ?K \<longrightarrow> moResources sv' key = moResources sv key" for sv'
    using agreement_mirrors [OF server objs, of sv'] that by blast
  show ?thesis
    by (rule ends_with_client [OF rec], rule ends_with_mono [OF ends]) (use end_state in auto)
qed

theorem reconciliation_converges_witness:
  "ends_with (converse (inclusterEnd treeKube treeApi listRuntime (\<lambda>w. w)) (referenceEnd unversionedLib listRuntime (\<lambda>w. w)))
     ((processCtx, clusterAdapter, []), (processCtx, twoCopies, []), [],
       [Doc (call_doc False 1 ''msg'' (CallBatch (icKind sampleClient) ReconciliationBatch sampleItems))])
     (\<lambda>(cl, (ctxS', sv', v'), up, down). mirrors treeKube sampleClient twoObjects (itemsNewChecksum sampleItems) sv'
        \<and> (\<forall>key. key \<notin> range (storeKey sampleClient) \<longrightarrow> moResources sv' key = moResources twoCopies key))"
  by (rule reconciliation_converges [OF sample_connected identified_ContextFromIdentifiers identified_ContextFromIdentifiers,
        where ?k1.0 = twoObjects])
    (use sample_readable in \<open>simp_all add: NewInClusterAdapter_def sampleClient_simps kubescapeCustomResourceGroup_def chooseLister_def dynList_def
      treeApi_slices sample_lists sample_batch int64_defs maxMessageDepth_def\<close>, simp add: treeApi_def)

end
