(* ===== verification/Event_Stream.thy ===== *)
theory Event_Stream
  imports Reconciliation
begin

text \<open>
  A burst of changes: the event loop of a client works through the events its queue delivers while the
  conversations these start go on. Handling an event or a message is one step; in which order the
  steps of the loop, the client and the server follow each other is left open. Each side handles its messages on
  a pool of one worker, one after the other. The event loop runs beside the client's worker; what the two share is
  the map of reference objects, which a client that synchronizes by copy never touches, so that its handlers
  do not interfere. Between the handlers of a client that synchronizes by patch there is no lock: for such a client the
  runs here are those in which they do not overlap. The events here are about different objects; that
  the queue sees to that is in \<open>Event_Burst\<close>.
\<close>

section \<open>Events beside the conversations\<close>

definition watchEvent :: "'o kubelib \<Rightarrow> ('o, 'k) kubeapi \<Rightarrow> 'w runtime \<Rightarrow> ('w \<Rightarrow> wire list) \<Rightarrow> Context \<Rightarrow> Kind \<Rightarrow>
    watchType \<times> 'o option \<Rightarrow> Context \<times> 'k InCluster \<times> 'w \<Rightarrow> (Context \<times> 'k InCluster \<times> 'w) \<times> wire list" where
  "watchEvent lib api rt sent ctx kind e st =
     (case st of (ctxC, a, w) \<Rightarrow>
      case with_client kind (handleEvent lib api (syncCallbacks rt True) ctx e) (a, w) of
        (r, (a', w')) \<Rightarrow> ((ctxC, a', w'), drop (length (sent w)) (sent w')))"

inductive live for E F h where
  talk: "converse E F x y \<Longrightarrow> live E F h (es, x) (es, y)"
| event: "h e cl = (cl', fs) \<Longrightarrow> live E F h (e # es, (cl, sv, up, down)) (es, (cl', sv, up @ fs, down))"

inductive_cases live_elim: "live E F h x y"

lemma live_wf:
  assumes "endpoint_ok E" and "endpoint_ok F"
  shows "wf {(y, x). live E F h x y}"
proof (rule wf_subset)
  show "wf (inv_image (measure length <*lex*> {(y, x). converse E F x y}) (\<lambda>(es, x). (es, x)))"
    by (intro wf_inv_image wf_lex_prod wf_measure converse_wf [OF assms])
  show "{(y, x). live E F h x y} \<subseteq> inv_image (measure length <*lex*> {(y, x). converse E F x y}) (\<lambda>(es, x). (es, x))"
    by (auto elim!: live_elim)
qed

lemma live_stuck:
  assumes "\<And>z. \<not> live E F h (es, cl, sv, up, down) z"
  shows "es = [] \<and> up = [] \<and> down = []"
proof -
  have "\<not> converse E F (cl, sv, up, down) z" for z using assms live.talk by metis
  moreover have "es = []" using assms by (metis live.event list.exhaust surj_pair)
  ultimately show ?thesis using converse_stuck [of E F cl sv up down] by blast
qed

section \<open>Events that are due\<close>

fun eventKey :: "'o kubelib \<Rightarrow> Client \<Rightarrow> watchType \<times> 'o option \<Rightarrow> string" where
  "eventKey lib c (_, Some d) = KindName_String (clientId lib c d)"
| "eventKey lib c (_, None) = []"

text \<open>
  The event of an object that is added or modified finds the object in the cluster as it is wanted on the
  server, and the server has no copy or an older one; that of a deleted one that none is wanted.
\<close>

inductive due :: "'o kubelib \<Rightarrow> ('o, 'k) kubeapi \<Rightarrow> mocklib \<Rightarrow> (string \<Rightarrow> bool) \<Rightarrow> (string \<rightharpoonup> string) \<Rightarrow> 'k \<Rightarrow>
    Client \<Rightarrow> MockAdapter \<Rightarrow> watchType \<times> 'o option \<Rightarrow> bool"
  for lib api mlib ok want k c sv where
  added: "\<not> isFiltered lib c d \<Longrightarrow> want (KindName_String (clientId lib c d)) = Some new \<Longrightarrow>
    clusterObject lib api c (clientId lib c d) k new chk' k \<Longrightarrow> repairable lib mlib ok c sv (clientId lib c d) new \<Longrightarrow>
    getChecksum lib api c d k = (Ret (Inr chk), k) \<Longrightarrow> jlCanonicalHash (klJson lib) new = Inr chk \<Longrightarrow>
    due lib api mlib ok want k c sv (Added, Some d)"
| modified: "\<not> isFiltered lib c d \<Longrightarrow> want (KindName_String (clientId lib c d)) = Some new \<Longrightarrow>
    clusterObject lib api c (clientId lib c d) k new chk' k \<Longrightarrow> repairable lib mlib ok c sv (clientId lib c d) new \<Longrightarrow>
    getObjectFromMeta lib api c d k = (Ret (Inr (new, d')), k) \<Longrightarrow> getChecksum lib api c d' k = (Ret r, k) \<Longrightarrow>
    (\<And>old p. icStrategy c = PatchStrategy \<Longrightarrow> icShadowObjects c (KindName_String (clientId lib c d)) = Some old \<Longrightarrow>
       ok old \<and> (jlCreateMergePatch (klJson lib) old new = Inr p \<longrightarrow> \<not> emptyPatch_Match p)) \<Longrightarrow>
    due lib api mlib ok want k c sv (Modified, Some d)"
| deleted: "\<not> isFiltered lib c d \<Longrightarrow> want (KindName_String (clientId lib c d)) = None \<Longrightarrow>
    due lib api mlib ok want k c sv (Deleted, Some d)"

lemma shadows_ids [simp]:
  "clientId lib (c\<lparr>icShadowObjects := sh\<rparr>) d = clientId lib c d"
  "isFiltered lib (c\<lparr>icShadowObjects := sh\<rparr>) d = isFiltered lib c d"
  by (simp_all add: clientId_def isFiltered_def skipNamespace_def Let_def)

lemma eventKey_shadows [simp]: "eventKey lib (c\<lparr>icShadowObjects := sh\<rparr>) e = eventKey lib c e"
  by (cases e; cases "snd e") simp_all

lemma due_local:
  assumes "due lib api mlib ok want k (c\<lparr>icShadowObjects := sh\<rparr>) sv e"
    and "moResources sv' (eventKey lib c e) = moResources sv (eventKey lib c e)" and "sh' (eventKey lib c e) = sh (eventKey lib c e)"
  shows "due lib api mlib ok want k (c\<lparr>icShadowObjects := sh'\<rparr>) sv' e"
  using assms(1)
proof (cases rule: due.cases)
  case (added d new chk' chk)
  then show ?thesis using assms(2,3) repairable_local [OF added(5)] by (auto intro: due.added)
next
  case (modified d new chk' d' r)
  then show ?thesis using assms(2,3) repairable_local [OF modified(5)] by (auto intro!: due.modified)
next
  case (deleted d)
  then show ?thesis by (auto intro: due.deleted)
qed

section \<open>One event\<close>

text \<open>The client with other reference objects than \<open>c\<close> for one key at most.\<close>

definition same_but :: "string \<Rightarrow> Client \<Rightarrow> Client \<Rightarrow> bool" where
  "same_but key c c' \<longleftrightarrow> (\<exists>sh. c' = c\<lparr>icShadowObjects := sh\<rparr> \<and> (\<forall>key'. key' \<noteq> key \<longrightarrow> sh key' = icShadowObjects c key'))"

lemma same_but_refl: "same_but key c c"
  unfolding same_but_def by (rule exI [of _ "icShadowObjects c"]) simp

lemma same_but_remembered: "same_but (KindName_String oid) c (remembered c oid new)"
  unfolding remembered_def same_but_def
  by (cases "icStrategy c = PatchStrategy") (auto intro: exI [of _ "icShadowObjects c"])

lemma same_but_unremembered: "same_but (KindName_String oid) c (unremembered c oid)"
  unfolding unremembered_def same_but_def
  by (cases "icStrategy c = PatchStrategy") (auto intro: exI [of _ "icShadowObjects c"])

lemma modified_fits:
  assumes lib: "merge_contract (klJson lib) ok" "mlJson mlib = klJson lib"
    and oid: "knKind oid = Some (icKind c)" "want (KindName_String oid) = Some new"
    and c: "clusterObject lib api c oid k new chk' k" "repairable lib mlib ok c sv oid new"
    and reference: "\<And>old p. icStrategy c = PatchStrategy \<Longrightarrow> icShadowObjects c (KindName_String oid) = Some old \<Longrightarrow>
      ok old \<and> (jlCreateMergePatch (klJson lib) old new = Inr p \<longrightarrow> \<not> emptyPatch_Match p)"
  shows "\<exists>call. putOrPatch lib c oid chk [] new call \<and> callKey call = KindName_String oid
     \<and> (\<forall>m. fits lib api mlib ok want k (remembered c oid new) sv (1, m, call))"
proof (rule modified_call [OF lib(1) c(2), where chk = chk], goal_cases)
  case 1
  then show ?case by (rule reference)
next
  case patch: (2 h p ob)
  have "repairable lib mlib ok (remembered c oid new) sv oid new" using c(2) patch(2) by (simp add: repairable_def)
  then have "fits lib api mlib ok want k (remembered c oid new) sv (1, m, CallPatch oid h p)" for m
    by (rule fits.patch [rotated 6]) (use oid c(1) patch first_depth in simp_all)
  then show ?case using patch(1) by (intro exI [of _ "CallPatch oid h p"]) simp
next
  case put: (3 h)
  have "mends mlib sv oid new (CallPut oid chk new)"
    unfolding mends_def by (rule exI [of _ new], rule exI [of _ h]) (use put lib(2) c(2) in \<open>auto simp: repairable_def\<close>)
  then have "fits lib api mlib ok want k (remembered c oid new) sv (1, m, CallPut oid chk new)" for m
    by (rule fits.mend [rotated 3]) (rule oid(2) first_depth)+
  then show ?case using put(1) by (intro exI [of _ "CallPut oid chk new"]) simp
qed

lemma due_sends:
  assumes rt: "accepting rt sent" "fresh ctx" "identified ctx cid"
    and lib: "merge_contract (klJson lib) ok" "mlJson mlib = klJson lib"
    and c: "icCallbacks c" and due: "due lib api mlib ok want k c sv e"
  shows "\<exists>m call c' w'. handleEvent lib api (syncCallbacks rt True) ctx e ((c, k), w) = (Ret None, ((c', k), w'))
     \<and> sent w' = sent w @ [frame True (1, m, call)] \<and> callKey call = eventKey lib c e
     \<and> fits lib api mlib ok want k c' sv (1, m, call) \<and> same_but (eventKey lib c e) c c'"
  using due
proof (cases rule: due.cases)
  case (added d new chk' chk)
  obtain m w' where "handleEvent lib api (syncCallbacks rt True) ctx (Added, Some d) ((c, k), w) = (Ret None, ((c, k), w'))"
    "sent w' = sent w @ [Doc (call_doc True 1 m (CallVerify (clientId lib c d) chk))]"
    by (rule added_sends [OF rt c added(2,6)])
  moreover have "fits lib api mlib ok want k c sv (1, m, CallVerify (clientId lib c d) chk)"
    by (rule fits.verify) (use added first_depth in simp_all)
  ultimately show ?thesis unfolding added(1)
    by (intro exI [of _ m] exI [of _ "CallVerify (clientId lib c d) chk"] exI [of _ c] exI [of _ w'] conjI)
      (simp_all add: same_but_refl)
next
  case (modified d new chk' d' r)
  obtain call where call: "putOrPatch lib c (clientId lib c d) (case r of Inl _ \<Rightarrow> [] | Inr chk \<Rightarrow> chk) [] new call"
    "callKey call = KindName_String (clientId lib c d)"
    "\<And>m. fits lib api mlib ok want k (remembered c (clientId lib c d) new) sv (1, m, call)"
  proof -
    have "\<exists>call. putOrPatch lib c (clientId lib c d) (case r of Inl _ \<Rightarrow> [] | Inr chk \<Rightarrow> chk) [] new call
        \<and> callKey call = KindName_String (clientId lib c d)
        \<and> (\<forall>m. fits lib api mlib ok want k (remembered c (clientId lib c d) new) sv (1, m, call))"
      by (rule modified_fits [where chk' = chk', OF lib]) (use modified in simp_all)
    then show thesis using that by blast
  qed
  obtain m w' where "handleEvent lib api (syncCallbacks rt True) ctx (Modified, Some d) ((c, k), w) =
      (Ret None, ((remembered c (clientId lib c d) new, k), w'))" "sent w' = sent w @ [Doc (call_doc True 1 m call)]"
    by (rule modified_sends [OF rt c modified(2,6,7) call(1)])
  then show ?thesis unfolding modified(1)
    by (intro exI [of _ m] exI [of _ call] exI [of _ "remembered c (clientId lib c d) new"] exI [of _ w'] conjI)
      (simp_all add: call(2,3) same_but_remembered)
next
  case (deleted d)
  let ?c = "unremembered c (clientId lib c d)"
  obtain m w' where "handleEvent lib api (syncCallbacks rt True) ctx (Deleted, Some d) ((c, k), w) = (Ret None, ((?c, k), w'))"
    "sent w' = sent w @ [Doc (call_doc True 1 m (CallDelete (clientId lib c d)))]"
    by (rule deleted_sends [OF rt c deleted(2)])
  moreover have "fits lib api mlib ok want k ?c sv (1, m, CallDelete (clientId lib c d))"
    by (rule fits.delete) (use deleted first_depth in simp_all)
  ultimately show ?thesis unfolding deleted(1)
    by (intro exI [of _ m] exI [of _ "CallDelete (clientId lib c d)"] exI [of _ ?c] exI [of _ w'] conjI)
      (simp_all add: same_but_unremembered)
qed

lemma watchEvent_sends:
  assumes "iaClients a (Kind_String (icKind c)) = Some c"
    and "handleEvent lib api (syncCallbacks rt True) ctx e ((c, iaCluster a), w) = (r, ((c', k'), w'))" and "sent w' = sent w @ fs"
  shows "watchEvent lib api rt sent ctx (icKind c) e (ctxC, a, w) =
     ((ctxC, a\<lparr>iaClients := (iaClients a)(Kind_String (icKind c) \<mapsto> c'), iaCluster := k'\<rparr>, w'), fs)"
proof -
  have "with_client (icKind c) (handleEvent lib api (syncCallbacks rt True) ctx e) (a, w) =
      (r, (a\<lparr>iaClients := (iaClients a)(Kind_String (icKind c) \<mapsto> c'), iaCluster := k'\<rparr>, w'))"
    by (rule with_client_run [OF assms(1)]) (rule assms(2))
  then show ?thesis using assms(3) by (simp add: watchEvent_def)
qed

section \<open>The invariant\<close>

lemma in_progress_event:
  assumes inv: "in_progress lib api mlib ok want k c K sv0 c' sv us ds" and u: "msgKey u \<notin> K"
    and c'': "same_but (msgKey u) c' c''" and fits: "fits lib api mlib ok want k c'' sv u"
  shows "in_progress lib api mlib ok want k c (insert (msgKey u) K) sv0 c'' sv (us @ [u]) ds"
proof -
  obtain sh where sh: "c' = c\<lparr>icShadowObjects := sh\<rparr>" "\<forall>key. key \<notin> K \<longrightarrow> sh key = icShadowObjects c key"
    using inv by (auto simp: in_progress_def)
  obtain sh' where sh': "c'' = c\<lparr>icShadowObjects := sh'\<rparr>" "\<And>key. key \<noteq> msgKey u \<Longrightarrow> sh' key = sh key"
    using c'' by (auto simp: same_but_def sh(1))
  have keys: "msgKey x \<in> K" if "x \<in> set us \<union> set ds" for x using inv that by (auto simp: in_progress_def)
  have same: "sh' (msgKey x) = sh (msgKey x)" if "x \<in> set us \<union> set ds" for x
    by (rule sh'(2)) (use keys [OF that] u in auto)
  have "fits lib api mlib ok want k c'' sv x" if "x \<in> set us" for x
    using inv that same [of x]
    by (auto simp: in_progress_def sh(1) sh'(1) intro!: fits_local [where sh = sh and sv = sv and sv' = sv and sh' = sh'])
  moreover have "asks lib api mlib ok want k c'' sv x" if "x \<in> set ds" for x
    using inv that same [of x]
    by (auto simp: in_progress_def sh(1) sh'(1) intro!: asks_local [where sh = sh and sv = sv and sv' = sv and sh' = sh'])
  moreover have "sh' key = icShadowObjects c key" if "key \<notin> insert (msgKey u) K" for key
    using that sh(2) sh'(2) [of key] by auto
  moreover have "msgKey u \<notin> msgKey ` set (us @ ds)"
  proof (rule notI, erule imageE)
    fix x
    assume eq: "msgKey u = msgKey x" and "x \<in> set (us @ ds)"
    then have "x \<in> set us \<union> set ds" by simp
    from keys [OF this] have "msgKey u \<in> K" unfolding eq .
    with u show False by blast
  qed
  ultimately show ?thesis using inv fits sh'(1) by (auto simp: in_progress_def)
qed

fun streaming where
  "streaming lib api mlib ok want k c cidC cidS Kall sv0 (es, x) \<longleftrightarrow>
     (\<exists>K. converging lib api mlib ok want k c cidC cidS K sv0 x \<and> K \<inter> eventKey lib c ` set es = {}
        \<and> K \<union> eventKey lib c ` set es = Kall)
     \<and> distinct (map (eventKey lib c) es) \<and> (\<forall>e \<in> set es. due lib api mlib ok want k c sv0 e)"

lemma streaming_event:
  assumes net: "connected rtC sentC rtS sentS lib mlib ok" and c: "icCallbacks c" and ctx: "fresh ctx" "identified ctx cid"
    and inv: "streaming lib api mlib ok want k c cidC cidS Kall sv0 (e # es, (cl, sv', up, down))"
    and event: "watchEvent lib api rtC sentC ctx (icKind c) e cl = (cl', fs)"
  shows "streaming lib api mlib ok want k c cidC cidS Kall sv0 (es, (cl', sv', up @ fs, down))"
proof -
  note net = connectedD [OF net]
  obtain ctxC a w where cl: "cl = (ctxC, a, w)" by (cases cl)
  obtain ctxS sv v where sv': "sv' = (ctxS, sv, v)" by (cases sv')
  obtain K c' us ds where K: "K \<inter> eventKey lib c ` set (e # es) = {}" "K \<union> eventKey lib c ` set (e # es) = Kall"
    and ids: "identified ctxC cidC" "identified ctxS cidS" and a: "iaCluster a = k" "iaClients a (Kind_String (icKind c)) = Some c'"
    and frames: "up = map (frame True) us" "down = map (frame False) ds"
    and prog: "in_progress lib api mlib ok want k c K sv0 c' sv us ds"
    and events: "distinct (map (eventKey lib c) (e # es))" "\<forall>e \<in> set (e # es). due lib api mlib ok want k c sv0 e"
    using inv by (auto simp: cl sv')
  obtain sh where sh: "c' = c\<lparr>icShadowObjects := sh\<rparr>" "\<forall>key. key \<notin> K \<longrightarrow> sh key = icShadowObjects c key"
    "\<forall>key. key \<notin> K \<longrightarrow> moResources sv key = moResources sv0 key" using prog by (auto simp: in_progress_def)
  have "due lib api mlib ok want k c' sv e"
    unfolding sh(1) by (rule due_local [where sh = "icShadowObjects c" and sv = sv0]) (use sh(2,3) events(2) K(1) in auto)
  from due_sends [OF net(1) ctx net(3,4) _ this, of w] obtain m call c'' w' where
    sent: "handleEvent lib api (syncCallbacks rtC True) ctx e ((c', k), w) = (Ret None, ((c'', k), w'))"
      "sentC w' = sentC w @ [frame True (1, m, call)]" "callKey call = eventKey lib c e"
      "fits lib api mlib ok want k c'' sv (1, m, call)" "same_but (eventKey lib c e) c' c''"
    using c unfolding sh(1) by (auto simp del: frame.simps)
  have "cl' = (ctxC, a\<lparr>iaClients := (iaClients a)(Kind_String (icKind c) \<mapsto> c''), iaCluster := k\<rparr>, w') \<and> fs = [frame True (1, m, call)]"
    using watchEvent_sends [of a c' lib api rtC ctx e w, OF _ _ sent(2)] a sent(1) event by (simp add: cl sh(1))
  moreover have "in_progress lib api mlib ok want k c (insert (eventKey lib c e) K) sv0 c'' sv (us @ [(1, m, call)]) ds"
    using in_progress_event [OF prog, of "(1, m, call)" c''] sent(3-5) K(1) by simp
  ultimately have "converging lib api mlib ok want k c cidC cidS (insert (eventKey lib c e) K) sv0 (cl', sv', up @ fs, down)"
    using ids frames unfolding sv' by (auto simp del: frame.simps) (metis list.simps(8,9) map_append)
  then show ?thesis using K events by (simp only: streaming.simps) (intro conjI exI [of _ "insert (eventKey lib c e) K"], auto)
qed

section \<open>Every run ends with the server up to date\<close>

lemma changes_arrive:
  assumes net: "connected rtC sentC rtS sentS lib mlib ok"
    and ctx: "fresh ctx" "identified ctx cid" "identified ctxC cidC" "identified ctxS cidS"
    and client: "iaClients a (Kind_String (icKind c)) = Some c" "icCallbacks c"
    and events: "distinct (map (eventKey lib c) es)" "\<forall>e \<in> set es. due lib api mlib ok want (iaCluster a) c sv e"
  shows "ends_with (live (inclusterEnd lib api rtC sentC) (referenceEnd mlib rtS sentS) (watchEvent lib api rtC sentC ctx (icKind c)))
     (es, (ctxC, a, w), (ctxS, sv, v), [], [])
     (\<lambda>(es', cl, (ctxS', sv', v'), up, down). (\<forall>e \<in> set es. agrees (klJson lib) want sv' (eventKey lib c e))
        \<and> (\<forall>key. key \<notin> eventKey lib c ` set es \<longrightarrow> moResources sv' key = moResources sv key))"
proof -
  let ?E = "inclusterEnd lib api rtC sentC" and ?F = "referenceEnd mlib rtS sentS" and ?h = "watchEvent lib api rtC sentC ctx (icKind c)"
  let ?K = "eventKey lib c ` set es"
  let ?J = "streaming lib api mlib ok want (iaCluster a) c cidC cidS ?K sv"
  have "in_progress lib api mlib ok want (iaCluster a) c {} sv c sv [] []"
    unfolding in_progress_def by (auto intro: exI [of _ "icShadowObjects c"])
  then have start: "?J (es, (ctxC, a, w), (ctxS, sv, v), [], [])"
    using ctx client events by (auto intro!: exI [of _ "{}"])
  show ?thesis
  proof (rule ends_with_invariant [where J = ?J, OF live_wf [OF connected_ends_ok [OF net]] start], goal_cases)
    case (1 y z)
    note J = 1(1)
    from 1(2) J show ?case
    proof (cases rule: live.cases)
      case (talk x x' es')
      obtain K where K: "converging lib api mlib ok want (iaCluster a) c cidC cidS K sv x" "K \<inter> eventKey lib c ` set es' = {}"
          "K \<union> eventKey lib c ` set es' = ?K"
        and rest: "distinct (map (eventKey lib c) es')" "\<forall>e \<in> set es'. due lib api mlib ok want (iaCluster a) c sv e"
        using J unfolding talk(1) streaming.simps by blast
      show ?thesis
        unfolding talk(2) streaming.simps using converging_step [OF net client(2) K(1) talk(3)] K(2,3) rest by blast
    next
      case (event e cl cl' fs es1 sv1 up down)
      show ?thesis using J unfolding event(1,2) by (rule streaming_event [OF net client(2) ctx(1,2) _ event(3)])
    qed
  next
    case (2 y)
    obtain es' cl ctxS' sv' v' up down where y: "y = (es', cl, (ctxS', sv', v'), up, down)" by (cases y) auto
    then have "es' = []" "up = []" "down = []" using live_stuck [of ?E ?F ?h es' cl "(ctxS', sv', v')" up down] 2(2) by blast+
    then have "settled (klJson lib) want ?K sv (cl, (ctxS', sv', v'), [], [])"
      using 2(1) y by (auto intro!: converging_settled simp del: converging.simps settled.simps)
    then show ?case by (simp add: y)
  qed
qed

end
