(* ===== verification/Cooldown_Queue.thy ===== *)
theory Cooldown_Queue
  imports Go_Strings "HOL-Library.Sublist"
begin

text \<open>
  \<open>utils/cooldownqueue.go\<close>: watch events wait in an expiring cache, keyed by object; a newer event
  for the same object replaces the older one and starts the wait again; when an entry is evicted, the
  callback offers its event on an unbuffered channel, and blocks until the event loop takes it. The cache
  is a library and an argument. The callback and the operations are the repository's. Time is in seconds.
\<close>

section \<open>The queue\<close>

definition defaultExpiration :: int where "defaultExpiration = 5"

text \<open>What \<open>makeEventKey\<close> reads of an event's object.\<close>

record eventMeta =
  emGroup :: string
  emVersion :: string
  emKind :: string
  emNamespace :: string
  emName :: string

definition makeEventKey :: "('e \<Rightarrow> eventMeta) \<Rightarrow> 'e \<Rightarrow> string" where
  "makeEventKey meta e =
     (let m = meta e in strings_Join [emGroup m, emVersion m, emKind m, emNamespace m, emName m] ''/'')"

text \<open>
  The cache (\<open>istio.io/pkg/cache\<close>): when an entry set at one time with an expiration may be evicted. What
  is documented and relied on: the expiration is the least time an entry remains in the cache.
\<close>

record cacheLib =
  clEvictable :: "int \<Rightarrow> int \<Rightarrow> int \<Rightarrow> bool"

definition ttl_contract :: "cacheLib \<Rightarrow> bool" where
  "ttl_contract cl \<longleftrightarrow> (\<forall>expiration setAt now. clEvictable cl expiration setAt now \<longrightarrow> setAt + expiration \<le> now)"

text \<open>
  \<open>cqSeen\<close> is the cache; \<open>cqSending\<close> is the event the callback is blocked with, if it is;
  \<open>cqReceived\<close> is what the event loop has taken, in order. Every event is with the time it was accepted.
\<close>

record 'e CooldownQueue =
  cqClosed :: bool
  cqSeen :: "string \<rightharpoonup> 'e \<times> int"
  cqSending :: "('e \<times> int) option"
  cqReceived :: "('e \<times> int) list"

definition NewCooldownQueue :: "'e CooldownQueue" where
  "NewCooldownQueue = \<lparr>cqClosed = False, cqSeen = Map.empty, cqSending = None, cqReceived = []\<rparr>"

text \<open>
  The callback begins to send. A send on the closed channel panics, which the callback recovers: the event is
  dropped.
\<close>

definition evictionCallback :: "'e \<times> int \<Rightarrow> 'e CooldownQueue \<Rightarrow> 'e CooldownQueue" where
  "evictionCallback x q = (if cqClosed q then q else q\<lparr>cqSending := Some x\<rparr>)"

definition Enqueue :: "('e \<Rightarrow> eventMeta) \<Rightarrow> int \<Rightarrow> 'e \<Rightarrow> 'e CooldownQueue \<Rightarrow> 'e CooldownQueue" where
  "Enqueue meta now e q =
     (if cqClosed q then q else q\<lparr>cqSeen := (cqSeen q)(makeEventKey meta e \<mapsto> (e, now))\<rparr>)"

text \<open>Closing the channel wakes a blocked callback, which panics and recovers.\<close>

definition queue_Stop :: "'e CooldownQueue \<Rightarrow> 'e CooldownQueue outcome" where
  "queue_Stop q = (if cqClosed q then Panic ''close of closed channel'' else Ret (q\<lparr>cqClosed := True, cqSending := None\<rparr>))"

section \<open>Runs\<close>

text \<open>
  The state of a run: the events accepted so far with their times, the clock, the queue. The cache evicts
  on one goroutine: while the callback is blocked, nothing else is evicted, but events are accepted.
\<close>

type_synonym 'e cqstate = "('e \<times> int) list \<times> int \<times> 'e CooldownQueue"

inductive cq_step :: "cacheLib \<Rightarrow> ('e \<Rightarrow> eventMeta) \<Rightarrow> 'e cqstate \<Rightarrow> 'e cqstate \<Rightarrow> bool" for cl meta where
  tick: "t \<le> t' \<Longrightarrow> cq_step cl meta (h, t, q) (h, t', q)"
| enqueue: "cq_step cl meta (h, t, q) (if cqClosed q then h else h @ [(e, t)], t, Enqueue meta t e q)"
| evict: "cqSending q = None \<Longrightarrow> cqSeen q k = Some (e, t0) \<Longrightarrow> clEvictable cl defaultExpiration t0 t \<Longrightarrow>
    cq_step cl meta (h, t, q) (h, t, evictionCallback (e, t0) (q\<lparr>cqSeen := (cqSeen q)(k := None)\<rparr>))"
| receive: "cqSending q = Some x \<Longrightarrow>
    cq_step cl meta (h, t, q) (h, t, q\<lparr>cqSending := None, cqReceived := cqReceived q @ [x]\<rparr>)"
| stop: "queue_Stop q = Ret q' \<Longrightarrow> cq_step cl meta (h, t, q) (h, t, q')"

inductive_cases cq_step_elim: "cq_step cl meta s s'"

inductive cq_reachable :: "cacheLib \<Rightarrow> ('e \<Rightarrow> eventMeta) \<Rightarrow> 'e cqstate \<Rightarrow> bool" for cl meta where
  initial: "cq_reachable cl meta ([], t, NewCooldownQueue)"
| further: "cq_reachable cl meta s \<Longrightarrow> cq_step cl meta s s' \<Longrightarrow> cq_reachable cl meta s'"

text \<open>The last event accepted for a key.\<close>

definition latest :: "('e \<Rightarrow> eventMeta) \<Rightarrow> ('e \<times> int) list \<Rightarrow> string \<Rightarrow> ('e \<times> int) option" where
  "latest meta h k = map_of (rev (map (\<lambda>(e, t). (makeEventKey meta e, (e, t))) h)) k"

lemma latest_snoc:
  "latest meta (h @ [(e, t)]) k = (if k = makeEventKey meta e then Some (e, t) else latest meta h k)"
  by (simp add: latest_def)

lemma latest_in: "latest meta h k = Some (e, t) \<Longrightarrow> (e, t) \<in> set h \<and> makeEventKey meta e = k"
  by (auto simp: latest_def dest!: map_of_SomeD)

lemma latest_of: "(e, t) \<in> set h \<Longrightarrow> \<exists>e' t'. latest meta h (makeEventKey meta e) = Some (e', t')"
  by (cases "latest meta h (makeEventKey meta e)") (force simp: latest_def map_of_eq_None_iff image_iff)+

definition for_key :: "('e \<Rightarrow> eventMeta) \<Rightarrow> string \<Rightarrow> ('e \<times> int) list \<Rightarrow> ('e \<times> int) list" where
  "for_key meta k = filter (\<lambda>(e, _). makeEventKey meta e = k)"

lemma for_key_simps [simp]:
  "for_key meta k [] = []" "for_key meta k (xs @ ys) = for_key meta k xs @ for_key meta k ys"
  "for_key meta k [(e, t)] = (if makeEventKey meta e = k then [(e, t)] else [])"
  by (simp_all add: for_key_def)

section \<open>The invariant\<close>

text \<open>What has left the cache and was not dropped: what was received, and what the callback is blocked with.\<close>

definition outgoing :: "'e CooldownQueue \<Rightarrow> ('e \<times> int) list" where
  "outgoing q = cqReceived q @ (case cqSending q of None \<Rightarrow> [] | Some x \<Rightarrow> [x])"

definition waiting :: "'e CooldownQueue \<Rightarrow> string \<Rightarrow> ('e \<times> int) list" where
  "waiting q k = (case cqSeen q k of None \<Rightarrow> [] | Some x \<Rightarrow> [x])"

text \<open>Two events of which the second was accepted at least a cooldown after the first.\<close>

definition spaced :: "'e \<times> int \<Rightarrow> 'e \<times> int \<Rightarrow> bool" where
  "spaced a b \<longleftrightarrow> snd a + defaultExpiration \<le> snd b"

text \<open>
  For every key: what has left the cache and what is waiting are some of the accepted events, in their order and a
  cooldown apart, and unless the queue was stopped the newest accepted event is the last of them.
\<close>

definition cq_ok :: "('e \<Rightarrow> eventMeta) \<Rightarrow> 'e cqstate \<Rightarrow> bool" where
  "cq_ok meta s \<longleftrightarrow> (case s of (h, t, q) \<Rightarrow>
     (cqSending q \<noteq> None \<longrightarrow> \<not> cqClosed q) \<and> (\<forall>x \<in> set (outgoing q). snd x + defaultExpiration \<le> t) \<and>
     (\<forall>k. (\<forall>x \<in> set (waiting q k). makeEventKey meta (fst x) = k) \<and>
        subseq (for_key meta k (outgoing q) @ waiting q k) (for_key meta k h) \<and>
        sorted_wrt spaced (for_key meta k (outgoing q) @ waiting q k) \<and>
        (\<not> cqClosed q \<longrightarrow> latest meta h k = (let xs = for_key meta k (outgoing q) @ waiting q k in if xs = [] then None else Some (last xs)))))"

lemma cq_okD:
  assumes "cq_ok meta (h, t, q)"
  shows "cqSending q \<noteq> None \<Longrightarrow> \<not> cqClosed q"
    and "x \<in> set (outgoing q) \<Longrightarrow> snd x + defaultExpiration \<le> t"
    and "x \<in> set (waiting q k) \<Longrightarrow> makeEventKey meta (fst x) = k"
    and "subseq (for_key meta k (outgoing q) @ waiting q k) (for_key meta k h)"
    and "sorted_wrt spaced (for_key meta k (outgoing q) @ waiting q k)"
    and "\<not> cqClosed q \<Longrightarrow> latest meta h k =
      (let xs = for_key meta k (outgoing q) @ waiting q k in if xs = [] then None else Some (last xs))"
  using assms unfolding cq_ok_def prod.case by blast+

lemma cq_okI:
  assumes "cqSending q \<noteq> None \<Longrightarrow> \<not> cqClosed q"
    and "\<And>x. x \<in> set (outgoing q) \<Longrightarrow> snd x + defaultExpiration \<le> t"
    and "\<And>x k. x \<in> set (waiting q k) \<Longrightarrow> makeEventKey meta (fst x) = k"
    and "\<And>k. subseq (for_key meta k (outgoing q) @ waiting q k) (for_key meta k h)"
    and "\<And>k. sorted_wrt spaced (for_key meta k (outgoing q) @ waiting q k)"
    and "\<And>k. \<not> cqClosed q \<Longrightarrow> latest meta h k =
      (let xs = for_key meta k (outgoing q) @ waiting q k in if xs = [] then None else Some (last xs))"
  shows "cq_ok meta (h, t, q)"
  using assms unfolding cq_ok_def prod.case by blast

lemma cq_ok_initial: "cq_ok meta ([], t, NewCooldownQueue)"
  by (rule cq_okI) (simp_all add: NewCooldownQueue_def outgoing_def waiting_def latest_def)

lemma cq_ok_tick: "cq_ok meta (h, t, q) \<Longrightarrow> t \<le> t' \<Longrightarrow> cq_ok meta (h, t', q)"
  unfolding cq_ok_def prod.case by force

text \<open>A queue that shows the same on the outside.\<close>

lemma cq_ok_same:
  assumes "cq_ok meta (h, t, q)" and "outgoing q' = outgoing q" and "cqSeen q' = cqSeen q" and "cqClosed q' = cqClosed q"
    and "cqSending q' \<noteq> None \<Longrightarrow> cqSending q \<noteq> None"
  shows "cq_ok meta (h, t, q')"
proof -
  have "waiting q' = waiting q" using assms(3) by (simp add: waiting_def fun_eq_iff)
  then show ?thesis using assms unfolding cq_ok_def prod.case by simp
qed

lemma cq_ok_Enqueue:
  assumes ok: "cq_ok meta (h, t, q)" and "\<not> cqClosed q"
  shows "cq_ok meta (h @ [(e, t)], t, Enqueue meta t e q)"
proof (rule cq_okI)
  let ?q = "Enqueue meta t e q" and ?k = "makeEventKey meta e"
  note D = cq_okD [OF ok]
  have out: "outgoing ?q = outgoing q" "cqSending ?q = cqSending q" using assms(2) by (simp_all add: Enqueue_def outgoing_def)
  have wait: "waiting ?q k = (if k = ?k then [(e, t)] else waiting q k)" for k
    using assms(2) by (simp add: Enqueue_def waiting_def)
  show "cqSending ?q \<noteq> None \<Longrightarrow> \<not> cqClosed ?q" using assms(2) by (simp add: Enqueue_def)
  show "x \<in> set (outgoing ?q) \<Longrightarrow> snd x + defaultExpiration \<le> t" for x using D(2) out by simp
  show "x \<in> set (waiting ?q k) \<Longrightarrow> makeEventKey meta (fst x) = k" for x k using D(3) wait by (auto split: if_splits)
  have "subseq (for_key meta k (outgoing q)) (for_key meta k h)" for k
    by (rule subseq_order.order_trans [OF _ D(4) [of k]]) (simp add: prefix_imp_subseq)
  then show "subseq (for_key meta k (outgoing ?q) @ waiting ?q k) (for_key meta k (h @ [(e, t)]))" for k
    using D(4) [of k] by (auto simp: out wait intro: list_emb_append_mono)
  show "sorted_wrt spaced (for_key meta k (outgoing ?q) @ waiting ?q k)" for k
    using D(5) [of k] D(2) by (auto simp: out wait sorted_wrt_append spaced_def for_key_def)
  show "latest meta (h @ [(e, t)]) k =
      (let xs = for_key meta k (outgoing ?q) @ waiting ?q k in if xs = [] then None else Some (last xs))" for k
    using D(6) [OF assms(2), of k] by (simp add: latest_snoc out wait)
qed


lemma cq_ok_evict:
  assumes ok: "cq_ok meta (h, t, q)" and "ttl_contract cl" and "cqSending q = None" and seen: "cqSeen q k = Some (e, t0)"
    and due: "clEvictable cl defaultExpiration t0 t"
  shows "cq_ok meta (h, t, evictionCallback (e, t0) (q\<lparr>cqSeen := (cqSeen q)(k := None)\<rparr>))"
proof (rule cq_okI)
  let ?q = "evictionCallback (e, t0) (q\<lparr>cqSeen := (cqSeen q)(k := None)\<rparr>)"
  note D = cq_okD [OF ok]
  have key: "makeEventKey meta e = k" using D(3) [of "(e, t0)" k] seen by (simp add: waiting_def)
  have late: "t0 + defaultExpiration \<le> t" using assms(2) due by (simp add: ttl_contract_def)
  have out: "outgoing ?q = (if cqClosed q then outgoing q else outgoing q @ [(e, t0)])"
    using assms(3) by (simp add: evictionCallback_def outgoing_def)
  have wait: "waiting ?q k' = (if k' = k then [] else waiting q k')" for k'
    by (simp add: evictionCallback_def waiting_def)
  have before: "waiting q k = [(e, t0)]" using seen by (simp add: waiting_def)
  have all: "for_key meta k' (outgoing ?q) @ waiting ?q k' =
      (if k' = k \<and> cqClosed q then for_key meta k' (outgoing q) else for_key meta k' (outgoing q) @ waiting q k')" for k'
    using key before by (auto simp: out wait)
  have closed: "cqClosed ?q = cqClosed q" by (simp add: evictionCallback_def)
  show "cqSending ?q \<noteq> None \<Longrightarrow> \<not> cqClosed ?q" using assms(3) by (simp add: evictionCallback_def split: if_splits)
  show "x \<in> set (outgoing ?q) \<Longrightarrow> snd x + defaultExpiration \<le> t" for x
    using D(2) [of x] late by (auto simp: out split: if_splits)
  show "x \<in> set (waiting ?q k') \<Longrightarrow> makeEventKey meta (fst x) = k'" for x k'
    using D(3) [of x k'] by (simp add: wait split: if_splits)
  have "subseq (for_key meta k' (outgoing q)) (for_key meta k' h)" for k'
    by (rule subseq_order.order_trans [OF _ D(4) [of k']]) (simp add: prefix_imp_subseq)
  then show "subseq (for_key meta k' (outgoing ?q) @ waiting ?q k') (for_key meta k' h)" for k'
    using D(4) [of k'] by (simp add: all)
  show "sorted_wrt spaced (for_key meta k' (outgoing ?q) @ waiting ?q k')" for k'
    using D(5) [of k'] by (auto simp: all sorted_wrt_append)
  show "latest meta h k' =
      (let xs = for_key meta k' (outgoing ?q) @ waiting ?q k' in if xs = [] then None else Some (last xs))"
    if "\<not> cqClosed ?q" for k'
    using D(6) [of k'] that unfolding all by (simp add: closed)
qed

lemma cq_ok_stop:
  assumes ok: "cq_ok meta (h, t, q)" and "queue_Stop q = Ret q'"
  shows "cq_ok meta (h, t, q')"
proof (rule cq_okI)
  note D = cq_okD [OF ok]
  have q': "q' = q\<lparr>cqClosed := True, cqSending := None\<rparr>" using assms(2) by (simp add: queue_Stop_def split: if_splits)
  have wait: "waiting q' = waiting q" by (simp add: q' waiting_def fun_eq_iff)
  obtain ys where out: "outgoing q = outgoing q' @ ys" by (simp add: q' outgoing_def)
  show "cqSending q' \<noteq> None \<Longrightarrow> \<not> cqClosed q'" by (simp add: q')
  show "x \<in> set (outgoing q') \<Longrightarrow> snd x + defaultExpiration \<le> t" for x using D(2) [of x] out by simp
  show "x \<in> set (waiting q' k) \<Longrightarrow> makeEventKey meta (fst x) = k" for x k using D(3) [of x k] wait by simp
  have part: "subseq (for_key meta k (outgoing q') @ waiting q' k) (for_key meta k (outgoing q) @ waiting q k)" for k
    by (simp add: out wait subseq_append' list_emb_append2)
  then show "subseq (for_key meta k (outgoing q') @ waiting q' k) (for_key meta k h)" for k
    using D(4) [of k] by (rule subseq_order.order_trans)
  show "sorted_wrt spaced (for_key meta k (outgoing q') @ waiting q' k)" for k
    using D(5) [of k] by (simp add: out wait sorted_wrt_append)
  show "latest meta h k =
      (let xs = for_key meta k (outgoing q') @ waiting q' k in if xs = [] then None else Some (last xs))"
    if "\<not> cqClosed q'" for k
    using that by (simp add: q')
qed

lemma cq_step_ok:
  assumes "cq_step cl meta s s'" and "ttl_contract cl" and "cq_ok meta s"
  shows "cq_ok meta s'"
  using assms(1)
proof cases
  case (tick t t' h q)
  then show ?thesis using assms(3) cq_ok_tick by blast
next
  case (enqueue h t q e)
  then show ?thesis
    using assms(3) cq_ok_Enqueue [of meta h t q e] by (cases "cqClosed q") (auto simp: Enqueue_def)
next
  case (evict q k e t0 t h)
  then show ?thesis using assms(2,3) cq_ok_evict [of meta h t q cl k e t0] by simp
next
  case (receive q x h t)
  then show ?thesis using assms(3) by (auto intro: cq_ok_same simp: outgoing_def)
next
  case (stop q q' h t)
  then show ?thesis using assms(3) cq_ok_stop by blast
qed

lemma cq_reachable_ok: "cq_reachable cl meta s \<Longrightarrow> ttl_contract cl \<Longrightarrow> cq_ok meta s"
  by (induction rule: cq_reachable.induct) (auto intro: cq_ok_initial cq_step_ok)


section \<open>Bursts\<close>

text \<open>
  When everything was accepted within one cooldown and nothing is left in the queue, each object whose events were
  accepted has had one event, the newest.
\<close>

lemma distinct_keysI:
  assumes "\<And>k. length (for_key meta k xs) \<le> 1"
  shows "distinct (map (makeEventKey meta) (map fst xs))"
  using assms
proof (induction xs)
  case (Cons x xs)
  have "length (for_key meta k xs) \<le> 1" for k using Cons.prems [of k] by (cases x) (auto simp: for_key_def split: if_splits)
  moreover have "for_key meta (makeEventKey meta (fst x)) xs = []"
    using Cons.prems [of "makeEventKey meta (fst x)"] by (cases x) (simp add: for_key_def)
  ultimately show ?case using Cons.IH by (force simp: for_key_def filter_empty_conv)
qed simp

lemma burst_single:
  assumes ok: "cq_ok meta (h, t, q)"
    and burst: "\<And>e1 t1 e2 t2. (e1, t1) \<in> set h \<Longrightarrow> (e2, t2) \<in> set h \<Longrightarrow> t2 < t1 + defaultExpiration"
  shows "length (for_key meta k (outgoing q)) \<le> 1"
proof (rule ccontr)
  assume "\<not> ?thesis"
  then obtain a b xs where ab: "for_key meta k (outgoing q) = a # b # xs"
    by (cases "for_key meta k (outgoing q)" rule: remdups_adj.cases) auto
  have "set (for_key meta k (outgoing q)) \<subseteq> set h"
    using list_emb_set [OF cq_okD(4) [OF ok, of k]] by (auto simp: for_key_def)
  then have "a \<in> set h" "b \<in> set h" using ab by auto
  moreover have "spaced a b" using cq_okD(5) [OF ok, of k] ab by simp
  ultimately show False using burst [of "fst a" "snd a" "fst b" "snd b"] by (simp add: spaced_def)
qed

lemma burst_coalesces:
  assumes "cq_reachable cl meta (h, t, q)" and "ttl_contract cl" and "\<not> cqClosed q"
    and empty: "cqSeen q = Map.empty" "cqSending q = None"
    and burst: "\<And>e1 t1 e2 t2. (e1, t1) \<in> set h \<Longrightarrow> (e2, t2) \<in> set h \<Longrightarrow> t2 < t1 + defaultExpiration"
  shows "distinct (map (makeEventKey meta) (map fst (cqReceived q)))"
    and "e \<in> fst ` set (cqReceived q) \<longleftrightarrow> (\<exists>t0. latest meta h (makeEventKey meta e) = Some (e, t0))"
proof -
  have ok: "cq_ok meta (h, t, q)" by (rule cq_reachable_ok [OF assms(1,2)])
  have out: "outgoing q = cqReceived q" and wait: "waiting q k = []" for k
    by (simp_all add: outgoing_def waiting_def empty)
  have single: "length (for_key meta k (cqReceived q)) \<le> 1" for k
    using burst_single [OF ok burst] out by simp
  then show "distinct (map (makeEventKey meta) (map fst (cqReceived q)))" by (rule distinct_keysI)
  let ?k = "makeEventKey meta e"
  have latest: "latest meta h ?k = Some x \<longleftrightarrow> x \<in> set (for_key meta ?k (cqReceived q))" for x
    using cq_okD(6) [OF ok assms(3), of ?k] single [of ?k]
    by (cases "for_key meta ?k (cqReceived q)") (auto simp: out wait)
  show "e \<in> fst ` set (cqReceived q) \<longleftrightarrow> (\<exists>t0. latest meta h ?k = Some (e, t0))"
    unfolding latest by (force simp: for_key_def)
qed

section \<open>Properties\<close>

text \<open>
  C23. The event loop gets an event only after its cooldown, and only the newest: an event it takes was accepted
  at least five seconds before, and it is the last one accepted for its object unless a newer one was accepted while
  the queue was blocked offering it, and that newer one is still waiting in the cache.
\<close>

theorem newest_event_after_cooldown:
  assumes "ttl_contract cl" and "cq_reachable cl meta (h, t, q)" and "cq_step cl meta (h, t, q) (h', t', q')"
    and "cqReceived q' = cqReceived q @ [(e, t0)]"
  shows "t0 + defaultExpiration \<le> t' \<and> (latest meta h' (makeEventKey meta e) = Some (e, t0) \<or>
     (\<exists>x. latest meta h' (makeEventKey meta e) = Some x \<and> cqSeen q' (makeEventKey meta e) = Some x))"
  using assms(3)
proof cases
  case (receive x)
  have ok: "cq_ok meta (h, t, q)" by (rule cq_reachable_ok [OF assms(2,1)])
  have x: "x = (e, t0)" using receive assms(4) by simp
  have out: "outgoing q = cqReceived q @ [(e, t0)]" using receive x by (simp add: outgoing_def)
  have "\<not> cqClosed q" using cq_okD(1) [OF ok] receive by simp
  then show ?thesis
    using cq_okD(2) [OF ok, of x] cq_okD(6) [OF ok, of "makeEventKey meta e"] receive x
    by (auto simp: out waiting_def split: option.splits)
qed (use assms(4) in \<open>auto simp: Enqueue_def evictionCallback_def queue_Stop_def split: if_splits\<close>)

definition sampleMeta :: "nat \<Rightarrow> eventMeta" where
  "sampleMeta n = \<lparr>emGroup = ''apps'', emVersion = ''v1'', emKind = ''Deployment'', emNamespace = ''default'', emName = ''nginx''\<rparr>"

definition sampleCache :: cacheLib where
  "sampleCache = \<lparr>clEvictable = (\<lambda>expiration setAt now. setAt + expiration \<le> now)\<rparr>"

lemma sampleCache_ttl: "ttl_contract sampleCache"
  by (simp add: ttl_contract_def sampleCache_def)

text \<open>Two events within a cooldown; the second is evicted and offered, and a third is accepted while it is.\<close>

definition sampleQueue :: "nat CooldownQueue" where
  "sampleQueue = Enqueue sampleMeta 3 2 (Enqueue sampleMeta 0 1 NewCooldownQueue)"

definition blockedQueue :: "nat CooldownQueue" where
  "blockedQueue = Enqueue sampleMeta 9 3
     (evictionCallback (2, 3) (sampleQueue\<lparr>cqSeen := (cqSeen sampleQueue)(makeEventKey sampleMeta 2 := None)\<rparr>))"

lemmas sample_queue_defs = sampleQueue_def blockedQueue_def Enqueue_def NewCooldownQueue_def evictionCallback_def

lemma sampleQueue_reachable: "cq_reachable sampleCache sampleMeta ([(1, 0), (2, 3)], 9, sampleQueue)"
proof -
  have "cq_reachable sampleCache sampleMeta ([(1, 0)], 0, Enqueue sampleMeta 0 1 NewCooldownQueue)"
    using further [OF initial enqueue, of sampleCache sampleMeta 1 0] by (simp add: NewCooldownQueue_def)
  then have "cq_reachable sampleCache sampleMeta ([(1, 0)], 3, Enqueue sampleMeta 0 1 NewCooldownQueue)"
    by (rule further) (rule tick, simp)
  then have "cq_reachable sampleCache sampleMeta ([(1, 0), (2, 3)], 3, sampleQueue)"
    using further [OF _ enqueue, of sampleCache sampleMeta "[(1, 0)]" 3 "Enqueue sampleMeta 0 1 NewCooldownQueue" 2]
    by (simp add: sampleQueue_def Enqueue_def NewCooldownQueue_def)
  then show ?thesis by (rule further) (rule tick, simp)
qed

lemma blockedQueue_reachable: "cq_reachable sampleCache sampleMeta ([(1, 0), (2, 3), (3, 9)], 9, blockedQueue)"
proof -
  let ?q = "evictionCallback (2, 3) (sampleQueue\<lparr>cqSeen := (cqSeen sampleQueue)(makeEventKey sampleMeta 2 := None)\<rparr>)"
  have "cq_reachable sampleCache sampleMeta ([(1, 0), (2, 3)], 9, ?q)"
    by (rule further [OF sampleQueue_reachable], rule evict)
      (simp_all add: sampleQueue_def Enqueue_def NewCooldownQueue_def defaultExpiration_def sampleCache_def)
  moreover have "\<not> cqClosed ?q" by (simp add: sample_queue_defs)
  ultimately show ?thesis
    using further [OF _ enqueue, of sampleCache sampleMeta "[(1, 0), (2, 3)]" 9 ?q 3] by (simp add: blockedQueue_def)
qed

theorem newest_event_after_cooldown_witness:
  "3 + defaultExpiration \<le> 9 \<and> (latest sampleMeta [(1, 0), (2, 3), (3, 9)] (makeEventKey sampleMeta 2) = Some (2, 3) \<or>
     (\<exists>x. latest sampleMeta [(1, 0), (2, 3), (3, 9)] (makeEventKey sampleMeta 2) = Some x \<and>
       cqSeen (blockedQueue\<lparr>cqSending := None, cqReceived := [(2, 3)]\<rparr>) (makeEventKey sampleMeta 2) = Some x))"
proof (rule newest_event_after_cooldown [OF sampleCache_ttl blockedQueue_reachable])
  have "cqReceived blockedQueue = []" "cqSending blockedQueue = Some (2, 3)" by (simp_all add: sample_queue_defs)
  then show "cq_step sampleCache sampleMeta ([(1, 0), (2, 3), (3, 9)], 9, blockedQueue)
      ([(1, 0), (2, 3), (3, 9)], 9, blockedQueue\<lparr>cqSending := None, cqReceived := [(2, 3)]\<rparr>)"
    using cq_step.receive [of blockedQueue "(2, 3)" sampleCache sampleMeta "[(1, 0), (2, 3), (3, 9)]" 9] by simp
qed (simp add: sample_queue_defs)

text \<open>
  C24. Events are coalesced, none of an open queue is lost, and stopping is final: for every object, what the event
  loop takes are some of the accepted events, each once, in the order of acceptance, and accepted at least a cooldown
  apart; while the queue is open the newest accepted event was taken, is offered, or is waiting; and once the queue is
  stopped no step hands anything to the event loop or accepts anything.
\<close>

theorem events_coalesce_and_stop:
  assumes "ttl_contract cl" and "cq_reachable cl meta (h, t, q)"
  shows "subseq (for_key meta k (cqReceived q)) (for_key meta k h)
     \<and> sorted_wrt (\<lambda>a b. snd a + defaultExpiration \<le> snd b) (for_key meta k (cqReceived q))
     \<and> (\<forall>x. \<not> cqClosed q \<and> latest meta h k = Some x \<longrightarrow>
          cqSeen q k = Some x \<or> cqSending q = Some x \<or> x \<in> set (cqReceived q))
     \<and> (\<forall>h' t' q'. cqClosed q \<and> cq_step cl meta (h, t, q) (h', t', q') \<longrightarrow> cqClosed q' \<and> cqReceived q' = cqReceived q \<and> h' = h)"
proof (intro conjI)
  have ok: "cq_ok meta (h, t, q)" by (rule cq_reachable_ok [OF assms(2,1)])
  have out: "for_key meta k (outgoing q) @ waiting q k =
      for_key meta k (cqReceived q) @ for_key meta k (case cqSending q of None \<Rightarrow> [] | Some x \<Rightarrow> [x]) @ waiting q k"
    by (simp add: outgoing_def)
  show "subseq (for_key meta k (cqReceived q)) (for_key meta k h)"
    by (rule subseq_order.order_trans [OF _ cq_okD(4) [OF ok, of k]]) (unfold out, simp add: prefix_imp_subseq)
  have "sorted_wrt spaced (for_key meta k (cqReceived q))"
    using cq_okD(5) [OF ok, of k] unfolding out by (simp add: sorted_wrt_append)
  then show "sorted_wrt (\<lambda>a b. snd a + defaultExpiration \<le> snd b) (for_key meta k (cqReceived q))"
    by (simp add: spaced_def [abs_def])
  have "x \<in> set (for_key meta k (outgoing q) @ waiting q k)" if "\<not> cqClosed q" "latest meta h k = Some x" for x
    using cq_okD(6) [OF ok that(1), of k] that(2) last_in_set [of "for_key meta k (outgoing q) @ waiting q k"]
    by (simp add: Let_def split: if_splits)
  then show "\<forall>x. \<not> cqClosed q \<and> latest meta h k = Some x \<longrightarrow>
      cqSeen q k = Some x \<or> cqSending q = Some x \<or> x \<in> set (cqReceived q)"
    unfolding out by (fastforce simp: for_key_def waiting_def split: option.splits if_splits)
  have "cqSending q = None" if "cqClosed q" using cq_okD(1) [OF ok] that by blast
  then show "\<forall>h' t' q'. cqClosed q \<and> cq_step cl meta (h, t, q) (h', t', q') \<longrightarrow> cqClosed q' \<and> cqReceived q' = cqReceived q \<and> h' = h"
    by (auto elim!: cq_step_elim simp: Enqueue_def evictionCallback_def queue_Stop_def split: if_splits)
qed

theorem events_coalesce_and_stop_witness:
  "cqSeen blockedQueue (makeEventKey sampleMeta 3) = Some (3, 9) \<or> cqSending blockedQueue = Some (3, 9) \<or>
     (3, 9) \<in> set (cqReceived blockedQueue)"
  using events_coalesce_and_stop [OF sampleCache_ttl blockedQueue_reachable, of "makeEventKey sampleMeta 3"]
  by (simp add: latest_def sample_queue_defs)

end
