(* ===== verification/Event_Burst.thy ===== *)
theory Event_Burst
  imports Event_Stream Cooldown_Queue
begin

text \<open>
  From the watch to the server: the events of a burst go through the cooldown queue of their client, its
  event loop works through what the queue hands it, and the conversations with the server follow.
  All objects a client watches have the same group, version and kind.
\<close>

section \<open>Keys of the queue and of the server\<close>

definition watchMeta :: "'o kubelib \<Rightarrow> string \<Rightarrow> string \<Rightarrow> string \<Rightarrow> watchType \<times> 'o option \<Rightarrow> eventMeta" where
  "watchMeta lib g v k e = \<lparr>emGroup = g, emVersion = v, emKind = k,
     emNamespace = (case snd e of None \<Rightarrow> [] | Some d \<Rightarrow> klGetNamespace lib d),
     emName = (case snd e of None \<Rightarrow> [] | Some d \<Rightarrow> klGetName lib d)\<rparr>"

text \<open>The queue tells two objects apart exactly when the server does.\<close>

lemma queue_key_iff:
  assumes "snd e1 \<noteq> None" and "snd e2 \<noteq> None"
  shows "makeEventKey (watchMeta lib g v k) e1 = makeEventKey (watchMeta lib g v k) e2 \<longleftrightarrow> eventKey lib c e1 = eventKey lib c e2"
  using assms by (cases e1; cases e2) (auto simp: makeEventKey_def watchMeta_def storeKey_ids storeKey_def objKey_def Let_def)

lemma distinct_queue_keys:
  assumes "distinct (map (makeEventKey (watchMeta lib g v k)) es)" and "\<And>e. e \<in> set es \<Longrightarrow> snd e \<noteq> None"
  shows "distinct (map (eventKey lib c) es)"
  using assms unfolding distinct_map inj_on_def by (auto simp: queue_key_iff [where lib = lib and g = g and v = v and k = k, symmetric])

lemma ball_image_eq:
  assumes "f ` A = f ` B"
  shows "(\<forall>x \<in> A. P (f x)) \<longleftrightarrow> (\<forall>x \<in> B. P (f x))"
proof -
  have "(\<forall>y \<in> f ` A. P y) \<longleftrightarrow> (\<forall>y \<in> f ` B. P y)" by (simp only: assms)
  then show ?thesis by simp
qed

text \<open>What a burst leaves for the event loop: one event for each object, its newest.\<close>

lemma burst_events:
  assumes queue: "cq_reachable cl (watchMeta lib g v k) (h, t, q)" "ttl_contract cl" "\<not> cqClosed q" "cqSeen q = Map.empty" "cqSending q = None"
    and burst: "\<forall>e1 t1 e2 t2. (e1, t1) \<in> set h \<and> (e2, t2) \<in> set h \<longrightarrow> t2 < t1 + defaultExpiration"
    and objects: "\<forall>e \<in> fst ` set h. snd e \<noteq> None"
  shows "distinct (map (eventKey lib c) (map fst (cqReceived q)))"
    and "e \<in> set (map fst (cqReceived q)) \<Longrightarrow> \<exists>key t0. latest (watchMeta lib g v k) h key = Some (e, t0)"
    and "eventKey lib c ` set (map fst (cqReceived q)) = eventKey lib c ` fst ` set h"
proof -
  let ?M = "watchMeta lib g v k" and ?es = "map fst (cqReceived q)"
  have keys: "distinct (map (makeEventKey ?M) ?es)"
    by (rule burst_coalesces(1) [OF queue]) (use burst in blast)
  have newest: "e \<in> fst ` set (cqReceived q) \<longleftrightarrow> (\<exists>t0. latest ?M h (makeEventKey ?M e) = Some (e, t0))" for e
    by (rule burst_coalesces(2) [OF queue]) (use burst in blast)
  then show latest: "\<exists>key t0. latest ?M h key = Some (e, t0)" if "e \<in> set ?es" for e using that by auto
  have some: "snd e \<noteq> None" if "(e, t0) \<in> set h" for e t0 using objects that by force
  have sent: "\<exists>t0. (e, t0) \<in> set h" if "e \<in> set ?es" for e using latest [OF that] latest_in by metis
  show "distinct (map (eventKey lib c) ?es)"
    by (rule distinct_queue_keys [OF keys]) (use sent some in blast)
  have "eventKey lib c e \<in> eventKey lib c ` set ?es" if h: "(e, t0) \<in> set h" for e t0
  proof -
    obtain e' t' where l: "latest ?M h (makeEventKey ?M e) = Some (e', t')" using latest_of [OF h] by blast
    note e' = latest_in [OF l]
    have "e' \<in> set ?es" using newest [of e'] l e' by auto
    moreover have "eventKey lib c e = eventKey lib c e'" using queue_key_iff [of e e' lib g v k c] some [OF h] some [of e' t'] e' by auto
    ultimately show ?thesis by (simp only: imageI)
  qed
  then have "eventKey lib c ` fst ` set h \<subseteq> eventKey lib c ` set ?es" by (auto simp del: set_map)
  moreover have "eventKey lib c ` set ?es \<subseteq> eventKey lib c ` fst ` set h" using sent by force
  ultimately show "eventKey lib c ` set ?es = eventKey lib c ` fst ` set h" by blast
qed

section \<open>A sample\<close>

text \<open>
  Of the deployments of the server's copies one was modified twice and one deleted, and a new one was
  added, all within four seconds.
\<close>

definition sampleEvents :: "(watchType \<times> json option) list" where
  "sampleEvents = [(Modified, Some (sampleObject ''nginx'' ''3'')), (Deleted, Some (sampleObject ''gone'' ''1'')),
     (Added, Some (sampleObject ''new'' ''4''))]"

definition sampleHistory :: "((watchType \<times> json option) \<times> int) list" where
  "sampleHistory = [((Modified, Some (sampleObject ''nginx'' ''2'')), 0), ((Deleted, Some (sampleObject ''gone'' ''1'')), 1),
     ((Modified, Some (sampleObject ''nginx'' ''3'')), 2), ((Added, Some (sampleObject ''new'' ''4'')), 4)]"

text \<open>The sample's client, with its kind synchronized by copy.\<close>

abbreviation copyClient :: Client where "copyClient \<equiv> sampleClient\<lparr>icStrategy := CopyStrategy\<rparr>"

abbreviation copyAdapter :: "json list InCluster" where
  "copyAdapter \<equiv> (NewInClusterAdapter sampleConfig False twoObjects)\<lparr>iaClients := [Kind_String (icKind copyClient) \<mapsto> copyClient]\<rparr>"

lemma strategy_ids [simp]:
  "clientId lib (c\<lparr>icStrategy := st\<rparr>) d = clientId lib c d"
  "isFiltered lib (c\<lparr>icStrategy := st\<rparr>) d = isFiltered lib c d"
  by (simp_all add: clientId_def isFiltered_def skipNamespace_def Let_def)

lemma wanted_strategy [simp]: "wanted lib (c\<lparr>icStrategy := st\<rparr>) = wanted lib c"
proof -
  have "icKind (c\<lparr>icStrategy := st\<rparr>) = icKind c" by simp
  then show ?thesis by (intro ext) (simp only: wanted_def strategy_read)
qed

lemma eventKey_strategy [simp]: "eventKey lib (c\<lparr>icStrategy := st\<rparr>) e = eventKey lib c e"
  by (cases e; cases "snd e") simp_all

lemma sample_wanted:
  "wanted treeKube sampleClient twoObjects (KindName_String (clientId treeKube sampleClient (sampleObject n rv))) =
     (if n = ''nginx'' \<or> n = ''new'' then Some n else None)"
  by (simp add: storeKey_ids wanted_storeKey clientItemsOf_def lastOf_def objKey_def sampleObject_simps)

lemma sample_unfiltered: "\<not> isFiltered treeKube sampleClient (sampleObject n rv)"
  by (simp add: isFiltered_def Let_def sampleObject_simps skipNamespace_def hasParent_def)
    (simp add: sampleClient_def NewClient_def sampleConfig_def treeKube_def)

lemma sample_due:
  "list_all (due treeKube treeApi unversionedLib (\<lambda>_. True) (wanted treeKube sampleClient twoObjects) twoObjects copyClient twoCopies)
     sampleEvents"
proof -
  have reads: "getObjectFromMeta treeKube treeApi copyClient (sampleObject n rv) k = (Ret (Inr (n, sampleObject n rv)), k)"
    "getChecksum treeKube treeApi copyClient (sampleObject n rv) k = (Ret (Inr n), k)" for n rv k
    by (simp_all add: getObjectFromMeta_listed getChecksum_listed sampleClient_simps kubescapeCustomResourceGroup_def
        sampleObject_simps sampleObject_checksum)
  have object: "\<exists>chk. clusterObject treeKube treeApi sampleClient (clientId treeKube sampleClient (sampleObject n rv)) twoObjects n chk twoObjects"
    if "sampleObject n rv \<in> set twoObjects" for n rv
    using sample_readable [OF that] by (auto simp: readable_def sampleObject_simps)
  have repair: "repairable treeKube unversionedLib (\<lambda>_. True) copyClient twoCopies (clientId treeKube sampleClient (sampleObject ''nginx'' ''3'')) ''nginx''"
    "repairable treeKube unversionedLib (\<lambda>_. True) copyClient twoCopies (clientId treeKube sampleClient (sampleObject ''new'' ''4'')) ''new''"
    by (simp_all add: repairable_def storeKey_ids objKey_def sampleObject_simps sample_json unversionedLib_def supersedes_def)
  have modified: "due treeKube treeApi unversionedLib (\<lambda>_. True) (wanted treeKube sampleClient twoObjects) twoObjects copyClient twoCopies
      (Modified, Some (sampleObject ''nginx'' ''3''))"
    using object [of "''nginx''" "''3''"] repair(1)
    by (auto intro!: due.modified [OF _ _ _ _ reads] simp: sample_unfiltered sample_wanted)
  have deleted: "due treeKube treeApi unversionedLib (\<lambda>_. True) (wanted treeKube sampleClient twoObjects) twoObjects copyClient twoCopies
      (Deleted, Some (sampleObject ''gone'' ''1''))"
    by (rule due.deleted) (simp_all add: sample_unfiltered sample_wanted)
  have added: "due treeKube treeApi unversionedLib (\<lambda>_. True) (wanted treeKube sampleClient twoObjects) twoObjects copyClient twoCopies
      (Added, Some (sampleObject ''new'' ''4''))"
    using object [of "''new''" "''4''"] repair(2)
    by (auto intro!: due.added [OF _ _ _ _ reads(2)] simp: sample_unfiltered sample_wanted sample_json)
  show ?thesis by (simp add: sampleEvents_def modified deleted added)
qed

lemma reachable_Enqueue:
  assumes "cq_reachable cl meta (h, t, q)" and "t \<le> t'" and "\<not> cqClosed q"
  shows "cq_reachable cl meta (h @ [(e, t')], t', Enqueue meta t' e q)"
proof -
  have "cq_reachable cl meta (h, t', q)" using assms(1) by (rule cq_reachable.further) (rule cq_step.tick [OF assms(2)])
  from cq_reachable.further [OF this cq_step.enqueue, of e] show ?thesis using assms(3) by simp
qed

lemma reachable_fold:
  assumes "cq_reachable cl meta (h, t, q)" and "\<not> cqClosed q" and "sorted (t # map snd es)"
  shows "cq_reachable cl meta (h @ es, last (t # map snd es), fold (\<lambda>(e, t). Enqueue meta t e) es q)"
  using assms
proof (induction es arbitrary: h t q)
  case (Cons x es)
  obtain e t' where x: "x = (e, t')" by (cases x)
  have "cq_reachable cl meta (h @ [(e, t')], t', Enqueue meta t' e q)" using Cons.prems by (intro reachable_Enqueue) (auto simp: x)
  from Cons.IH [OF this] show ?case using Cons.prems by (simp add: x Enqueue_def)
qed simp

lemma reachable_delivery:
  assumes "cq_reachable cl meta (h, t, q)" and "cqSeen q (makeEventKey meta e) = Some (e, t0)"
    and "clEvictable cl defaultExpiration t0 t" and "\<not> cqClosed q" and "cqSending q = None"
  shows "cq_reachable cl meta (h, t, q\<lparr>cqSeen := (cqSeen q)(makeEventKey meta e := None), cqReceived := cqReceived q @ [(e, t0)]\<rparr>)"
proof -
  let ?q = "q\<lparr>cqSeen := (cqSeen q)(makeEventKey meta e := None), cqSending := Some (e, t0)\<rparr>"
  have "cq_reachable cl meta (h, t, ?q)"
    using cq_reachable.further [OF assms(1) cq_step.evict [OF assms(5,2,3)]] assms(4) by (simp add: evictionCallback_def)
  from cq_reachable.further [OF this cq_step.receive [of ?q]] show ?thesis using assms(5) by (cases q) simp
qed

abbreviation sampleWatchMeta :: "watchType \<times> json option \<Rightarrow> eventMeta" where
  "sampleWatchMeta \<equiv> watchMeta treeKube ''apps'' ''v1'' ''Deployment''"

definition drainedQueue :: "(watchType \<times> json option) CooldownQueue" where
  "drainedQueue = \<lparr>cqClosed = False, cqSeen = Map.empty, cqSending = None, cqReceived = zip sampleEvents [2, 1, 4]\<rparr>"

lemma sample_keys: "makeEventKey sampleWatchMeta (ty, Some (sampleObject n rv)) = ''apps/v1/Deployment/default/'' @ n"
  by (simp add: makeEventKey_def watchMeta_def sampleObject_simps Let_def)

lemma drainedQueue_reachable: "cq_reachable sampleCache sampleWatchMeta (sampleHistory, 9, drainedQueue)"
proof -
  let ?key = "\<lambda>n. ''apps/v1/Deployment/default/'' @ n" and ?e = "\<lambda>ty n rv. (ty, Some (sampleObject n rv))"
  let ?seen = "[?key ''nginx'' \<mapsto> (?e Modified ''nginx'' ''3'', 2), ?key ''gone'' \<mapsto> (?e Deleted ''gone'' ''1'', 1), ?key ''new'' \<mapsto> (?e Added ''new'' ''4'', 4)]"
  let ?q = "\<lambda>seen out. \<lparr>cqClosed = False, cqSeen = seen, cqSending = None, cqReceived = out\<rparr>"
  have "cq_reachable sampleCache sampleWatchMeta ([] @ sampleHistory, last (0 # map snd sampleHistory),
      fold (\<lambda>(e, t). Enqueue sampleWatchMeta t e) sampleHistory NewCooldownQueue)"
    by (rule reachable_fold [OF cq_reachable.initial]) (simp_all add: NewCooldownQueue_def sampleHistory_def)
  then have "cq_reachable sampleCache sampleWatchMeta (sampleHistory, 4, ?q ?seen [])"
    by (simp add: sampleHistory_def Enqueue_def NewCooldownQueue_def sample_keys fun_upd_twist)
  then have "cq_reachable sampleCache sampleWatchMeta (sampleHistory, 9, ?q ?seen [])"
    by (rule cq_reachable.further) (rule cq_step.tick, simp)
  from reachable_delivery [OF this, of "?e Modified ''nginx'' ''3''" 2]
  have "cq_reachable sampleCache sampleWatchMeta (sampleHistory, 9, ?q (?seen(?key ''nginx'' := None)) [(?e Modified ''nginx'' ''3'', 2)])"
    by (simp add: sample_keys sampleCache_def defaultExpiration_def)
  from reachable_delivery [OF this, of "?e Deleted ''gone'' ''1''" 1]
  have "cq_reachable sampleCache sampleWatchMeta (sampleHistory, 9, ?q (?seen(?key ''nginx'' := None, ?key ''gone'' := None))
      [(?e Modified ''nginx'' ''3'', 2), (?e Deleted ''gone'' ''1'', 1)])"
    by (simp add: sample_keys sampleCache_def defaultExpiration_def)
  from reachable_delivery [OF this, of "?e Added ''new'' ''4''" 4] show ?thesis
    by (simp add: sample_keys drainedQueue_def sampleEvents_def fun_upd_twist sampleCache_def defaultExpiration_def)
qed

section \<open>Properties\<close>

text \<open>
  C3. A burst of changes of a kind that is synchronized by copy reaches the server: whatever objects of the kind
  are added, modified or deleted within one cooldown, and however many events the watch has for each, the queue
  hands the event loop the newest event of each object once it is drained; when the loop works through these
  while the messages already sent are answered, in whatever order these steps follow each other, everything
  comes to an end, and then the server has a copy of every object that was added or modified, the same up to
  formatting, none of those that were deleted, and its other copies as before. The conditions: the events are of
  objects that are not filtered; an added or modified object can be read in the cluster, is what its event
  shows, and replaces the copy the server may have; a deleted one is gone; the cluster does not change any more
  while the events are handled. A client that synchronizes by copy shares nothing that changes between its event
  loop and the handlers of messages, so that each handler is one step.
\<close>

theorem changes_reach_server:
  assumes net: "connected rtC sentC rtS sentS lib mlib ok"
    and ctx: "fresh ctx" "identified ctx cid" "identified ctxC cidC" "identified ctxS cidS"
    and client: "iaClients a (Kind_String (icKind c)) = Some c" "icCallbacks c" and strategy: "icStrategy c = CopyStrategy"
    and queue: "cq_reachable cl (watchMeta lib g v k) (h, t, q)" "ttl_contract cl" "\<not> cqClosed q" "cqSeen q = Map.empty" "cqSending q = None"
    and burst: "\<forall>e1 t1 e2 t2. (e1, t1) \<in> set h \<and> (e2, t2) \<in> set h \<longrightarrow> t2 < t1 + defaultExpiration"
    and objects: "\<forall>e \<in> fst ` set h. snd e \<noteq> None"
    and events: "\<forall>key e t0. latest (watchMeta lib g v k) h key = Some (e, t0) \<longrightarrow> due lib api mlib ok want (iaCluster a) c sv e"
  shows "ends_with (live (inclusterEnd lib api rtC sentC) (referenceEnd mlib rtS sentS) (watchEvent lib api rtC sentC ctx (icKind c)))
     (map fst (cqReceived q), (ctxC, a, w), (ctxS, sv, u), [], [])
     (\<lambda>(es', cl, (ctxS', sv', u'), up, down). (\<forall>e \<in> fst ` set h. agrees (klJson lib) want sv' (eventKey lib c e))
        \<and> (\<forall>key. key \<notin> eventKey lib c ` fst ` set h \<longrightarrow> moResources sv' key = moResources sv key))"
proof -
  let ?es = "map fst (cqReceived q)"
  note left = burst_events(1,3) [OF queue burst objects, where c = c] and newest = burst_events(2) [OF queue burst objects]
  have ends: "ends_with (live (inclusterEnd lib api rtC sentC) (referenceEnd mlib rtS sentS) (watchEvent lib api rtC sentC ctx (icKind c)))
     (?es, (ctxC, a, w), (ctxS, sv, u), [], [])
     (\<lambda>(es', cl, (ctxS', sv', u'), up, down). (\<forall>e \<in> set ?es. agrees (klJson lib) want sv' (eventKey lib c e))
        \<and> (\<forall>key. key \<notin> eventKey lib c ` set ?es \<longrightarrow> moResources sv' key = moResources sv key))"
    by (rule changes_arrive [OF net ctx client left(1)]) (use newest events in blast)
  have "(\<forall>e \<in> set ?es. P (eventKey lib c e)) \<longleftrightarrow> (\<forall>e \<in> fst ` set h. P (eventKey lib c e))" for P
    by (rule ball_image_eq [OF left(2)])
  from ends [unfolded this left(2)] show ?thesis .
qed

theorem changes_reach_server_witness:
  "ends_with (live (inclusterEnd treeKube treeApi listRuntime (\<lambda>w. w)) (referenceEnd unversionedLib listRuntime (\<lambda>w. w))
       (watchEvent treeKube treeApi listRuntime (\<lambda>w. w) processCtx (icKind copyClient)))
     (map fst (cqReceived drainedQueue), (processCtx, copyAdapter, []), (processCtx, twoCopies, []), [], [])
     (\<lambda>(es', cl, (ctxS', sv', u'), up, down).
        list_all (\<lambda>(e, t). agrees (klJson treeKube) (wanted treeKube sampleClient twoObjects) sv' (eventKey treeKube copyClient e)) sampleHistory)"
proof -
  have burst: "\<forall>e1 t1 e2 t2. (e1, t1) \<in> set sampleHistory \<and> (e2, t2) \<in> set sampleHistory \<longrightarrow> t2 < t1 + defaultExpiration"
    by (auto simp: sampleHistory_def defaultExpiration_def)
  have objects: "\<forall>e \<in> fst ` set sampleHistory. snd e \<noteq> None" by (simp add: sampleHistory_def)
  have due: "\<forall>key e t0. latest sampleWatchMeta sampleHistory key = Some (e, t0) \<longrightarrow>
      due treeKube treeApi unversionedLib (\<lambda>_. True) (wanted treeKube sampleClient twoObjects) (iaCluster copyAdapter) copyClient twoCopies e"
    using sample_due by (auto simp: sampleHistory_def latest_def sample_keys sampleEvents_def NewInClusterAdapter_def split: if_splits)
  have "ends_with (live (inclusterEnd treeKube treeApi listRuntime (\<lambda>w. w)) (referenceEnd unversionedLib listRuntime (\<lambda>w. w))
       (watchEvent treeKube treeApi listRuntime (\<lambda>w. w) processCtx (icKind copyClient)))
     (map fst (cqReceived drainedQueue), (processCtx, copyAdapter, []), (processCtx, twoCopies, []), [], [])
     (\<lambda>(es', cl, (ctxS', sv', u'), up, down).
        (\<forall>e \<in> fst ` set sampleHistory. agrees (klJson treeKube) (wanted treeKube sampleClient twoObjects) sv' (eventKey treeKube copyClient e))
        \<and> (\<forall>key. key \<notin> eventKey treeKube copyClient ` fst ` set sampleHistory \<longrightarrow> moResources sv' key = moResources twoCopies key))"
    by (rule changes_reach_server [OF sample_connected processCtx_fresh identified_ContextFromIdentifiers
        identified_ContextFromIdentifiers identified_ContextFromIdentifiers _ _ _ drainedQueue_reachable sampleCache_ttl _ _ _ burst objects due])
      (simp_all add: drainedQueue_def sampleClient_simps)
  then show ?thesis by (rule ends_with_mono) (force simp: list_all_iff)
qed

end
