(* ===== verification/Noop_Client.thy ===== *)
theory Noop_Client
  imports Incluster_Client
begin

text \<open>
  \<open>adapters/incluster/v1/no_op_dynamic_client.go\<close>: the client the adapter uses for kinds it has no
  configuration for, with every call of the dynamic interface and the watch that never brings anything.
  \<open>stripSuffix\<close> of \<open>client.go\<close> is here as well.
\<close>

section \<open>The calls\<close>

datatype 'o dynCall =
    DynCreate 'o
  | DynUpdate 'o
  | DynUpdateStatus 'o
  | DynDelete string
  | DynDeleteCollection
  | DynGet string
  | DynList
  | DynWatch
  | DynPatch string string
  | DynApply string 'o
  | DynApplyStatus string 'o

text \<open>A watch is its channel, which only \<open>Stop\<close> closes.\<close>

record NoOpWatch =
  nwClosed :: bool

datatype 'o dynResult = DynObject 'o | DynDone | DynItems "'o list" | DynWatching NoOpWatch

text \<open>The resource is remembered, the namespace is not; no call looks at either.\<close>

record NoOpDynamicResource =
  nrGroup :: string
  nrVersion :: string
  nrResource :: string

definition noOp_Resource :: "Kind \<Rightarrow> NoOpDynamicResource" where
  "noOp_Resource gvr = \<lparr>nrGroup = kGroup gvr, nrVersion = kVersion gvr, nrResource = kResource gvr\<rparr>"

definition noOp_Namespace :: "NoOpDynamicResource \<Rightarrow> string \<Rightarrow> NoOpDynamicResource" where
  "noOp_Namespace n namespace = n"

fun noOpCall :: "'o kubelib \<Rightarrow> NoOpDynamicResource \<Rightarrow> 'o dynCall \<Rightarrow> goerror + 'o dynResult" where
  "noOpCall lib n (DynCreate obj) = Inr (DynObject obj)"
| "noOpCall lib n (DynUpdate obj) = Inr (DynObject obj)"
| "noOpCall lib n (DynUpdateStatus obj) = Inr (DynObject obj)"
| "noOpCall lib n (DynDelete name) = Inr DynDone"
| "noOpCall lib n DynDeleteCollection = Inr DynDone"
| "noOpCall lib n (DynGet name) = Inr (DynObject (klEmptyObject lib))"
| "noOpCall lib n DynList = Inr (DynItems [klEmptyObject lib])"
| "noOpCall lib n DynWatch = Inr (DynWatching \<lparr>nwClosed = False\<rparr>)"
| "noOpCall lib n (DynPatch name patch) = Inr (DynObject (klEmptyObject lib))"
| "noOpCall lib n (DynApply name obj) = Inr (DynObject obj)"
| "noOpCall lib n (DynApplyStatus name obj) = Inr (DynObject obj)"

definition noOpWatch_Stop :: "NoOpWatch \<Rightarrow> NoOpWatch outcome" where
  "noOpWatch_Stop w = (if nwClosed w then Panic ''close of closed channel'' else Ret (w\<lparr>nwClosed := True\<rparr>))"

text \<open>What a receive from the channel gives: nothing yet, or that it is closed; never an event.\<close>

datatype 'e received = Blocked | Closed | Event 'e

definition noOpWatch_ResultChan :: "NoOpWatch \<Rightarrow> 'e received" where
  "noOpWatch_ResultChan w = (if nwClosed w then Closed else Blocked)"

section \<open>What the clients see\<close>

text \<open>What a client for an unknown kind does never fails, changes nothing, and is what these calls return.\<close>

lemma noOp_calls:
  assumes "icDynamicClient c = NoOpDynamicClient"
  shows "noOpCall lib n (DynGet name) = Inr (DynObject ob) \<Longrightarrow> dynGet lib api c namespace name k = (Ret (Inr ob), k)"
    and "noOpCall lib n DynList = Inr (DynItems obs) \<Longrightarrow> dynList lib api c k = (Ret (obs, None), k)"
    and "noOpCall lib n (DynCreate ob) = Inr (DynObject ob) \<Longrightarrow> dynCreate api c namespace ob k = (Ret None, k)"
    and "noOpCall lib n (DynUpdate ob) = Inr (DynObject ob) \<Longrightarrow> dynUpdate api c namespace ob k = (Ret None, k)"
    and "noOpCall lib n (DynDelete name) = Inr DynDone \<Longrightarrow> dynDelete api c namespace name k = (Ret None, k)"
  using assms by (simp_all add: dynGet_def dynList_def dynCreate_def dynUpdate_def dynDelete_def)

lemma noOpWatch_stops_once:
  "noOpCall lib n DynWatch = Inr (DynWatching w) \<Longrightarrow>
     noOpWatch_Stop w = Ret \<lparr>nwClosed = True\<rparr> \<and> noOpWatch_Stop \<lparr>nwClosed = True\<rparr> = Panic ''close of closed channel''"
  by (auto simp: noOpWatch_Stop_def)

section \<open>Names without their last part\<close>

definition strings_LastIndex :: "string \<Rightarrow> char \<Rightarrow> int" where
  "strings_LastIndex s ch = (if ch \<in> set s then int (length s) - 1 - int (length (takeWhile (\<lambda>x. x \<noteq> ch) (rev s))) else - 1)"

definition stripSuffix :: "string \<Rightarrow> string" where
  "stripSuffix name =
     (let lastHyphen = strings_LastIndex name (CHR ''-'') in
      if lastHyphen \<noteq> - 1 \<and> strings_HasPrefix (drop (nat lastHyphen) name) ''-'' then take (nat lastHyphen) name else name)"

lemma LastIndex_append: "ch \<notin> set b \<Longrightarrow> strings_LastIndex (a @ ch # b) ch = int (length a)"
proof -
  assume "ch \<notin> set b"
  then have "takeWhile (\<lambda>x. x \<noteq> ch) (rev b @ ch # rev a) = rev b" by (subst takeWhile_append2) auto
  then show ?thesis by (simp add: strings_LastIndex_def)
qed

lemma stripSuffix_strips: "CHR ''-'' \<notin> set b \<Longrightarrow> stripSuffix (a @ ''-'' @ b) = a"
  using LastIndex_append [of "CHR ''-''" b a] by (simp add: stripSuffix_def Let_def)

lemma stripSuffix_keeps: "CHR ''-'' \<notin> set name \<Longrightarrow> stripSuffix name = name"
  by (simp add: stripSuffix_def strings_LastIndex_def)

end
