(* ===== verification/Cron_Ticker.thy ===== *)
theory Cron_Ticker
  imports Sync_Utils
begin

text \<open>
  \<open>utils/ticker.go\<close>, the running cron ticker: the goroutine of \<open>cronRunner\<close> beside the user of the
  ticker, who takes ticks from the channel and may stop it. Both channels have room for one value. The
  schedule (\<open>schedule.Next\<close> in the location) is an argument, times are nanoseconds.
\<close>

section \<open>The goroutine and its channels\<close>

datatype cronPhase = WaitingFor int | Delivering int | Ended

record CronTicker =
  ctC :: "int list"
  ctK :: "bool list"
  ctPhase :: cronPhase

definition startCronTicker :: "(int \<Rightarrow> int) \<Rightarrow> int \<Rightarrow> CronTicker" where
  "startCronTicker nextTick now = \<lparr>ctC = [], ctK = [], ctPhase = WaitingFor (nextTick now)\<rparr>"

datatype cronEvent = Fire int | Deliver int | Take int | StopCall | StopSeen

text \<open>A timer fires at its time or later. \<open>Stop\<close> puts a value into \<open>k\<close>, and waits while there is one.\<close>

inductive cron_step :: "(int \<Rightarrow> int) \<Rightarrow> CronTicker \<Rightarrow> cronEvent \<Rightarrow> CronTicker \<Rightarrow> bool" for nextTick where
  fire: "ctPhase s = WaitingFor n \<Longrightarrow> n \<le> t \<Longrightarrow> cron_step nextTick s (Fire t) (s\<lparr>ctPhase := Delivering t\<rparr>)"
| deliver: "ctPhase s = Delivering t \<Longrightarrow> ctC s = [] \<Longrightarrow>
    cron_step nextTick s (Deliver t) (s\<lparr>ctC := [t], ctPhase := WaitingFor (nextTick t)\<rparr>)"
| take: "ctC s = t # ts \<Longrightarrow> cron_step nextTick s (Take t) (s\<lparr>ctC := ts\<rparr>)"
| stop: "ctK s = [] \<Longrightarrow> cron_step nextTick s StopCall (s\<lparr>ctK := [True]\<rparr>)"
| stopped: "ctPhase s = WaitingFor n \<Longrightarrow> ctK s = x # xs \<Longrightarrow> cron_step nextTick s StopSeen (s\<lparr>ctK := xs, ctPhase := Ended\<rparr>)"

inductive_cases cron_step_elim: "cron_step nextTick s e s'"

inductive cron_run :: "(int \<Rightarrow> int) \<Rightarrow> int \<Rightarrow> cronEvent list \<Rightarrow> CronTicker \<Rightarrow> bool" for nextTick now where
  start: "cron_run nextTick now [] (startCronTicker nextTick now)"
| step: "cron_run nextTick now es s \<Longrightarrow> cron_step nextTick s e s' \<Longrightarrow> cron_run nextTick now (es @ [e]) s'"

fun firesOf :: "cronEvent list \<Rightarrow> int list" where
  "firesOf [] = []" | "firesOf (Fire t # es) = t # firesOf es" | "firesOf (_ # es) = firesOf es"

fun takesOf :: "cronEvent list \<Rightarrow> int list" where
  "takesOf [] = []" | "takesOf (Take t # es) = t # takesOf es" | "takesOf (_ # es) = takesOf es"

definition pendingTicks :: "CronTicker \<Rightarrow> int list" where
  "pendingTicks s = ctC s @ (case ctPhase s of Delivering t \<Rightarrow> [t] | _ \<Rightarrow> [])"

lemma firesOf_append [simp]: "firesOf (es @ [e]) = firesOf es @ firesOf [e]"
  by (induction es rule: firesOf.induct) simp_all

lemma takesOf_append [simp]: "takesOf (es @ [e]) = takesOf es @ takesOf [e]"
  by (induction es rule: takesOf.induct) simp_all

section \<open>The invariant\<close>

text \<open>Each tick is at or after the time the schedule gives for the one before.\<close>

definition on_schedule :: "(int \<Rightarrow> int) \<Rightarrow> int \<Rightarrow> int list \<Rightarrow> bool" where
  "on_schedule nextTick now ts \<longleftrightarrow> successively (\<lambda>a b. nextTick a \<le> b) (now # ts)"

definition cron_inv :: "(int \<Rightarrow> int) \<Rightarrow> int \<Rightarrow> cronEvent list \<Rightarrow> CronTicker \<Rightarrow> bool" where
  "cron_inv nextTick now es s \<longleftrightarrow> takesOf es @ pendingTicks s = firesOf es \<and> length (ctC s) \<le> 1 \<and> length (ctK s) \<le> 1
     \<and> on_schedule nextTick now (firesOf es)
     \<and> (\<forall>n. ctPhase s = WaitingFor n \<longrightarrow> n = nextTick (last (now # firesOf es)))"

lemma cron_run_inv: "cron_run nextTick now es s \<Longrightarrow> cron_inv nextTick now es s"
proof (induction rule: cron_run.induct)
  case start
  then show ?case by (simp add: cron_inv_def startCronTicker_def pendingTicks_def on_schedule_def)
next
  case (step es s e s')
  from step.hyps(2) show ?case
  proof (cases rule: cron_step.cases)
    case (fire n t)
    have "on_schedule nextTick now (firesOf es @ [t])"
      using step.IH fire by (simp add: cron_inv_def on_schedule_def successively_append_iff flip: append_Cons)
    then show ?thesis using step.IH fire by (simp add: cron_inv_def pendingTicks_def)
  next
    case (deliver t)
    then have "firesOf es = takesOf es @ [t]" using step.IH by (simp add: cron_inv_def pendingTicks_def)
    then show ?thesis using step.IH deliver by (simp add: cron_inv_def pendingTicks_def)
  qed (use step.IH in \<open>auto simp: cron_inv_def pendingTicks_def split: cronPhase.splits\<close>)
qed

lemma on_schedule_sorted:
  assumes "\<And>t. t < nextTick t" and "on_schedule nextTick now ts"
  shows "sorted_wrt (<) (now # ts)"
proof -
  have "successively (<) (now # ts)"
    using assms(2) unfolding on_schedule_def
    by (rule successively_mono) (meson assms(1) less_le_trans)
  then show ?thesis by (simp only: successively_conv_sorted_wrt [OF transp_on_less])
qed

text \<open>
  The goroutine looks for a stop only while it waits for the timer: with a tick in the channel that
  nobody takes any more and another one due, it waits for ever, and the stop is never seen.
\<close>

lemma stopped_ticker_can_stay:
  assumes "ctPhase s = Delivering t" and "ctC s = [t']" and "cron_step nextTick s e s'"
  shows "e = Take t' \<or> e = StopCall \<and> ctPhase s' = Delivering t \<and> ctC s' = [t']"
  using assms by (auto elim!: cron_step_elim)

section \<open>Properties\<close>

text \<open>
  C26. A cron ticker keeps to its schedule: what the user gets are the times the timer fired at, in order
  and without a gap apart from the last ones still on the way; each is at or after the time the schedule gives
  for the one before, so there is never a tick too early and never two for one time of the schedule, and
  at most one waits in the channel. After the goroutine has seen the stop no more is sent; one that is in the
  channel may still be taken.
\<close>

theorem cron_ticks_keep_schedule:
  assumes "cron_run nextTick now es s" and "\<And>t. t < nextTick t"
  shows "\<exists>late. firesOf es = takesOf es @ late \<and> length late \<le> 2 \<and> length (ctC s) \<le> 1
     \<and> on_schedule nextTick now (firesOf es) \<and> sorted_wrt (<) (now # firesOf es)
     \<and> (ctPhase s = Ended \<longrightarrow> late = ctC s \<and> (\<forall>e s'. cron_step nextTick s e s' \<longrightarrow> ctPhase s' = Ended \<and> firesOf [e] = []))"
proof -
  have inv: "cron_inv nextTick now es s" by (rule cron_run_inv [OF assms(1)])
  have "length (pendingTicks s) \<le> 2" using inv by (auto simp: cron_inv_def pendingTicks_def split: cronPhase.splits)
  moreover have "ctPhase s' = Ended \<and> firesOf [e] = []" if "ctPhase s = Ended" "cron_step nextTick s e s'" for e s'
    using that by (auto elim!: cron_step_elim)
  ultimately show ?thesis
    using inv on_schedule_sorted [OF assms(2)] by (intro exI [of _ "pendingTicks s"]) (auto simp: cron_inv_def pendingTicks_def)
qed

text \<open>A schedule with a tick every ten units: one tick is taken, the next is still in the channel when the ticker is stopped.\<close>

definition sampleTicks :: "cronEvent list" where
  "sampleTicks = [Fire 10, Deliver 10, Take 10, Fire 21, Deliver 21, StopCall, StopSeen]"

lemma sampleTicks_run: "cron_run (\<lambda>t. (t div 10 + 1) * 10) 0 sampleTicks \<lparr>ctC = [21], ctK = [], ctPhase = Ended\<rparr>"
proof -
  let ?n = "\<lambda>t::int. (t div 10 + 1) * 10"
  have "cron_run ?n 0 [] \<lparr>ctC = [], ctK = [], ctPhase = WaitingFor 10\<rparr>"
    using cron_run.start [of ?n 0] by (simp add: startCronTicker_def)
  from cron_run.step [OF this cron_step.fire [where n = 10 and t = 10]]
  have "cron_run ?n 0 [Fire 10] \<lparr>ctC = [], ctK = [], ctPhase = Delivering 10\<rparr>" by simp
  from cron_run.step [OF this cron_step.deliver [where t = 10]]
  have "cron_run ?n 0 [Fire 10, Deliver 10] \<lparr>ctC = [10], ctK = [], ctPhase = WaitingFor 20\<rparr>" by simp
  from cron_run.step [OF this cron_step.take [where t = 10 and ts = "[]"]]
  have "cron_run ?n 0 [Fire 10, Deliver 10, Take 10] \<lparr>ctC = [], ctK = [], ctPhase = WaitingFor 20\<rparr>" by simp
  from cron_run.step [OF this cron_step.fire [where n = 20 and t = 21]]
  have "cron_run ?n 0 [Fire 10, Deliver 10, Take 10, Fire 21] \<lparr>ctC = [], ctK = [], ctPhase = Delivering 21\<rparr>" by simp
  from cron_run.step [OF this cron_step.deliver [where t = 21]]
  have "cron_run ?n 0 [Fire 10, Deliver 10, Take 10, Fire 21, Deliver 21] \<lparr>ctC = [21], ctK = [], ctPhase = WaitingFor 30\<rparr>" by simp
  from cron_run.step [OF this cron_step.stop]
  have "cron_run ?n 0 [Fire 10, Deliver 10, Take 10, Fire 21, Deliver 21, StopCall] \<lparr>ctC = [21], ctK = [True], ctPhase = WaitingFor 30\<rparr>" by simp
  from cron_run.step [OF this cron_step.stopped [where n = 30 and x = True and xs = "[]"]] show ?thesis by (simp add: sampleTicks_def)
qed

theorem cron_ticks_keep_schedule_witness:
  "\<exists>late. firesOf sampleTicks = takesOf sampleTicks @ late \<and> length late \<le> 2
     \<and> on_schedule (\<lambda>t. (t div 10 + 1) * 10) 0 (firesOf sampleTicks) \<and> sorted_wrt (<) (0 # firesOf sampleTicks)"
proof -
  have "(t::int) < (t div 10 + 1) * 10" for t by presburger
  then show ?thesis using cron_ticks_keep_schedule [OF sampleTicks_run] by blast
qed

end
