(* ===== verification/Authentication.thy ===== *)
theory Authentication
  imports Sync_Context Config
begin

text \<open>
  \<open>cmd/server/authentication/authentication.go\<close> and \<open>core/headers.go\<close>: the middleware in front of the
  websocket server, which asks the authentication server about a connection and gives its context
  the client identifier and the access key. Also the part of \<open>net/http\<close> it uses: header maps with
  canonical keys.

  Clock, uuid generator, the parser of URLs and the HTTP client are the fields of \<open>authEnv\<close>. The
  query of a URL is kept as its parameters; its encoding is the library's. A configured mapping is
  a list, in the order Go happens to range over the map.
\<close>

section \<open>Headers\<close>

text \<open>
  \<open>textproto.CanonicalMIMEHeaderKey\<close>: the first letter and every letter after a hyphen in upper
  case, the others in lower case; a key with a byte that a token cannot have stays as it is.
\<close>

definition token_char :: "char \<Rightarrow> bool" where
  "token_char c \<longleftrightarrow> (let n = (of_char c :: nat) in
     (48 \<le> n \<and> n \<le> 57) \<or> (65 \<le> n \<and> n \<le> 90) \<or> (97 \<le> n \<and> n \<le> 122)
     \<or> c \<in> set [CHR ''!'', CHR ''#'', CHR ''$'', CHR ''%'', CHR ''&'', CHR 0x27, CHR ''*'', CHR ''+'', CHR ''-'',
                CHR ''.'', CHR ''^'', CHR ''_'', CHR 0x60, CHR ''|'', CHR ''~''])"

fun canonical_from :: "bool \<Rightarrow> string \<Rightarrow> string" where
  "canonical_from upper [] = []"
| "canonical_from upper (c # cs) =
     (if upper then char_upper c else char_lower c) # canonical_from (c = CHR ''-'') cs"

definition CanonicalHeaderKey :: "string \<Rightarrow> string" where
  "CanonicalHeaderKey s = (if list_all token_char s then canonical_from True s else s)"

text \<open>\<open>http.Header\<close>: the lines received, under canonical keys; the first line of a key counts.\<close>

type_synonym Header = "(string \<times> string) list"

definition Header_Get :: "Header \<Rightarrow> string \<Rightarrow> string" where
  "Header_Get h k = (case map_of h (CanonicalHeaderKey k) of None \<Rightarrow> [] | Some v \<Rightarrow> v)"

definition Header_Set :: "Header \<Rightarrow> string \<Rightarrow> string \<Rightarrow> Header" where
  "Header_Set h k v =
     (CanonicalHeaderKey k, v) # filter (\<lambda>(k', _). k' \<noteq> CanonicalHeaderKey k) h"

definition AccessKeyHeader :: string where "AccessKeyHeader = ''X-API-KEY''"
definition AccountHeader :: string where "AccountHeader = ''X-API-ACCOUNT''"
definition ClusterNameHeader :: string where "ClusterNameHeader = ''X-API-CLUSTER''"
definition HelmVersionHeader :: string where "HelmVersionHeader = ''X-HELM-VERSION''"
definition VersionHeader :: string where "VersionHeader = ''X-SYNCHRONIZER-VERSION''"
definition GitVersionHeader :: string where "GitVersionHeader = ''X-GIT-VERSION''"
definition CloudProviderHeader :: string where "CloudProviderHeader = ''X-CLOUD-PROVIDER''"
definition ClusterUIDHeader :: string where "ClusterUIDHeader = ''X-CLUSTER-UID''"
definition ResourceGroupHeader :: string where "ResourceGroupHeader = ''X-RESOURCE-GROUP''"

lemmas header_defs = AccessKeyHeader_def AccountHeader_def ClusterNameHeader_def HelmVersionHeader_def
  VersionHeader_def GitVersionHeader_def CloudProviderHeader_def ClusterUIDHeader_def ResourceGroupHeader_def

lemma canonical_headers [simp]:
  "CanonicalHeaderKey AccessKeyHeader = ''X-Api-Key''"
  "CanonicalHeaderKey AccountHeader = ''X-Api-Account''"
  "CanonicalHeaderKey ClusterNameHeader = ''X-Api-Cluster''"
  "CanonicalHeaderKey HelmVersionHeader = ''X-Helm-Version''"
  "CanonicalHeaderKey VersionHeader = ''X-Synchronizer-Version''"
  "CanonicalHeaderKey GitVersionHeader = ''X-Git-Version''"
  "CanonicalHeaderKey CloudProviderHeader = ''X-Cloud-Provider''"
  "CanonicalHeaderKey ClusterUIDHeader = ''X-Cluster-Uid''"
  "CanonicalHeaderKey ResourceGroupHeader = ''X-Resource-Group''"
  by code_simp+

section \<open>Credentials that were never configured\<close>

definition armoAccessKeyLength :: nat where "armoAccessKeyLength = 36"

definition helmPlaceholderAccounts :: "string list" where
  "helmPlaceholderAccounts = [''REPLACE_ME_WITH_ARMO_ACCOUNT_UUID'', ''test'', '''']"

text \<open>The em dash of the messages, as its three bytes.\<close>

definition notSubstituted :: string where
  "notSubstituted = '' '' @ [CHR 0xE2, CHR 0x80, CHR 0x94] @ '' customer likely did not substitute Helm values''"

definition unconfiguredCredentialsReason :: "(string \<Rightarrow> bool) \<Rightarrow> string \<Rightarrow> string \<Rightarrow> string" where
  "unconfiguredCredentialsReason uuidParses account accessKey =
     (if account \<in> set helmPlaceholderAccounts then ''account is a known Helm placeholder'' @ notSubstituted
      else if \<not> uuidParses account then ''account is not a valid UUID'' @ notSubstituted
      else if length accessKey \<noteq> armoAccessKeyLength
        then ''accessKey length is not 36 (not a valid ARMO access key)'' @ notSubstituted
      else [])"

text \<open>Of the access key only the length shows.\<close>

lemma reason_hides_access_key:
  "length k = length k' \<Longrightarrow>
     unconfiguredCredentialsReason p account k = unconfiguredCredentialsReason p account k'"
  by (simp add: unconfiguredCredentialsReason_def)

section \<open>The authentication server\<close>

record connRequest =
  crHeader :: Header
  crContext :: Context

record authURL =
  urBase :: string
  urQuery :: "(string \<times> string) list"

record authRequest =
  arURL :: authURL
  arHeader :: Header

record 'w authEnv =
  aeNow :: "('w, int) go"
  aeNewUUID :: "('w, string) go"
  aeParseURL :: "string \<Rightarrow> goerror + authURL"
  aeNewRequest :: "authURL \<Rightarrow> goerror option"
  aeDo :: "authRequest \<Rightarrow> ('w, goerror + int) go"
  aeUuidParses :: "string \<Rightarrow> bool"

text \<open>\<open>url.Values.Set\<close>\<close>

definition Values_Set :: "(string \<times> string) list \<Rightarrow> string \<Rightarrow> string \<Rightarrow> (string \<times> string) list" where
  "Values_Set q k v = (k, v) # filter (\<lambda>(k', _). k' \<noteq> k) q"

definition authenticationURL :: "AuthenticationServerConfig \<Rightarrow> Header \<Rightarrow> authURL \<Rightarrow> authURL" where
  "authenticationURL cfg h u =
     u\<lparr>urQuery := foldl (\<lambda>q (header, queryParam). Values_Set q queryParam (Header_Get h header))
        (urQuery u) (auHeaderToQueryParamMapping cfg)\<rparr>"

definition authenticationHeaders :: "AuthenticationServerConfig \<Rightarrow> Header \<Rightarrow> Header" where
  "authenticationHeaders cfg h =
     foldl (\<lambda>hs (origin, dest). Header_Set hs dest (Header_Get h origin)) [] (auHeaderToHeaderMapping cfg)"

datatype authAnswer = Authorized | RequestFailed goerror | NotAuthorized int string

definition askAuthenticationServer :: "'w authEnv \<Rightarrow> AuthenticationServerConfig option \<Rightarrow> Header \<Rightarrow>
    string \<Rightarrow> string \<Rightarrow> ('w, authAnswer) go" where
  "askAuthenticationServer env cfg h account accessKey =
     (case cfg of
        None \<Rightarrow> panic ''nil pointer dereference''
      | Some cfg \<Rightarrow>
     case aeParseURL env (auUrl cfg) of
        Inl e \<Rightarrow> panic ''parse authentication server url''
      | Inr u \<Rightarrow>
     let u = authenticationURL cfg h u in
     case aeNewRequest env u of
        Some e \<Rightarrow> ret (RequestFailed e)
      | None \<Rightarrow>
     andThen (aeDo env \<lparr>arURL = u, arHeader = authenticationHeaders cfg h\<rparr>) (\<lambda>response.
     case response of
        Inl e \<Rightarrow> ret (RequestFailed e)
      | Inr statusCode \<Rightarrow>
          if statusCode \<noteq> 200
          then ret (NotAuthorized statusCode (unconfiguredCredentialsReason (aeUuidParses env) account accessKey))
          else ret Authorized))"

section \<open>The middleware\<close>

text \<open>The two variables of the package: whether \<open>once\<close> has run, and whether there is a client.\<close>

record authState =
  asOnce :: bool
  asClient :: bool

definition authServerSet :: "AuthenticationServerConfig option \<Rightarrow> bool" where
  "authServerSet cfg \<longleftrightarrow> (case cfg of None \<Rightarrow> False | Some c \<Rightarrow> auUrl c \<noteq> [])"

definition initClient :: "AuthenticationServerConfig option \<Rightarrow> authState \<Rightarrow> authState" where
  "initClient cfg s =
     (if asOnce s then s
      else if authServerSet cfg then s\<lparr>asOnce := True, asClient := True\<rparr>
      else s\<lparr>asOnce := True\<rparr>)"

definition authenticatedContext :: "Context \<Rightarrow> Header \<Rightarrow> string \<Rightarrow> int \<Rightarrow> Context" where
  "authenticatedContext parent h connectionId connectionTime =
     (let ctx = WithValue parent ContextKeyClientIdentifier (CtxClient \<lparr>
            ciAccount = Header_Get h AccountHeader,
            ciCluster = Header_Get h ClusterNameHeader,
            ciConnectionId = connectionId,
            ciConnectionTime = connectionTime,
            ciHelmVersion = Header_Get h HelmVersionHeader,
            ciSyncVersion = Header_Get h VersionHeader,
            ciGitVersion = Header_Get h GitVersionHeader,
            ciCloudProvider = Header_Get h CloudProviderHeader,
            ciClusterUID = Header_Get h ClusterUIDHeader,
            ciResourceGroup = Header_Get h ResourceGroupHeader\<rparr>)
      in WithValue ctx ContextKeyAccessKey (CtxString (Header_Get h AccessKeyHeader)))"

text \<open>The decision: the status to refuse a connection with, or the request for the next handler.\<close>

datatype authVerdict = Refuse int | Pass connRequest

definition authenticate :: "'w authEnv \<Rightarrow> AuthenticationServerConfig option \<Rightarrow> connRequest \<Rightarrow>
    (authState \<times> 'w, authVerdict) go" where
  "authenticate env cfg r =
     andThen get_state (\<lambda>s.
     andThen (put_state (initClient cfg s)) (\<lambda>_.
     andThen (on_snd (aeNow env)) (\<lambda>connectionTime.
     andThen (on_snd (aeNewUUID env)) (\<lambda>connectionId.
     let h = crHeader r;
         accessKey = Header_Get h AccessKeyHeader;
         account = Header_Get h AccountHeader;
         cluster = Header_Get h ClusterNameHeader;
         pass = Pass (r\<lparr>crContext := authenticatedContext (crContext r) h connectionId connectionTime\<rparr>)
     in if accessKey = [] \<or> account = [] \<or> cluster = [] then ret (Refuse 401)
        else if Header_Get h VersionHeader = ''invalid'' then ret (Refuse 424)
        else
          andThen get_state (\<lambda>s.
          if asClient s then
            andThen (on_snd (askAuthenticationServer env cfg h account accessKey)) (\<lambda>answer.
            case answer of Authorized \<Rightarrow> ret pass | _ \<Rightarrow> ret (Refuse 401))
          else ret pass)))))"

definition AuthenticationServerMiddleware :: "'w authEnv \<Rightarrow> AuthenticationServerConfig option \<Rightarrow>
    (int \<Rightarrow> ('w, unit) go) \<Rightarrow> (connRequest \<Rightarrow> ('w, unit) go) \<Rightarrow> connRequest \<Rightarrow> (authState \<times> 'w, unit) go" where
  "AuthenticationServerMiddleware env cfg writeHeader next r =
     andThen (authenticate env cfg r) (\<lambda>verdict.
     case verdict of
       Refuse status \<Rightarrow> on_snd (writeHeader status)
     | Pass request \<Rightarrow> on_snd (next request))"

section \<open>How a decision comes about\<close>

lemma authenticate_run:
  assumes "aeNow env w = (Ret t, w1)" and "aeNewUUID env w1 = (Ret n, w2)"
  shows "authenticate env cfg r (s, w) =
     (let h = crHeader r; s' = initClient cfg s;
          accessKey = Header_Get h AccessKeyHeader; account = Header_Get h AccountHeader;
          pass = Pass (r\<lparr>crContext := authenticatedContext (crContext r) h n t\<rparr>)
      in if accessKey = [] \<or> account = [] \<or> Header_Get h ClusterNameHeader = [] then (Ret (Refuse 401), (s', w2))
         else if Header_Get h VersionHeader = ''invalid'' then (Ret (Refuse 424), (s', w2))
         else if asClient s' then
           (case askAuthenticationServer env cfg h account accessKey w2 of
              (Ret answer, w3) \<Rightarrow> (Ret (if answer = Authorized then pass else Refuse 401), (s', w3))
            | (Panic p, w3) \<Rightarrow> (Panic p, (s', w3)))
         else (Ret pass, (s', w2)))"
  using assms
  by (auto simp: authenticate_def Let_def andThen_def split: prod.splits outcome.splits authAnswer.splits)

lemma authenticate_RetD:
  assumes "authenticate env cfg r (s, w) = (Ret v, sw')"
  obtains t w1 n w2 where "aeNow env w = (Ret t, w1)" and "aeNewUUID env w1 = (Ret n, w2)"
  using assms
  by (auto simp: authenticate_def andThen_def on_snd_def split: prod.splits outcome.splits)

lemma askAuthenticationServer_Authorized:
  assumes "askAuthenticationServer env cfg h account accessKey w = (Ret Authorized, w')"
  obtains c u where "cfg = Some c" and "aeParseURL env (auUrl c) = Inr u"
    and "aeDo env \<lparr>arURL = authenticationURL c h u, arHeader = authenticationHeaders c h\<rparr> w = (Ret (Inr 200), w')"
  using assms
  by (auto simp: askAuthenticationServer_def Let_def split: option.splits sum.splits if_splits
      elim!: andThen_RetE)

text \<open>
  What the authentication server is asked: the mapped headers, as long as no two headers are mapped
  to the same parameter, for then the order in which Go ranges over the mapping decides.
\<close>

lemma map_of_Values_Set: "map_of (Values_Set q k v) = (map_of q)(k \<mapsto> v)"
proof
  fix x
  show "map_of (Values_Set q k v) x = ((map_of q)(k \<mapsto> v)) x"
    by (induction q) (auto simp: Values_Set_def)
qed

lemma foldl_Values_Set_other:
  "p \<notin> snd ` set m \<Longrightarrow>
     map_of (foldl (\<lambda>q (header, param). Values_Set q param (f header)) q m) p = map_of q p"
  by (induction m arbitrary: q) (auto simp: map_of_Values_Set)

lemma authenticationURL_carries:
  assumes "distinct (map snd (auHeaderToQueryParamMapping cfg))"
    and "(header, param) \<in> set (auHeaderToQueryParamMapping cfg)"
  shows "map_of (urQuery (authenticationURL cfg h u)) param = Some (Header_Get h header)"
proof -
  have "map_of (foldl (\<lambda>q (header, param). Values_Set q param (Header_Get h header)) q m) param = Some (Header_Get h header)"
    if "distinct (map snd m)" and "(header, param) \<in> set m" for q m
    using that
    by (induction m arbitrary: q) (auto simp: foldl_Values_Set_other map_of_Values_Set)
  then show ?thesis using assms by (simp add: authenticationURL_def)
qed

text \<open>The client of the authentication server exists exactly when there is one to ask.\<close>

definition auth_inv :: "AuthenticationServerConfig option \<Rightarrow> authState \<Rightarrow> bool" where
  "auth_inv cfg s \<longleftrightarrow> asClient s = (asOnce s \<and> authServerSet cfg)"

lemma auth_inv_init [simp]: "auth_inv cfg \<lparr>asOnce = False, asClient = False\<rparr>"
  by (simp add: auth_inv_def)

lemma initClient_inv: "auth_inv cfg s \<Longrightarrow> auth_inv cfg (initClient cfg s) \<and> asClient (initClient cfg s) = authServerSet cfg"
  by (auto simp: auth_inv_def initClient_def)

lemma identified_authenticatedContext:
  "\<exists>cid. identified (authenticatedContext ctx h n t) cid \<and> ciAccount cid = Header_Get h AccountHeader
     \<and> ciCluster cid = Header_Get h ClusterNameHeader \<and> ciConnectionId cid = n \<and> ciConnectionTime cid = t
     \<and> AccessKeyFromContext (authenticatedContext ctx h n t) = Header_Get h AccessKeyHeader"
  by (simp add: authenticatedContext_def identified_def AccessKeyFromContext_def Let_def contextKey_defs)

section \<open>A sample connection\<close>

definition grantingEnv :: "unit authEnv" where
  "grantingEnv = \<lparr>aeNow = ret 5, aeNewUUID = ret ''c1'', aeParseURL = (\<lambda>u. Inr \<lparr>urBase = u, urQuery = []\<rparr>),
     aeNewRequest = (\<lambda>u. None), aeDo = (\<lambda>req. ret (Inr 200)), aeUuidParses = (\<lambda>s. True)\<rparr>"

definition authCfg :: AuthenticationServerConfig where
  "authCfg = \<lparr>auUrl = ''https://auth'', auHeaderToQueryParamMapping = [(''X-API-ACCOUNT'', ''customerGUID'')],
     auHeaderToHeaderMapping = [(''X-API-KEY'', ''X-API-KEY'')]\<rparr>"

definition sampleHeader :: Header where
  "sampleHeader = [(''X-Api-Key'', ''key''), (''X-Api-Account'', ''acc''), (''X-Api-Cluster'', ''cluster''),
     (''X-Synchronizer-Version'', ''v1.0.0'')]"

definition sampleRequest :: connRequest where
  "sampleRequest = \<lparr>crHeader = sampleHeader, crContext = []\<rparr>"

lemma sampleHeader_Get [simp]:
  "Header_Get sampleHeader AccessKeyHeader = ''key''" "Header_Get sampleHeader AccountHeader = ''acc''"
  "Header_Get sampleHeader ClusterNameHeader = ''cluster''" "Header_Get sampleHeader VersionHeader = ''v1.0.0''"
  by (simp_all add: Header_Get_def sampleHeader_def)

lemma sample_passes:
  "authenticate grantingEnv (Some authCfg) sampleRequest (\<lparr>asOnce = False, asClient = False\<rparr>, ()) =
     (Ret (Pass (sampleRequest\<lparr>crContext := authenticatedContext [] sampleHeader ''c1'' 5\<rparr>)),
      (\<lparr>asOnce = True, asClient = True\<rparr>, ()))"
proof -
  have env: "aeNow grantingEnv () = (Ret 5, ())" "aeNewUUID grantingEnv () = (Ret ''c1'', ())"
    by (simp_all add: grantingEnv_def)
  have "askAuthenticationServer grantingEnv (Some authCfg) h account accessKey () = (Ret Authorized, ())" for h account accessKey
    by (simp add: askAuthenticationServer_def grantingEnv_def Let_def)
  then show ?thesis
    by (simp add: authenticate_run [OF env] Let_def initClient_def authServerSet_def sampleRequest_def authCfg_def)
qed

section \<open>Properties\<close>

text \<open>
  C9. No connection reaches the handler behind the middleware without credentials and without being
  authorized: a request that passes has an access key, an account and a cluster, its client version
  is not the invalid one, its context identifies exactly that account and cluster and carries the
  access key, and when an authentication server is configured, that server was asked about the
  headers of this very request and has answered 200.
\<close>

theorem only_authorized_connections_pass:
  assumes "auth_inv cfg s" and "authenticate env cfg r (s, w) = (Ret (Pass r'), (s', w'))"
  shows "auth_inv cfg s'
     \<and> list_all (\<lambda>k. Header_Get (crHeader r) k \<noteq> []) [AccessKeyHeader, AccountHeader, ClusterNameHeader]
     \<and> Header_Get (crHeader r) VersionHeader \<noteq> ''invalid''
     \<and> (\<exists>cid. identified (crContext r') cid \<and> ciAccount cid = Header_Get (crHeader r) AccountHeader
          \<and> ciCluster cid = Header_Get (crHeader r) ClusterNameHeader)
     \<and> AccessKeyFromContext (crContext r') = Header_Get (crHeader r) AccessKeyHeader
     \<and> (if authServerSet cfg
        then \<exists>c u v. cfg = Some c \<and> aeParseURL env (auUrl c) = Inr u
          \<and> aeDo env \<lparr>arURL = authenticationURL c (crHeader r) u, arHeader = authenticationHeaders c (crHeader r)\<rparr> v
            = (Ret (Inr 200), w')
        else True)"
proof -
  obtain t w1 n w2 where env: "aeNow env w = (Ret t, w1)" "aeNewUUID env w1 = (Ret n, w2)"
    using authenticate_RetD [OF assms(2)] by blast
  let ?h = "crHeader r"
  note run = assms(2) [unfolded authenticate_run [OF env] Let_def]
  note client = initClient_inv [OF assms(1)]
  have "list_all (\<lambda>k. Header_Get ?h k \<noteq> []) [AccessKeyHeader, AccountHeader, ClusterNameHeader]"
    and "Header_Get ?h VersionHeader \<noteq> ''invalid''" and "s' = initClient cfg s"
    and ctx: "crContext r' = authenticatedContext (crContext r) ?h n t"
    using run by (auto split: if_splits prod.splits outcome.splits)
  moreover have "\<exists>c u v. cfg = Some c \<and> aeParseURL env (auUrl c) = Inr u
      \<and> aeDo env \<lparr>arURL = authenticationURL c ?h u, arHeader = authenticationHeaders c ?h\<rparr> v = (Ret (Inr 200), w')"
    if "authServerSet cfg"
  proof -
    have "askAuthenticationServer env cfg ?h (Header_Get ?h AccountHeader) (Header_Get ?h AccessKeyHeader) w2
        = (Ret Authorized, w')"
      using run client that by (auto split: if_splits prod.splits outcome.splits)
    then show ?thesis by (rule askAuthenticationServer_Authorized) blast
  qed
  ultimately show ?thesis using identified_authenticatedContext [of "crContext r" ?h n t] client by auto
qed

theorem only_authorized_connections_pass_witness:
  "\<exists>cid. identified (authenticatedContext [] sampleHeader ''c1'' 5) cid \<and> ciAccount cid = ''acc'' \<and> ciCluster cid = ''cluster''"
  using only_authorized_connections_pass [OF auth_inv_init sample_passes] by (simp add: sampleRequest_def)

end
