(* ===== verification/Api_Server.thy ===== *)
theory Api_Server
  imports Go_Strings
begin

text \<open>
  \<open>adapters/incluster/v1/apiserver.go\<close>: what the client asks of the Kubernetes API server when it
  starts, to describe its cluster to the server. The API client is the record \<open>k8sApi\<close>, one field per
  query (the nodes by their provider ids); a missing client is \<open>None\<close>. Provider ids are ASCII, so
  lower-casing keeps every index.
\<close>

record k8sApi =
  k8NamespaceUID :: "string \<Rightarrow> goerror + string"
  k8NodeProviderIDs :: "int \<Rightarrow> goerror + string list"
  k8CloudProviderOf :: "string list \<Rightarrow> string"
  k8ServerGitVersion :: "goerror + string"

definition azureResourceGroupMarker :: string where
  "azureResourceGroupMarker = ''/resourceGroups/''"

definition getCloudProvider :: "k8sApi \<Rightarrow> goerror + string" where
  "getCloudProvider api =
     (case k8NodeProviderIDs api 1 of
        Inl e \<Rightarrow> Inl (GoWrap ''failed to list nodes'' e)
      | Inr nodeList \<Rightarrow>
          if length nodeList = 0 then Inl (GoError ''no nodes found in the cluster'')
          else Inr (k8CloudProviderOf api nodeList))"

text \<open>Both values are returned, whatever happened: \<open>"Unknown"\<close> and the empty string stand for errors.\<close>

definition getApiServerGitVersion :: "k8sApi \<Rightarrow> string \<times> goerror option" where
  "getApiServerGitVersion api =
     (case k8ServerGitVersion api of
        Inl e \<Rightarrow> (''Unknown'', Some e)
      | Inr v \<Rightarrow> (v, None))"

definition GetApiServerGitVersionAndCloudProvider :: "k8sApi option \<Rightarrow> string \<times> string" where
  "GetApiServerGitVersionAndCloudProvider k8sApi =
     (case k8sApi of
        None \<Rightarrow> ([], [])
      | Some api \<Rightarrow>
          let cloudProvider = (case getCloudProvider api of Inl e \<Rightarrow> [] | Inr p \<Rightarrow> p);
              gitVersion = fst (getApiServerGitVersion api)
          in (gitVersion, cloudProvider))"

definition GetClusterUID :: "k8sApi option \<Rightarrow> string" where
  "GetClusterUID k8sApi =
     (case k8sApi of
        None \<Rightarrow> []
      | Some api \<Rightarrow> (case k8NamespaceUID api ''kube-system'' of Inl e \<Rightarrow> [] | Inr uid \<Rightarrow> uid))"

definition parseAzureResourceGroup :: "string \<Rightarrow> string" where
  "parseAzureResourceGroup providerID =
     (case strings_Index (strings_ToLower providerID) (strings_ToLower azureResourceGroupMarker) of
        None \<Rightarrow> []
      | Some idx \<Rightarrow>
          let rest = drop (idx + length azureResourceGroupMarker) providerID in
          (case strings_Cut rest ''/'' of
             None \<Rightarrow> rest
           | Some (before, _) \<Rightarrow> before))"

definition GetResourceGroup :: "k8sApi option \<Rightarrow> string" where
  "GetResourceGroup k8sApi =
     (case k8sApi of
        None \<Rightarrow> []
      | Some api \<Rightarrow>
          (case k8NodeProviderIDs api 1 of
             Inl e \<Rightarrow> []
           | Inr nodeList \<Rightarrow> if length nodeList = 0 then [] else parseAzureResourceGroup (nodeList ! 0)))"

section \<open>The first occurrence\<close>

text \<open>A string that does not occur in \<open>p\<close> followed by all but the last byte of it occurs first after \<open>p\<close>.\<close>

lemma strings_Index_first:
  assumes "sub \<noteq> []" and "\<not> strings_Contains (p @ butlast sub) sub"
  shows "strings_Index (p @ sub @ t) sub = Some (length p)"
  using assms(2)
proof (induction p)
  case Nil
  then show ?case using assms(1) by (cases sub) (simp_all add: strings_HasPrefix_iff)
next
  case (Cons x p)
  have "\<not> strings_HasPrefix (x # p @ sub @ t) sub"
  proof
    assume "strings_HasPrefix (x # p @ sub @ t) sub"
    then obtain u where u: "x # p @ sub @ t = sub @ u" by (auto simp: strings_HasPrefix_iff)
    have len: "length sub - length (x # p @ butlast sub) = 0" using assms(1) by simp
    have "sub = butlast sub @ [last sub]" using assms(1) by simp
    then have "x # p @ sub @ t = (x # p @ butlast sub) @ last sub # t" by simp
    with u have "take (length sub) ((x # p @ butlast sub) @ last sub # t) = sub" by simp
    then have "take (length sub) (x # p @ butlast sub) = sub" unfolding take_append len by simp
    then have "x # p @ butlast sub = [] @ sub @ drop (length sub) (x # p @ butlast sub)"
      by (metis append_Nil append_take_drop_id)
    then show False using Cons.prems unfolding strings_Contains_iff append_Cons by blast
  qed
  moreover have "\<not> strings_Contains (p @ butlast sub) sub"
  proof
    assume "strings_Contains (p @ butlast sub) sub"
    then obtain q u where "p @ butlast sub = q @ sub @ u" by (auto simp: strings_Contains_iff)
    then have "(x # p) @ butlast sub = (x # q) @ sub @ u" by simp
    then show False using Cons.prems by (metis strings_Contains_iff)
  qed
  ultimately show ?case using Cons.IH by simp
qed

text \<open>A provider id without the marker gives the empty string, which means unknown.\<close>

lemma parseAzureResourceGroup_unknown:
  "\<not> strings_Contains (strings_ToLower providerID) (strings_ToLower azureResourceGroupMarker) \<Longrightarrow>
     parseAzureResourceGroup providerID = []"
  by (simp add: parseAzureResourceGroup_def strings_Contains_def)

section \<open>Properties\<close>

text \<open>
  The resource group of an Azure node is found whatever the case of the marker in its provider
  id: it is what stands between the first \<open>/resourceGroups/\<close> and the next slash or the end, in its
  own case.
\<close>

theorem azure_resource_group_is_found:
  assumes "strings_ToLower marker = strings_ToLower azureResourceGroupMarker"
    and "\<not> strings_Contains (strings_ToLower (prefix @ butlast azureResourceGroupMarker)) (strings_ToLower azureResourceGroupMarker)"
    and "CHR ''/'' \<notin> set rg" and "rest = [] \<or> hd rest = CHR ''/''"
  shows "parseAzureResourceGroup (prefix @ marker @ rg @ rest) = rg"
proof -
  let ?m = "strings_ToLower azureResourceGroupMarker"
  have len: "length marker = length azureResourceGroupMarker"
    using arg_cong [OF assms(1), of length] by simp
  have "butlast ?m = strings_ToLower (butlast azureResourceGroupMarker)"
    by (simp add: strings_ToLower_def map_butlast)
  then have "strings_Index (strings_ToLower prefix @ ?m @ strings_ToLower (rg @ rest)) ?m = Some (length (strings_ToLower prefix))"
    using assms(2) by (intro strings_Index_first) (simp_all add: strings_ToLower_def azureResourceGroupMarker_def)
  then have idx: "strings_Index (strings_ToLower (prefix @ marker @ rg @ rest)) ?m = Some (length prefix)"
    by (simp add: assms(1))
  have "strings_Cut (rg @ rest) ''/'' = (if rest = [] then None else Some (rg, tl rest))"
    using assms(3,4) strings_Index_char [of "CHR ''/''" rg "tl rest"] strings_Index_char_None [of "CHR ''/''" rg]
    by (cases rest) (auto simp: strings_Cut_def)
  then show ?thesis unfolding parseAzureResourceGroup_def idx by (simp add: len [symmetric] Let_def)
qed

theorem azure_resource_group_is_found_witness:
  "parseAzureResourceGroup (''azure:///subscriptions/s'' @ ''/RESOURCEGROUPS/'' @ ''MC_Group'' @ ''/providers/x'') = ''MC_Group''"
  by (rule azure_resource_group_is_found) code_simp+

end
