(* ===== verification/Http_Endpoint.thy ===== *)
theory Http_Endpoint
  imports Kube_Objects
begin

text \<open>
  \<open>adapters/httpendpoint/v1/adapter.go\<close>: the adapter that takes objects over HTTP and passes them
  on to the server. Its operations towards the synchronizer do nothing; all its work is in
  \<open>ServeHTTP\<close>, which routes a request by method and path, reads the object and calls back. Also
  \<open>domain.FromUnstructured\<close>, which only this adapter uses.

  The status a handler writes is its result. A header is written once on every path, so this is
  all the client sees. \<open>net.Listen\<close> and \<open>http.Server.Shutdown\<close> are the fields of \<open>httpEnv\<close>; of the
  server itself the model keeps whether it serves and whether it was shut down, after which
  \<open>Serve\<close> returns at once. Requests reach the handler with a clean path: \<open>http.ServeMux\<close> redirects
  all others.
\<close>

section \<open>Requests\<close>

text \<open>A missing body is \<open>None\<close>; reading a body may fail.\<close>

record httpRequest =
  rqMethod :: string
  rqPath :: string
  rqContext :: Context
  rqBody :: "(goerror + string) option"

definition StatusOK :: int where "StatusOK = 200"
definition StatusAccepted :: int where "StatusAccepted = 202"
definition StatusBadRequest :: int where "StatusBadRequest = 400"
definition StatusNotFound :: int where "StatusNotFound = 404"
definition StatusMethodNotAllowed :: int where "StatusMethodNotAllowed = 405"
definition StatusInternalServerError :: int where "StatusInternalServerError = 500"
definition StatusServiceUnavailable :: int where "StatusServiceUnavailable = 503"

lemmas status_defs = StatusOK_def StatusAccepted_def StatusBadRequest_def StatusNotFound_def
  StatusMethodNotAllowed_def StatusInternalServerError_def StatusServiceUnavailable_def

section \<open>The identifier of an object\<close>

definition FromUnstructured :: "'o kubelib \<Rightarrow> 'o option \<Rightarrow> KindName" where
  "FromUnstructured lib u =
     (case u of
        None \<Rightarrow> zero_KindName
      | Some u \<Rightarrow>
          let apiVerSlices = strings_Split (strings_ToLower (klGetAPIVersion lib u)) CHR ''/'' in
          if length apiVerSlices = 0 then zero_KindName
          else
            let apiVerSlices = (if length apiVerSlices = 1 then apiVerSlices @ [''v1''] else apiVerSlices) in
            \<lparr>knKind = Some \<lparr>kGroup = apiVerSlices ! 0, kVersion = apiVerSlices ! 1,
                             kResource = strings_ToLower (klGetKind lib u), kAdditionalProperties = None\<rparr>,
             knName = strings_ToLower (klGetName lib u),
             knNamespace = strings_ToLower (klGetNamespace lib u),
             knResourceVersion = ToResourceVersion (klGetResourceVersion lib u)\<rparr>)"

section \<open>The adapter\<close>

type_synonym pathTree = "string \<rightharpoonup> (string \<rightharpoonup> (string \<rightharpoonup> (string \<rightharpoonup> bool)))"

record 'w HTTPAdapter =
  htCallbacks :: "'w Callbacks"
  htCfg :: Config
  htAddr :: string
  htBaseContext :: "Context option"
  htSupportedPaths :: "pathTree option"
  htIsStarted :: bool
  htServing :: bool
  htShutDown :: bool

record httpEnv =
  hxListen :: "string \<Rightarrow> goerror option"
  hxShutdown :: "Context \<Rightarrow> goerror option"

definition NewHTTPEndpointAdapter :: "Config \<Rightarrow> 'w HTTPAdapter" where
  "NewHTTPEndpointAdapter cfg = \<lparr>htCallbacks = nilCallbacks, htCfg = cfg,
     htAddr = '':'' @ heServerPort (cfHTTPEndpoint cfg), htBaseContext = None,
     htSupportedPaths = None, htIsStarted = False, htServing = False, htShutDown = False\<rparr>"

definition http_GetConfig :: "'w HTTPAdapter \<Rightarrow> Config" where
  "http_GetConfig a = htCfg a"

definition http_RegisterCallbacks :: "Context \<Rightarrow> 'w Callbacks \<Rightarrow> 'w HTTPAdapter \<Rightarrow> 'w HTTPAdapter" where
  "http_RegisterCallbacks mainCtx callbacks a = a\<lparr>htBaseContext := Some mainCtx, htCallbacks := callbacks\<rparr>"

definition http_Callbacks :: "Context \<Rightarrow> 'w HTTPAdapter \<Rightarrow> goerror + 'w Callbacks" where
  "http_Callbacks ctx a = Inr (htCallbacks a)"

definition http_IsRelated :: "ClientIdentifier \<Rightarrow> 'w HTTPAdapter \<Rightarrow> bool" where
  "http_IsRelated cid a \<longleftrightarrow> cfgAccount (cfInCluster (htCfg a)) = ciAccount cid
     \<and> cfgClusterName (cfInCluster (htCfg a)) = ciCluster cid"

section \<open>The supported paths\<close>

text \<open>\<open>if _, ok := m[k]; !ok { m[k] = map[...]...{} }\<close>, and reading a map of a map.\<close>

definition ensure :: "'k \<Rightarrow> ('k \<rightharpoonup> ('a \<rightharpoonup> 'b)) \<Rightarrow> ('k \<rightharpoonup> ('a \<rightharpoonup> 'b))" where
  "ensure k m = (if m k = None then m(k \<mapsto> Map.empty) else m)"

definition sub :: "('k \<rightharpoonup> ('a \<rightharpoonup> 'b)) \<Rightarrow> 'k \<Rightarrow> ('a \<rightharpoonup> 'b)" where
  "sub m k = (case m k of None \<Rightarrow> Map.empty | Some m' \<Rightarrow> m')"

definition addPath :: "pathTree \<Rightarrow> Resource \<Rightarrow> pathTree" where
  "addPath paths resource =
     (let lowerCaseStrategy = strings_ToLower (rsStrategy resource);
          paths = ensure lowerCaseStrategy paths;
          groups = ensure (rsGroup resource) (sub paths lowerCaseStrategy);
          versions = ensure (rsVersion resource) (sub groups (rsGroup resource));
          resources = (sub versions (rsVersion resource))(rsResource resource \<mapsto> True)
      in paths(lowerCaseStrategy \<mapsto> groups(rsGroup resource \<mapsto> versions(rsVersion resource \<mapsto> resources))))"

definition buildPaths :: "Resource list \<Rightarrow> pathTree" where
  "buildPaths resources = foldl addPath Map.empty resources"

section \<open>Start and Stop\<close>

definition http_Start :: "httpEnv \<Rightarrow> Context \<Rightarrow> ('w HTTPAdapter \<times> 'w, goerror option) go" where
  "http_Start env ctx =
     andThen (modify (\<lambda>a. a\<lparr>htSupportedPaths := Some (buildPaths (heResources (cfHTTPEndpoint (htCfg a))))\<rparr>)) (\<lambda>_.
     andThen get_state (\<lambda>a.
     case hxListen env (htAddr a) of
       Some e \<Rightarrow> ret (Some (GoWrap (''httpendpoint failed to listen on '' @ htAddr a) e))
     | None \<Rightarrow>
         andThen (modify (\<lambda>a. a\<lparr>htServing := (\<not> htShutDown a)\<rparr>)) (\<lambda>_.
         andThen (modify (\<lambda>a. a\<lparr>htIsStarted := True\<rparr>)) (\<lambda>_.
         ret None))))"

definition http_Stop :: "httpEnv \<Rightarrow> Context \<Rightarrow> ('w HTTPAdapter \<times> 'w, goerror option) go" where
  "http_Stop env ctx =
     andThen (modify (\<lambda>a. a\<lparr>htServing := False, htShutDown := True\<rparr>)) (\<lambda>_.
     case hxShutdown env ctx of
       Some e \<Rightarrow> ret (Some e)
     | None \<Rightarrow> ret None)"

section \<open>Serving a request\<close>

text \<open>The second half of \<open>ServeHTTP\<close>: the body of a request whose path is supported.\<close>

definition serveObject :: "'o kubelib \<Rightarrow> 'w HTTPAdapter \<Rightarrow> httpRequest \<Rightarrow> Strategy \<Rightarrow> string list \<Rightarrow> ('w, int) go" where
  "serveObject lib a r strategy pathSlices =
     (case rqBody r of
        None \<Rightarrow> ret StatusBadRequest
      | Some (Inl e) \<Rightarrow> ret StatusInternalServerError
      | Some (Inr bodyBytes) \<Rightarrow>
     case klUnmarshalJSON lib bodyBytes of
        Inl e \<Rightarrow> ret StatusInternalServerError
      | Inr obj \<Rightarrow>
     let kindName = FromUnstructured lib (Some obj) in
     andThen (derefKind (knKind kindName)) (\<lambda>kind.
     if kGroup kind \<noteq> pathSlices ! 0 \<or> kVersion kind \<noteq> pathSlices ! 1 \<or> kResource kind \<noteq> pathSlices ! 2
     then ret StatusBadRequest
     else
       let checksum = (case klAnnotations lib obj (klSyncChecksumMetadataKey lib) of None \<Rightarrow> [] | Some c \<Rightarrow> c) in
       if strategy = PatchStrategy then
         andThen (cbPatchObject (htCallbacks a) (rqContext r) kindName checksum bodyBytes) (\<lambda>err.
         ret (if err \<noteq> None then StatusInternalServerError else StatusAccepted))
       else if strategy = CopyStrategy then
         andThen (cbPutObject (htCallbacks a) (rqContext r) kindName checksum bodyBytes) (\<lambda>err.
         ret (if err \<noteq> None then StatusInternalServerError else StatusAccepted))
       else ret StatusAccepted))"

definition requestStrategy :: "string \<Rightarrow> Strategy" where
  "requestStrategy method =
     (if method = ''PUT'' then PatchStrategy
      else if method = ''POST'' then CopyStrategy
      else strings_ToLower method)"

definition http_ServeHTTP :: "'o kubelib \<Rightarrow> 'w HTTPAdapter \<Rightarrow> httpRequest \<Rightarrow> ('w, int) go" where
  "http_ServeHTTP lib a r =
     (if rqPath r = ''/healthz'' then ret StatusOK
      else if rqPath r = ''/readyz'' then ret (if htIsStarted a then StatusOK else StatusServiceUnavailable)
      else case htSupportedPaths a of
        None \<Rightarrow> ret StatusInternalServerError
      | Some supportedPaths \<Rightarrow>
     let pathSlices = strings_Split (strings_ToLower (rqPath r)) CHR ''/'' in
     if length pathSlices \<noteq> 6 then ret StatusBadRequest
     else if pathSlices ! 0 \<noteq> [] \<or> pathSlices ! 1 \<noteq> ''apis'' \<or> pathSlices ! 2 \<noteq> ''v1''
       \<or> pathSlices ! 3 = [] \<or> pathSlices ! 4 = [] \<or> pathSlices ! 5 = [] then ret StatusBadRequest
     else
       let pathSlices = drop 3 pathSlices; strategy = requestStrategy (rqMethod r) in
       if supportedPaths strategy = None then ret StatusMethodNotAllowed
       else if sub supportedPaths strategy (pathSlices ! 0) = None then ret StatusNotFound
       else if sub (sub supportedPaths strategy) (pathSlices ! 0) (pathSlices ! 1) = None then ret StatusNotFound
       else if sub (sub (sub supportedPaths strategy) (pathSlices ! 0)) (pathSlices ! 1) (pathSlices ! 2) = None
       then ret StatusNotFound
       else serveObject lib a r strategy pathSlices)"

text \<open>What the server runs: the mux in front, and the context the request gets from \<open>BaseContext\<close>.\<close>

definition http_serve :: "'o kubelib \<Rightarrow> 'w HTTPAdapter \<Rightarrow> httpRequest \<Rightarrow> ('w, int) go" where
  "http_serve lib a r =
     (if rqPath r = ''/healthz'' then ret StatusOK
      else http_ServeHTTP lib a (r\<lparr>rqContext := (case htBaseContext a of None \<Rightarrow> [] | Some ctx \<Rightarrow> ctx)\<rparr>))"

section \<open>The endpoint as an adapter\<close>

definition noop :: "('w, goerror option) go" where
  "noop = ret None"

definition httpAdapter :: "httpEnv \<Rightarrow> ('w HTTPAdapter, 'w) Adapter" where
  "httpAdapter env = \<lparr>
     adStart = (\<lambda>cbs ctx. http_Start env ctx),
     adStop = (\<lambda>cbs ctx. http_Stop env ctx),
     adDeleteObject = (\<lambda>cbs ctx oid. noop),
     adGetObject = (\<lambda>cbs ctx oid baseObject. noop),
     adPatchObject = (\<lambda>cbs ctx oid checksum patch. noop),
     adPutObject = (\<lambda>cbs ctx oid checksum object. noop),
     adVerifyObject = (\<lambda>cbs ctx oid checksum. noop),
     adBatch = (\<lambda>cbs ctx kind batchType items. noop)\<rparr>"

interpretation http_endpoint: sync_adapter "httpAdapter env"
  by unfold_locales (simp_all add: httpAdapter_def noop_def keeps_ret preorderp_snd_rel)

interpretation http_end: sync_adapters "[httpAdapter env]"
  by (rule sync_adapters.intro) (simp add: http_endpoint.sync_adapter_axioms)

section \<open>Nested maps and the list they are built from\<close>

lemma sub_upd [simp]: "sub (m(k \<mapsto> x)) k' = (if k' = k then x else sub m k')"
  by (simp add: sub_def)

lemma sub_ensure [simp]: "sub (ensure k m) k' = sub m k'"
  by (simp add: sub_def ensure_def)

lemma sub_empty [simp]: "sub Map.empty k = Map.empty"
  by (simp add: sub_def)

lemma sub_None: "m k = None \<Longrightarrow> sub m k = Map.empty"
  by (simp add: sub_def)

lemma ensure_None [simp]: "ensure k m k' = None \<longleftrightarrow> m k' = None \<and> k' \<noteq> k"
  by (simp add: ensure_def)

text \<open>The leaf at the end of a path; a path that breaks off has none.\<close>

definition leaf :: "pathTree \<Rightarrow> string \<Rightarrow> string \<Rightarrow> string \<Rightarrow> string \<Rightarrow> bool option" where
  "leaf paths s g v k = sub (sub (sub paths s) g) v k"

lemma leaf_addPath:
  "leaf (addPath paths res) s g v k =
     (if s = strings_ToLower (rsStrategy res) \<and> g = rsGroup res \<and> v = rsVersion res \<and> k = rsResource res
      then Some True else leaf paths s g v k)"
  by (simp add: leaf_def addPath_def Let_def)

lemma addPath_None:
  "addPath paths res s = None \<longleftrightarrow> paths s = None \<and> s \<noteq> strings_ToLower (rsStrategy res)"
  by (simp add: addPath_def Let_def)

text \<open>A resource of the configuration answers to this strategy, group, version and resource.\<close>

definition configured :: "Resource list \<Rightarrow> string \<Rightarrow> string \<Rightarrow> string \<Rightarrow> string \<Rightarrow> bool" where
  "configured resources s g v k \<longleftrightarrow>
     list_ex (\<lambda>res. strings_ToLower (rsStrategy res) = s \<and> rsGroup res = g \<and> rsVersion res = v \<and> rsResource res = k)
       resources"

definition configuredStrategy :: "Resource list \<Rightarrow> string \<Rightarrow> bool" where
  "configuredStrategy resources s \<longleftrightarrow> list_ex (\<lambda>res. strings_ToLower (rsStrategy res) = s) resources"

lemma foldl_addPath:
  "(foldl addPath paths rs s = None) \<longleftrightarrow> paths s = None \<and> \<not> configuredStrategy rs s"
  "(leaf (foldl addPath paths rs) s g v k = None) \<longleftrightarrow> leaf paths s g v k = None \<and> \<not> configured rs s g v k"
  by (induction rs arbitrary: paths)
    (auto simp: configuredStrategy_def configured_def addPath_None leaf_addPath)

lemma buildPaths_None:
  "buildPaths rs s = None \<longleftrightarrow> \<not> configuredStrategy rs s"
  "leaf (buildPaths rs) s g v k = None \<longleftrightarrow> \<not> configured rs s g v k"
proof -
  show "buildPaths rs s = None \<longleftrightarrow> \<not> configuredStrategy rs s"
    by (simp add: buildPaths_def foldl_addPath(1))
  have "leaf Map.empty s g v k = None" by (simp add: leaf_def)
  then show "leaf (buildPaths rs) s g v k = None \<longleftrightarrow> \<not> configured rs s g v k"
    by (simp add: buildPaths_def foldl_addPath(2))
qed

text \<open>A path breaks off before its end only if it has no leaf.\<close>

lemma leaf_cascade:
  "sub paths s g = None \<Longrightarrow> leaf paths s g v k = None"
  "sub (sub paths s) g v = None \<Longrightarrow> leaf paths s g v k = None"
  by (simp_all add: leaf_def sub_None)

section \<open>The reference: routing by the list of resources\<close>

text \<open>What a path asks for.\<close>

definition requestTarget :: "string \<Rightarrow> (string \<times> string \<times> string) option" where
  "requestTarget path =
     (case strings_Split (strings_ToLower path) CHR ''/'' of
        [a, b, c, g, v, k] \<Rightarrow>
          if a = [] \<and> b = ''apis'' \<and> c = ''v1'' \<and> g \<noteq> [] \<and> v \<noteq> [] \<and> k \<noteq> [] then Some (g, v, k) else None
      | _ \<Rightarrow> None)"

definition routeSpec :: "Resource list \<Rightarrow> string \<Rightarrow> string \<Rightarrow> int + (Strategy \<times> string \<times> string \<times> string)" where
  "routeSpec resources method path =
     (case requestTarget path of
        None \<Rightarrow> Inl StatusBadRequest
      | Some (g, v, k) \<Rightarrow>
          let s = requestStrategy method in
          if \<not> configuredStrategy resources s then Inl StatusMethodNotAllowed
          else if \<not> configured resources s g v k then Inl StatusNotFound
          else Inr (s, g, v, k))"

lemma length_6: "length xs = 6 \<longleftrightarrow> (\<exists>a b c d e f. xs = [a, b, c, d, e, f])"
  by (auto simp: eval_nat_numeral length_Suc_conv)

lemma requestTarget_Some:
  "requestTarget path = Some (g, v, k) \<longleftrightarrow>
     strings_ToLower path = ''/apis/v1/'' @ g @ ''/'' @ v @ ''/'' @ k
     \<and> slash_free g \<and> slash_free v \<and> slash_free k \<and> g \<noteq> [] \<and> v \<noteq> [] \<and> k \<noteq> []"
proof
  assume "requestTarget path = Some (g, v, k)"
  then have parts: "strings_Split (strings_ToLower path) CHR ''/'' = [[], ''apis'', ''v1'', g, v, k]"
    and "g \<noteq> []" "v \<noteq> []" "k \<noteq> []"
    by (auto simp: requestTarget_def split: list.splits if_splits)
  moreover have "slash_free p" if "p \<in> {g, v, k}" for p
    using that strings_Split_parts [of p "strings_ToLower path" "CHR ''/''"] parts by (auto simp: slash_free_def)
  ultimately show "strings_ToLower path = ''/apis/v1/'' @ g @ ''/'' @ v @ ''/'' @ k
     \<and> slash_free g \<and> slash_free v \<and> slash_free k \<and> g \<noteq> [] \<and> v \<noteq> [] \<and> k \<noteq> []"
    using strings_Join_Split [of "strings_ToLower path" "CHR ''/''"] by simp
next
  assume "strings_ToLower path = ''/apis/v1/'' @ g @ ''/'' @ v @ ''/'' @ k
     \<and> slash_free g \<and> slash_free v \<and> slash_free k \<and> g \<noteq> [] \<and> v \<noteq> [] \<and> k \<noteq> []"
  then show "requestTarget path = Some (g, v, k)"
    using strings_Split_Join [of "[[], ''apis'', ''v1'', g, v, k]" "CHR ''/''"]
    by (simp add: requestTarget_def slash_free_def)
qed

text \<open>The cascade of lookups gives the verdict of the list.\<close>

lemma ServeHTTP_routes:
  assumes "rqPath r \<noteq> ''/healthz''" and "rqPath r \<noteq> ''/readyz''"
    and "htSupportedPaths a = Some (buildPaths resources)"
  shows "http_ServeHTTP lib a r =
     (case routeSpec resources (rqMethod r) (rqPath r) of
        Inl status \<Rightarrow> ret status
      | Inr (s, g, v, k) \<Rightarrow> serveObject lib a r s [g, v, k])"
proof (cases "length (strings_Split (strings_ToLower (rqPath r)) CHR ''/'') = 6")
  case False
  then show ?thesis using assms
    by (auto simp: http_ServeHTTP_def routeSpec_def requestTarget_def Let_def split: list.splits)
next
  case True
  then obtain p q t g v k where parts: "strings_Split (strings_ToLower (rqPath r)) CHR ''/'' = [p, q, t, g, v, k]"
    unfolding length_6 by blast
  let ?s = "requestStrategy (rqMethod r)" and ?paths = "buildPaths resources"
  have missing: "sub ?paths ?s g = None \<Longrightarrow> \<not> configured resources ?s g v k"
    "sub (sub ?paths ?s) g v = None \<Longrightarrow> \<not> configured resources ?s g v k"
    "sub (sub (sub ?paths ?s) g) v k = None \<longleftrightarrow> \<not> configured resources ?s g v k"
    using leaf_cascade buildPaths_None(2) by (metis, metis, simp add: buildPaths_None(2) [symmetric] leaf_def)
  show ?thesis
    unfolding http_ServeHTTP_def routeSpec_def requestTarget_def
    using assms missing by (auto simp: parts buildPaths_None(1) Let_def)
qed

section \<open>What the callbacks get\<close>

lemma strings_Split_chars: "p \<in> set (strings_Split s c) \<Longrightarrow> set p \<subseteq> set s"
  by (induction s arbitrary: p) (fastforce split: list.splits if_splits)+

lemma strings_ToLower_fixed: "strings_ToLower p = p \<longleftrightarrow> (\<forall>c \<in> set p. char_lower c = c)"
  by (induction p) (auto simp: strings_ToLower_def)

lemma strings_Split_lower:
  assumes "p \<in> set (strings_Split (strings_ToLower s) c)"
  shows "strings_ToLower p = p"
proof -
  have "\<forall>x \<in> set (strings_ToLower s). char_lower x = x" by (auto simp: strings_ToLower_def)
  then show ?thesis using strings_Split_chars [OF assms] by (auto simp: strings_ToLower_fixed)
qed

lemma requestTarget_parts:
  assumes "requestTarget path = Some (g, v, k)"
  shows "strings_ToLower g = g" "strings_ToLower v = v" "strings_ToLower k = k"
    "slash_free g" "slash_free v" "slash_free k" "g \<noteq> []" "v \<noteq> []" "k \<noteq> []"
proof -
  have parts: "strings_Split (strings_ToLower path) CHR ''/'' = [[], ''apis'', ''v1'', g, v, k]"
    using assms by (auto simp: requestTarget_def split: list.splits if_splits)
  show "strings_ToLower g = g" "strings_ToLower v = v" "strings_ToLower k = k"
    by (rule strings_Split_lower [of _ path "CHR ''/''"], simp add: parts)+
  show "slash_free g" "slash_free v" "slash_free k" "g \<noteq> []" "v \<noteq> []" "k \<noteq> []"
    using assms by (simp_all add: requestTarget_Some)
qed

lemma FromUnstructured_Some:
  "\<exists>g v. FromUnstructured lib (Some u) =
     \<lparr>knKind = Some \<lparr>kGroup = g, kVersion = v, kResource = strings_ToLower (klGetKind lib u), kAdditionalProperties = None\<rparr>,
      knName = strings_ToLower (klGetName lib u), knNamespace = strings_ToLower (klGetNamespace lib u),
      knResourceVersion = ToResourceVersion (klGetResourceVersion lib u)\<rparr>"
  by (simp add: FromUnstructured_def Let_def)

text \<open>The call a request for a supported path makes, if its strategy is known.\<close>

definition endpointCall :: "'o kubelib \<Rightarrow> Strategy \<Rightarrow> string \<Rightarrow> 'o \<Rightarrow> syncCall option" where
  "endpointCall lib strategy body obj =
     (let kindName = FromUnstructured lib (Some obj);
          checksum = (case klAnnotations lib obj (klSyncChecksumMetadataKey lib) of None \<Rightarrow> [] | Some c \<Rightarrow> c) in
      if strategy = PatchStrategy then Some (CallPatch kindName checksum body)
      else if strategy = CopyStrategy then Some (CallPut kindName checksum body)
      else None)"

definition matchesPath :: "'o kubelib \<Rightarrow> 'o \<Rightarrow> string \<Rightarrow> string \<Rightarrow> string \<Rightarrow> bool" where
  "matchesPath lib obj g v k \<longleftrightarrow> knKind (FromUnstructured lib (Some obj)) =
     Some \<lparr>kGroup = g, kVersion = v, kResource = k, kAdditionalProperties = None\<rparr>"

lemma derefKind_FromUnstructured [simp]:
  "derefKind (knKind (FromUnstructured lib (Some obj))) = ret (the (knKind (FromUnstructured lib (Some obj))))"
  using FromUnstructured_Some [of lib obj] by (auto simp: derefKind_def)

lemma matchesPath_iff:
  "matchesPath lib obj g v k \<longleftrightarrow> (let kind = the (knKind (FromUnstructured lib (Some obj))) in
     kGroup kind = g \<and> kVersion kind = v \<and> kResource kind = k)"
  using FromUnstructured_Some [of lib obj] by (auto simp: matchesPath_def Let_def)

lemma serveObject_cases:
  "serveObject lib a r s [g, v, k] =
     (case rqBody r of
        None \<Rightarrow> ret StatusBadRequest
      | Some (Inl e) \<Rightarrow> ret StatusInternalServerError
      | Some (Inr body) \<Rightarrow> (case klUnmarshalJSON lib body of
            Inl e \<Rightarrow> ret StatusInternalServerError
          | Inr obj \<Rightarrow>
              if \<not> matchesPath lib obj g v k then ret StatusBadRequest
              else (case endpointCall lib s body obj of
                      None \<Rightarrow> ret StatusAccepted
                    | Some c \<Rightarrow> andThen (callBack (htCallbacks a) (rqContext r) c)
                        (\<lambda>err. ret (if err \<noteq> None then StatusInternalServerError else StatusAccepted)))))"
proof (cases "rqBody r")
  case (Some b)
  then show ?thesis
  proof (cases b)
    case (Inr body)
    then show ?thesis using Some
      by (cases "klUnmarshalJSON lib body")
        (auto simp: serveObject_def endpointCall_def matchesPath_iff Let_def)
  qed (simp add: serveObject_def)
qed (simp add: serveObject_def)

end
