(* ===== verification/Retry.thy ===== *)
theory Retry
  imports Go_Prelude
begin

text \<open>
  Retrying with \<open>backoff.RetryNotify\<close>, which the synchronizer uses for every network operation. The
  library is an argument of the code that uses it; this theory states what it documents: the
  operation is run again after a transient error, a success or a permanent error ends it, and unless
  it was built to never stop (\<open>utils.NewBackOff(true)\<close>, which sets the maximal time to zero) it may
  also give up with the last transient error.
\<close>

text \<open>What one run of the operation returns: \<open>nil\<close>, a \<open>backoff.Permanent\<close> error, another error.\<close>

datatype 'a attempt = Done 'a | Permanent goerror | Transient goerror

type_synonym ('w, 'a) operation = "('w, 'a attempt) go"

type_synonym ('w, 'a) retryer = "('w, 'a) operation \<Rightarrow> ('w, goerror + 'a) go"

text \<open>\<open>tries op w r w'\<close>: running \<open>op\<close> once or more, every run but the last ending in a transient
  error, ends with the outcome \<open>r\<close> of the last run.\<close>

inductive tries :: "('w, 'a) operation \<Rightarrow> 'w \<Rightarrow> 'a attempt outcome \<Rightarrow> 'w \<Rightarrow> bool" for op where
  once: "op w = (r, w') \<Longrightarrow> tries op w r w'"
| again: "op w = (Ret (Transient e), v) \<Longrightarrow> tries op v r w' \<Longrightarrow> tries op w r w'"

fun settled :: "'a attempt outcome \<Rightarrow> bool" where
  "settled (Ret (Transient e)) = False"
| "settled _ = True"

fun verdict :: "'a attempt outcome \<Rightarrow> (goerror + 'a) outcome" where
  "verdict (Ret (Done a)) = Ret (Inr a)"
| "verdict (Ret (Permanent e)) = Ret (Inl e)"
| "verdict (Ret (Transient e)) = Ret (Inl e)"
| "verdict (Panic p) = Panic p"

text \<open>A retryer that never stops returns when a run settles the matter.\<close>

definition retries_forever :: "('w, 'a) retryer \<Rightarrow> bool" where
  "retries_forever retry \<longleftrightarrow>
     (\<forall>op w r w'. tries op w r w' \<longrightarrow> settled r \<longrightarrow> retry op w = (verdict r, w'))"

text \<open>One that may stop returns, after some number of runs, what the last of them gave.\<close>

definition retries_while :: "('w, 'a) retryer \<Rightarrow> bool" where
  "retries_while retry \<longleftrightarrow> (\<forall>op w. \<exists>r w'. tries op w r w' \<and> retry op w = (verdict r, w'))"

lemma retries_foreverD:
  "retries_forever retry \<Longrightarrow> tries op w r w' \<Longrightarrow> settled r \<Longrightarrow> retry op w = (verdict r, w')"
  unfolding retries_forever_def by blast

text \<open>The first run settles the matter, or it is as if it had not been.\<close>

lemma retry_settled:
  assumes "retries_forever retry" and "settled (fst (op w))"
  shows "retry op w = (verdict (fst (op w)), snd (op w))"
  by (rule retries_foreverD [OF assms(1) _ assms(2)]) (rule tries.once, simp)

lemma retry_transient:
  assumes "retries_forever retry" and "op w = (Ret (Transient e), v)" and "tries op v r w'" and "settled r"
  shows "retry op w = retry op v"
proof -
  have "tries op w r w'" by (rule tries.again) (rule assms(2,3))+
  then show ?thesis using assms by (simp add: retries_foreverD)
qed

lemma retries_whileE:
  assumes "retries_while retry"
  obtains r w' where "tries op w r w'" and "retry op w = (verdict r, w')"
  using assms unfolding retries_while_def by blast

text \<open>A fact every run establishes holds of the last one.\<close>

lemma tries_last:
  assumes "tries op w r w'"
  shows "\<exists>v. op v = (r, w')"
  using assms by induction auto

lemma tries_invariant:
  assumes "tries op w r w'" and "I w" and "\<And>w r w'. I w \<Longrightarrow> op w = (r, w') \<Longrightarrow> I w'"
  shows "I w'"
  using assms by induction blast+

section \<open>Retryers that keep these promises\<close>

text \<open>Giving up after one run, and not giving up at all.\<close>

definition retryOnce :: "('w, 'a) retryer" where
  "retryOnce op w = (case op w of (r, w') \<Rightarrow> (verdict r, w'))"

partial_function (option) retryLoop :: "('w, 'a) operation \<Rightarrow> 'w \<Rightarrow> ((goerror + 'a) outcome \<times> 'w) option" where
  "retryLoop op w =
     (let x = op w in if settled (fst x) then Some (verdict (fst x), snd x) else retryLoop op (snd x))"

definition retryAlways :: "('w, 'a) retryer" where
  "retryAlways op w = (case retryLoop op w of Some x \<Rightarrow> x | None \<Rightarrow> (Panic ''still retrying'', w))"

lemma retryOnce_while: "retries_while retryOnce"
  unfolding retries_while_def retryOnce_def by (auto split: prod.splits intro: tries.once)

lemma retryLoop_settles: "tries op w r w' \<Longrightarrow> settled r \<Longrightarrow> retryLoop op w = Some (verdict r, w')"
  by (induction rule: tries.induct) (subst retryLoop.simps, simp)+

lemma retryAlways_forever: "retries_forever retryAlways"
  by (auto simp: retries_forever_def retryAlways_def retryLoop_settles)

end
