(* ===== verification/Diagnostics.thy ===== *)
theory Diagnostics
  imports Sync_Utils
begin

text \<open>
  The parts of \<open>utils/utils.go\<close> that let the processes be observed and the tests compare documents:
  the profiling and liveness servers as what they serve and where, the comparison of JSON documents with
  the text it prints, reading of files, and the back-off the processes retry with. Reading a file, the
  decoder, the comparison of values and the printing of differences are libraries and appear as arguments.
\<close>

section \<open>Servers beside the main one\<close>

datatype observer = ServeMetrics string | ServeProfiles string "string list" | ServeHealth string string

definition pprofPaths :: "string list" where
  "pprofPaths = [''/debug/pprof/'', ''/debug/pprof/cmdline'', ''/debug/pprof/profile'', ''/debug/pprof/symbol'',
     ''/debug/pprof/goroutine'', ''/debug/pprof/heap'', ''/debug/pprof/allocs'', ''/debug/pprof/threadcreate'',
     ''/debug/pprof/block'', ''/debug/pprof/mutex'']"

text \<open>\<open>profiler\<close>: the environment variable is set; \<open>debugLevel\<close> is the name of the logger's debug level.\<close>

definition ServePprof :: "string \<Rightarrow> bool \<Rightarrow> string \<Rightarrow> observer list" where
  "ServePprof debugLevel profiler level =
     (if profiler \<or> level = debugLevel then [ServeProfiles '':6060'' pprofPaths] else [])"

definition StartLivenessProbe :: "observer list" where
  "StartLivenessProbe = [ServeHealth '':7888'' ''/healthz'']"

section \<open>Retrying\<close>

text \<open>The library's exponential back-off gives up after \<open>boMaxElapsedTime\<close>, unless that is zero.\<close>

record backOff =
  boMaxElapsedTime :: int

definition NewBackOff :: "backOff \<Rightarrow> bool \<Rightarrow> backOff" where
  "NewBackOff exponential neverStop = (if neverStop then exponential\<lparr>boMaxElapsedTime := 0\<rparr> else exponential)"

definition gives_up :: "backOff \<Rightarrow> int \<Rightarrow> bool" where
  "gives_up b elapsed \<longleftrightarrow> boMaxElapsedTime b \<noteq> 0 \<and> elapsed > boMaxElapsedTime b"

lemma NewBackOff_never: "\<not> gives_up (NewBackOff b True) elapsed"
  by (simp add: gives_up_def NewBackOff_def)

section \<open>Comparing documents\<close>

text \<open>Types of decoded documents; \<open>reflect.TypeOf\<close> of nil has none. Pointers do not occur in them.\<close>

datatype reflectKind = KBool | KFloat64 | KString | KSlice | KMap

fun typeAndKind :: "json \<Rightarrow> reflectKind outcome" where
  "typeAndKind JNull = Panic ''nil pointer dereference''"
| "typeAndKind (JBool _) = Ret KBool"
| "typeAndKind (JInt _) = Ret KFloat64"
| "typeAndKind (JFloat _) = Ret KFloat64"
| "typeAndKind (JStr _) = Ret KString"
| "typeAndKind (JArr _) = Ret KSlice"
| "typeAndKind (JObj _) = Ret KMap"

record diffLib =
  dlSdump :: "json \<Rightarrow> string"
  dlUnified :: "string \<Rightarrow> string \<Rightarrow> string"

fun dumped :: "diffLib \<Rightarrow> json \<Rightarrow> string" where
  "dumped dl (JStr s) = s"
| "dumped dl v = dlSdump dl v"

definition diff :: "diffLib \<Rightarrow> json \<Rightarrow> json \<Rightarrow> string outcome" where
  "diff dl expected actual =
     (if expected = JNull \<or> actual = JNull then Ret []
      else case (typeAndKind expected, typeAndKind actual) of
        (Ret ek, Ret ak) \<Rightarrow>
          if ek \<noteq> ak then Ret []
          else if ek \<noteq> KMap \<and> ek \<noteq> KSlice \<and> ek \<noteq> KString then Ret []
          else Ret ([CHR 0x0A, CHR 0x0A] @ ''Diff:'' @ [CHR 0x0A] @ dlUnified dl (dumped dl expected) (dumped dl actual))
      | (Panic p, _) \<Rightarrow> Panic p
      | (_, Panic p) \<Rightarrow> Panic p)"

text \<open>The result, and what is printed.\<close>

definition CompareJson :: "(string \<Rightarrow> goerror + json) \<Rightarrow> (json \<Rightarrow> json \<Rightarrow> bool) \<Rightarrow> diffLib \<Rightarrow> string \<Rightarrow> string \<Rightarrow>
    (bool \<times> string) outcome" where
  "CompareJson decodeAny objectsAreEqual dl a b =
     (case decodeAny a of
        Inl e \<Rightarrow> Ret (False, [])
      | Inr aData \<Rightarrow>
     case decodeAny b of
        Inl e \<Rightarrow> Ret (False, [])
      | Inr bData \<Rightarrow>
          if objectsAreEqual aData bData then Ret (True, [])
          else case diff dl aData bData of Panic p \<Rightarrow> Panic p | Ret text \<Rightarrow> Ret (False, text @ [CHR 0x0A]))"

lemma diff_returns: "\<exists>text. diff dl a b = Ret text"
  by (cases a; cases b) (simp_all add: diff_def)

text \<open>Comparing never panics, and says yes exactly when both are documents and equal.\<close>

lemma CompareJson_iff:
  "\<exists>r text. CompareJson decodeAny eq dl a b = Ret (r, text)
     \<and> (r \<longleftrightarrow> (\<exists>x y. decodeAny a = Inr x \<and> decodeAny b = Inr y \<and> eq x y)) \<and> (r \<longrightarrow> text = [])"
proof -
  obtain f where "diff dl x y = Ret (f x y)" for x y using diff_returns [of dl] by metis
  then show ?thesis by (simp add: CompareJson_def split: sum.split)
qed

section \<open>Files\<close>

text \<open>Errors are dropped: what was read so far is the content, an object that does not parse stays as it is.\<close>

definition FileContent :: "(string \<Rightarrow> string \<times> goerror option) \<Rightarrow> string \<Rightarrow> string" where
  "FileContent readFile path = fst (readFile path)"

definition FileToUnstructured :: "(string \<Rightarrow> string \<times> goerror option) \<Rightarrow> ('o \<Rightarrow> string \<Rightarrow> 'o \<times> goerror option) \<Rightarrow> 'o \<Rightarrow>
    string \<Rightarrow> 'o" where
  "FileToUnstructured readFile decodeAny zero path = fst (decodeAny zero (fst (readFile path)))"

end
