(* ===== verification/Client_Process.thy ===== *)
theory Client_Process
  imports Authentication Api_Server Http_Endpoint Retry Diagnostics
begin

text \<open>
  \<open>cmd/client/main.go\<close>: the client process, from its configuration to its connection, with the
  loading functions of \<open>config/config.go\<close> and the construction of the Kubernetes clients in
  \<open>utils/utils.go\<close>. Files, viper, service discovery and the Kubernetes libraries are the fields of
  \<open>clientLoaders\<close>; the environment variables are a function. \<open>logger.Fatal\<close> ends the process: it is the
  error result of the set-up. Telemetry has no part in it.
\<close>

section \<open>Loading\<close>

text \<open>The cluster data are cluster name and namespace, the credentials access key and account.\<close>

record ('k, 'd, 's) clientLoaders =
  clReadConfig :: "string list \<Rightarrow> goerror + Config"
  clClusterData :: "string \<Rightarrow> goerror + (string \<times> string)"
  clCredentials :: "string \<Rightarrow> goerror + (string \<times> string)"
  clDiscovery :: "string \<Rightarrow> goerror + string"
  clInClusterConfig :: "goerror + 'k"
  clHomeDir :: string
  clConfigFromFlags :: "string \<Rightarrow> goerror + 'k"
  clDynamic :: "'k \<Rightarrow> goerror + 'd"
  clStorage :: "'k \<Rightarrow> goerror + 's"
  clKubernetesApi :: k8sApi

text \<open>The directories in which the configuration file is looked for, in this order.\<close>

definition LoadConfig :: "('k, 'd, 's) clientLoaders \<Rightarrow> environment \<Rightarrow> string \<Rightarrow> goerror + Config" where
  "LoadConfig L env path =
     clReadConfig L ((if os_Getenv env ''CONFIG'' \<noteq> [] then [os_Getenv env ''CONFIG''] else []) @ [path])"

definition LoadClusterConfig :: "('k, 'd, 's) clientLoaders \<Rightarrow> environment \<Rightarrow> goerror + (string \<times> string)" where
  "LoadClusterConfig L env =
     clClusterData L (case env ''CLUSTER_CONFIG'' of
        None \<Rightarrow> ''/etc/config/clusterData.json'' | Some pathAndFileName \<Rightarrow> pathAndFileName)"

definition LoadServiceURLs :: "('k, 'd, 's) clientLoaders \<Rightarrow> string \<Rightarrow> goerror + string" where
  "LoadServiceURLs L apiURL = clDiscovery L apiURL"

definition getConfig :: "('k, 'd, 's) clientLoaders \<Rightarrow> goerror + 'k" where
  "getConfig L =
     (case clInClusterConfig L of
        Inr clusterConfig \<Rightarrow> Inr clusterConfig
      | Inl _ \<Rightarrow>
          if clHomeDir L \<noteq> [] then
            (case clConfigFromFlags L (clHomeDir L @ ''/.kube/config'') of
               Inr clusterConfig \<Rightarrow> Inr clusterConfig
             | Inl _ \<Rightarrow> Inl (GoError ''unable to find config''))
          else Inl (GoError ''unable to find config''))"

definition utils_NewClient :: "('k, 'd, 's) clientLoaders \<Rightarrow> goerror + ('d \<times> 's)" where
  "utils_NewClient L =
     (case getConfig L of
        Inl e \<Rightarrow> Inl (GoWrap ''failed to get cluster config'' e)
      | Inr clusterConfig \<Rightarrow>
     case clDynamic L clusterConfig of
        Inl e \<Rightarrow> Inl (GoWrap ''failed to create dynamic client'' e)
      | Inr dynamicClient \<Rightarrow>
     case clStorage L clusterConfig of
        Inl e \<Rightarrow> Inl (GoWrap ''failed to create storage client'' e)
      | Inr storageClient \<Rightarrow> Inr (dynamicClient, storageClient))"

section \<open>The configuration, layer by layer\<close>

definition withClusterData :: "goerror + (string \<times> string) \<Rightarrow> Config \<Rightarrow> Config" where
  "withClusterData r cfg =
     (case r of
        Inl _ \<Rightarrow> cfg
      | Inr (clusterName, namespace) \<Rightarrow>
          cfg\<lparr>cfInCluster := (cfInCluster cfg)\<lparr>cfgClusterName := clusterName, cfgNamespace := namespace\<rparr>\<rparr>)"

definition withCredentialsFrom :: "goerror + (string \<times> string) \<Rightarrow> Config \<Rightarrow> Config" where
  "withCredentialsFrom r cfg =
     (case r of
        Inl _ \<Rightarrow> cfg
      | Inr (accessKey, account) \<Rightarrow>
          cfg\<lparr>cfInCluster := (cfInCluster cfg)\<lparr>cfgAccessKey := accessKey, cfgAccount := account\<rparr>\<rparr>)"

definition withServerUrl :: "goerror + string \<Rightarrow> Config \<Rightarrow> Config" where
  "withServerUrl r cfg =
     (case r of
        Inl _ \<Rightarrow> cfg
      | Inr serverUrl \<Rightarrow>
          if serverUrl \<noteq> [] then cfg\<lparr>cfInCluster := (cfInCluster cfg)\<lparr>cfgServerUrl := serverUrl\<rparr>\<rparr> else cfg)"

definition updateClusterName :: "environment \<Rightarrow> Config \<Rightarrow> Config" where
  "updateClusterName env cfg =
     (case env ''CLUSTER_NAME'' of
        None \<Rightarrow> cfg
      | Some clusterName \<Rightarrow>
          if clusterName \<noteq> [] then cfg\<lparr>cfInCluster := (cfInCluster cfg)\<lparr>cfgClusterName := clusterName\<rparr>\<rparr> else cfg)"

definition apiURL :: "environment \<Rightarrow> string" where
  "apiURL env = (if os_Getenv env ''API_URL'' = [] then ''api.armosec.io'' else os_Getenv env ''API_URL'')"

definition clientConfig :: "('k, 'd, 's) clientLoaders \<Rightarrow> environment \<Rightarrow> goerror + Config" where
  "clientConfig L env =
     (case LoadConfig L env ''/etc/config'' of
        Inl e \<Rightarrow> Inl (GoWrap ''load config error'' e)
      | Inr cfg \<Rightarrow>
          let cfg = withClusterData (LoadClusterConfig L env) cfg;
              cfg = withCredentialsFrom (clCredentials L ''/etc/credentials'') cfg;
              cfg = withServerUrl (LoadServiceURLs L (apiURL env)) cfg
          in Inr (updateClusterName env cfg))"

section \<open>Adapters\<close>

datatype clientAdapter = InClusterAdapter InClusterConfig | HTTPEndpointAdapter Config

text \<open>The adapters to start, and the client of the API server, which comes with the in-cluster one.\<close>

definition clientAdapters :: "('k, 'd, 's) clientLoaders \<Rightarrow> Config \<Rightarrow> goerror + (clientAdapter list \<times> k8sApi option)" where
  "clientAdapters L cfg =
     (let http = (if HTTPEndpoint_ValidateConfig (cfHTTPEndpoint cfg) = None then [HTTPEndpointAdapter cfg] else []) in
      if InCluster_ValidateConfig (cfInCluster cfg) = None then
        (case utils_NewClient L of
           Inl e \<Rightarrow> Inl (GoWrap ''unable to create k8s client'' e)
         | Inr _ \<Rightarrow> Inr (InClusterAdapter (cfInCluster cfg) # http, Some (clKubernetesApi L)))
      else if http = [] then Inl (GoError ''no valid adapter found'')
      else Inr (http, None))"

section \<open>Context and headers\<close>

definition clientContext :: "Config \<Rightarrow> Context" where
  "clientContext cfg = WithValue [] ContextKeyClientIdentifier
     (CtxClient (zero_ClientIdentifier\<lparr>ciAccount := cfgAccount (cfInCluster cfg), ciCluster := cfgClusterName (cfInCluster cfg)\<rparr>))"

definition clientHeaders :: "environment \<Rightarrow> Config \<Rightarrow> k8sApi option \<Rightarrow> Header" where
  "clientHeaders env cfg k8sApi =
     (case GetApiServerGitVersionAndCloudProvider k8sApi of (gitVersion, cloudProvider) \<Rightarrow>
      [(AccessKeyHeader, cfgAccessKey (cfInCluster cfg)),
       (AccountHeader, cfgAccount (cfInCluster cfg)),
       (ClusterNameHeader, cfgClusterName (cfInCluster cfg)),
       (HelmVersionHeader, os_Getenv env ''HELM_RELEASE''),
       (VersionHeader, os_Getenv env ''RELEASE''),
       (GitVersionHeader, gitVersion),
       (CloudProviderHeader, cloudProvider),
       (ClusterUIDHeader, GetClusterUID k8sApi),
       (ResourceGroupHeader, GetResourceGroup k8sApi)])"

section \<open>Connecting\<close>

text \<open>An error of the websocket dialer, with the status if it is a \<open>ws.StatusError\<close>.\<close>

datatype dialError = DialError (dialStatus: "int option") (dialCause: goerror)

definition dialAttempt :: "string \<Rightarrow> ('w, dialError + 'c) go \<Rightarrow> ('w, 'c) operation" where
  "dialAttempt version dial =
     andThen dial (\<lambda>r.
     case r of
       Inr conn \<Rightarrow> ret (Done conn)
     | Inl e \<Rightarrow>
         if dialStatus e = Some 424
         then ret (Permanent (GoError (''server rejected our client version <'' @ version @ ''>, please update'')))
         else if dialStatus e = Some 401 then ret (Permanent (GoError ''server rejected our credentials''))
         else ret (Transient (dialCause e)))"

definition newConn :: "('w, 'c) retryer \<Rightarrow> string \<Rightarrow> ('w, dialError + 'c) go \<Rightarrow> ('w, goerror + 'c) go" where
  "newConn retry version dial =
     andThen (retry (dialAttempt version dial)) (\<lambda>r.
     case r of
       Inl e \<Rightarrow> ret (Inl (GoWrap ''unable to create websocket connection'' e))
     | Inr conn \<Rightarrow> ret (Inr conn))"

text \<open>
  The whole of \<open>main\<close>, with what ends it: \<open>logger.Fatal\<close>, or the return of \<open>Start\<close>. \<open>coDial\<close> is the
  dialer with its headers and the server's URL; the synchronizer and its start are those of \<open>core\<close>, on
  the connection that was made and the way to make another one.
\<close>

record ('w, 'c, 'y) clientOps =
  coObserve :: "observer list \<Rightarrow> ('w, unit) go"
  coDial :: "Header \<Rightarrow> string \<Rightarrow> ('w, dialError + 'c) go"
  coNewSynchronizer :: "Context \<Rightarrow> clientAdapter list \<Rightarrow> 'c \<Rightarrow> ('w, goerror + 'c) go \<Rightarrow> ('w, goerror + 'y) go"
  coStart :: "'y \<Rightarrow> Context \<Rightarrow> ('w, goerror option) go"
  coDebugLevel :: string
  coLevel :: string

definition clientMain :: "('k, 'd, 's) clientLoaders \<Rightarrow> environment \<Rightarrow> ('w, 'c) retryer \<Rightarrow> ('w, 'c, 'y) clientOps \<Rightarrow>
    ('w, goerror option) go" where
  "clientMain L env retry ops =
     (case clientConfig L env of
        Inl e \<Rightarrow> ret (Some e)
      | Inr cfg \<Rightarrow>
     case clientAdapters L cfg of
        Inl e \<Rightarrow> ret (Some e)
      | Inr (adpts, k8sApi) \<Rightarrow>
     let ctx = clientContext cfg; headers = clientHeaders env cfg k8sApi;
         connect = newConn retry (os_Getenv env ''RELEASE'') (coDial ops headers (cfgServerUrl (cfInCluster cfg))) in
     andThen (coObserve ops (ServePprof (coDebugLevel ops) (env ''ENABLE_PROFILER'' \<noteq> None) (coLevel ops) @ StartLivenessProbe)) (\<lambda>_.
     andThen connect (\<lambda>r.
     case r of
       Inl e \<Rightarrow> ret (Some (GoWrap ''failed to connect'' e))
     | Inr conn \<Rightarrow>
     andThen (coNewSynchronizer ops ctx adpts conn connect) (\<lambda>r.
     case r of
       Inl e \<Rightarrow> ret (Some (GoWrap ''failed to create synchronizer'' e))
     | Inr synchronizer \<Rightarrow>
     andThen (coStart ops synchronizer ctx) (\<lambda>err.
     ret (map_option (GoWrap ''error during sync, exiting'') err))))))"

text \<open>Without a valid configuration and adapter nothing is done at all.\<close>

lemma clientMain_invalid:
  assumes "clientConfig L env = Inl e \<or> (\<exists>cfg. clientConfig L env = Inr cfg \<and> clientAdapters L cfg = Inl e)"
  shows "clientMain L env retry ops w = (Ret (Some e), w)"
  using assms by (auto simp: clientMain_def)

end
