(* ===== verification/Go_Base64.thy ===== *)
theory Go_Base64
  imports Domain_Messages
begin

text \<open>
  \<open>encoding/json\<close> writes a \<open>[]byte\<close> as a base64 string (standard alphabet, padded) and reads it
  back the same way; nil is written as \<open>null\<close>. Here a byte slice is a \<open>string\<close> and nil and empty
  are the same, both written as \<open>null\<close>, which reads back as empty.
\<close>

definition b64_alphabet :: string where
  "b64_alphabet = ''ABCDEFGHIJKLMNOPQRSTUVWXYZabcdefghijklmnopqrstuvwxyz0123456789+/''"

definition b64_char :: "nat \<Rightarrow> char" where
  "b64_char n = b64_alphabet ! n"

fun index_of :: "char \<Rightarrow> string \<Rightarrow> nat option" where
  "index_of ch [] = None"
| "index_of ch (x # xs) = (if x = ch then Some 0 else map_option Suc (index_of ch xs))"

definition b64_value :: "char \<Rightarrow> nat option" where
  "b64_value ch = index_of ch b64_alphabet"

definition padding :: char where "padding = CHR ''=''"

definition sextets :: "nat \<Rightarrow> nat list" where
  "sextets n = [n div 262144, n div 4096 mod 64, n div 64 mod 64, n mod 64]"

definition byte :: "nat \<Rightarrow> char" where "byte n = char_of (n mod 256)"

fun base64_encode :: "string \<Rightarrow> string" where
  "base64_encode (a # b # c # rest) =
     map b64_char (sextets (of_char a * 65536 + of_char b * 256 + of_char c)) @ base64_encode rest"
| "base64_encode [a, b] = map b64_char (take 3 (sextets (of_char a * 65536 + of_char b * 256))) @ [padding]"
| "base64_encode [a] = map b64_char (take 2 (sextets (of_char a * 65536))) @ [padding, padding]"
| "base64_encode [] = []"

text \<open>One group of four characters; \<open>None\<close> for a character outside the alphabet.\<close>

definition b64_group :: "char \<Rightarrow> char \<Rightarrow> char \<Rightarrow> char \<Rightarrow> nat option" where
  "b64_group w x y z =
     (case (b64_value w, b64_value x, b64_value y, b64_value z) of
        (Some p, Some q, Some r, Some s) \<Rightarrow> Some (p * 262144 + q * 4096 + r * 64 + s)
      | _ \<Rightarrow> None)"

fun base64_decode :: "string \<Rightarrow> string option" where
  "base64_decode [] = Some []"
| "base64_decode [w, x, y, z] =
     (if y = padding \<and> z = padding then
        map_option (\<lambda>n. [byte (n div 65536)]) (b64_group w x (CHR ''A'') (CHR ''A''))
      else if z = padding then
        map_option (\<lambda>n. [byte (n div 65536), byte (n div 256)]) (b64_group w x y (CHR ''A''))
      else map_option (\<lambda>n. [byte (n div 65536), byte (n div 256), byte n]) (b64_group w x y z))"
| "base64_decode (w # x # y # z # rest) =
     (case b64_group w x y z of
        None \<Rightarrow> None
      | Some n \<Rightarrow> map_option (\<lambda>bs. byte (n div 65536) # byte (n div 256) # byte n # bs) (base64_decode rest))"
| "base64_decode _ = None"

section \<open>Round trip\<close>

lemma b64_table: "list_all (\<lambda>n. b64_value (b64_char n) = Some n \<and> b64_char n \<noteq> padding) [0..<64]"
  by code_simp

lemma b64_value_char [simp]: "n < 64 \<Longrightarrow> b64_value (b64_char n) = Some n"
  using b64_table by (simp add: list_all_iff)

lemma b64_char_padding [simp]: "n < 64 \<Longrightarrow> b64_char n \<noteq> padding"
  using b64_table by (simp add: list_all_iff)

lemma b64_value_A [simp]: "b64_value (CHR ''A'') = Some 0"
  by (simp add: b64_value_def b64_alphabet_def)

lemma of_char_less: "(of_char ch :: nat) < 256"
  by (metis nat_of_char_less_256)

lemma byte_of_char: "n mod 256 = of_char ch \<Longrightarrow> byte n = ch"
  by (simp add: byte_def)

text \<open>The arithmetic of a group: four sextets make up the 24-bit number, its bytes are the input.\<close>

lemma sextets_sum:
  "(n::nat) div 262144 * 262144 + n div 4096 mod 64 * 4096 + n div 64 mod 64 * 64 + n mod 64 = n"
proof -
  define a b where "a = n div 64" and "b = a div 64"
  have b: "n div 4096 = b" "n div 262144 = b div 64"
    by (simp_all add: a_def b_def div_mult2_eq [symmetric])
  have "n = a * 64 + n mod 64" "a = b * 64 + a mod 64" "b = b div 64 * 64 + b mod 64"
    by (simp_all add: a_def b_def)
  then show ?thesis unfolding b a_def [symmetric] by linarith
qed

lemma sextets_less: "(n::nat) < 16777216 \<Longrightarrow> n div 262144 < 64" "(n::nat) mod 64 < 64"
  by simp_all

lemma group_bytes:
  assumes "(a::nat) < 256" "b < 256" "c < 256"
  shows "(a * 65536 + b * 256 + c) div 65536 mod 256 = a" "(a * 65536 + b * 256 + c) div 256 mod 256 = b"
    "(a * 65536 + b * 256 + c) mod 256 = c"
proof -
  have high: "a * 65536 + b * 256 + c = a * 65536 + (b * 256 + c)" and low: "a * 65536 + b * 256 + c = (a * 256 + b) * 256 + c"
    by simp_all
  have "b * 256 + c < 65536" using assms by simp
  then show "(a * 65536 + b * 256 + c) div 65536 mod 256 = a"
    unfolding high div_mult_self3 [of 65536, simplified] using assms by (simp del: add_mult_distrib)
  have "(x * 256 + c) div 256 = x" "(x * 256 + c) mod 256 = c" for x :: nat using assms(3) by simp_all
  moreover have "(a * 256 + b) mod 256 = b" using assms(2) by simp
  ultimately show "(a * 65536 + b * 256 + c) div 256 mod 256 = b" "(a * 65536 + b * 256 + c) mod 256 = c"
    unfolding low by metis+
qed

lemma zero_sextets: "(k::nat) * 256 mod 64 = 0" "(k::nat) * 65536 mod 64 = 0" "(k::nat) * 65536 div 64 mod 64 = 0"
proof -
  have "k * 256 = k * 4 * 64" "k * 65536 = k * 1024 * 64" "k * 1024 = k * 16 * 64" by simp_all
  then show "k * 256 mod 64 = 0" "k * 65536 mod 64 = 0" "k * 65536 div 64 mod 64 = 0"
    by (metis mod_mult_self2_is_0, metis mod_mult_self2_is_0, metis mod_mult_self2_is_0 nonzero_mult_div_cancel_right zero_neq_numeral)
qed

lemma group_less: "(a::nat) < 256 \<Longrightarrow> b < 256 \<Longrightarrow> c < 256 \<Longrightarrow> a * 65536 + b * 256 + c < 16777216"
  by simp

lemma b64_group_sextets:
  assumes "n < 16777216"
  shows "b64_group (b64_char (n div 262144)) (b64_char (n div 4096 mod 64)) (b64_char (n div 64 mod 64)) (b64_char (n mod 64)) = Some n"
  using sextets_sum [of n] sextets_less(1) [OF assms] by (simp add: b64_group_def)

lemma base64_decode_Cons:
  assumes "z \<noteq> padding"
  shows "base64_decode (w # x # y # z # rest) =
     (case b64_group w x y z of
        None \<Rightarrow> None
      | Some n \<Rightarrow> map_option (\<lambda>bs. byte (n div 65536) # byte (n div 256) # byte n # bs) (base64_decode rest))"
  using assms by (cases rest) (auto split: option.splits)

lemma base64_roundtrip: "base64_decode (base64_encode s) = Some s"
proof (induction s rule: base64_encode.induct)
  case (1 a b c rest)
  let ?n = "of_char a * 65536 + of_char b * 256 + of_char c :: nat"
  have n: "?n < 16777216" by (rule group_less) (rule of_char_less)+
  note bytes = group_bytes [OF of_char_less of_char_less of_char_less, of a b c]
  have "base64_decode (base64_encode (a # b # c # rest)) =
      Some (byte (?n div 65536) # byte (?n div 256) # byte ?n # rest)"
    using 1 b64_group_sextets [OF n] by (simp add: sextets_def base64_decode_Cons)
  then show ?case
    using byte_of_char [of "?n div 65536" a] byte_of_char [of "?n div 256" b] byte_of_char [of ?n c] bytes by simp
next
  case (2 a b)
  let ?n = "of_char a * 65536 + of_char b * 256 :: nat"
  have n: "?n < 16777216" using group_less [OF of_char_less of_char_less, of 0 a b] by simp
  have "?n mod 64 = 0" using zero_sextets(1) [of "of_char a * 256 + of_char b"] by (simp add: algebra_simps)
  then have "b64_group (b64_char (?n div 262144)) (b64_char (?n div 4096 mod 64)) (b64_char (?n div 64 mod 64)) (CHR ''A'') = Some ?n"
    using sextets_sum [of ?n] sextets_less(1) [OF n] by (simp add: b64_group_def)
  then have "base64_decode (base64_encode [a, b]) = Some [byte (?n div 65536), byte (?n div 256)]"
    by (simp add: sextets_def)
  then show ?case
    using byte_of_char [of "?n div 65536" a] byte_of_char [of "?n div 256" b]
      group_bytes [OF of_char_less of_char_less, of 0 a b] by simp
next
  case (3 a)
  let ?n = "of_char a * 65536 :: nat"
  have n: "?n < 16777216" using group_less [OF of_char_less, of 0 0 a] by simp
  have "?n mod 64 = 0" "?n div 64 mod 64 = 0" by (rule zero_sextets)+
  then have "b64_group (b64_char (?n div 262144)) (b64_char (?n div 4096 mod 64)) (CHR ''A'') (CHR ''A'') = Some ?n"
    using sextets_sum [of ?n] sextets_less(1) [OF n] by (simp add: b64_group_def)
  then have "base64_decode (base64_encode [a]) = Some [byte (?n div 65536)]"
    by (simp add: sextets_def)
  then show ?case
    using byte_of_char [of "?n div 65536" a] group_bytes [OF of_char_less, of 0 0 a] by simp
qed simp

section \<open>Byte-slice fields\<close>

definition dec_bytes :: "json \<Rightarrow> string \<Rightarrow> goerror + string" where
  "dec_bytes v old =
     (case v of
        JNull \<Rightarrow> Inr []
      | JStr s \<Rightarrow> (case base64_decode s of None \<Rightarrow> Inl (GoError ''illegal base64 data'') | Some bs \<Rightarrow> Inr bs)
      | _ \<Rightarrow> Inl unmarshalTypeError)"

definition enc_bytes :: "string \<Rightarrow> json" where
  "enc_bytes bs = (if bs = [] then JNull else JStr (base64_encode bs))"

lemma dec_bytes_enc [simp]: "dec_bytes (enc_bytes bs) old = Inr bs"
  by (simp add: dec_bytes_def enc_bytes_def base64_roundtrip)

end
