(* ===== verification/Messaging_Records.thy ===== *)
theory Messaging_Records
  imports Go_Base64 Sync_Context
begin

text \<open>
  Package \<open>messaging\<close>, the structs that travel through the message queue (\<open>messaging/messages.go\<close>),
  with the JSON keys of their tags, the neutral form of a message (\<open>message.go\<close>) and the
  properties attached to it (\<open>utils.go\<close>). \<open>[]byte\<close> fields are base64 in JSON. The time stamps
  are formatted by an argument; they are only ever written.
\<close>

section \<open>Maps of slices\<close>

text \<open>A \<open>map[string][]T\<close> with its entries in some order; a repeated key replaces the entry.\<close>

fun aset :: "string \<Rightarrow> 'v \<Rightarrow> (string \<times> 'v) list \<Rightarrow> (string \<times> 'v) list" where
  "aset k v [] = [(k, v)]"
| "aset k v ((k', v') # kvs) = (if k' = k then (k, v) # kvs else (k', v') # aset k v kvs)"

fun dec_entries :: "'r field list \<Rightarrow> 'r \<Rightarrow> (string \<times> json) list \<Rightarrow> (string \<times> 'r list) list \<Rightarrow>
    goerror + (string \<times> 'r list) list" where
  "dec_entries fs zero [] m = Inr m"
| "dec_entries fs zero ((k, v) # kvs) m =
     (case dec_slice fs zero v [] of Inl e \<Rightarrow> Inl e | Inr xs \<Rightarrow> dec_entries fs zero kvs (aset k xs m))"

definition dec_mapslice :: "'r field list \<Rightarrow> 'r \<Rightarrow> json \<Rightarrow> (string \<times> 'r list) list \<Rightarrow>
    goerror + (string \<times> 'r list) list" where
  "dec_mapslice fs zero v old =
     (case v of JNull \<Rightarrow> Inr [] | JObj kvs \<Rightarrow> dec_entries fs zero kvs old | _ \<Rightarrow> Inl unmarshalTypeError)"

definition enc_mapslice :: "('r \<Rightarrow> json) \<Rightarrow> (string \<times> 'r list) list \<Rightarrow> json" where
  "enc_mapslice enc m = (if m = [] then JNull else JObj (map (\<lambda>(k, xs). (k, enc_slice enc xs)) m))"

lemma aset_fresh: "k \<notin> fst ` set m \<Longrightarrow> aset k v m = m @ [(k, v)]"
  by (induction m) auto

lemma dec_entries_enc:
  assumes "\<And>k xs r. (k, xs) \<in> set m \<Longrightarrow> r \<in> set xs \<Longrightarrow> dec_struct fs (enc r) zero = Inr r"
    and "distinct (map fst (acc @ m))"
  shows "dec_entries fs zero (map (\<lambda>(k, xs). (k, enc_slice enc xs)) m) acc = Inr (acc @ m)"
  using assms
proof (induction m arbitrary: acc)
  case (Cons kx m)
  obtain k xs where kx: "kx = (k, xs)" by (cases kx)
  have "dec_slice fs zero (enc_slice enc xs) [] = Inr xs"
    by (rule dec_slice_enc) (use Cons.prems(1) kx in auto)
  moreover have "aset k xs acc = acc @ [(k, xs)]"
    by (rule aset_fresh) (use Cons.prems(2) kx in auto)
  moreover have "dec_entries fs zero (map (\<lambda>(k, xs). (k, enc_slice enc xs)) m) (acc @ [(k, xs)]) = Inr ((acc @ [(k, xs)]) @ m)"
    by (rule Cons.IH) (use Cons.prems kx in auto)
  ultimately show ?case by (simp add: kx)
qed simp

lemma dec_mapslice_enc:
  assumes "\<And>k xs r. (k, xs) \<in> set m \<Longrightarrow> r \<in> set xs \<Longrightarrow> dec_struct fs (enc r) zero = Inr r"
    and "distinct (map fst m)"
  shows "dec_mapslice fs zero (enc_mapslice enc m) [] = Inr m"
  using dec_entries_enc [of m fs enc zero "[]"] assms by (simp add: dec_mapslice_def enc_mapslice_def)

section \<open>The structs\<close>

record DeleteObjectMessage =
  domCluster :: string
  domAccount :: string
  domDepth :: int
  domKind :: string
  domMsgId :: string
  domName :: string
  domNamespace :: string
  domResourceVersion :: int

definition zero_DeleteObjectMessage :: DeleteObjectMessage where
  "zero_DeleteObjectMessage = \<lparr>domCluster = [], domAccount = [], domDepth = 0, domKind = [], domMsgId = [], domName = [], domNamespace = [], domResourceVersion = 0\<rparr>"

definition DeleteObjectMessage_fields :: "DeleteObjectMessage field list" where
  "DeleteObjectMessage_fields =
     [structField ''cluster'' dec_string domCluster domCluster_update,
      structField ''account'' dec_string domAccount domAccount_update,
      structField ''depth'' dec_int domDepth domDepth_update,
      structField ''kind'' dec_string domKind domKind_update,
      structField ''msgId'' dec_string domMsgId domMsgId_update,
      structField ''name'' dec_string domName domName_update,
      structField ''namespace'' dec_string domNamespace domNamespace_update,
      structField ''resourceVersion'' dec_int domResourceVersion domResourceVersion_update]"

definition enc_DeleteObjectMessage :: "DeleteObjectMessage \<Rightarrow> json" where
  "enc_DeleteObjectMessage m = JObj
     [(''cluster'', JStr (domCluster m)),
      (''account'', JStr (domAccount m)),
      (''depth'', JInt (domDepth m)),
      (''kind'', JStr (domKind m)),
      (''msgId'', JStr (domMsgId m)),
      (''name'', JStr (domName m)),
      (''namespace'', JStr (domNamespace m)),
      (''resourceVersion'', JInt (domResourceVersion m))]"

record GetObjectMessage =
  gomBaseObject :: string
  gomCluster :: string
  gomAccount :: string
  gomDepth :: int
  gomKind :: string
  gomMsgId :: string
  gomName :: string
  gomNamespace :: string
  gomResourceVersion :: int

definition zero_GetObjectMessage :: GetObjectMessage where
  "zero_GetObjectMessage = \<lparr>gomBaseObject = [], gomCluster = [], gomAccount = [], gomDepth = 0, gomKind = [], gomMsgId = [], gomName = [], gomNamespace = [], gomResourceVersion = 0\<rparr>"

definition GetObjectMessage_fields :: "GetObjectMessage field list" where
  "GetObjectMessage_fields =
     [structField ''baseObject'' dec_bytes gomBaseObject gomBaseObject_update,
      structField ''cluster'' dec_string gomCluster gomCluster_update,
      structField ''account'' dec_string gomAccount gomAccount_update,
      structField ''depth'' dec_int gomDepth gomDepth_update,
      structField ''kind'' dec_string gomKind gomKind_update,
      structField ''msgId'' dec_string gomMsgId gomMsgId_update,
      structField ''name'' dec_string gomName gomName_update,
      structField ''namespace'' dec_string gomNamespace gomNamespace_update,
      structField ''resourceVersion'' dec_int gomResourceVersion gomResourceVersion_update]"

definition enc_GetObjectMessage :: "GetObjectMessage \<Rightarrow> json" where
  "enc_GetObjectMessage m = JObj
     [(''baseObject'', enc_bytes (gomBaseObject m)),
      (''cluster'', JStr (gomCluster m)),
      (''account'', JStr (gomAccount m)),
      (''depth'', JInt (gomDepth m)),
      (''kind'', JStr (gomKind m)),
      (''msgId'', JStr (gomMsgId m)),
      (''name'', JStr (gomName m)),
      (''namespace'', JStr (gomNamespace m)),
      (''resourceVersion'', JInt (gomResourceVersion m))]"

record NewChecksumMessage =
  ncmChecksum :: string
  ncmCluster :: string
  ncmAccount :: string
  ncmDepth :: int
  ncmKind :: string
  ncmMsgId :: string
  ncmName :: string
  ncmNamespace :: string
  ncmResourceVersion :: int

definition zero_NewChecksumMessage :: NewChecksumMessage where
  "zero_NewChecksumMessage = \<lparr>ncmChecksum = [], ncmCluster = [], ncmAccount = [], ncmDepth = 0, ncmKind = [], ncmMsgId = [], ncmName = [], ncmNamespace = [], ncmResourceVersion = 0\<rparr>"

definition NewChecksumMessage_fields :: "NewChecksumMessage field list" where
  "NewChecksumMessage_fields =
     [structField ''checksum'' dec_string ncmChecksum ncmChecksum_update,
      structField ''cluster'' dec_string ncmCluster ncmCluster_update,
      structField ''account'' dec_string ncmAccount ncmAccount_update,
      structField ''depth'' dec_int ncmDepth ncmDepth_update,
      structField ''kind'' dec_string ncmKind ncmKind_update,
      structField ''msgId'' dec_string ncmMsgId ncmMsgId_update,
      structField ''name'' dec_string ncmName ncmName_update,
      structField ''namespace'' dec_string ncmNamespace ncmNamespace_update,
      structField ''resourceVersion'' dec_int ncmResourceVersion ncmResourceVersion_update]"

definition enc_NewChecksumMessage :: "NewChecksumMessage \<Rightarrow> json" where
  "enc_NewChecksumMessage m = JObj
     [(''checksum'', JStr (ncmChecksum m)),
      (''cluster'', JStr (ncmCluster m)),
      (''account'', JStr (ncmAccount m)),
      (''depth'', JInt (ncmDepth m)),
      (''kind'', JStr (ncmKind m)),
      (''msgId'', JStr (ncmMsgId m)),
      (''name'', JStr (ncmName m)),
      (''namespace'', JStr (ncmNamespace m)),
      (''resourceVersion'', JInt (ncmResourceVersion m))]"

record NewObjectMessage =
  nomCluster :: string
  nomAccount :: string
  nomDepth :: int
  nomKind :: string
  nomMsgId :: string
  nomName :: string
  nomNamespace :: string
  nomObject :: string
  nomResourceVersion :: int

definition zero_NewObjectMessage :: NewObjectMessage where
  "zero_NewObjectMessage = \<lparr>nomCluster = [], nomAccount = [], nomDepth = 0, nomKind = [], nomMsgId = [], nomName = [], nomNamespace = [], nomObject = [], nomResourceVersion = 0\<rparr>"

definition NewObjectMessage_fields :: "NewObjectMessage field list" where
  "NewObjectMessage_fields =
     [structField ''cluster'' dec_string nomCluster nomCluster_update,
      structField ''account'' dec_string nomAccount nomAccount_update,
      structField ''depth'' dec_int nomDepth nomDepth_update,
      structField ''kind'' dec_string nomKind nomKind_update,
      structField ''msgId'' dec_string nomMsgId nomMsgId_update,
      structField ''name'' dec_string nomName nomName_update,
      structField ''namespace'' dec_string nomNamespace nomNamespace_update,
      structField ''patch'' dec_bytes nomObject nomObject_update,
      structField ''resourceVersion'' dec_int nomResourceVersion nomResourceVersion_update]"

definition enc_NewObjectMessage :: "NewObjectMessage \<Rightarrow> json" where
  "enc_NewObjectMessage m = JObj
     [(''cluster'', JStr (nomCluster m)),
      (''account'', JStr (nomAccount m)),
      (''depth'', JInt (nomDepth m)),
      (''kind'', JStr (nomKind m)),
      (''msgId'', JStr (nomMsgId m)),
      (''name'', JStr (nomName m)),
      (''namespace'', JStr (nomNamespace m)),
      (''patch'', enc_bytes (nomObject m)),
      (''resourceVersion'', JInt (nomResourceVersion m))]"

record PatchObjectMessage =
  pamChecksum :: string
  pamCluster :: string
  pamAccount :: string
  pamDepth :: int
  pamKind :: string
  pamMsgId :: string
  pamName :: string
  pamNamespace :: string
  pamPatch :: string
  pamResourceVersion :: int

definition zero_PatchObjectMessage :: PatchObjectMessage where
  "zero_PatchObjectMessage = \<lparr>pamChecksum = [], pamCluster = [], pamAccount = [], pamDepth = 0, pamKind = [], pamMsgId = [], pamName = [], pamNamespace = [], pamPatch = [], pamResourceVersion = 0\<rparr>"

definition PatchObjectMessage_fields :: "PatchObjectMessage field list" where
  "PatchObjectMessage_fields =
     [structField ''checksum'' dec_string pamChecksum pamChecksum_update,
      structField ''cluster'' dec_string pamCluster pamCluster_update,
      structField ''account'' dec_string pamAccount pamAccount_update,
      structField ''depth'' dec_int pamDepth pamDepth_update,
      structField ''kind'' dec_string pamKind pamKind_update,
      structField ''msgId'' dec_string pamMsgId pamMsgId_update,
      structField ''name'' dec_string pamName pamName_update,
      structField ''namespace'' dec_string pamNamespace pamNamespace_update,
      structField ''patch'' dec_bytes pamPatch pamPatch_update,
      structField ''resourceVersion'' dec_int pamResourceVersion pamResourceVersion_update]"

definition enc_PatchObjectMessage :: "PatchObjectMessage \<Rightarrow> json" where
  "enc_PatchObjectMessage m = JObj
     [(''checksum'', JStr (pamChecksum m)),
      (''cluster'', JStr (pamCluster m)),
      (''account'', JStr (pamAccount m)),
      (''depth'', JInt (pamDepth m)),
      (''kind'', JStr (pamKind m)),
      (''msgId'', JStr (pamMsgId m)),
      (''name'', JStr (pamName m)),
      (''namespace'', JStr (pamNamespace m)),
      (''patch'', enc_bytes (pamPatch m)),
      (''resourceVersion'', JInt (pamResourceVersion m))]"

record PutObjectMessage =
  pumChecksum :: string
  pumCluster :: string
  pumAccount :: string
  pumDepth :: int
  pumKind :: string
  pumMsgId :: string
  pumName :: string
  pumNamespace :: string
  pumObject :: string
  pumResourceVersion :: int

definition zero_PutObjectMessage :: PutObjectMessage where
  "zero_PutObjectMessage = \<lparr>pumChecksum = [], pumCluster = [], pumAccount = [], pumDepth = 0, pumKind = [], pumMsgId = [], pumName = [], pumNamespace = [], pumObject = [], pumResourceVersion = 0\<rparr>"

definition PutObjectMessage_fields :: "PutObjectMessage field list" where
  "PutObjectMessage_fields =
     [structField ''checksum'' dec_string pumChecksum pumChecksum_update,
      structField ''cluster'' dec_string pumCluster pumCluster_update,
      structField ''account'' dec_string pumAccount pumAccount_update,
      structField ''depth'' dec_int pumDepth pumDepth_update,
      structField ''kind'' dec_string pumKind pumKind_update,
      structField ''msgId'' dec_string pumMsgId pumMsgId_update,
      structField ''name'' dec_string pumName pumName_update,
      structField ''namespace'' dec_string pumNamespace pumNamespace_update,
      structField ''patch'' dec_bytes pumObject pumObject_update,
      structField ''resourceVersion'' dec_int pumResourceVersion pumResourceVersion_update]"

definition enc_PutObjectMessage :: "PutObjectMessage \<Rightarrow> json" where
  "enc_PutObjectMessage m = JObj
     [(''checksum'', JStr (pumChecksum m)),
      (''cluster'', JStr (pumCluster m)),
      (''account'', JStr (pumAccount m)),
      (''depth'', JInt (pumDepth m)),
      (''kind'', JStr (pumKind m)),
      (''msgId'', JStr (pumMsgId m)),
      (''name'', JStr (pumName m)),
      (''namespace'', JStr (pumNamespace m)),
      (''patch'', enc_bytes (pumObject m)),
      (''resourceVersion'', JInt (pumResourceVersion m))]"

record VerifyObjectMessage =
  vomChecksum :: string
  vomCluster :: string
  vomAccount :: string
  vomDepth :: int
  vomKind :: string
  vomMsgId :: string
  vomName :: string
  vomNamespace :: string
  vomResourceVersion :: int

definition zero_VerifyObjectMessage :: VerifyObjectMessage where
  "zero_VerifyObjectMessage = \<lparr>vomChecksum = [], vomCluster = [], vomAccount = [], vomDepth = 0, vomKind = [], vomMsgId = [], vomName = [], vomNamespace = [], vomResourceVersion = 0\<rparr>"

definition VerifyObjectMessage_fields :: "VerifyObjectMessage field list" where
  "VerifyObjectMessage_fields =
     [structField ''checksum'' dec_string vomChecksum vomChecksum_update,
      structField ''cluster'' dec_string vomCluster vomCluster_update,
      structField ''account'' dec_string vomAccount vomAccount_update,
      structField ''depth'' dec_int vomDepth vomDepth_update,
      structField ''kind'' dec_string vomKind vomKind_update,
      structField ''msgId'' dec_string vomMsgId vomMsgId_update,
      structField ''name'' dec_string vomName vomName_update,
      structField ''namespace'' dec_string vomNamespace vomNamespace_update,
      structField ''resourceVersion'' dec_int vomResourceVersion vomResourceVersion_update]"

definition enc_VerifyObjectMessage :: "VerifyObjectMessage \<Rightarrow> json" where
  "enc_VerifyObjectMessage m = JObj
     [(''checksum'', JStr (vomChecksum m)),
      (''cluster'', JStr (vomCluster m)),
      (''account'', JStr (vomAccount m)),
      (''depth'', JInt (vomDepth m)),
      (''kind'', JStr (vomKind m)),
      (''msgId'', JStr (vomMsgId m)),
      (''name'', JStr (vomName m)),
      (''namespace'', JStr (vomNamespace m)),
      (''resourceVersion'', JInt (vomResourceVersion m))]"

record ServerConnectedMessage =
  scmCluster :: string
  scmAccount :: string
  scmDepth :: int
  scmMsgId :: string

definition zero_ServerConnectedMessage :: ServerConnectedMessage where
  "zero_ServerConnectedMessage = \<lparr>scmCluster = [], scmAccount = [], scmDepth = 0, scmMsgId = []\<rparr>"

definition ServerConnectedMessage_fields :: "ServerConnectedMessage field list" where
  "ServerConnectedMessage_fields =
     [structField ''cluster'' dec_string scmCluster scmCluster_update,
      structField ''account'' dec_string scmAccount scmAccount_update,
      structField ''depth'' dec_int scmDepth scmDepth_update,
      structField ''msgId'' dec_string scmMsgId scmMsgId_update]"

definition enc_ServerConnectedMessage :: "ServerConnectedMessage \<Rightarrow> json" where
  "enc_ServerConnectedMessage m = JObj
     [(''cluster'', JStr (scmCluster m)),
      (''account'', JStr (scmAccount m)),
      (''depth'', JInt (scmDepth m)),
      (''msgId'', JStr (scmMsgId m))]"

record ReconciliationRequestObject =
  rroChecksum :: string
  rroResourceVersion :: int
  rroName :: string
  rroNamespace :: string

definition zero_ReconciliationRequestObject :: ReconciliationRequestObject where
  "zero_ReconciliationRequestObject = \<lparr>rroChecksum = [], rroResourceVersion = 0, rroName = [], rroNamespace = []\<rparr>"

definition ReconciliationRequestObject_fields :: "ReconciliationRequestObject field list" where
  "ReconciliationRequestObject_fields =
     [structField ''checksum'' dec_string rroChecksum rroChecksum_update,
      structField ''resourceVersion'' dec_int rroResourceVersion rroResourceVersion_update,
      structField ''name'' dec_string rroName rroName_update,
      structField ''namespace'' dec_string rroNamespace rroNamespace_update]"

definition enc_ReconciliationRequestObject :: "ReconciliationRequestObject \<Rightarrow> json" where
  "enc_ReconciliationRequestObject m = JObj
     [(''checksum'', JStr (rroChecksum m)),
      (''resourceVersion'', JInt (rroResourceVersion m)),
      (''name'', JStr (rroName m)),
      (''namespace'', JStr (rroNamespace m))]"

record ReconciliationRequestMessage =
  rrmCluster :: string
  rrmAccount :: string
  rrmDepth :: int
  rrmMsgId :: string
  rrmServerInitiated :: bool
  rrmKindToObjects :: "(string \<times> ReconciliationRequestObject list) list"

definition zero_ReconciliationRequestMessage :: ReconciliationRequestMessage where
  "zero_ReconciliationRequestMessage = \<lparr>rrmCluster = [], rrmAccount = [], rrmDepth = 0, rrmMsgId = [], rrmServerInitiated = False, rrmKindToObjects = []\<rparr>"

definition ReconciliationRequestMessage_fields :: "ReconciliationRequestMessage field list" where
  "ReconciliationRequestMessage_fields =
     [structField ''cluster'' dec_string rrmCluster rrmCluster_update,
      structField ''account'' dec_string rrmAccount rrmAccount_update,
      structField ''depth'' dec_int rrmDepth rrmDepth_update,
      structField ''msgId'' dec_string rrmMsgId rrmMsgId_update,
      structField ''serverInitiated'' dec_bool rrmServerInitiated rrmServerInitiated_update,
      structField ''kindToObject'' (dec_mapslice ReconciliationRequestObject_fields zero_ReconciliationRequestObject) rrmKindToObjects rrmKindToObjects_update]"

definition enc_ReconciliationRequestMessage :: "ReconciliationRequestMessage \<Rightarrow> json" where
  "enc_ReconciliationRequestMessage m = JObj
     [(''cluster'', JStr (rrmCluster m)),
      (''account'', JStr (rrmAccount m)),
      (''depth'', JInt (rrmDepth m)),
      (''msgId'', JStr (rrmMsgId m)),
      (''serverInitiated'', JBool (rrmServerInitiated m)),
      (''kindToObject'', enc_mapslice enc_ReconciliationRequestObject (rrmKindToObjects m))]"

record ReconciliationRequestMessageBatch =
  rrbDepth :: int
  rrbMsgId :: string
  rrbRequests :: "ReconciliationRequestMessage list"

definition zero_ReconciliationRequestMessageBatch :: ReconciliationRequestMessageBatch where
  "zero_ReconciliationRequestMessageBatch = \<lparr>rrbDepth = 0, rrbMsgId = [], rrbRequests = []\<rparr>"

definition ReconciliationRequestMessageBatch_fields :: "ReconciliationRequestMessageBatch field list" where
  "ReconciliationRequestMessageBatch_fields =
     [structField ''depth'' dec_int rrbDepth rrbDepth_update,
      structField ''msgId'' dec_string rrbMsgId rrbMsgId_update,
      structField ''requests'' (dec_slice ReconciliationRequestMessage_fields zero_ReconciliationRequestMessage) rrbRequests rrbRequests_update]"

definition enc_ReconciliationRequestMessageBatch :: "ReconciliationRequestMessageBatch \<Rightarrow> json" where
  "enc_ReconciliationRequestMessageBatch m = JObj
     [(''depth'', JInt (rrbDepth m)),
      (''msgId'', JStr (rrbMsgId m)),
      (''requests'', enc_slice enc_ReconciliationRequestMessage (rrbRequests m))]"


text \<open>The list of connected clients, which the server only writes.\<close>

record ConnectedClient =
  ccCluster :: string
  ccAccount :: string
  ccSynchronizerVersion :: string
  ccHelmVersion :: string
  ccConnectionId :: string
  ccConnectionTime :: int
  ccGitVersion :: string
  ccCloudProvider :: string
  ccClusterUID :: string
  ccResourceGroup :: string

record ConnectedClientsMessage =
  ccmServerName :: string
  ccmClients :: "ConnectedClient list"
  ccmTimestamp :: int
  ccmDepth :: int
  ccmMsgId :: string

definition enc_ConnectedClient :: "(int \<Rightarrow> string) \<Rightarrow> ConnectedClient \<Rightarrow> json" where
  "enc_ConnectedClient formatTime m = JObj
     ([(''cluster'', JStr (ccCluster m)),
      (''account'', JStr (ccAccount m)),
      (''synchronizerVersion'', JStr (ccSynchronizerVersion m)),
      (''helmVersion'', JStr (ccHelmVersion m)),
      (''connectionId'', JStr (ccConnectionId m)),
      (''connectionTime'', JStr (formatTime (ccConnectionTime m))),
      (''gitVersion'', JStr (ccGitVersion m)),
      (''cloudProvider'', JStr (ccCloudProvider m)),
      (''clusterUID'', JStr (ccClusterUID m))] @
      (if ccResourceGroup m = [] then [] else [(''resourceGroup'', JStr (ccResourceGroup m))]))"

definition enc_ConnectedClientsMessage :: "(int \<Rightarrow> string) \<Rightarrow> ConnectedClientsMessage \<Rightarrow> json" where
  "enc_ConnectedClientsMessage formatTime m = JObj
     [(''serverName'', JStr (ccmServerName m)),
      (''clients'', JArr (map (enc_ConnectedClient formatTime) (ccmClients m))),
      (''keepalive'', JStr (formatTime (ccmTimestamp m))),
      (''depth'', JInt (ccmDepth m)),
      (''msgId'', JStr (ccmMsgId m))]"

section \<open>Reading back what was written\<close>

lemma tag_lower [simp]:
  "strings_ToLower ''cluster'' = ''cluster''"
  "strings_ToLower ''account'' = ''account''"
  "strings_ToLower ''depth'' = ''depth''"
  "strings_ToLower ''kind'' = ''kind''"
  "strings_ToLower ''msgId'' = ''msgid''"
  "strings_ToLower ''name'' = ''name''"
  "strings_ToLower ''namespace'' = ''namespace''"
  "strings_ToLower ''resourceVersion'' = ''resourceversion''"
  "strings_ToLower ''baseObject'' = ''baseobject''"
  "strings_ToLower ''checksum'' = ''checksum''"
  "strings_ToLower ''patch'' = ''patch''"
  "strings_ToLower ''serverInitiated'' = ''serverinitiated''"
  "strings_ToLower ''kindToObject'' = ''kindtoobject''"
  "strings_ToLower ''requests'' = ''requests''"
  by code_simp+

definition wf_DeleteObjectMessage :: "DeleteObjectMessage \<Rightarrow> bool" where
  "wf_DeleteObjectMessage m \<longleftrightarrow> in_int64 (domDepth m) \<and> in_int64 (domResourceVersion m)"

lemma dec_DeleteObjectMessage_enc [simp]:
  "wf_DeleteObjectMessage m \<Longrightarrow> dec_struct DeleteObjectMessage_fields (enc_DeleteObjectMessage m) zero_DeleteObjectMessage = Inr m"
  by (simp add: dec_struct_def DeleteObjectMessage_fields_def enc_DeleteObjectMessage_def zero_DeleteObjectMessage_def structField_def wf_DeleteObjectMessage_def)

definition wf_GetObjectMessage :: "GetObjectMessage \<Rightarrow> bool" where
  "wf_GetObjectMessage m \<longleftrightarrow> in_int64 (gomDepth m) \<and> in_int64 (gomResourceVersion m)"

lemma dec_GetObjectMessage_enc [simp]:
  "wf_GetObjectMessage m \<Longrightarrow> dec_struct GetObjectMessage_fields (enc_GetObjectMessage m) zero_GetObjectMessage = Inr m"
  by (simp add: dec_struct_def GetObjectMessage_fields_def enc_GetObjectMessage_def zero_GetObjectMessage_def structField_def wf_GetObjectMessage_def)

definition wf_NewChecksumMessage :: "NewChecksumMessage \<Rightarrow> bool" where
  "wf_NewChecksumMessage m \<longleftrightarrow> in_int64 (ncmDepth m) \<and> in_int64 (ncmResourceVersion m)"

lemma dec_NewChecksumMessage_enc [simp]:
  "wf_NewChecksumMessage m \<Longrightarrow> dec_struct NewChecksumMessage_fields (enc_NewChecksumMessage m) zero_NewChecksumMessage = Inr m"
  by (simp add: dec_struct_def NewChecksumMessage_fields_def enc_NewChecksumMessage_def zero_NewChecksumMessage_def structField_def wf_NewChecksumMessage_def)

definition wf_NewObjectMessage :: "NewObjectMessage \<Rightarrow> bool" where
  "wf_NewObjectMessage m \<longleftrightarrow> in_int64 (nomDepth m) \<and> in_int64 (nomResourceVersion m)"

lemma dec_NewObjectMessage_enc [simp]:
  "wf_NewObjectMessage m \<Longrightarrow> dec_struct NewObjectMessage_fields (enc_NewObjectMessage m) zero_NewObjectMessage = Inr m"
  by (simp add: dec_struct_def NewObjectMessage_fields_def enc_NewObjectMessage_def zero_NewObjectMessage_def structField_def wf_NewObjectMessage_def)

definition wf_PatchObjectMessage :: "PatchObjectMessage \<Rightarrow> bool" where
  "wf_PatchObjectMessage m \<longleftrightarrow> in_int64 (pamDepth m) \<and> in_int64 (pamResourceVersion m)"

lemma dec_PatchObjectMessage_enc [simp]:
  "wf_PatchObjectMessage m \<Longrightarrow> dec_struct PatchObjectMessage_fields (enc_PatchObjectMessage m) zero_PatchObjectMessage = Inr m"
  by (simp add: dec_struct_def PatchObjectMessage_fields_def enc_PatchObjectMessage_def zero_PatchObjectMessage_def structField_def wf_PatchObjectMessage_def)

definition wf_PutObjectMessage :: "PutObjectMessage \<Rightarrow> bool" where
  "wf_PutObjectMessage m \<longleftrightarrow> in_int64 (pumDepth m) \<and> in_int64 (pumResourceVersion m)"

lemma dec_PutObjectMessage_enc [simp]:
  "wf_PutObjectMessage m \<Longrightarrow> dec_struct PutObjectMessage_fields (enc_PutObjectMessage m) zero_PutObjectMessage = Inr m"
  by (simp add: dec_struct_def PutObjectMessage_fields_def enc_PutObjectMessage_def zero_PutObjectMessage_def structField_def wf_PutObjectMessage_def)

definition wf_VerifyObjectMessage :: "VerifyObjectMessage \<Rightarrow> bool" where
  "wf_VerifyObjectMessage m \<longleftrightarrow> in_int64 (vomDepth m) \<and> in_int64 (vomResourceVersion m)"

lemma dec_VerifyObjectMessage_enc [simp]:
  "wf_VerifyObjectMessage m \<Longrightarrow> dec_struct VerifyObjectMessage_fields (enc_VerifyObjectMessage m) zero_VerifyObjectMessage = Inr m"
  by (simp add: dec_struct_def VerifyObjectMessage_fields_def enc_VerifyObjectMessage_def zero_VerifyObjectMessage_def structField_def wf_VerifyObjectMessage_def)

definition wf_ServerConnectedMessage :: "ServerConnectedMessage \<Rightarrow> bool" where
  "wf_ServerConnectedMessage m \<longleftrightarrow> in_int64 (scmDepth m)"

lemma dec_ServerConnectedMessage_enc [simp]:
  "wf_ServerConnectedMessage m \<Longrightarrow> dec_struct ServerConnectedMessage_fields (enc_ServerConnectedMessage m) zero_ServerConnectedMessage = Inr m"
  by (simp add: dec_struct_def ServerConnectedMessage_fields_def enc_ServerConnectedMessage_def zero_ServerConnectedMessage_def structField_def wf_ServerConnectedMessage_def)

definition wf_ReconciliationRequestObject :: "ReconciliationRequestObject \<Rightarrow> bool" where
  "wf_ReconciliationRequestObject m \<longleftrightarrow> in_int64 (rroResourceVersion m)"

lemma dec_ReconciliationRequestObject_enc [simp]:
  "wf_ReconciliationRequestObject m \<Longrightarrow> dec_struct ReconciliationRequestObject_fields (enc_ReconciliationRequestObject m) zero_ReconciliationRequestObject = Inr m"
  by (simp add: dec_struct_def ReconciliationRequestObject_fields_def enc_ReconciliationRequestObject_def zero_ReconciliationRequestObject_def structField_def wf_ReconciliationRequestObject_def)

definition wf_ReconciliationRequestMessage :: "ReconciliationRequestMessage \<Rightarrow> bool" where
  "wf_ReconciliationRequestMessage m \<longleftrightarrow> in_int64 (rrmDepth m) \<and> distinct (map fst (rrmKindToObjects m)) \<and> (\<forall>(k, xs) \<in> set (rrmKindToObjects m). list_all wf_ReconciliationRequestObject xs)"

lemma dec_ReconciliationRequestObject_map [simp]:
  "distinct (map fst m) \<Longrightarrow> \<forall>(k, xs) \<in> set m. list_all wf_ReconciliationRequestObject xs \<Longrightarrow>
     dec_mapslice ReconciliationRequestObject_fields zero_ReconciliationRequestObject
       (enc_mapslice enc_ReconciliationRequestObject m) [] = Inr m"
  by (rule dec_mapslice_enc) (auto simp: list_all_iff)

lemma dec_ReconciliationRequestMessage_enc [simp]:
  "wf_ReconciliationRequestMessage m \<Longrightarrow> dec_struct ReconciliationRequestMessage_fields (enc_ReconciliationRequestMessage m) zero_ReconciliationRequestMessage = Inr m"
  by (simp add: dec_struct_def ReconciliationRequestMessage_fields_def enc_ReconciliationRequestMessage_def zero_ReconciliationRequestMessage_def structField_def wf_ReconciliationRequestMessage_def)

definition wf_ReconciliationRequestMessageBatch :: "ReconciliationRequestMessageBatch \<Rightarrow> bool" where
  "wf_ReconciliationRequestMessageBatch m \<longleftrightarrow> in_int64 (rrbDepth m) \<and> list_all wf_ReconciliationRequestMessage (rrbRequests m)"

lemma dec_ReconciliationRequestMessage_slice [simp]:
  "list_all wf_ReconciliationRequestMessage ms \<Longrightarrow> dec_slice ReconciliationRequestMessage_fields
     zero_ReconciliationRequestMessage (enc_slice enc_ReconciliationRequestMessage ms) old = Inr ms"
  by (rule dec_slice_enc) (simp add: list_all_iff)

lemma dec_ReconciliationRequestMessageBatch_enc [simp]:
  "wf_ReconciliationRequestMessageBatch m \<Longrightarrow> dec_struct ReconciliationRequestMessageBatch_fields (enc_ReconciliationRequestMessageBatch m) zero_ReconciliationRequestMessageBatch = Inr m"
  by (simp add: dec_struct_def ReconciliationRequestMessageBatch_fields_def enc_ReconciliationRequestMessageBatch_def zero_ReconciliationRequestMessageBatch_def structField_def wf_ReconciliationRequestMessageBatch_def)

section \<open>Messages and their properties\<close>

text \<open>\<open>messaging.IncomingMessage\<close>; a property that is absent reads as the empty string.\<close>

type_synonym properties = "(string \<times> string) list"

definition property :: "properties \<Rightarrow> string \<Rightarrow> string" where
  "property ps k = (case map_of ps k of None \<Rightarrow> [] | Some v \<Rightarrow> v)"

record IncomingMessage =
  imID :: string
  imProperties :: properties
  imPayload :: wire

definition MsgPropTimestamp :: string where "MsgPropTimestamp = ''timestamp''"
definition MsgPropCluster :: string where "MsgPropCluster = ''cluster''"
definition MsgPropAccount :: string where "MsgPropAccount = ''account''"
definition MsgPropEvent :: string where "MsgPropEvent = ''event''"
definition MsgPropResourceKindGroup :: string where "MsgPropResourceKindGroup = ''group''"
definition MsgPropResourceKindVersion :: string where "MsgPropResourceKindVersion = ''version''"
definition MsgPropResourceKindResource :: string where "MsgPropResourceKindResource = ''resource''"
definition MsgPropResourceName :: string where "MsgPropResourceName = ''name''"
definition MsgPropResourceNamespace :: string where "MsgPropResourceNamespace = ''namespace''"
definition MsgPropResourceVersion :: string where "MsgPropResourceVersion = ''resourceVersion''"
definition MsgPropProducerSource :: string where "MsgPropProducerSource = ''x-producer-source''"
definition MsgPropProducerSourceSynchronizerServer :: string where
  "MsgPropProducerSourceSynchronizerServer = ''synchronizer-server''"
definition SynchronizerServerProducerKey :: string where
  "SynchronizerServerProducerKey = ''SynchronizerServerProducer''"

definition MsgPropEventValueGetObjectMessage :: string where "MsgPropEventValueGetObjectMessage = ''GetObject''"
definition MsgPropEventValuePatchObjectMessage :: string where "MsgPropEventValuePatchObjectMessage = ''PatchObject''"
definition MsgPropEventValueVerifyObjectMessage :: string where "MsgPropEventValueVerifyObjectMessage = ''VerifyObject''"
definition MsgPropEventValueDeleteObjectMessage :: string where "MsgPropEventValueDeleteObjectMessage = ''DeleteObject''"
definition MsgPropEventValuePutObjectMessage :: string where "MsgPropEventValuePutObjectMessage = ''PutObject''"
definition MsgPropEventValueServerConnectedMessage :: string where
  "MsgPropEventValueServerConnectedMessage = ''ServerConnected''"
definition MsgPropEventValueReconciliationRequestMessage :: string where
  "MsgPropEventValueReconciliationRequestMessage = ''ReconciliationRequest''"
definition MsgPropEventValueReconciliationRequestMessageBatch :: string where
  "MsgPropEventValueReconciliationRequestMessageBatch = ''ReconciliationRequestBatch''"
definition MsgPropEventValueConnectedClientsMessage :: string where
  "MsgPropEventValueConnectedClientsMessage = ''ConnectedClients''"

lemmas msgProp_defs = MsgPropTimestamp_def MsgPropCluster_def MsgPropAccount_def MsgPropEvent_def
  MsgPropResourceKindGroup_def MsgPropResourceKindVersion_def MsgPropResourceKindResource_def
  MsgPropResourceName_def MsgPropResourceNamespace_def MsgPropResourceVersion_def
  MsgPropProducerSource_def MsgPropProducerSourceSynchronizerServer_def

lemmas msgEvent_defs = MsgPropEventValueGetObjectMessage_def MsgPropEventValuePatchObjectMessage_def
  MsgPropEventValueVerifyObjectMessage_def MsgPropEventValueDeleteObjectMessage_def
  MsgPropEventValuePutObjectMessage_def MsgPropEventValueServerConnectedMessage_def
  MsgPropEventValueReconciliationRequestMessage_def MsgPropEventValueReconciliationRequestMessageBatch_def
  MsgPropEventValueConnectedClientsMessage_def

text \<open>\<open>maps.Copy\<close>, then the two identifiers, if they are there. The time stamp is given.\<close>

definition copyProps :: "properties \<Rightarrow> properties \<Rightarrow> properties" where
  "copyProps dst src = foldl (\<lambda>m (k, v). aset k v m) dst src"

definition BuildProducerProperties :: "string \<Rightarrow> string \<Rightarrow> string \<Rightarrow> string \<Rightarrow> properties list \<Rightarrow> properties" where
  "BuildProducerProperties now account cluster eventType optionalProperties =
     (let m = [(MsgPropTimestamp, now), (MsgPropEvent, eventType),
               (MsgPropProducerSource, MsgPropProducerSourceSynchronizerServer)];
          m = foldl copyProps m optionalProperties;
          m = (if account \<noteq> [] then aset MsgPropAccount account m else m)
      in if cluster \<noteq> [] then aset MsgPropCluster cluster m else m)"

definition IsSelfProducedMessage :: "properties \<Rightarrow> string \<Rightarrow> bool" where
  "IsSelfProducedMessage properties messageKey =
     (if property properties MsgPropProducerSource = MsgPropProducerSourceSynchronizerServer then True
      else messageKey = SynchronizerServerProducerKey)"

text \<open>A nil kind is dereferenced.\<close>

definition KindNameToCustomProperties :: "KindName \<Rightarrow> ('w, properties) go" where
  "KindNameToCustomProperties kind =
     (case knKind kind of
        None \<Rightarrow> panic ''nil pointer dereference''
      | Some k \<Rightarrow> ret [(MsgPropResourceKindGroup, kGroup k), (MsgPropResourceKindVersion, kVersion k),
          (MsgPropResourceKindResource, kResource k), (MsgPropResourceName, knName kind),
          (MsgPropResourceNamespace, knNamespace kind), (MsgPropResourceVersion, strconv_Itoa (knResourceVersion kind))])"

section \<open>Lemmas on properties\<close>

lemma map_of_aset [simp]: "map_of (aset k v m) = (map_of m)(k \<mapsto> v)"
  by (induction m) auto

lemma map_of_copyProps: "map_of (copyProps dst src) k = (case map_of (rev src) k of Some v \<Rightarrow> Some v | None \<Rightarrow> map_of dst k)"
  unfolding copyProps_def
  by (induction src arbitrary: dst) (auto simp: map_add_Some_iff map_add_def split: option.splits)

lemma map_of_copyAll:
  "(\<And>ps. ps \<in> set opts \<Longrightarrow> k \<notin> fst ` set ps) \<Longrightarrow> map_of (foldl copyProps dst opts) k = map_of dst k"
proof (induction opts arbitrary: dst)
  case (Cons ps opts)
  then have "map_of (rev ps) k = None" by (simp add: map_of_eq_None_iff)
  then show ?case using Cons by (simp add: map_of_copyProps)
qed simp

end
