(* ===== verification/Features_Provider.thy ===== *)
theory Features_Provider
  imports Messaging_Records
begin

text \<open>
  \<open>adapters/backend/v1/skip_alerts.go\<close>: which accounts have a feature switched on. The provider
  keeps one entry per registered account; an account without features in its entry is never skipped.
  The HTTP client is an argument acting on the state \<open>'q\<close> outside the server. \<open>RegisterAccount\<close>
  leaves its request to a goroutine; here it returns the request, and whoever runs the provider
  (the backend adapter) keeps it until it is served.
\<close>

text \<open>\<open>features\<close> may be \<open>nil\<close>, which is not the same as empty.\<close>

record cachedAccount =
  caAccessKey :: string
  caFeatures :: "string list option"

record FeaturesProvider =
  fpFeaturesURL :: string
  fpFeatureFlagName :: string
  fpCache :: "(string \<times> cachedAccount) list"

text \<open>The body twice: as the document it holds, and as text.\<close>

record httpResponse =
  hrStatusCode :: int
  hrStatus :: string
  hrBody :: wire
  hrText :: string

type_synonym 'q httpDo = "string \<Rightarrow> (string \<times> string) list \<Rightarrow> ('q, goerror + httpResponse) go"

definition NewFeaturesProvider :: "string \<Rightarrow> string \<Rightarrow> FeaturesProvider" where
  "NewFeaturesProvider featuresURL featureFlagName =
     \<lparr>fpFeaturesURL = featuresURL, fpFeatureFlagName = featureFlagName, fpCache = []\<rparr>"

definition adel :: "string \<Rightarrow> (string \<times> 'v) list \<Rightarrow> (string \<times> 'v) list" where
  "adel k m = filter (\<lambda>(k', _). k' \<noteq> k) m"

lemma map_of_adel [simp]: "map_of (adel k m) = (map_of m)(k := None)"
  by (rule ext) (induction m, auto simp: adel_def)

lemma distinct_adel [intro]: "distinct (map fst m) \<Longrightarrow> distinct (map fst (adel k m))"
  by (induction m) (auto simp: adel_def)

lemma fst_aset: "fst ` set (aset k v m) = insert k (fst ` set m)"
proof (induction m)
  case (Cons e m)
  then show ?case by (cases e) (simp add: insert_commute)
qed simp

lemma distinct_aset [intro]: "distinct (map fst m) \<Longrightarrow> distinct (map fst (aset k v m))"
proof (induction m)
  case (Cons e m)
  then show ?case using fst_aset [of k v m] by (cases e) auto
qed simp

definition store :: "string \<Rightarrow> cachedAccount \<Rightarrow> FeaturesProvider \<Rightarrow> FeaturesProvider" where
  "store account entry p = p\<lparr>fpCache := aset account entry (fpCache p)\<rparr>"

text \<open>The second component: the request a goroutine is started for.\<close>

definition RegisterAccount :: "string \<Rightarrow> string \<Rightarrow> FeaturesProvider \<Rightarrow> FeaturesProvider \<times> (string \<times> string) option" where
  "RegisterAccount account accessKey p =
     (let already = (case map_of (fpCache p) account of
            None \<Rightarrow> False
          | Some existing \<Rightarrow> caAccessKey existing = accessKey \<and> caFeatures existing \<noteq> None) in
      if already then (p, None)
      else (store account \<lparr>caAccessKey = accessKey, caFeatures = None\<rparr> p, Some (account, accessKey)))"

definition UnregisterAccount :: "string \<Rightarrow> FeaturesProvider \<Rightarrow> FeaturesProvider" where
  "UnregisterAccount account p = p\<lparr>fpCache := adel account (fpCache p)\<rparr>"

definition ShouldSkipAlertsFrom :: "FeaturesProvider \<Rightarrow> string \<Rightarrow> bool" where
  "ShouldSkipAlertsFrom p account =
     (case map_of (fpCache p) account of
        None \<Rightarrow> False
      | Some entry \<Rightarrow>
          (case caFeatures entry of
             None \<Rightarrow> False
           | Some features \<Rightarrow> \<not> fpFeatureFlagName p \<in> set features))"

section \<open>Fetching\<close>

record featuresResponse =
  frFeatures :: "string list option"

fun dec_stringElems :: "json list \<Rightarrow> goerror + string list" where
  "dec_stringElems [] = Inr []"
| "dec_stringElems (v # vs) =
     (case dec_string v [] of Inl e \<Rightarrow> Inl e | Inr s \<Rightarrow> map_sum id ((#) s) (dec_stringElems vs))"

definition dec_strings :: "json \<Rightarrow> string list option \<Rightarrow> goerror + string list option" where
  "dec_strings v old =
     (case v of JNull \<Rightarrow> Inr None | JArr vs \<Rightarrow> map_sum id Some (dec_stringElems vs) | _ \<Rightarrow> Inl unmarshalTypeError)"

definition featuresResponse_fields :: "featuresResponse field list" where
  "featuresResponse_fields = [structField ''features'' dec_strings frFeatures frFeatures_update]"

definition fetchFeatures :: "'q httpDo \<Rightarrow> FeaturesProvider \<Rightarrow> string \<Rightarrow> string \<Rightarrow>
    ('q, goerror + string list option) go" where
  "fetchFeatures http p account accessKey =
     andThen (http (fpFeaturesURL p @ ''/api/v1/features'') [(''X-API-KEY'', accessKey), (''X-API-ACCOUNT'', account)]) (\<lambda>r.
     case r of
       Inl e \<Rightarrow> ret (Inl (GoWrap ''failed to fetch features'' e))
     | Inr resp \<Rightarrow>
         if hrStatusCode resp < 200 \<or> hrStatusCode resp \<ge> 300 then
           ret (Inl (GoError (''features endpoint returned status '' @ hrStatus resp @ '': '' @ take 1024 (hrText resp))))
         else
           (case unmarshal featuresResponse_fields \<lparr>frFeatures = None\<rparr> (hrBody resp) of
              Inl e \<Rightarrow> ret (Inl (GoWrap ''failed to decode features response'' e))
            | Inr result \<Rightarrow> ret (Inr (frFeatures result))))"

text \<open>The provider is the first part of the state here, the world outside the second.\<close>

definition refreshAccount :: "'q httpDo \<Rightarrow> string \<Rightarrow> string \<Rightarrow> (FeaturesProvider \<times> 'q, unit) go" where
  "refreshAccount http account accessKey =
     andThen (\<lambda>(p, q). on_snd (fetchFeatures http p account accessKey) (p, q)) (\<lambda>r.
     case r of
       Inl _ \<Rightarrow> ret ()
     | Inr features \<Rightarrow> (\<lambda>(p, q). (Ret (), (store account \<lparr>caAccessKey = accessKey, caFeatures = features\<rparr> p, q))))"

text \<open>One tick of \<open>StartRefreshLoop\<close>; \<open>order\<close> is the order in which the cache is visited.\<close>

fun refreshAll :: "'q httpDo \<Rightarrow> (string \<times> cachedAccount) list \<Rightarrow> (FeaturesProvider \<times> 'q, unit) go" where
  "refreshAll http [] = ret ()"
| "refreshAll http ((account, entry) # es) =
     andThen (refreshAccount http account (caAccessKey entry)) (\<lambda>_. refreshAll http es)"

definition refreshTick :: "'q httpDo \<Rightarrow> ((string \<times> cachedAccount) list \<Rightarrow> (string \<times> cachedAccount) list) \<Rightarrow>
    (FeaturesProvider \<times> 'q, unit) go" where
  "refreshTick http order = (\<lambda>(p, q). refreshAll http (order (fpCache p)) (p, q))"

definition refreshInterval :: "int \<Rightarrow> int" where
  "refreshInterval interval = (if interval = 0 then 3600 * 1000000000 else interval)"

section \<open>Lemmas\<close>

lemma map_of_store [simp]: "map_of (fpCache (store account entry p)) = (map_of (fpCache p))(account \<mapsto> entry)"
  and store_flag [simp]: "fpFeatureFlagName (store account entry p) = fpFeatureFlagName p"
  and store_url [simp]: "fpFeaturesURL (store account entry p) = fpFeaturesURL p"
  by (simp_all add: store_def)

lemma RegisterAccount_flag [simp]: "fpFeatureFlagName (fst (RegisterAccount a k p)) = fpFeatureFlagName p"
  by (simp add: RegisterAccount_def Let_def split: option.splits)

lemma UnregisterAccount_cache [simp]: "map_of (fpCache (UnregisterAccount a p)) = (map_of (fpCache p))(a := None)"
  by (simp add: UnregisterAccount_def)

text \<open>A refresh changes the entry of its account only, and only when the request was answered.\<close>

lemma refreshAccount_cases:
  obtains (kept) r q' where "refreshAccount http a k (p, q) = (r, (p, q'))"
  | (stored) fs q' where "fetchFeatures http p a k q = (Ret (Inr fs), q')"
      and "refreshAccount http a k (p, q) = (Ret (), (store a \<lparr>caAccessKey = k, caFeatures = fs\<rparr> p, q'))"
proof -
  obtain r q' where f: "fetchFeatures http p a k q = (r, q')" by (cases "fetchFeatures http p a k q")
  show thesis
  proof (cases r)
    case (Panic s)
    then show thesis using f kept by (simp add: refreshAccount_def)
  next
    case (Ret x)
    then show thesis using f kept stored by (cases x) (simp_all add: refreshAccount_def)
  qed
qed

text \<open>
  The answer of the features endpoint decides: features are skipped for an account exactly when its
  last answered request brought a list without the flag.
\<close>

lemma refreshAccount_decides:
  assumes "http (fpFeaturesURL p @ ''/api/v1/features'') [(''X-API-KEY'', k), (''X-API-ACCOUNT'', a)] q = (Ret (Inr resp), q')"
    and "200 \<le> hrStatusCode resp" and "hrStatusCode resp < 300"
    and "hrBody resp = Doc (JObj [(''features'', JArr (map JStr fs))])"
  shows "\<exists>p'. refreshAccount http a k (p, q) = (Ret (), (p', q')) \<and>
     ShouldSkipAlertsFrom p' a = (fpFeatureFlagName p \<notin> set fs)"
proof -
  have elems: "dec_stringElems (map JStr fs) = Inr fs"
    by (induction fs) (simp_all add: dec_string_def)
  have low: "strings_ToLower ''features'' = ''features''" by code_simp
  have "unmarshal featuresResponse_fields \<lparr>frFeatures = None\<rparr> (hrBody resp) = Inr \<lparr>frFeatures = Some fs\<rparr>"
    using assms(4) elems low
    by (simp add: unmarshal_def dec_struct_def featuresResponse_fields_def structField_def dec_strings_def)
  then have "fetchFeatures http p a k q = (Ret (Inr (Some fs)), q')"
    using assms(1-3) by (simp add: fetchFeatures_def)
  then show ?thesis by (simp add: refreshAccount_def ShouldSkipAlertsFrom_def)
qed

text \<open>Every failure of the request leaves the decision as it was.\<close>

lemma refreshAccount_failure:
  assumes "fetchFeatures http p a k q = (Ret (Inl e), q')"
  shows "refreshAccount http a k (p, q) = (Ret (), (p, q'))"
  using assms by (simp add: refreshAccount_def)

lemma RegisterAccount_open:
  assumes "RegisterAccount a k p = (p', Some req)"
  shows "\<not> ShouldSkipAlertsFrom p' a \<and> req = (a, k)"
  using assms by (auto simp: RegisterAccount_def ShouldSkipAlertsFrom_def Let_def split: option.splits if_splits)

end
