(* ===== verification/Message_Handler.thy ===== *)
theory Message_Handler
  imports Messaging_Records Core_Protocol
begin

text \<open>
  \<open>messaging/handler.go\<close>: what the server does with a message read from the queue. It looks up the
  callbacks of the connection the message is for and makes the call the message asks for. The adapter
  is used through two of its operations, \<open>IsRelated\<close> and \<open>Callbacks\<close>; \<open>multierr.Append\<close> and the
  order in which a Go map is ranged over are arguments.
\<close>

record ('s, 'w) handlerEnv =
  heIsRelated :: "Context \<Rightarrow> ClientIdentifier \<Rightarrow> ('s \<times> 'w, bool) go"
  heCallbacks :: "Context \<Rightarrow> ('s \<times> 'w, goerror + 'w Callbacks) go"
  heAppend :: "goerror option \<Rightarrow> goerror option \<Rightarrow> goerror option"
  heMapRange :: "(string \<times> ReconciliationRequestObject list) list \<Rightarrow> (string \<times> ReconciliationRequestObject list) list"

definition kindFromPayload :: "string \<Rightarrow> string \<Rightarrow> goerror + Kind" where
  "kindFromPayload kindStr messageType =
     (case KindFromString kindStr of
        None \<Rightarrow> Inl (GoError (''unknown kind '' @ kindStr @ '' in '' @ messageType @ '' message''))
      | Some kind \<Rightarrow> Inr kind)"

text \<open>The common shape of the five branches for one object: unmarshal, context, kind, callback.\<close>

definition handleObject :: "'r field list \<Rightarrow> 'r \<Rightarrow> ('r \<Rightarrow> int) \<Rightarrow> ('r \<Rightarrow> string) \<Rightarrow> ('r \<Rightarrow> string) \<Rightarrow> string \<Rightarrow>
    (Context \<Rightarrow> Kind \<Rightarrow> 'r \<Rightarrow> ('w, goerror option) go) \<Rightarrow> Context \<Rightarrow> wire \<Rightarrow> ('w, goerror option) go" where
  "handleObject fs zero depth msgId kindStr messageType send ctx payload =
     (case unmarshal fs zero payload of
        Inl e \<Rightarrow> ret (Some (GoWrap ''failed to unmarshal message'' e))
      | Inr data \<Rightarrow>
          let ctx = ContextFromGeneric ctx (zero_Generic\<lparr>genDepth := depth data, genMsgId := msgId data\<rparr>) in
          case kindFromPayload (kindStr data) messageType of
            Inl e \<Rightarrow> ret (Some e)
          | Inr kind \<Rightarrow> wrapping (''failed to send '' @ messageType @ '' message'') (send ctx kind data))"

definition messageId :: "Kind \<Rightarrow> string \<Rightarrow> string \<Rightarrow> int \<Rightarrow> KindName" where
  "messageId kind name namespace rv =
     \<lparr>knKind = Some kind, knName = name, knNamespace = namespace, knResourceVersion = rv\<rparr>"

definition handleGetMessage :: "'w Callbacks \<Rightarrow> Context \<Rightarrow> wire \<Rightarrow> ('w, goerror option) go" where
  "handleGetMessage cbs = handleObject GetObjectMessage_fields zero_GetObjectMessage gomDepth gomMsgId gomKind ''GetObject''
     (\<lambda>ctx kind data. cbGetObject cbs ctx
        (messageId kind (gomName data) (gomNamespace data) (gomResourceVersion data)) (gomBaseObject data))"

definition handlePatchMessage :: "'w Callbacks \<Rightarrow> Context \<Rightarrow> wire \<Rightarrow> ('w, goerror option) go" where
  "handlePatchMessage cbs = handleObject PatchObjectMessage_fields zero_PatchObjectMessage pamDepth pamMsgId pamKind ''PatchObject''
     (\<lambda>ctx kind data. cbPatchObject cbs ctx
        (messageId kind (pamName data) (pamNamespace data) (pamResourceVersion data)) (pamChecksum data) (pamPatch data))"

definition handleVerifyMessage :: "'w Callbacks \<Rightarrow> Context \<Rightarrow> wire \<Rightarrow> ('w, goerror option) go" where
  "handleVerifyMessage cbs = handleObject VerifyObjectMessage_fields zero_VerifyObjectMessage vomDepth vomMsgId vomKind ''VerifyObject''
     (\<lambda>ctx kind data. cbVerifyObject cbs ctx
        (messageId kind (vomName data) (vomNamespace data) (vomResourceVersion data)) (vomChecksum data))"

definition handlePutMessage :: "'w Callbacks \<Rightarrow> Context \<Rightarrow> wire \<Rightarrow> ('w, goerror option) go" where
  "handlePutMessage cbs = handleObject PutObjectMessage_fields zero_PutObjectMessage pumDepth pumMsgId pumKind ''PutObject''
     (\<lambda>ctx kind data. cbPutObject cbs ctx
        (messageId kind (pumName data) (pumNamespace data) (pumResourceVersion data)) (pumChecksum data) (pumObject data))"

definition handleDeleteMessage :: "'w Callbacks \<Rightarrow> Context \<Rightarrow> wire \<Rightarrow> ('w, goerror option) go" where
  "handleDeleteMessage cbs = handleObject DeleteObjectMessage_fields zero_DeleteObjectMessage domDepth domMsgId domKind ''DeleteObject''
     (\<lambda>ctx kind data. cbDeleteObject cbs ctx
        (messageId kind (domName data) (domNamespace data) (domResourceVersion data)))"

text \<open>A reconciliation request becomes one batch per kind.\<close>

definition requestItem :: "Kind \<Rightarrow> ReconciliationRequestObject \<Rightarrow> NewChecksum" where
  "requestItem kind object = zero_NewChecksum\<lparr>chkName := rroName object, chkNamespace := rroNamespace object,
     chkResourceVersion := rroResourceVersion object, chkChecksum := rroChecksum object, chkKind := Some kind,
     chkEvent := Some EventNewChecksum\<rparr>"

definition requestBatch :: "'w Callbacks \<Rightarrow> Context \<Rightarrow> string \<times> ReconciliationRequestObject list \<Rightarrow> ('w, goerror option) go" where
  "requestBatch cbs ctx entry =
     (case entry of (kindStr, objects) \<Rightarrow>
        (case KindFromString kindStr of
           None \<Rightarrow> ret (Some (GoError (''unknown kind '' @ kindStr @ '' in batch'')))
         | Some kind \<Rightarrow> cbBatch cbs ctx kind ReconciliationBatch
             (zero_BatchItems\<lparr>itemsNewChecksum := map (requestItem kind) objects\<rparr>)))"

definition handleReconciliationMessage :: "('s, 'w) handlerEnv \<Rightarrow> 'w Callbacks \<Rightarrow> Context \<Rightarrow> wire \<Rightarrow> ('w, goerror option) go" where
  "handleReconciliationMessage env cbs ctx payload =
     (case unmarshal ReconciliationRequestMessage_fields zero_ReconciliationRequestMessage payload of
        Inl e \<Rightarrow> ret (Some (GoWrap ''failed to unmarshal message'' e))
      | Inr data \<Rightarrow>
          let ctx = ContextFromGeneric ctx (zero_Generic\<lparr>genDepth := rrmDepth data, genMsgId := rrmMsgId data\<rparr>) in
          wrapping ''failed to handle ReconciliationRequest message''
            (forAppend (heAppend env) (requestBatch cbs ctx) None (heMapRange env (rrmKindToObjects data))))"

definition Handle :: "('s, 'w) handlerEnv \<Rightarrow> Context \<Rightarrow> IncomingMessage \<Rightarrow> ('s \<times> 'w, goerror option) go" where
  "Handle env ctx msg =
     (let clientIdentifier = zero_ClientIdentifier\<lparr>ciAccount := property (imProperties msg) MsgPropAccount,
            ciCluster := property (imProperties msg) MsgPropCluster\<rparr>;
          event = property (imProperties msg) MsgPropEvent in
      andThen (heIsRelated env ctx clientIdentifier) (\<lambda>related.
      if \<not> related then ret None
      else
        let ctx = ContextFromIdentifiers ctx clientIdentifier in
        andThen (heCallbacks env ctx) (\<lambda>r.
        case r of
          Inl e \<Rightarrow> ret (Some (GoWrap ''failed to get callbacks'' e))
        | Inr cbs \<Rightarrow> on_snd
           (if event = MsgPropEventValueReconciliationRequestMessage then handleReconciliationMessage env cbs ctx (imPayload msg)
            else if event = MsgPropEventValueGetObjectMessage then handleGetMessage cbs ctx (imPayload msg)
            else if event = MsgPropEventValuePatchObjectMessage then handlePatchMessage cbs ctx (imPayload msg)
            else if event = MsgPropEventValueVerifyObjectMessage then handleVerifyMessage cbs ctx (imPayload msg)
            else if event = MsgPropEventValuePutObjectMessage then handlePutMessage cbs ctx (imPayload msg)
            else if event = MsgPropEventValueDeleteObjectMessage then handleDeleteMessage cbs ctx (imPayload msg)
            else ret (Some (GoError ''unknown message type''))))))"

section \<open>Messages for one object\<close>

datatype objectMessage =
    QDelete DeleteObjectMessage
  | QGet GetObjectMessage
  | QPatch PatchObjectMessage
  | QPut PutObjectMessage
  | QVerify VerifyObjectMessage

fun om_event :: "objectMessage \<Rightarrow> string" where
  "om_event (QDelete _) = MsgPropEventValueDeleteObjectMessage"
| "om_event (QGet _) = MsgPropEventValueGetObjectMessage"
| "om_event (QPatch _) = MsgPropEventValuePatchObjectMessage"
| "om_event (QPut _) = MsgPropEventValuePutObjectMessage"
| "om_event (QVerify _) = MsgPropEventValueVerifyObjectMessage"

fun om_doc :: "objectMessage \<Rightarrow> json" where
  "om_doc (QDelete m) = enc_DeleteObjectMessage m"
| "om_doc (QGet m) = enc_GetObjectMessage m"
| "om_doc (QPatch m) = enc_PatchObjectMessage m"
| "om_doc (QPut m) = enc_PutObjectMessage m"
| "om_doc (QVerify m) = enc_VerifyObjectMessage m"

fun om_kind :: "objectMessage \<Rightarrow> string" where
  "om_kind (QDelete m) = domKind m" | "om_kind (QGet m) = gomKind m" | "om_kind (QPatch m) = pamKind m"
| "om_kind (QPut m) = pumKind m" | "om_kind (QVerify m) = vomKind m"

fun om_depth :: "objectMessage \<Rightarrow> int" where
  "om_depth (QDelete m) = domDepth m" | "om_depth (QGet m) = gomDepth m" | "om_depth (QPatch m) = pamDepth m"
| "om_depth (QPut m) = pumDepth m" | "om_depth (QVerify m) = vomDepth m"

fun om_msgId :: "objectMessage \<Rightarrow> string" where
  "om_msgId (QDelete m) = domMsgId m" | "om_msgId (QGet m) = gomMsgId m" | "om_msgId (QPatch m) = pamMsgId m"
| "om_msgId (QPut m) = pumMsgId m" | "om_msgId (QVerify m) = vomMsgId m"

fun om_wf :: "objectMessage \<Rightarrow> bool" where
  "om_wf (QDelete m) = wf_DeleteObjectMessage m" | "om_wf (QGet m) = wf_GetObjectMessage m"
| "om_wf (QPatch m) = wf_PatchObjectMessage m" | "om_wf (QPut m) = wf_PutObjectMessage m"
| "om_wf (QVerify m) = wf_VerifyObjectMessage m"

text \<open>The call the message asks for.\<close>

fun om_call :: "Kind \<Rightarrow> objectMessage \<Rightarrow> syncCall" where
  "om_call k (QDelete m) = CallDelete (messageId k (domName m) (domNamespace m) (domResourceVersion m))"
| "om_call k (QGet m) = CallGet (messageId k (gomName m) (gomNamespace m) (gomResourceVersion m)) (gomBaseObject m)"
| "om_call k (QPatch m) = CallPatch (messageId k (pamName m) (pamNamespace m) (pamResourceVersion m)) (pamChecksum m) (pamPatch m)"
| "om_call k (QPut m) = CallPut (messageId k (pumName m) (pumNamespace m) (pumResourceVersion m)) (pumChecksum m) (pumObject m)"
| "om_call k (QVerify m) = CallVerify (messageId k (vomName m) (vomNamespace m) (vomResourceVersion m)) (vomChecksum m)"

definition clientOf :: "properties \<Rightarrow> ClientIdentifier" where
  "clientOf ps = zero_ClientIdentifier\<lparr>ciAccount := property ps MsgPropAccount, ciCluster := property ps MsgPropCluster\<rparr>"

text \<open>
  What the handler relies on: a client that is related has callbacks. With it, a message for a
  related client always reaches the callbacks.
\<close>

locale message_adapter =
  fixes env :: "('s, 'w) handlerEnv"
  assumes related_has_callbacks: "heIsRelated env ctx cid sw = (Ret True, sw') \<Longrightarrow>
      sw' = sw \<and> (\<forall>ctx'. identified ctx' cid \<longrightarrow> (\<exists>cbs. heCallbacks env ctx' sw = (Ret (Inr cbs), sw)))"
begin

lemma identified_clientOf: "identified (ContextFromIdentifiers ctx (clientOf ps)) (clientOf ps)"
  using identified_ContextFromIdentifiers [of ctx "clientOf ps"] by (simp add: clientOf_def)

lemma Handle_related:
  assumes "heIsRelated env ctx (clientOf (imProperties msg)) sw = (Ret True, sw')"
  shows "\<exists>cbs. heCallbacks env (ContextFromIdentifiers ctx (clientOf (imProperties msg))) sw = (Ret (Inr cbs), sw)"
  using related_has_callbacks [OF assms] identified_clientOf by blast

lemma Handle_object:
  assumes "heIsRelated env ctx (clientOf (imProperties msg)) sw = (Ret True, sw')"
    and "property (imProperties msg) MsgPropEvent = om_event m" and "imPayload msg = Doc (om_doc m)"
    and "om_wf m" and "KindFromString (om_kind m) = Some k"
  shows "\<exists>cbs. heCallbacks env (ContextFromIdentifiers ctx (clientOf (imProperties msg))) sw = (Ret (Inr cbs), sw) \<and>
     Handle env ctx msg sw = on_snd (wrapping (''failed to send '' @ om_event m @ '' message'')
       (callBack cbs (ContextFromGeneric (ContextFromIdentifiers ctx (clientOf (imProperties msg)))
          (zero_Generic\<lparr>genDepth := om_depth m, genMsgId := om_msgId m\<rparr>)) (om_call k m))) sw"
proof -
  obtain cbs where cbs: "heCallbacks env (ContextFromIdentifiers ctx (clientOf (imProperties msg))) sw = (Ret (Inr cbs), sw)"
    using Handle_related [OF assms(1)] by blast
  have "sw' = sw" using related_has_callbacks [OF assms(1)] by simp
  note rel = assms(1) [unfolded clientOf_def this] and cb = cbs [unfolded clientOf_def]
  have "Handle env ctx msg sw = on_snd (wrapping (''failed to send '' @ om_event m @ '' message'')
       (callBack cbs (ContextFromGeneric (ContextFromIdentifiers ctx (clientOf (imProperties msg)))
          (zero_Generic\<lparr>genDepth := om_depth m, genMsgId := om_msgId m\<rparr>)) (om_call k m))) sw"
    using assms(2-5) rel cb
    by (cases m) (simp_all add: Handle_def msgEvent_defs handleDeleteMessage_def handleGetMessage_def
        handlePatchMessage_def handlePutMessage_def handleVerifyMessage_def handleObject_def kindFromPayload_def
        unmarshal_def clientOf_def Let_def)
  then show ?thesis using cbs by blast
qed

text \<open>A message for a client that is not connected here is dropped without an effect.\<close>

lemma Handle_unrelated:
  assumes "heIsRelated env ctx (clientOf (imProperties msg)) sw = (Ret False, sw)"
  shows "Handle env ctx msg sw = (Ret None, sw)"
  using assms by (simp add: Handle_def clientOf_def Let_def)

end

end
