(* ===== verification/Backend_Client.thy ===== *)
theory Backend_Client
  imports Features_Provider Message_Handler Adapter_Libs
begin

text \<open>
  \<open>adapters/backend/v1/client.go\<close>: the server's side of one connected cluster. Every operation asked
  of it becomes a message on the queue. The producer, the clock, the uuid generator and the
  environment are the record \<open>backendEnv\<close>; they act on the state \<open>'q\<close> of the world outside.
\<close>

text \<open>\<open>messaging.MessageProducer\<close>\<close>

record 'q MessageProducer =
  prProduceMessage :: "ClientIdentifier \<Rightarrow> string \<Rightarrow> wire \<Rightarrow> properties list \<Rightarrow> ('q, goerror option) go"
  prProduceMessageWithoutIdentifier :: "string \<Rightarrow> wire \<Rightarrow> ('q, goerror option) go"

record 'q backendEnv =
  beProducer :: "'q MessageProducer"
  beNewMsgId :: "('q, string) go"
  beNow :: "('q, int) go"
  beHostname :: string
  beFormatTime :: "int \<Rightarrow> string"
  beLookupEnv :: "string \<Rightarrow> string option"
  beHttp :: "'q httpDo"
  beAppend :: multierr

definition MaxObjectSizeEnvVar :: string where "MaxObjectSizeEnvVar = ''MAX_OBJECT_SIZE''"
definition resourceRuntimeAlerts :: string where "resourceRuntimeAlerts = ''runtimealerts''"

text \<open>
  The producer and the features provider of a client are the adapter's: they are arguments of the
  operations that use them.
\<close>

record 'w BackendClient =
  bkCallbacks :: "'w Callbacks"
  bkSkipAlertsFrom :: "string list"
  bkMaxObjectSizeBytes :: "int option"

definition getMaxObjectSizeBytes :: "(string \<Rightarrow> string option) \<Rightarrow> int option" where
  "getMaxObjectSizeBytes lookupEnv =
     (case lookupEnv MaxObjectSizeEnvVar of
        None \<Rightarrow> None
      | Some val \<Rightarrow>
          if val = [] then None
          else (case strconv_Atoi val of
                  None \<Rightarrow> None
                | Some intVal \<Rightarrow> if intVal < 0 then None else Some intVal))"

definition backend_NewClient :: "'q backendEnv \<Rightarrow> string list \<Rightarrow> 'w BackendClient" where
  "backend_NewClient env skipAlertsFrom =
     \<lparr>bkCallbacks = nilCallbacks, bkSkipAlertsFrom = skipAlertsFrom,
      bkMaxObjectSizeBytes = getMaxObjectSizeBytes (beLookupEnv env)\<rparr>"

section \<open>Messages\<close>

definition produceMessage :: "'q backendEnv \<Rightarrow> ClientIdentifier \<Rightarrow> string \<Rightarrow> json \<Rightarrow> properties list \<Rightarrow> ('q, goerror option) go" where
  "produceMessage env cId event msg opts = prProduceMessage (beProducer env) cId event (Doc msg) opts"

definition connectedClient :: "ClientIdentifier \<Rightarrow> ConnectedClient" where
  "connectedClient cId = \<lparr>ccCluster = ciCluster cId, ccAccount = ciAccount cId,
     ccSynchronizerVersion = ciSyncVersion cId, ccHelmVersion = ciHelmVersion cId,
     ccConnectionId = ciConnectionId cId, ccConnectionTime = ciConnectionTime cId,
     ccGitVersion = ciGitVersion cId, ccCloudProvider = ciCloudProvider cId,
     ccClusterUID = ciClusterUID cId, ccResourceGroup = ciResourceGroup cId\<rparr>"

definition sendServerConnectedMessage :: "'q backendEnv \<Rightarrow> Context \<Rightarrow> ('q, goerror option) go" where
  "sendServerConnectedMessage env ctx =
     andThen (ClientIdentifierFromContext ctx) (\<lambda>cId.
     andThen (beNewMsgId env) (\<lambda>msgId.
     produceMessage env cId MsgPropEventValueServerConnectedMessage
       (enc_ServerConnectedMessage (zero_ServerConnectedMessage\<lparr>scmCluster := ciCluster cId,
          scmAccount := ciAccount cId, scmMsgId := msgId\<rparr>)) []))"

definition sendSingleConnectedClientsMessage :: "'q backendEnv \<Rightarrow> Context \<Rightarrow> ('q, goerror option) go" where
  "sendSingleConnectedClientsMessage env ctx =
     andThen (ClientIdentifierFromContext ctx) (\<lambda>cId.
     andThen (beNow env) (\<lambda>now.
     andThen (beNewMsgId env) (\<lambda>msgId.
     produceMessage env cId MsgPropEventValueConnectedClientsMessage
       (enc_ConnectedClientsMessage (beFormatTime env) \<lparr>ccmServerName = beHostname env,
          ccmClients = [connectedClient cId], ccmTimestamp = now, ccmDepth = 0, ccmMsgId = msgId\<rparr>) [])))"

text \<open>What every message about one object starts with: depth and id, the client, the kind, the properties.\<close>

definition sendObjectMessage :: "'q backendEnv \<Rightarrow> Context \<Rightarrow> KindName \<Rightarrow> string \<Rightarrow>
    (int \<Rightarrow> string \<Rightarrow> ClientIdentifier \<Rightarrow> string \<Rightarrow> json) \<Rightarrow> ('q, goerror option) go" where
  "sendObjectMessage env ctx oid event msg =
     andThen (DeptMsgIdFromContext (beNewMsgId env) ctx) (\<lambda>(depth, msgId).
     andThen (ClientIdentifierFromContext ctx) (\<lambda>cId.
     andThen (derefKind (knKind oid)) (\<lambda>kind.
     andThen (KindNameToCustomProperties oid) (\<lambda>ps.
     produceMessage env cId event (msg (wrap64 (depth + 1)) msgId cId (Kind_String kind)) [ps]))))"

definition sendDeleteObjectMessage :: "'q backendEnv \<Rightarrow> Context \<Rightarrow> KindName \<Rightarrow> ('q, goerror option) go" where
  "sendDeleteObjectMessage env ctx oid =
     sendObjectMessage env ctx oid MsgPropEventValueDeleteObjectMessage (\<lambda>depth msgId cId kind.
       enc_DeleteObjectMessage (zero_DeleteObjectMessage\<lparr>domCluster := ciCluster cId, domAccount := ciAccount cId,
         domDepth := depth, domKind := kind, domMsgId := msgId, domName := knName oid, domNamespace := knNamespace oid\<rparr>))"

definition sendGetObjectMessage :: "'q backendEnv \<Rightarrow> Context \<Rightarrow> KindName \<Rightarrow> string \<Rightarrow> ('q, goerror option) go" where
  "sendGetObjectMessage env ctx oid baseObject =
     sendObjectMessage env ctx oid MsgPropEventValueGetObjectMessage (\<lambda>depth msgId cId kind.
       enc_GetObjectMessage (zero_GetObjectMessage\<lparr>gomBaseObject := baseObject, gomCluster := ciCluster cId,
         gomAccount := ciAccount cId, gomDepth := depth, gomKind := kind, gomMsgId := msgId, gomName := knName oid,
         gomNamespace := knNamespace oid\<rparr>))"

definition sendPatchObjectMessage :: "'q backendEnv \<Rightarrow> Context \<Rightarrow> KindName \<Rightarrow> string \<Rightarrow> string \<Rightarrow> ('q, goerror option) go" where
  "sendPatchObjectMessage env ctx oid checksum patch =
     sendObjectMessage env ctx oid MsgPropEventValuePatchObjectMessage (\<lambda>depth msgId cId kind.
       enc_PatchObjectMessage (zero_PatchObjectMessage\<lparr>pamChecksum := checksum, pamCluster := ciCluster cId,
         pamAccount := ciAccount cId, pamDepth := depth, pamKind := kind, pamMsgId := msgId, pamName := knName oid,
         pamNamespace := knNamespace oid, pamPatch := patch\<rparr>))"

definition sendVerifyObjectMessage :: "'q backendEnv \<Rightarrow> Context \<Rightarrow> KindName \<Rightarrow> string \<Rightarrow> ('q, goerror option) go" where
  "sendVerifyObjectMessage env ctx oid checksum =
     sendObjectMessage env ctx oid MsgPropEventValueVerifyObjectMessage (\<lambda>depth msgId cId kind.
       enc_VerifyObjectMessage (zero_VerifyObjectMessage\<lparr>vomChecksum := checksum, vomCluster := ciCluster cId,
         vomAccount := ciAccount cId, vomDepth := depth, vomKind := kind, vomMsgId := msgId, vomName := knName oid,
         vomNamespace := knNamespace oid\<rparr>))"

text \<open>A put is dropped for skipped alerts and for objects over the size limit.\<close>

definition skipsAlerts :: "'w BackendClient \<Rightarrow> FeaturesProvider option \<Rightarrow> Kind \<Rightarrow> string \<Rightarrow> bool" where
  "skipsAlerts c featuresProvider kind account \<longleftrightarrow>
     kResource kind = resourceRuntimeAlerts \<and>
     (List.member (bkSkipAlertsFrom c) account \<or>
      (case featuresProvider of None \<Rightarrow> False | Some p \<Rightarrow> ShouldSkipAlertsFrom p account))"

definition tooLarge :: "'w BackendClient \<Rightarrow> string \<Rightarrow> bool" where
  "tooLarge c object \<longleftrightarrow> (case bkMaxObjectSizeBytes c of None \<Rightarrow> False | Some n \<Rightarrow> int (length object) > n)"

definition sendPutObjectMessage :: "'q backendEnv \<Rightarrow> 'w BackendClient \<Rightarrow> FeaturesProvider option \<Rightarrow> Context \<Rightarrow>
    KindName \<Rightarrow> string \<Rightarrow> string \<Rightarrow> ('q, goerror option) go" where
  "sendPutObjectMessage env c fp ctx oid checksum object =
     andThen (DeptMsgIdFromContext (beNewMsgId env) ctx) (\<lambda>(depth, msgId).
     andThen (ClientIdentifierFromContext ctx) (\<lambda>cId.
     andThen (derefKind (knKind oid)) (\<lambda>kind.
     if skipsAlerts c fp kind (ciAccount cId) then ret None
     else if tooLarge c object then ret None
     else
       andThen (KindNameToCustomProperties oid) (\<lambda>ps.
       produceMessage env cId MsgPropEventValuePutObjectMessage
         (enc_PutObjectMessage (zero_PutObjectMessage\<lparr>pumChecksum := checksum, pumCluster := ciCluster cId,
           pumAccount := ciAccount cId, pumDepth := wrap64 (depth + 1), pumKind := Kind_String kind, pumMsgId := msgId,
           pumName := knName oid, pumNamespace := knNamespace oid, pumObject := object\<rparr>)) [ps]))))"

definition SendReconciliationRequestMessage :: "'q backendEnv \<Rightarrow> Context \<Rightarrow> ('q, goerror option) go" where
  "SendReconciliationRequestMessage env ctx =
     andThen (ClientIdentifierFromContext ctx) (\<lambda>cId.
     andThen (beNewMsgId env) (\<lambda>msgId.
     produceMessage env cId MsgPropEventValueReconciliationRequestMessage
       (enc_ReconciliationRequestMessage (zero_ReconciliationRequestMessage\<lparr>rrmCluster := ciCluster cId,
          rrmAccount := ciAccount cId, rrmMsgId := msgId, rrmServerInitiated := True\<rparr>)) []))"

section \<open>Operations\<close>

definition backend_client_Start :: "'q backendEnv \<Rightarrow> Context \<Rightarrow> ('q, goerror option) go" where
  "backend_client_Start env ctx =
     andThen (sendServerConnectedMessage env ctx) (\<lambda>err.
     case err of
       Some e \<Rightarrow> ret (Some (GoWrap ''failed to produce server connected message'' e))
     | None \<Rightarrow> wrapping ''failed to produce connected clients message'' (sendSingleConnectedClientsMessage env ctx))"

definition backend_client_IsRelated :: "Context \<Rightarrow> ClientIdentifier \<Rightarrow> ('q, bool) go" where
  "backend_client_IsRelated ctx cid =
     andThen (ClientIdentifierFromContext ctx) (\<lambda>c. ret (ciCluster c = ciCluster cid \<and> ciAccount c = ciAccount cid))"

definition backend_callVerifyObject :: "jsonlib \<Rightarrow> 'w BackendClient \<Rightarrow> Context \<Rightarrow> KindName \<Rightarrow> string \<Rightarrow> ('w, goerror option) go" where
  "backend_callVerifyObject jl c ctx oid object =
     orReturn ''calculate checksum'' (jlCanonicalHash jl object) (\<lambda>checksum.
     wrapping ''send checksum'' (cbVerifyObject (bkCallbacks c) ctx oid checksum))"

text \<open>
  The operations of the client: everything is delegated to what reads the queue, which may ask back.
\<close>

definition backend_client_DeleteObject :: "'q backendEnv \<Rightarrow> Context \<Rightarrow> KindName \<Rightarrow> ('q, goerror option) go" where
  [simp]: "backend_client_DeleteObject env ctx oid = sendDeleteObjectMessage env ctx oid"

definition backend_client_GetObject :: "'q backendEnv \<Rightarrow> Context \<Rightarrow> KindName \<Rightarrow> string \<Rightarrow> ('q, goerror option) go" where
  [simp]: "backend_client_GetObject env ctx oid baseObject = sendGetObjectMessage env ctx oid baseObject"

definition backend_client_PatchObject :: "'q backendEnv \<Rightarrow> Context \<Rightarrow> KindName \<Rightarrow> string \<Rightarrow> string \<Rightarrow> ('q, goerror option) go" where
  [simp]: "backend_client_PatchObject env ctx oid checksum patch = sendPatchObjectMessage env ctx oid checksum patch"

definition backend_client_PutObject :: "'q backendEnv \<Rightarrow> 'w BackendClient \<Rightarrow> FeaturesProvider option \<Rightarrow> Context \<Rightarrow> KindName \<Rightarrow>
    string \<Rightarrow> string \<Rightarrow> ('q, goerror option) go" where
  [simp]: "backend_client_PutObject env c fp ctx oid checksum object = sendPutObjectMessage env c fp ctx oid checksum object"

definition backend_client_VerifyObject :: "'q backendEnv \<Rightarrow> Context \<Rightarrow> KindName \<Rightarrow> string \<Rightarrow> ('q, goerror option) go" where
  [simp]: "backend_client_VerifyObject env ctx oid checksum = sendVerifyObjectMessage env ctx oid checksum"

definition backend_client_Batch :: "'q backendEnv \<Rightarrow> 'w BackendClient \<Rightarrow> FeaturesProvider option \<Rightarrow> Context \<Rightarrow> Kind \<Rightarrow>
    BatchType \<Rightarrow> BatchItems \<Rightarrow> ('q, goerror option) go" where
  "backend_client_Batch env c fp ctx kind batchType items =
     batchItemsLoop (beAppend env) kind (backend_client_GetObject env ctx) (backend_client_VerifyObject env ctx)
       (backend_client_DeleteObject env ctx) (backend_client_PatchObject env ctx) (backend_client_PutObject env c fp ctx) items"

definition backend_client_RegisterCallbacks :: "'w Callbacks \<Rightarrow> 'w BackendClient \<Rightarrow> 'w BackendClient" where
  "backend_client_RegisterCallbacks cbs c = c\<lparr>bkCallbacks := cbs\<rparr>"

section \<open>What a producer promises\<close>

text \<open>The properties a reader routes a message by are the producer's own.\<close>

definition custom_ok :: "properties \<Rightarrow> bool" where
  "custom_ok ps \<longleftrightarrow> list_all (\<lambda>(k, _). k \<notin> {MsgPropEvent, MsgPropAccount, MsgPropCluster, MsgPropProducerSource}) ps"

definition addressed :: "properties \<Rightarrow> string \<Rightarrow> string \<Rightarrow> string \<Rightarrow> bool" where
  "addressed ps event account cluster \<longleftrightarrow> property ps MsgPropEvent = event \<and> property ps MsgPropAccount = account
     \<and> property ps MsgPropCluster = cluster \<and> IsSelfProducedMessage ps []"

lemma addressed_BuildProducerProperties:
  assumes "list_all custom_ok opts"
  shows "addressed (BuildProducerProperties now account cluster event opts) event account cluster"
proof -
  have "map_of (foldl copyProps dst opts) k = map_of dst k"
    if "k \<in> {MsgPropEvent, MsgPropAccount, MsgPropCluster, MsgPropProducerSource}" for k dst
    by (rule map_of_copyAll) (use assms that in \<open>force simp: list_all_iff custom_ok_def\<close>)
  then show ?thesis
    by (auto simp: addressed_def BuildProducerProperties_def Let_def property_def IsSelfProducedMessage_def msgProp_defs)
qed

lemma custom_ok_KindName:
  assumes "knKind oid = Some k"
  obtains ps where "KindNameToCustomProperties oid = ret ps" and "custom_ok ps"
  using assms that by (simp add: KindNameToCustomProperties_def custom_ok_def msgProp_defs)

text \<open>The message the server makes of a call.\<close>

fun queueMessage :: "int \<Rightarrow> string \<Rightarrow> ClientIdentifier \<Rightarrow> string \<Rightarrow> syncCall \<Rightarrow> objectMessage" where
  "queueMessage d m cid kind (CallDelete oid) = QDelete (zero_DeleteObjectMessage\<lparr>domCluster := ciCluster cid,
     domAccount := ciAccount cid, domDepth := d, domKind := kind, domMsgId := m, domName := knName oid,
     domNamespace := knNamespace oid\<rparr>)"
| "queueMessage d m cid kind (CallGet oid base) = QGet (zero_GetObjectMessage\<lparr>gomBaseObject := base, gomCluster := ciCluster cid,
     gomAccount := ciAccount cid, gomDepth := d, gomKind := kind, gomMsgId := m, gomName := knName oid,
     gomNamespace := knNamespace oid\<rparr>)"
| "queueMessage d m cid kind (CallPatch oid checksum patch) = QPatch (zero_PatchObjectMessage\<lparr>pamChecksum := checksum,
     pamCluster := ciCluster cid, pamAccount := ciAccount cid, pamDepth := d, pamKind := kind, pamMsgId := m,
     pamName := knName oid, pamNamespace := knNamespace oid, pamPatch := patch\<rparr>)"
| "queueMessage d m cid kind (CallPut oid checksum object) = QPut (zero_PutObjectMessage\<lparr>pumChecksum := checksum,
     pumCluster := ciCluster cid, pumAccount := ciAccount cid, pumDepth := d, pumKind := kind, pumMsgId := m,
     pumName := knName oid, pumNamespace := knNamespace oid, pumObject := object\<rparr>)"
| "queueMessage d m cid kind (CallVerify oid checksum) = QVerify (zero_VerifyObjectMessage\<lparr>vomChecksum := checksum,
     vomCluster := ciCluster cid, vomAccount := ciAccount cid, vomDepth := d, vomKind := kind, vomMsgId := m,
     vomName := knName oid, vomNamespace := knNamespace oid\<rparr>)"
| "queueMessage d m cid kind (CallBatch _ _ _) = QDelete zero_DeleteObjectMessage"

fun call_object :: "syncCall \<Rightarrow> KindName option" where
  "call_object (CallDelete oid) = Some oid" | "call_object (CallGet oid _) = Some oid"
| "call_object (CallPatch oid _ _) = Some oid" | "call_object (CallPut oid _ _) = Some oid"
| "call_object (CallVerify oid _) = Some oid" | "call_object (CallBatch _ _ _) = None"

lemma queueMessage_reads_back:
  assumes "call_object c = Some oid" and "knKind oid = Some k" and "in_int64 d"
  shows "om_wf (queueMessage d m cid kind c) \<and> om_kind (queueMessage d m cid kind c) = kind
     \<and> om_depth (queueMessage d m cid kind c) = d \<and> om_msgId (queueMessage d m cid kind c) = m
     \<and> om_call k (queueMessage d m cid kind c) = as_received False c"
  using assms by (cases c) (auto simp: wf_DeleteObjectMessage_def wf_GetObjectMessage_def wf_PatchObjectMessage_def
      wf_PutObjectMessage_def wf_VerifyObjectMessage_def zero_DeleteObjectMessage_def zero_GetObjectMessage_def
      zero_PatchObjectMessage_def zero_PutObjectMessage_def zero_VerifyObjectMessage_def messageId_def unversioned_def
      int64_defs)

fun backend_client_call :: "'q backendEnv \<Rightarrow> 'w BackendClient \<Rightarrow> FeaturesProvider option \<Rightarrow> Context \<Rightarrow> syncCall \<Rightarrow>
    ('q, goerror option) go" where
  "backend_client_call env c fp ctx (CallDelete oid) = sendDeleteObjectMessage env ctx oid"
| "backend_client_call env c fp ctx (CallGet oid base) = sendGetObjectMessage env ctx oid base"
| "backend_client_call env c fp ctx (CallPatch oid checksum patch) = sendPatchObjectMessage env ctx oid checksum patch"
| "backend_client_call env c fp ctx (CallPut oid checksum object) = sendPutObjectMessage env c fp ctx oid checksum object"
| "backend_client_call env c fp ctx (CallVerify oid checksum) = sendVerifyObjectMessage env ctx oid checksum"
| "backend_client_call env c fp ctx (CallBatch kind batchType items) = backend_client_Batch env c fp ctx kind batchType items"

text \<open>The only calls for an object that send nothing.\<close>

fun withheld :: "'w BackendClient \<Rightarrow> FeaturesProvider option \<Rightarrow> string \<Rightarrow> syncCall \<Rightarrow> bool" where
  "withheld c fp account (CallPut oid checksum object) \<longleftrightarrow>
     (case knKind oid of None \<Rightarrow> False | Some k \<Rightarrow> skipsAlerts c fp k account) \<or> tooLarge c object"
| "withheld c fp account _ \<longleftrightarrow> False"

text \<open>
  \<open>produced q\<close> is what the producer has handed over for sending. Both producers of the package keep
  these laws: a message is handed over as it is, with the address the readers route it by.
\<close>

locale message_producer =
  fixes pr :: "'q MessageProducer" and produced :: "'q \<Rightarrow> (properties \<times> wire) list"
  assumes produce_law: "list_all custom_ok opts \<Longrightarrow>
      \<exists>q' ps. prProduceMessage pr cid event payload opts q = (Ret None, q') \<and> produced q' = produced q @ [(ps, payload)]
        \<and> addressed ps event (ciAccount cid) (ciCluster cid)"
    and anonymous_law: "\<exists>q' ps. prProduceMessageWithoutIdentifier pr event payload q = (Ret None, q')
        \<and> produced q' = produced q @ [(ps, payload)] \<and> addressed ps event [] []"
begin

lemma sendObjectMessage_produces:
  assumes "beProducer env = pr" and "carries ctx d m" and "identified ctx cid" and "knKind oid = Some k"
  shows "\<exists>q' ps. sendObjectMessage env ctx oid event msg q = (Ret None, q')
     \<and> produced q' = produced q @ [(ps, Doc (msg (wrap64 (d + 1)) m cid (Kind_String k)))]
     \<and> addressed ps event (ciAccount cid) (ciCluster cid)"
proof -
  obtain ps where "KindNameToCustomProperties oid = (ret ps :: ('q, properties) go)" "custom_ok ps"
    using custom_ok_KindName [OF assms(4)] by metis
  then show ?thesis
    using assms produce_law [of "[ps]" cid event "Doc (msg (wrap64 (d + 1)) m cid (Kind_String k))" q]
    by (simp add: sendObjectMessage_def derefKind_def produceMessage_def)
qed

text \<open>A call for an object that is not withheld becomes exactly its message.\<close>

lemma client_call_produces:
  assumes "beProducer env = pr" and "carries ctx d m" and "identified ctx cid"
    and "call_object c = Some oid" and "knKind oid = Some k" and "\<not> withheld cl fp (ciAccount cid) c"
  shows "\<exists>q' ps. backend_client_call env cl fp ctx c q = (Ret None, q')
     \<and> produced q' = produced q @ [(ps, Doc (om_doc (queueMessage (wrap64 (d + 1)) m cid (Kind_String k) c)))]
     \<and> addressed ps (om_event (queueMessage (wrap64 (d + 1)) m cid (Kind_String k) c)) (ciAccount cid) (ciCluster cid)"
proof -
  note send = sendObjectMessage_produces [OF assms(1-3,5)]
  show ?thesis
  proof (cases c)
    case (CallPut oid' checksum object)
    then have "backend_client_call env cl fp ctx c = sendObjectMessage env ctx oid MsgPropEventValuePutObjectMessage
        (\<lambda>depth msgId cId kind. om_doc (queueMessage depth msgId cId kind c))"
      using assms by (simp add: sendPutObjectMessage_def sendObjectMessage_def derefKind_def)
    then show ?thesis using send [of MsgPropEventValuePutObjectMessage] CallPut by simp
  qed (use assms(4) send in \<open>simp_all add: sendDeleteObjectMessage_def sendGetObjectMessage_def
      sendPatchObjectMessage_def sendVerifyObjectMessage_def\<close>)
qed

text \<open>A call that is withheld has no effect at all.\<close>

lemma client_call_withheld:
  assumes "carries ctx d m" and "identified ctx cid" and "call_object c = Some oid" and "knKind oid = Some k"
    and "withheld cl fp (ciAccount cid) c"
  shows "backend_client_call env cl fp ctx c q = (Ret None, q)"
  using assms by (cases c) (auto simp: sendPutObjectMessage_def derefKind_def)

end

end
