(* ===== verification/Backend_Adapter.thy ===== *)
theory Backend_Adapter
  imports Backend_Client Config
begin

text \<open>
  \<open>adapters/backend/v1/adapter.go\<close>: the server's adapter, shared by all connections of an instance.
  Its state is the record \<open>Backend\<close>; beside it stand the world of the queue, \<open>'q\<close>, and the state of
  the connections, \<open>'w\<close>, which only callbacks reach. A goroutine the code starts is a \<open>task\<close> that
  waits in the state until a later step runs it; the mutex makes \<open>Start\<close>, \<open>Stop\<close> and the
  bodies of the periodic tasks one step each. The gauge and the counter of \<open>metrics.go\<close> are part of
  the state.
\<close>

datatype task = RefreshTask string string | StartTask Context

record 'w Backend =
  baCallbacksMap :: "string \<rightharpoonup> 'w Callbacks"
  baClientsMap :: "string \<rightharpoonup> 'w BackendClient"
  baConnectionMap :: "(string \<times> ClientIdentifier) list"
  baSkipAlertsFrom :: "string list"
  baFeaturesProvider :: "FeaturesProvider option"
  baGauge :: int
  baDisconnections :: "(string \<times> string) list"
  baTasks :: "task list"

section \<open>Parts of the state\<close>

definition on_queue :: "('q, 'a) go \<Rightarrow> (('b \<times> 'q) \<times> 'w, 'a) go" where
  "on_queue m s = (case s of ((b, q), w) \<Rightarrow> case m q of (r, q') \<Rightarrow> (r, ((b, q'), w)))"

definition get_backend :: "(('b \<times> 'q) \<times> 'w, 'b) go" where
  "get_backend = andThen get_state (\<lambda>(b, q). ret b)"

definition modify_backend :: "('b \<Rightarrow> 'b) \<Rightarrow> (('b \<times> 'q) \<times> 'w, unit) go" where
  "modify_backend f = modify (\<lambda>(b, q). (f b, q))"

lemma run_on_queue [simp, go_simps]: "on_queue m ((b, q), w) = (fst (m q), ((b, snd (m q)), w))"
  by (simp add: on_queue_def split: prod.splits)

lemma run_get_backend [simp, go_simps]: "get_backend ((b, q), w) = (Ret b, ((b, q), w))"
  by (simp add: get_backend_def)

lemma run_modify_backend [simp, go_simps]: "modify_backend f ((b, q), w) = (Ret (), ((f b, q), w))"
  by (simp add: modify_backend_def)

lemma keeps_on_queue [keeps_intros]: "preorderp R \<Longrightarrow> keeps (snd_rel R) (on_queue m)"
  by (auto simp: keeps_def snd_rel_def on_queue_def preorderp_refl split: prod.splits)

lemma keeps_get_backend [keeps_intros]: "preorderp R \<Longrightarrow> keeps (snd_rel R) get_backend"
  by (auto simp: keeps_def snd_rel_def preorderp_refl)

lemma keeps_modify_backend [keeps_intros]: "preorderp R \<Longrightarrow> keeps (snd_rel R) (modify_backend f)"
  unfolding modify_backend_def by (rule keeps_modify)

section \<open>Construction\<close>

definition featuresProviderOf :: "BackendConfig \<Rightarrow> FeaturesProvider option" where
  "featuresProviderOf cfg =
     (let featuresURL = (case bcAuthenticationServer cfg of None \<Rightarrow> [] | Some a \<Rightarrow> auUrl a) in
      case bcFeaturesProvider cfg of
        None \<Rightarrow> None
      | Some fc \<Rightarrow> if featuresURL \<noteq> [] \<and> fcFeatureFlagName fc \<noteq> []
                   then Some (NewFeaturesProvider featuresURL (fcFeatureFlagName fc)) else None)"

definition NewBackendAdapter :: "BackendConfig \<Rightarrow> 'w Backend" where
  "NewBackendAdapter cfg = \<lparr>baCallbacksMap = Map.empty, baClientsMap = Map.empty, baConnectionMap = [],
     baSkipAlertsFrom = bcSkipAlertsFrom cfg, baFeaturesProvider = featuresProviderOf cfg,
     baGauge = 0, baDisconnections = [], baTasks = []\<rparr>"

section \<open>Clients and callbacks\<close>

definition getClient :: "Context \<Rightarrow> (('w Backend \<times> 'q) \<times> 'w, goerror + 'w BackendClient) go" where
  "getClient ctx =
     andThen (ClientIdentifierFromContext ctx) (\<lambda>cid.
     andThen get_backend (\<lambda>b.
     case baClientsMap b (ClientIdentifier_String cid) of
       Some client \<Rightarrow> ret (Inr client)
     | None \<Rightarrow> ret (Inl (GoError (''client was missing from map '' @ ClientIdentifier_String cid @
         '' (probably disconnected client)'')))))"

definition backend_Callbacks :: "Context \<Rightarrow> (('w Backend \<times> 'q) \<times> 'w, goerror + 'w Callbacks) go" where
  "backend_Callbacks ctx =
     andThen (ClientIdentifierFromContext ctx) (\<lambda>cid.
     andThen get_backend (\<lambda>b.
     case baCallbacksMap b (ClientIdentifier_String cid) of
       Some callbacks \<Rightarrow> ret (Inr callbacks)
     | None \<Rightarrow> ret (Inl (GoError (''callbacks for client '' @ ClientIdentifier_String cid @
         '' were missing (probably disconnected client)'')))))"

definition backend_RegisterCallbacks :: "Context \<Rightarrow> 'w Callbacks \<Rightarrow> (('w Backend \<times> 'q) \<times> 'w, unit) go" where
  "backend_RegisterCallbacks ctx cbs =
     andThen (ClientIdentifierFromContext ctx) (\<lambda>cid.
     modify_backend (\<lambda>b. b\<lparr>baCallbacksMap := (baCallbacksMap b)(ClientIdentifier_String cid \<mapsto> cbs)\<rparr>))"

definition backend_IsRelated :: "ClientIdentifier \<Rightarrow> 'w Backend \<Rightarrow> bool" where
  "backend_IsRelated cid b \<longleftrightarrow> baCallbacksMap b (ClientIdentifier_String cid) \<noteq> None
     \<and> baClientsMap b (ClientIdentifier_String cid) \<noteq> None"

section \<open>Operations on objects\<close>

text \<open>\<open>client, err := b.getClient(ctx); if err != nil { return err }; return client.F(...)\<close>\<close>

definition withClient :: "Context \<Rightarrow> ('w BackendClient \<Rightarrow> FeaturesProvider option \<Rightarrow> ('q, goerror option) go) \<Rightarrow>
    (('w Backend \<times> 'q) \<times> 'w, goerror option) go" where
  "withClient ctx f =
     andThen (getClient ctx) (\<lambda>r.
     case r of
       Inl e \<Rightarrow> ret (Some e)
     | Inr client \<Rightarrow> andThen get_backend (\<lambda>b. on_queue (f client (baFeaturesProvider b))))"

definition backend_DeleteObject :: "'q backendEnv \<Rightarrow> Context \<Rightarrow> KindName \<Rightarrow> (('w Backend \<times> 'q) \<times> 'w, goerror option) go" where
  "backend_DeleteObject env ctx oid = withClient ctx (\<lambda>c fp. backend_client_DeleteObject env ctx oid)"

definition backend_GetObject :: "'q backendEnv \<Rightarrow> Context \<Rightarrow> KindName \<Rightarrow> string \<Rightarrow> (('w Backend \<times> 'q) \<times> 'w, goerror option) go" where
  "backend_GetObject env ctx oid baseObject = withClient ctx (\<lambda>c fp. backend_client_GetObject env ctx oid baseObject)"

definition backend_PatchObject :: "'q backendEnv \<Rightarrow> Context \<Rightarrow> KindName \<Rightarrow> string \<Rightarrow> string \<Rightarrow>
    (('w Backend \<times> 'q) \<times> 'w, goerror option) go" where
  "backend_PatchObject env ctx oid checksum patch =
     withClient ctx (\<lambda>c fp. backend_client_PatchObject env ctx oid checksum patch)"

definition backend_PutObject :: "'q backendEnv \<Rightarrow> Context \<Rightarrow> KindName \<Rightarrow> string \<Rightarrow> string \<Rightarrow>
    (('w Backend \<times> 'q) \<times> 'w, goerror option) go" where
  "backend_PutObject env ctx oid checksum object =
     withClient ctx (\<lambda>c fp. backend_client_PutObject env c fp ctx oid checksum object)"

definition backend_VerifyObject :: "'q backendEnv \<Rightarrow> Context \<Rightarrow> KindName \<Rightarrow> string \<Rightarrow>
    (('w Backend \<times> 'q) \<times> 'w, goerror option) go" where
  "backend_VerifyObject env ctx oid checksum = withClient ctx (\<lambda>c fp. backend_client_VerifyObject env ctx oid checksum)"

definition backend_Batch :: "'q backendEnv \<Rightarrow> Context \<Rightarrow> Kind \<Rightarrow> BatchType \<Rightarrow> BatchItems \<Rightarrow>
    (('w Backend \<times> 'q) \<times> 'w, goerror option) go" where
  "backend_Batch env ctx kind batchType items =
     withClient ctx (\<lambda>c fp. backend_client_Batch env c fp ctx kind batchType items)"

section \<open>Connections\<close>

text \<open>There is a different connection of this client, and it is newer.\<close>

definition newerExists :: "'w Backend \<Rightarrow> ClientIdentifier \<Rightarrow> bool" where
  "newerExists b cid \<longleftrightarrow>
     (case map_of (baConnectionMap b) (ClientIdentifier_String cid) of
        None \<Rightarrow> False
      | Some existing \<Rightarrow> ConnectionString existing \<noteq> ConnectionString cid
          \<and> ciConnectionTime cid < ciConnectionTime existing)"

definition registerFeatures :: "string \<Rightarrow> ClientIdentifier \<Rightarrow> 'w Backend \<Rightarrow> 'w Backend" where
  "registerFeatures accessKey cid b =
     (case baFeaturesProvider b of
        None \<Rightarrow> b
      | Some p \<Rightarrow>
          if accessKey = [] then b
          else (case RegisterAccount (ciAccount cid) accessKey p of (p', request) \<Rightarrow>
                  b\<lparr>baFeaturesProvider := Some p', baTasks := baTasks b @
                      (case request of None \<Rightarrow> [] | Some (a, k) \<Rightarrow> [RefreshTask a k])\<rparr>))"

definition addClient :: "'w BackendClient \<Rightarrow> ClientIdentifier \<Rightarrow> 'w Backend \<Rightarrow> 'w Backend" where
  "addClient client cid b =
     b\<lparr>baGauge := (if baClientsMap b (ClientIdentifier_String cid) = None then baGauge b + 1 else baGauge b),
       baClientsMap := (baClientsMap b)(ClientIdentifier_String cid \<mapsto> client)\<rparr>"

definition backend_Start :: "'q backendEnv \<Rightarrow> Context \<Rightarrow> (('w Backend \<times> 'q) \<times> 'w, goerror option) go" where
  "backend_Start env ctx =
     andThen (ClientIdentifierFromContext ctx) (\<lambda>incomingId.
     andThen get_backend (\<lambda>b.
     if newerExists b incomingId then
       ret (Some (GoError ''failed to start synchronization for client because a newer connection exist''))
     else
       andThen (modify_backend (\<lambda>b. b\<lparr>baConnectionMap := aset (ClientIdentifier_String incomingId) incomingId (baConnectionMap b)\<rparr>)) (\<lambda>_.
       andThen (modify_backend (registerFeatures (AccessKeyFromContext ctx) incomingId)) (\<lambda>_.
       andThen (modify_backend (addClient (backend_NewClient env (baSkipAlertsFrom b)) incomingId)) (\<lambda>_.
       andThen (backend_Callbacks ctx) (\<lambda>r.
       case r of
         Inl e \<Rightarrow> ret (Some e)
       | Inr callbacks \<Rightarrow>
           andThen (modify_backend (\<lambda>b. b\<lparr>
             baClientsMap := (baClientsMap b)(ClientIdentifier_String incomingId \<mapsto>
               backend_client_RegisterCallbacks callbacks (backend_NewClient env (baSkipAlertsFrom b))),
             baTasks := baTasks b @ [StartTask ctx]\<rparr>)) (\<lambda>_.
           ret None)))))))"

definition removeClient :: "ClientIdentifier \<Rightarrow> 'w Backend \<Rightarrow> 'w Backend" where
  "removeClient cid b =
     (if baClientsMap b (ClientIdentifier_String cid) = None then b
      else b\<lparr>baClientsMap := (baClientsMap b)(ClientIdentifier_String cid := None), baGauge := baGauge b - 1,
             baDisconnections := baDisconnections b @ [(ciCluster cid, ciAccount cid)]\<rparr>)"

definition unregisterFeatures :: "ClientIdentifier \<Rightarrow> 'w Backend \<Rightarrow> 'w Backend" where
  "unregisterFeatures cid b =
     (case baFeaturesProvider b of
        None \<Rightarrow> b
      | Some p \<Rightarrow>
          if list_ex (\<lambda>(_, other). ciAccount other = ciAccount cid) (baConnectionMap b) then b
          else b\<lparr>baFeaturesProvider := Some (UnregisterAccount (ciAccount cid) p)\<rparr>)"

definition backend_Stop :: "Context \<Rightarrow> (('w Backend \<times> 'q) \<times> 'w, goerror option) go" where
  "backend_Stop ctx =
     andThen (ClientIdentifierFromContext ctx) (\<lambda>toDelete.
     andThen get_backend (\<lambda>b.
     if newerExists b toDelete then ret None
     else
       andThen (modify_backend (\<lambda>b. b\<lparr>baConnectionMap := adel (ClientIdentifier_String toDelete) (baConnectionMap b)\<rparr>)) (\<lambda>_.
       andThen (modify_backend (\<lambda>b. b\<lparr>baCallbacksMap := (baCallbacksMap b)(ClientIdentifier_String toDelete := None)\<rparr>)) (\<lambda>_.
       andThen (modify_backend (removeClient toDelete)) (\<lambda>_.
       andThen (modify_backend (unregisterFeatures toDelete)) (\<lambda>_.
       ret None))))))"

section \<open>The backend is an adapter\<close>

definition backendAdapter :: "'q backendEnv \<Rightarrow> ('w Backend \<times> 'q, 'w) Adapter" where
  "backendAdapter env = \<lparr>
     adStart = (\<lambda>cbs ctx. backend_Start env ctx),
     adStop = (\<lambda>cbs ctx. backend_Stop ctx),
     adDeleteObject = (\<lambda>cbs ctx oid. backend_DeleteObject env ctx oid),
     adGetObject = (\<lambda>cbs ctx oid baseObject. backend_GetObject env ctx oid baseObject),
     adPatchObject = (\<lambda>cbs ctx oid checksum patch. backend_PatchObject env ctx oid checksum patch),
     adPutObject = (\<lambda>cbs ctx oid checksum object. backend_PutObject env ctx oid checksum object),
     adVerifyObject = (\<lambda>cbs ctx oid checksum. backend_VerifyObject env ctx oid checksum),
     adBatch = (\<lambda>cbs ctx kind batchType items. backend_Batch env ctx kind batchType items)\<rparr>"

lemma keeps_getClient [keeps_intros]: "preorderp R \<Longrightarrow> keeps (snd_rel R) (getClient ctx)"
  unfolding getClient_def by (auto intro!: keeps_intros split: option.splits)

lemma keeps_withClient [keeps_intros]: "preorderp R \<Longrightarrow> keeps (snd_rel R) (withClient ctx f)"
  unfolding withClient_def by (auto intro!: keeps_intros split: sum.splits)

interpretation backend: sync_adapter "backendAdapter env"
  by unfold_locales (simp_all add: backendAdapter_def backend_DeleteObject_def backend_GetObject_def
      backend_PatchObject_def backend_PutObject_def backend_VerifyObject_def backend_Batch_def keeps_withClient)

interpretation backend_end: sync_adapters "[backendAdapter env]"
  by (rule sync_adapters.intro) (simp add: backend.sync_adapter_axioms)

text \<open>The message handler reaches the adapter through these two operations.\<close>

definition backendHandlerEnv :: "'q backendEnv \<Rightarrow>
    ((string \<times> ReconciliationRequestObject list) list \<Rightarrow> (string \<times> ReconciliationRequestObject list) list) \<Rightarrow>
    ('w Backend \<times> 'q, 'w) handlerEnv" where
  "backendHandlerEnv env order = \<lparr>
     heIsRelated = (\<lambda>ctx cid. andThen get_backend (\<lambda>b. ret (backend_IsRelated cid b))),
     heCallbacks = backend_Callbacks,
     heAppend = beAppend env,
     heMapRange = order\<rparr>"

lemma run_IsRelated [simp]:
  "heIsRelated (backendHandlerEnv env order) ctx cid ((b, q), w) = (Ret (backend_IsRelated cid b), ((b, q), w))"
  by (simp add: backendHandlerEnv_def)

lemma run_Callbacks [simp]:
  "identified ctx cid \<Longrightarrow> baCallbacksMap b (ClientIdentifier_String cid) = Some cbs \<Longrightarrow>
     backend_Callbacks ctx ((b, q), w) = (Ret (Inr cbs), ((b, q), w))"
  by (simp add: backend_Callbacks_def)

interpretation backend_messages: message_adapter "backendHandlerEnv env order"
proof (unfold_locales, goal_cases)
  case (1 ctx cid sw sw')
  obtain b q w where sw: "sw = ((b, q), w)" by (cases sw) auto
  then have "sw' = sw" and "backend_IsRelated cid b" using 1 by simp_all
  then show ?case using sw by (auto simp: backend_IsRelated_def backendHandlerEnv_def)
qed

end
