(* ===== verification/Backend_Tasks.thy ===== *)
theory Backend_Tasks
  imports Backend_Adapter
begin

text \<open>
  What runs beside the connections in \<open>adapters/backend/v1/adapter.go\<close>: the goroutines \<open>Start\<close> leaves
  behind, the refresh of the features, and the two periodic tasks. Each tick of a periodic task is one
  function; the order in which Go ranges over the connection map is an argument.
\<close>

section \<open>Goroutines\<close>

definition on_features :: "(FeaturesProvider \<times> 'q, unit) go \<Rightarrow> (('w Backend \<times> 'q) \<times> 'w, unit) go" where
  "on_features m s = (case s of ((b, q), w) \<Rightarrow>
     (case baFeaturesProvider b of
        None \<Rightarrow> (Ret (), s)
      | Some p \<Rightarrow> (case m (p, q) of (r, (p', q')) \<Rightarrow> (r, ((b\<lparr>baFeaturesProvider := Some p'\<rparr>, q'), w)))))"

fun runTask :: "'q backendEnv \<Rightarrow> task \<Rightarrow> (('w Backend \<times> 'q) \<times> 'w, unit) go" where
  "runTask env (RefreshTask account accessKey) = on_features (refreshAccount (beHttp env) account accessKey)"
| "runTask env (StartTask ctx) = andThen (on_queue (backend_client_Start env ctx)) (\<lambda>_. ret ())"

definition refreshLoopTick :: "'q backendEnv \<Rightarrow> ((string \<times> cachedAccount) list \<Rightarrow> (string \<times> cachedAccount) list) \<Rightarrow>
    (('w Backend \<times> 'q) \<times> 'w, unit) go" where
  "refreshLoopTick env order = on_features (refreshTick (beHttp env) order)"

section \<open>Reconciliation requests\<close>

text \<open>\<open>time.Since\<close> saturates; \<open>time.Duration(n) * time.Second\<close> wraps.\<close>

definition timeSince :: "int \<Rightarrow> int \<Rightarrow> int" where
  "timeSince now t = max int64_min (min int64_max (now - t))"

definition durationSeconds :: "int \<Rightarrow> int" where
  "durationSeconds n = wrap64 (n * 1000000000)"

definition reconciliationDisabled :: "ReconciliationTaskConfig option \<Rightarrow> bool" where
  "reconciliationDisabled cfg \<longleftrightarrow>
     (case cfg of None \<Rightarrow> True
      | Some c \<Rightarrow> (rtTaskIntervalSeconds c = 0 \<and> rtCronSchedule c = []) \<or> rtIntervalFromConnectionSeconds c = 0)"

text \<open>
  A value of the interface type \<open>utils.Ticker\<close>: the nil interface, a \<open>*CronTicker\<close> that is nil, a cron
  ticker, an interval ticker.
\<close>

datatype ('sched, 'loc) ticker = NilTicker | NilCronTicker | CronTicker 'sched 'loc | StdTicker int

definition NewStdTicker :: "int \<Rightarrow> ('sched, 'loc) ticker outcome" where
  "NewStdTicker d = (if d \<le> 0 then Panic ''non-positive interval for NewTicker'' else Ret (StdTicker d))"

definition NewCronTicker :: "(string \<Rightarrow> goerror + 'loc) \<Rightarrow> (string \<Rightarrow> goerror + 'sched) \<Rightarrow> string \<Rightarrow>
    (('sched, 'loc) ticker \<times> goerror option) outcome" where
  "NewCronTicker loadLocation parse schedule =
     (case newCronTicker loadLocation parse schedule of
        Panic p \<Rightarrow> Panic p
      | Ret (Inl e) \<Rightarrow> Ret (NilCronTicker, Some e)
      | Ret (Inr (cronSchedule, loc)) \<Rightarrow> Ret (CronTicker cronSchedule loc, None))"

definition ticker_Chan :: "('sched, 'loc) ticker \<Rightarrow> ('sched, 'loc) ticker outcome" where
  "ticker_Chan t = (case t of NilTicker \<Rightarrow> Panic ''nil pointer dereference''
     | NilCronTicker \<Rightarrow> Panic ''nil pointer dereference'' | _ \<Rightarrow> Ret t)"

text \<open>The ticker the goroutine of \<open>startReconciliationPeriodicTask\<close> first waits on.\<close>

definition reconciliationTicker :: "(string \<Rightarrow> goerror + 'loc) \<Rightarrow> (string \<Rightarrow> goerror + 'sched) \<Rightarrow>
    ReconciliationTaskConfig \<Rightarrow> ('sched, 'loc) ticker outcome" where
  "reconciliationTicker loadLocation parse cfg =
     (case (if rtCronSchedule cfg \<noteq> [] then NewCronTicker loadLocation parse (rtCronSchedule cfg)
            else Ret (NilTicker, None)) of
        Panic p \<Rightarrow> Panic p
      | Ret (ticker, err) \<Rightarrow>
          (case (if ticker = NilTicker then NewStdTicker (durationSeconds (rtTaskIntervalSeconds cfg)) else Ret ticker) of
             Panic p \<Rightarrow> Panic p
           | Ret ticker \<Rightarrow> ticker_Chan ticker))"

definition requestFor :: "ClientIdentifier \<Rightarrow> ReconciliationRequestMessage" where
  "requestFor cid = zero_ReconciliationRequestMessage\<lparr>rrmCluster := ciCluster cid, rrmAccount := ciAccount cid,
     rrmServerInitiated := True\<rparr>"

fun reconcileConnections :: "'q backendEnv \<Rightarrow> (string \<Rightarrow> string \<Rightarrow> int) \<Rightarrow> ReconciliationTaskConfig \<Rightarrow> Context \<Rightarrow>
    (string \<times> ClientIdentifier) list \<Rightarrow> ReconciliationRequestMessage list \<Rightarrow>
    (('w Backend \<times> 'q) \<times> 'w, ReconciliationRequestMessage list) go" where
  "reconcileConnections env semver cfg mainCtx [] requests = ret requests"
| "reconcileConnections env semver cfg mainCtx ((connId, clientId) # conns) requests =
     andThen (on_queue (beNow env)) (\<lambda>now.
     if timeSince now (ciConnectionTime clientId) < durationSeconds (rtIntervalFromConnectionSeconds cfg) then
       reconcileConnections env semver cfg mainCtx conns requests
     else
       andThen get_backend (\<lambda>b.
       if baClientsMap b connId = None then reconcileConnections env semver cfg mainCtx conns requests
       else if \<not> IsBatchMessageSupported semver (ciSyncVersion clientId) then
         reconcileConnections env semver cfg mainCtx conns requests
       else if rtSendBatch cfg then reconcileConnections env semver cfg mainCtx conns (requests @ [requestFor clientId])
       else
         andThen (on_queue (SendReconciliationRequestMessage env (ContextFromIdentifiers mainCtx clientId))) (\<lambda>_.
         reconcileConnections env semver cfg mainCtx conns requests)))"

definition reconciliationTick :: "'q backendEnv \<Rightarrow> (string \<Rightarrow> string \<Rightarrow> int) \<Rightarrow> ReconciliationTaskConfig \<Rightarrow> Context \<Rightarrow>
    ((string \<times> ClientIdentifier) list \<Rightarrow> (string \<times> ClientIdentifier) list) \<Rightarrow>
    (('w Backend \<times> 'q) \<times> 'w, unit) go" where
  "reconciliationTick env semver cfg mainCtx order =
     andThen (if rtSendBatch cfg then on_queue (beNewMsgId env) else ret []) (\<lambda>msgId.
     andThen get_backend (\<lambda>b.
     andThen (reconcileConnections env semver cfg mainCtx (order (baConnectionMap b)) []) (\<lambda>requests.
     if rtSendBatch cfg \<and> length requests > 0 then
       andThen (on_queue (prProduceMessageWithoutIdentifier (beProducer env)
          MsgPropEventValueReconciliationRequestMessageBatch
          (Doc (enc_ReconciliationRequestMessageBatch \<lparr>rrbDepth = 0, rrbMsgId = msgId, rrbRequests = requests\<rparr>)))) (\<lambda>_.
       ret ())
     else ret ())))"

section \<open>Keepalive\<close>

definition keepaliveDisabled :: "KeepAliveTaskConfig option \<Rightarrow> bool" where
  "keepaliveDisabled cfg \<longleftrightarrow> (case cfg of None \<Rightarrow> True | Some c \<Rightarrow> kaTaskIntervalSeconds c = 0)"

definition keepaliveTick :: "'q backendEnv \<Rightarrow> ((string \<times> ClientIdentifier) list \<Rightarrow> (string \<times> ClientIdentifier) list) \<Rightarrow>
    (('w Backend \<times> 'q) \<times> 'w, unit) go" where
  "keepaliveTick env order =
     andThen get_backend (\<lambda>b.
     andThen (on_queue (beNow env)) (\<lambda>now.
     andThen (on_queue (beNewMsgId env)) (\<lambda>msgId.
     andThen (on_queue (prProduceMessageWithoutIdentifier (beProducer env) MsgPropEventValueConnectedClientsMessage
       (Doc (enc_ConnectedClientsMessage (beFormatTime env) \<lparr>ccmServerName = beHostname env,
          ccmClients = map (\<lambda>(_, cid). connectedClient cid) (order (baConnectionMap b)), ccmTimestamp = now,
          ccmDepth = 0, ccmMsgId = msgId\<rparr>)))) (\<lambda>_.
     ret ()))))"

section \<open>The goroutines of the periodic tasks\<close>

text \<open>
  All three wait for the end of the main context or the next tick. The order in which the tick ranges
  over its map comes with it. The result says whether the goroutine has ended.
\<close>

datatype 'o wake = Tick 'o | Done

fun tickerLoop :: "('o \<Rightarrow> ('s, unit) go) \<Rightarrow> 'o wake list \<Rightarrow> ('s, bool) go" where
  "tickerLoop body [] = ret False"
| "tickerLoop body (Done # wakes) = ret True"
| "tickerLoop body (Tick order # wakes) = andThen (body order) (\<lambda>_. tickerLoop body wakes)"

text \<open>\<open>time.NewTicker\<close> panics when the interval is not positive; the refresh loop makes its ticker before its goroutine.\<close>

definition StartRefreshLoop :: "'q backendEnv \<Rightarrow> int \<Rightarrow> ((string \<times> cachedAccount) list \<Rightarrow> (string \<times> cachedAccount) list) wake list \<Rightarrow>
    (('w Backend \<times> 'q) \<times> 'w, bool) go" where
  "StartRefreshLoop env interval wakes =
     (case NewStdTicker (refreshInterval interval) :: (unit, unit) ticker outcome of
        Panic p \<Rightarrow> panic p
      | Ret ticker \<Rightarrow> tickerLoop (refreshLoopTick env) wakes)"

definition startReconciliationPeriodicTask :: "(string \<Rightarrow> goerror + 'loc) \<Rightarrow> (string \<Rightarrow> goerror + 'sched) \<Rightarrow> 'q backendEnv \<Rightarrow>
    (string \<Rightarrow> string \<Rightarrow> int) \<Rightarrow> Context \<Rightarrow> ReconciliationTaskConfig option \<Rightarrow>
    ((string \<times> ClientIdentifier) list \<Rightarrow> (string \<times> ClientIdentifier) list) wake list \<Rightarrow> (('w Backend \<times> 'q) \<times> 'w, bool) go" where
  "startReconciliationPeriodicTask loadLocation parse env semver mainCtx cfg wakes =
     (if reconciliationDisabled cfg then ret True
      else case cfg of
        None \<Rightarrow> ret True
      | Some cfg \<Rightarrow>
          (case reconciliationTicker loadLocation parse cfg of
             Panic p \<Rightarrow> panic p
           | Ret ticker \<Rightarrow> tickerLoop (reconciliationTick env semver cfg mainCtx) wakes))"

definition startKeepalivePeriodicTask :: "'q backendEnv \<Rightarrow> KeepAliveTaskConfig option \<Rightarrow>
    ((string \<times> ClientIdentifier) list \<Rightarrow> (string \<times> ClientIdentifier) list) wake list \<Rightarrow> (('w Backend \<times> 'q) \<times> 'w, bool) go" where
  "startKeepalivePeriodicTask env cfg wakes =
     (if keepaliveDisabled cfg then ret True
      else case cfg of
        None \<Rightarrow> ret True
      | Some cfg \<Rightarrow>
          (case NewStdTicker (durationSeconds (kaTaskIntervalSeconds cfg)) :: (unit, unit) ticker outcome of
             Panic p \<Rightarrow> panic p
           | Ret ticker \<Rightarrow> tickerLoop (keepaliveTick env) wakes))"

text \<open>The end of the main context ends the goroutine: later ticks run nothing.\<close>

lemma tickerLoop_Done: "tickerLoop body (map Tick os @ Done # wakes) = tickerLoop body (map Tick os @ [Done])"
  by (induction os) simp_all

lemma tickerLoop_ends:
  assumes "tickerLoop body (map Tick os @ Done # wakes) s = (Ret ended, s')"
  shows "ended"
  using assms by (induction os arbitrary: s) (auto elim!: andThen_RetE)

text \<open>An interval in seconds that overflows to nothing or below ends the server.\<close>

lemma keepalive_bad_interval:
  assumes "kaTaskIntervalSeconds cfg \<noteq> 0" and "durationSeconds (kaTaskIntervalSeconds cfg) \<le> 0"
  shows "fst (startKeepalivePeriodicTask env (Some cfg) wakes s) = Panic ''non-positive interval for NewTicker''"
  using assms by (simp add: startKeepalivePeriodicTask_def keepaliveDisabled_def NewStdTicker_def panic_def)

section \<open>Steps of the adapter\<close>

text \<open>
  Everything that happens to an instance: any caller, goroutine or ticker may be next, and between
  two steps the queue and the connections may change in any way.
\<close>

datatype 'w backendEvent =
    EvRegister Context "'w Callbacks"
  | EvStart Context
  | EvStop Context
  | EvCall Context syncCall
  | EvTask nat
  | EvRefresh "(string \<times> cachedAccount) list \<Rightarrow> (string \<times> cachedAccount) list"
  | EvReconcile ReconciliationTaskConfig "(string \<times> ClientIdentifier) list \<Rightarrow> (string \<times> ClientIdentifier) list"
  | EvKeepalive "(string \<times> ClientIdentifier) list \<Rightarrow> (string \<times> ClientIdentifier) list"

fun backend_call :: "'q backendEnv \<Rightarrow> Context \<Rightarrow> syncCall \<Rightarrow> (('w Backend \<times> 'q) \<times> 'w, goerror option) go" where
  "backend_call env ctx (CallDelete oid) = backend_DeleteObject env ctx oid"
| "backend_call env ctx (CallGet oid base) = backend_GetObject env ctx oid base"
| "backend_call env ctx (CallPatch oid checksum patch) = backend_PatchObject env ctx oid checksum patch"
| "backend_call env ctx (CallPut oid checksum object) = backend_PutObject env ctx oid checksum object"
| "backend_call env ctx (CallVerify oid checksum) = backend_VerifyObject env ctx oid checksum"
| "backend_call env ctx (CallBatch kind batchType items) = backend_Batch env ctx kind batchType items"

definition takeTask :: "nat \<Rightarrow> 'w Backend \<Rightarrow> 'w Backend" where
  "takeTask i b = b\<lparr>baTasks := take i (baTasks b) @ drop (Suc i) (baTasks b)\<rparr>"

fun backend_event :: "'q backendEnv \<Rightarrow> (string \<Rightarrow> string \<Rightarrow> int) \<Rightarrow> Context \<Rightarrow> 'w backendEvent \<Rightarrow>
    (('w Backend \<times> 'q) \<times> 'w, unit) go" where
  "backend_event env semver mainCtx (EvRegister ctx cbs) = backend_RegisterCallbacks ctx cbs"
| "backend_event env semver mainCtx (EvStart ctx) = andThen (backend_Start env ctx) (\<lambda>_. ret ())"
| "backend_event env semver mainCtx (EvStop ctx) = andThen (backend_Stop ctx) (\<lambda>_. ret ())"
| "backend_event env semver mainCtx (EvCall ctx c) = andThen (backend_call env ctx c) (\<lambda>_. ret ())"
| "backend_event env semver mainCtx (EvTask i) = andThen get_backend (\<lambda>b.
     if i < length (baTasks b) then andThen (modify_backend (takeTask i)) (\<lambda>_. runTask env (baTasks b ! i)) else ret ())"
| "backend_event env semver mainCtx (EvRefresh order) = refreshLoopTick env order"
| "backend_event env semver mainCtx (EvReconcile cfg order) = reconciliationTick env semver cfg mainCtx order"
| "backend_event env semver mainCtx (EvKeepalive order) = keepaliveTick env order"

inductive backend_reachable :: "'q backendEnv \<Rightarrow> (string \<Rightarrow> string \<Rightarrow> int) \<Rightarrow> Context \<Rightarrow> BackendConfig \<Rightarrow>
    ('w Backend \<times> 'q) \<times> 'w \<Rightarrow> bool"
  for env :: "'q backendEnv" and semver :: "string \<Rightarrow> string \<Rightarrow> int" and mainCtx :: Context and cfg :: BackendConfig where
  reach_new: "backend_reachable env semver mainCtx cfg ((NewBackendAdapter cfg, q), w)"
| reach_event: "backend_reachable env semver mainCtx cfg s \<Longrightarrow>
    backend_reachable env semver mainCtx cfg (snd (backend_event env semver mainCtx ev s))"
| reach_world: "backend_reachable env semver mainCtx cfg ((b, q), w) \<Longrightarrow>
    backend_reachable env semver mainCtx cfg ((b, q'), w')"

end
