(* ===== verification/Backend_Connections.thy ===== *)
theory Backend_Connections
  imports Backend_Tasks
begin

text \<open>
  The connections of an instance: the invariant of the adapter's maps over every interleaving of its
  steps, which connection of a client wins, and what is left when one loses.
\<close>

section \<open>Steps that leave the maps alone\<close>

definition same_maps :: "'w Backend \<Rightarrow> 'w Backend \<Rightarrow> bool" where
  "same_maps b b' \<longleftrightarrow> baCallbacksMap b' = baCallbacksMap b \<and> baClientsMap b' = baClientsMap b
     \<and> baConnectionMap b' = baConnectionMap b \<and> baGauge b' = baGauge b \<and> baDisconnections b' = baDisconnections b"

definition maps_rel :: "('w Backend \<times> 'q) \<times> 'w \<Rightarrow> ('w Backend \<times> 'q) \<times> 'w \<Rightarrow> bool" where
  "maps_rel s s' \<longleftrightarrow> same_maps (fst (fst s)) (fst (fst s'))"

lemma preorderp_maps_rel [simp, intro]: "preorderp maps_rel"
  by (auto simp: preorderp_def maps_rel_def same_maps_def)

lemma maps_on_queue [keeps_intros]: "keeps maps_rel (on_queue m)"
  by (auto simp: keeps_def maps_rel_def same_maps_def on_queue_def split: prod.splits)

lemma maps_get_backend [keeps_intros]: "keeps maps_rel get_backend"
  by (auto simp: keeps_def maps_rel_def same_maps_def get_backend_def get_state_def andThen_def)

lemma maps_modify_backend [keeps_intros]: "(\<And>b. same_maps b (f b)) \<Longrightarrow> keeps maps_rel (modify_backend f)"
  by (auto simp: keeps_def maps_rel_def)

lemma maps_on_features [keeps_intros]: "keeps maps_rel (on_features m)"
  by (auto simp: keeps_def maps_rel_def same_maps_def on_features_def split: prod.splits option.splits)

lemma maps_withClient [keeps_intros]: "keeps maps_rel (withClient ctx f)"
  unfolding withClient_def getClient_def by (auto intro!: keeps_intros split: sum.splits option.splits)

lemma maps_runTask [keeps_intros]: "keeps maps_rel (runTask env t)"
  by (cases t) (auto intro!: keeps_intros)

lemma maps_backend_call [keeps_intros]: "keeps maps_rel (backend_call env ctx c)"
  by (cases c) (auto intro!: keeps_intros simp: backend_DeleteObject_def backend_GetObject_def
      backend_PatchObject_def backend_PutObject_def backend_VerifyObject_def backend_Batch_def)

lemma maps_reconcileConnections [keeps_intros]:
  "keeps maps_rel (reconcileConnections env semver cfg mainCtx conns requests)"
proof (induction conns arbitrary: requests)
  case (Cons kc conns)
  then show ?case by (cases kc) (auto intro!: keeps_intros)
qed (auto intro: keeps_intros)

lemma maps_ticks [keeps_intros]:
  "keeps maps_rel (reconciliationTick env semver cfg mainCtx order)"
  "keeps maps_rel (keepaliveTick env order')"
  "keeps maps_rel (refreshLoopTick env order'')"
  unfolding reconciliationTick_def keepaliveTick_def refreshLoopTick_def
  by (auto intro!: keeps_intros)

lemma same_maps_takeTask [simp]: "same_maps b (takeTask i b)"
  by (simp add: same_maps_def takeTask_def)

section \<open>Starting and stopping\<close>

lemma registerFeatures_maps [simp]:
  "baCallbacksMap (registerFeatures a c b) = baCallbacksMap b" "baClientsMap (registerFeatures a c b) = baClientsMap b"
  "baConnectionMap (registerFeatures a c b) = baConnectionMap b" "baGauge (registerFeatures a c b) = baGauge b"
  by (auto simp: registerFeatures_def split: option.splits prod.splits)

lemma unregisterFeatures_maps [simp]:
  "baCallbacksMap (unregisterFeatures c b) = baCallbacksMap b" "baClientsMap (unregisterFeatures c b) = baClientsMap b"
  "baConnectionMap (unregisterFeatures c b) = baConnectionMap b" "baGauge (unregisterFeatures c b) = baGauge b"
  "baDisconnections (unregisterFeatures c b) = baDisconnections b"
  by (auto simp: unregisterFeatures_def split: option.splits)

lemma removeClient_maps [simp]:
  "baCallbacksMap (removeClient c b) = baCallbacksMap b" "baConnectionMap (removeClient c b) = baConnectionMap b"
  "baClientsMap (removeClient c b) = (baClientsMap b)(ClientIdentifier_String c := None)"
  by (auto simp: removeClient_def)

lemma Start_refused:
  "identified ctx cid \<Longrightarrow> newerExists b cid \<Longrightarrow> backend_Start env ctx ((b, q), w) =
     (Ret (Some (GoError ''failed to start synchronization for client because a newer connection exist'')), ((b, q), w))"
  by (simp add: backend_Start_def)

text \<open>An accepted start: the connection is the client's, whether or not there are callbacks.\<close>

definition acceptStart :: "'q backendEnv \<Rightarrow> Context \<Rightarrow> ClientIdentifier \<Rightarrow> 'w Backend \<Rightarrow> 'w Backend" where
  "acceptStart env ctx cid b = addClient (backend_NewClient env (baSkipAlertsFrom b)) cid
     (registerFeatures (AccessKeyFromContext ctx) cid
        (b\<lparr>baConnectionMap := aset (ClientIdentifier_String cid) cid (baConnectionMap b)\<rparr>))"

lemma acceptStart_maps [simp]:
  "baCallbacksMap (acceptStart env ctx cid b) = baCallbacksMap b"
  "baConnectionMap (acceptStart env ctx cid b) = aset (ClientIdentifier_String cid) cid (baConnectionMap b)"
  "baClientsMap (acceptStart env ctx cid b) =
     (baClientsMap b)(ClientIdentifier_String cid \<mapsto> backend_NewClient env (baSkipAlertsFrom b))"
  "baGauge (acceptStart env ctx cid b) =
     (if baClientsMap b (ClientIdentifier_String cid) = None then baGauge b + 1 else baGauge b)"
  by (simp_all add: acceptStart_def addClient_def)

lemma Start_run:
  assumes "identified ctx cid" and "\<not> newerExists b cid"
  shows "\<exists>r cl ts. backend_Start env ctx ((b, q), w) =
       (Ret r, (((acceptStart env ctx cid b)\<lparr>baClientsMap := (baClientsMap b)(ClientIdentifier_String cid \<mapsto> cl), baTasks := ts\<rparr>, q), w))
     \<and> (r = None \<longleftrightarrow> baCallbacksMap b (ClientIdentifier_String cid) \<noteq> None)"
proof (cases "baCallbacksMap b (ClientIdentifier_String cid)")
  case None
  let ?b = "acceptStart env ctx cid b" and ?k = "ClientIdentifier_String cid"
  have "?b = ?b\<lparr>baClientsMap := (baClientsMap b)(?k \<mapsto> backend_NewClient env (baSkipAlertsFrom b)), baTasks := baTasks ?b\<rparr>"
    unfolding acceptStart_maps(3) [symmetric] by simp
  then show ?thesis using assms None
    by (intro exI [of _ "Some (GoError (''callbacks for client '' @ ?k @ '' were missing (probably disconnected client)''))"]
        exI [of _ "backend_NewClient env (baSkipAlertsFrom b)"] exI [of _ "baTasks ?b"])
      (simp add: backend_Start_def backend_Callbacks_def acceptStart_def [symmetric])
next
  case (Some cbs)
  then show ?thesis using assms
    by (auto simp: backend_Start_def acceptStart_def [symmetric])
qed

lemma Start_accepted:
  assumes "identified ctx cid" and "\<not> newerExists b cid"
  obtains b' r cl where "backend_Start env ctx ((b, q), w) = (Ret r, ((b', q), w))"
    and "r = None \<longleftrightarrow> baCallbacksMap b (ClientIdentifier_String cid) \<noteq> None"
    and "baConnectionMap b' = aset (ClientIdentifier_String cid) cid (baConnectionMap b)"
    and "baClientsMap b' = (baClientsMap b)(ClientIdentifier_String cid \<mapsto> cl)"
    and "baCallbacksMap b' = baCallbacksMap b"
    and "baGauge b' = (if baClientsMap b (ClientIdentifier_String cid) = None then baGauge b + 1 else baGauge b)"
  using Start_run [OF assms, of env q w] that by fastforce

lemma Stop_stale:
  "identified ctx cid \<Longrightarrow> newerExists b cid \<Longrightarrow> backend_Stop ctx ((b, q), w) = (Ret None, ((b, q), w))"
  by (simp add: backend_Stop_def)

lemma Stop_accepted:
  assumes "identified ctx cid" and "\<not> newerExists b cid"
  obtains b' where "backend_Stop ctx ((b, q), w) = (Ret None, ((b', q), w))"
    and "baConnectionMap b' = adel (ClientIdentifier_String cid) (baConnectionMap b)"
    and "baClientsMap b' = (baClientsMap b)(ClientIdentifier_String cid := None)"
    and "baCallbacksMap b' = (baCallbacksMap b)(ClientIdentifier_String cid := None)"
    and "baGauge b' = (if baClientsMap b (ClientIdentifier_String cid) = None then baGauge b else baGauge b - 1)"
  using assms that
  by (cases "baClientsMap b (ClientIdentifier_String cid)") (simp_all add: backend_Stop_def removeClient_def fun_upd_idem)

lemma ClientIdentifierFromContext_missing:
  "\<forall>cid. \<not> identified ctx cid \<Longrightarrow> ClientIdentifierFromContext ctx = panic ''interface conversion''"
  by (auto simp: identified_def ClientIdentifierFromContext_def split: option.splits ctxval.splits)

section \<open>The invariant\<close>

lemma card_dom_del:
  assumes "finite (dom m)"
  shows "int (card (dom (m(k := None)))) = (if m k = None then int (card (dom m)) else int (card (dom m)) - 1)"
proof (cases "m k")
  case (Some v)
  then have "k \<in> dom m" by blast
  then show ?thesis using Some card_Diff_singleton [of k "dom m"] card_gt_0_iff [of "dom m"] assms
    by (auto simp: of_nat_diff)
qed (simp add: fun_upd_idem)

definition backend_inv :: "'w Backend \<Rightarrow> bool" where
  "backend_inv b \<longleftrightarrow>
     finite (dom (baClientsMap b)) \<and> baGauge b = int (card (dom (baClientsMap b)))
     \<and> distinct (map fst (baConnectionMap b))
     \<and> dom (baClientsMap b) = fst ` set (baConnectionMap b)
     \<and> (\<forall>(k, cid) \<in> set (baConnectionMap b). k = ClientIdentifier_String cid)"

lemma backend_inv_new: "backend_inv (NewBackendAdapter cfg)"
  by (simp add: backend_inv_def NewBackendAdapter_def)

lemma backend_inv_same: "same_maps b b' \<Longrightarrow> backend_inv b \<Longrightarrow> backend_inv b'"
  by (simp add: backend_inv_def same_maps_def)

lemma set_aset: "set (aset k v m) \<subseteq> insert (k, v) (set m)"
  by (induction m) (auto split: if_splits)

lemma set_adel: "set (adel k m) = {(k', v). (k', v) \<in> set m \<and> k' \<noteq> k}"
  by (auto simp: adel_def)

lemma fst_adel: "fst ` set (adel k m) = fst ` set m - {k}"
  by (induction m) (auto simp: adel_def)

lemma backend_inv_Start:
  assumes "backend_inv b"
  shows "backend_inv (fst (fst (snd (backend_Start env ctx ((b, q), w)))))"
proof (cases "\<exists>cid. identified ctx cid")
  case True
  then obtain cid where id: "identified ctx cid" by blast
  show ?thesis
  proof (cases "newerExists b cid")
    case False
    show ?thesis
    proof (rule Start_accepted [OF id False, of env q w])
      fix b' r cl
      assume run: "backend_Start env ctx ((b, q), w) = (Ret r, ((b', q), w))"
        and maps: "baConnectionMap b' = aset (ClientIdentifier_String cid) cid (baConnectionMap b)"
        "baClientsMap b' = (baClientsMap b)(ClientIdentifier_String cid \<mapsto> cl)"
        "baGauge b' = (if baClientsMap b (ClientIdentifier_String cid) = None then baGauge b + 1 else baGauge b)"
      have "backend_inv b'"
        using assms maps fst_aset [of "ClientIdentifier_String cid" cid "baConnectionMap b"]
          set_aset [of "ClientIdentifier_String cid" cid "baConnectionMap b"]
        by (auto simp: backend_inv_def card_insert_if domIff)
      then show ?thesis using run by simp
    qed
  qed (simp add: Start_refused [OF id] assms)
next
  case False
  then show ?thesis using assms by (simp add: backend_Start_def ClientIdentifierFromContext_missing)
qed

lemma backend_inv_Stop:
  assumes "backend_inv b"
  shows "backend_inv (fst (fst (snd (backend_Stop ctx ((b, q), w)))))"
proof (cases "\<exists>cid. identified ctx cid")
  case True
  then obtain cid where id: "identified ctx cid" by blast
  show ?thesis
  proof (cases "newerExists b cid")
    case False
    show ?thesis
    proof (rule Stop_accepted [OF id False, of q w])
      fix b'
      assume run: "backend_Stop ctx ((b, q), w) = (Ret None, ((b', q), w))"
        and maps: "baConnectionMap b' = adel (ClientIdentifier_String cid) (baConnectionMap b)"
        "baClientsMap b' = (baClientsMap b)(ClientIdentifier_String cid := None)"
        "baGauge b' = (if baClientsMap b (ClientIdentifier_String cid) = None then baGauge b else baGauge b - 1)"
      have fin: "finite (dom (baClientsMap b))" using assms by (simp add: backend_inv_def)
      have g: "baGauge b' = int (card (dom (baClientsMap b')))"
        using assms maps(2,3) card_dom_del [OF fin, of "ClientIdentifier_String cid"] by (simp add: backend_inv_def)
      have d: "dom (baClientsMap b') = fst ` set (baConnectionMap b')"
        using assms maps(1,2) by (simp add: backend_inv_def fst_adel)
      have "\<forall>(k, c) \<in> set (baConnectionMap b'). k = ClientIdentifier_String c"
        using assms maps(1) by (auto simp: backend_inv_def set_adel)
      moreover have "distinct (map fst (baConnectionMap b'))" using assms maps(1) by (auto simp: backend_inv_def)
      ultimately have "backend_inv b'" using g d unfolding backend_inv_def by simp
      then show ?thesis using run by simp
    qed
  qed (simp add: Stop_stale [OF id] assms)
next
  case False
  then show ?thesis using assms by (simp add: backend_Stop_def ClientIdentifierFromContext_missing)
qed

lemma backend_inv_maps_rel:
  "keeps maps_rel m \<Longrightarrow> backend_inv (fst (fst s)) \<Longrightarrow> backend_inv (fst (fst (snd (m s))))"
  using backend_inv_same by (cases s) (fastforce simp: keeps_def maps_rel_def)

lemma snd_andThen_ret [simp]: "snd (andThen m (\<lambda>_. ret x) s) = snd (m s)"
  by (simp add: andThen_def split: prod.splits outcome.splits)

lemma run_RegisterCallbacks:
  "identified ctx cid \<Longrightarrow> backend_RegisterCallbacks ctx cbs ((b, q), w) =
     (Ret (), ((b\<lparr>baCallbacksMap := (baCallbacksMap b)(ClientIdentifier_String cid \<mapsto> cbs)\<rparr>, q), w))"
  by (simp add: backend_RegisterCallbacks_def)

lemma backend_inv_Register:
  assumes "backend_inv b"
  shows "backend_inv (fst (fst (snd (backend_RegisterCallbacks ctx cbs ((b, q), w)))))"
proof (cases "\<exists>cid. identified ctx cid")
  case True
  then obtain cid where "identified ctx cid" by blast
  then show ?thesis using assms by (simp add: run_RegisterCallbacks backend_inv_def)
next
  case False
  then show ?thesis using assms by (simp add: backend_RegisterCallbacks_def ClientIdentifierFromContext_missing)
qed

text \<open>All steps but three leave the maps alone.\<close>

fun quiet :: "'w backendEvent \<Rightarrow> bool" where
  "quiet (EvRegister _ _) = False" | "quiet (EvStart _) = False" | "quiet (EvStop _) = False" | "quiet _ = True"

lemma maps_quiet: "quiet ev \<Longrightarrow> keeps maps_rel (backend_event env semver mainCtx ev)"
  by (cases ev) (auto intro!: keeps_intros)

lemma backend_inv_event:
  assumes "backend_inv (fst (fst s))"
  shows "backend_inv (fst (fst (snd (backend_event env semver mainCtx ev s))))"
proof (cases "quiet ev")
  case True
  then show ?thesis using backend_inv_maps_rel [OF maps_quiet assms] by blast
next
  case False
  obtain b q w where s: "s = ((b, q), w)" by (cases s) auto
  from False show ?thesis
    using assms s backend_inv_Register backend_inv_Start backend_inv_Stop by (cases ev) auto
qed

lemma reachable_inv: "backend_reachable env semver mainCtx cfg s \<Longrightarrow> backend_inv (fst (fst s))"
proof (induction rule: backend_reachable.induct)
  case (reach_event s ev)
  show ?case by (rule backend_inv_event) (rule reach_event.IH)
qed (simp_all add: backend_inv_new)

lemma connections_after_Start:
  assumes "snd (backend_Start env ctx ((b, q), w)) = ((b', q'), w')"
  shows "baConnectionMap b' = baConnectionMap b \<or>
     (\<exists>cid. \<not> newerExists b cid \<and> baConnectionMap b' = aset (ClientIdentifier_String cid) cid (baConnectionMap b))"
proof (cases "\<exists>cid. identified ctx cid")
  case True
  then obtain cid where id: "identified ctx cid" by blast
  show ?thesis
  proof (cases "newerExists b cid")
    case False
    show ?thesis by (rule Start_accepted [OF id False, of env q w]) (use False assms in auto)
  qed (use assms in \<open>simp add: Start_refused [OF id]\<close>)
next
  case False
  then show ?thesis using assms by (simp add: backend_Start_def ClientIdentifierFromContext_missing)
qed

lemma connections_after_Stop:
  assumes "snd (backend_Stop ctx ((b, q), w)) = ((b', q'), w')"
  shows "baConnectionMap b' = baConnectionMap b \<or>
     (\<exists>cid. baConnectionMap b' = adel (ClientIdentifier_String cid) (baConnectionMap b))"
proof (cases "\<exists>cid. identified ctx cid")
  case True
  then obtain cid where id: "identified ctx cid" by blast
  show ?thesis
  proof (cases "newerExists b cid")
    case False
    show ?thesis by (rule Stop_accepted [OF id False, of q w]) (use assms in auto)
  qed (use assms in \<open>simp add: Stop_stale [OF id]\<close>)
next
  case False
  then show ?thesis using assms by (simp add: backend_Stop_def ClientIdentifierFromContext_missing)
qed

lemma connections_after_Register:
  "snd (backend_RegisterCallbacks ctx cbs ((b, q), w)) = ((b', q'), w') \<Longrightarrow> baConnectionMap b' = baConnectionMap b"
  using run_RegisterCallbacks [of ctx _ cbs b q w]
  by (cases "\<exists>cid. identified ctx cid") (auto simp: backend_RegisterCallbacks_def ClientIdentifierFromContext_missing)

lemma connections_after_quiet:
  "quiet ev \<Longrightarrow> snd (backend_event env semver mainCtx ev ((b, q), w)) = ((b', q'), w') \<Longrightarrow>
     baConnectionMap b' = baConnectionMap b"
  using keepsD [OF maps_quiet, of ev "((b, q), w)" env semver mainCtx] by (simp add: maps_rel_def same_maps_def)

lemma connections_after:
  assumes "snd (backend_event env semver mainCtx ev ((b, q), w)) = ((b', q'), w')"
  shows "baConnectionMap b' = baConnectionMap b
     \<or> (\<exists>cid. \<not> newerExists b cid \<and> baConnectionMap b' = aset (ClientIdentifier_String cid) cid (baConnectionMap b))
     \<or> (\<exists>cid. baConnectionMap b' = adel (ClientIdentifier_String cid) (baConnectionMap b))"
proof (cases "quiet ev")
  case True
  then show ?thesis using connections_after_quiet [OF _ assms] by simp
next
  case False
  then consider (register) ctx cbs where "ev = EvRegister ctx cbs" | (start) ctx where "ev = EvStart ctx"
    | (stop) ctx where "ev = EvStop ctx"
    by (cases ev) auto
  then show ?thesis
  proof cases
    case (register ctx cbs)
    then show ?thesis using connections_after_Register [of ctx cbs b q w] assms by simp
  next
    case (start ctx)
    then show ?thesis using connections_after_Start [of env ctx b q w] assms by auto
  next
    case (stop ctx)
    then show ?thesis using connections_after_Stop [of ctx b q w] assms by auto
  qed
qed

section \<open>Several steps in a row\<close>

definition backend_run :: "'q backendEnv \<Rightarrow> (string \<Rightarrow> string \<Rightarrow> int) \<Rightarrow> Context \<Rightarrow> 'w backendEvent list \<Rightarrow>
    ('w Backend \<times> 'q) \<times> 'w \<Rightarrow> ('w Backend \<times> 'q) \<times> 'w" where
  "backend_run env semver mainCtx evs s = foldl (\<lambda>s ev. snd (backend_event env semver mainCtx ev s)) s evs"

lemma unknown_client_call:
  assumes "identified ctx cid" and "baClientsMap b (ClientIdentifier_String cid) = None"
  shows "\<exists>e. backend_call env ctx c ((b, q), w) = (Ret (Some e), ((b, q), w))"
  using assms by (cases c) (simp_all add: backend_DeleteObject_def backend_GetObject_def backend_PatchObject_def
      backend_PutObject_def backend_VerifyObject_def backend_Batch_def withClient_def getClient_def)

section \<open>A concrete instance\<close>

text \<open>A queue that keeps what it is given, and connections of one cluster.\<close>

definition listProducer :: "(properties \<times> wire) list MessageProducer" where
  "listProducer = \<lparr>
     prProduceMessage = (\<lambda>cid event payload opts q.
       (Ret None, q @ [(BuildProducerProperties [] (ciAccount cid) (ciCluster cid) event opts, payload)])),
     prProduceMessageWithoutIdentifier = (\<lambda>event payload q.
       (Ret None, q @ [(BuildProducerProperties [] [] [] event [], payload)]))\<rparr>"

definition envOf :: "'q MessageProducer \<Rightarrow> 'q backendEnv" where
  "envOf pr = \<lparr>beProducer = pr, beNewMsgId = ret ''msg'', beNow = ret 100000000000, beHostname = ''pod'',
     beFormatTime = (\<lambda>_. []), beLookupEnv = (\<lambda>_. None), beHttp = (\<lambda>url headers. ret (Inl (GoError ''offline''))),
     beAppend = (\<lambda>a b. case a of None \<Rightarrow> b | Some e \<Rightarrow> Some e)\<rparr>"

definition sampleCfg :: BackendConfig where
  "sampleCfg = \<lparr>bcPort = 8080, bcAuthenticationServer = None, bcSubscription = [], bcPulsarConfig = False,
     bcProducerTopic = [], bcConsumerTopic = [], bcConsumerWorkers = 0, bcPrometheus = None, bcReconciliationTask = None,
     bcKeepAliveTask = None, bcSkipAlertsFrom = [], bcFeaturesProvider = None, bcMessageQueue = None\<rparr>"

definition sampleConn :: "string \<Rightarrow> int \<Rightarrow> ClientIdentifier" where
  "sampleConn connectionId t = zero_ClientIdentifier\<lparr>ciAccount := ''acc'', ciCluster := ''cluster'',
     ciConnectionId := connectionId, ciConnectionTime := t, ciSyncVersion := ''v0.1.0''\<rparr>"

definition connCtx :: "ClientIdentifier \<Rightarrow> Context" where
  "connCtx cid = WithValue [] ContextKeyClientIdentifier (CtxClient cid)"

definition sampleEnv :: "(properties \<times> wire) list backendEnv" where
  "sampleEnv = envOf listProducer"

lemma identified_connCtx [simp]: "identified (connCtx cid) cid"
  by (simp add: connCtx_def identified_def)

lemma client_of_connCtx [simp]: "ClientIdentifierFromContext (connCtx cid) = ret cid"
  by (rule ClientIdentifierFromContext_identified) simp

lemma sampleConn_key [simp]: "ClientIdentifier_String (sampleConn n t) = ''acc/cluster''"
  by (simp add: sampleConn_def ClientIdentifier_String_def)

lemma sampleConn_string [simp]: "ConnectionString (sampleConn n t) = ''acc/cluster/'' @ n"
  by (simp add: sampleConn_def ConnectionString_def)

lemma sampleConn_time [simp]: "ciConnectionTime (sampleConn n t) = t"
  by (simp add: sampleConn_def)

section \<open>Properties\<close>

text \<open>
  C15. Over every interleaving of connections, calls, goroutines and timers, the adapter's maps agree:
  the clients are exactly the registered connections, one entry each, stored under the key of their
  account and cluster, and the gauge counts them.
\<close>

theorem backend_maps_agree:
  assumes "backend_reachable env semver mainCtx cfg ((b, q), w)"
  shows "baGauge b = int (card (dom (baClientsMap b))) \<and> distinct (map fst (baConnectionMap b))
     \<and> dom (baClientsMap b) = fst ` set (baConnectionMap b)
     \<and> list_all (\<lambda>(k, cid). k = ClientIdentifier_String cid) (baConnectionMap b)"
  using reachable_inv [OF assms] by (auto simp: backend_inv_def list_all_iff)

theorem backend_maps_agree_witness:
  "baGauge (fst (fst (snd (backend_Start sampleEnv (connCtx (sampleConn ''a'' 7)) ((NewBackendAdapter sampleCfg, []), 0::nat))))) = 1"
proof -
  let ?s = "snd (backend_Start sampleEnv (connCtx (sampleConn ''a'' 7)) ((NewBackendAdapter sampleCfg, []), 0::nat))"
  have "backend_reachable sampleEnv (\<lambda>_ _. 0) [] sampleCfg
      (snd (backend_event sampleEnv (\<lambda>_ _. 0) [] (EvStart (connCtx (sampleConn ''a'' 7))) ((NewBackendAdapter sampleCfg, []), 0::nat)))"
    by (intro backend_reachable.intros)
  then have "backend_reachable sampleEnv (\<lambda>_ _. 0) [] sampleCfg ((fst (fst ?s), snd (fst ?s)), snd ?s)" by simp
  from backend_maps_agree [OF this] show ?thesis
    by (simp add: backend_Start_def backend_Callbacks_def newerExists_def NewBackendAdapter_def registerFeatures_def
        addClient_def featuresProviderOf_def sampleCfg_def)
qed

text \<open>
  C16. A connection never displaces a newer one of the same client: whatever the next step is, if the
  client is still registered after it, then by the same connection or by one that is at least as new.
\<close>

theorem newest_connection_wins:
  assumes "map_of (baConnectionMap b) k = Some old"
    and "snd (backend_event env semver mainCtx ev ((b, q), w)) = ((b', q'), w')"
    and "map_of (baConnectionMap b') k = Some new"
  shows "ConnectionString new = ConnectionString old \<or> ciConnectionTime old \<le> ciConnectionTime new"
proof -
  consider (same) "baConnectionMap b' = baConnectionMap b"
    | (started) cid where "\<not> newerExists b cid" "baConnectionMap b' = aset (ClientIdentifier_String cid) cid (baConnectionMap b)"
    | (stopped) cid where "baConnectionMap b' = adel (ClientIdentifier_String cid) (baConnectionMap b)"
    using connections_after [OF assms(2)] by blast
  then show ?thesis
    by cases (use assms(1,3) in \<open>auto simp: newerExists_def split: if_splits\<close>)
qed

theorem newest_connection_wins_witness:
  "ciConnectionTime (sampleConn ''old'' 7) \<le> ciConnectionTime (sampleConn ''new'' 9)"
proof -
  let ?b = "(NewBackendAdapter sampleCfg :: nat Backend)\<lparr>baConnectionMap := [(''acc/cluster'', sampleConn ''old'' 7)]\<rparr>"
  let ?s = "snd (backend_event sampleEnv (\<lambda>_ _. 0) [] (EvStart (connCtx (sampleConn ''new'' 9))) ((?b, []), 0))"
  have new: "\<not> newerExists ?b (sampleConn ''new'' 9)" by (simp add: newerExists_def)
  obtain b' q' w' where s: "?s = ((b', q'), w')" by (cases ?s) auto
  have "baConnectionMap b' = [(''acc/cluster'', sampleConn ''new'' 9)]"
    by (rule Start_accepted [OF identified_connCtx new, of sampleEnv "[]" 0]) (use s in auto)
  then show ?thesis
    using newest_connection_wins [OF _ s, of "''acc/cluster''" "sampleConn ''old'' 7" "sampleConn ''new'' 9"] by simp
qed

text \<open>
  C38. A connection that is not the newest of its client changes nothing when it stops or is
  refused a start. But it had registered its callbacks before that: afterwards the queue's messages for
  the client go to the refused connection, and nothing takes them back.
\<close>

theorem refused_connection_keeps_callbacks:
  assumes "identified ctx cid" and "map_of (baConnectionMap b) (ClientIdentifier_String cid) = Some existing"
    and "ConnectionString existing \<noteq> ConnectionString cid" and "ciConnectionTime cid < ciConnectionTime existing"
  shows "backend_run env semver mainCtx [EvRegister ctx cbs, EvStart ctx, EvStop ctx] ((b, q), w) =
     ((b\<lparr>baCallbacksMap := (baCallbacksMap b)(ClientIdentifier_String cid \<mapsto> cbs)\<rparr>, q), w)"
proof -
  have "newerExists (b\<lparr>baCallbacksMap := (baCallbacksMap b)(ClientIdentifier_String cid \<mapsto> cbs)\<rparr>) cid"
    using assms(2-4) by (simp add: newerExists_def)
  then show ?thesis
    by (simp add: backend_run_def run_RegisterCallbacks [OF assms(1)] Start_refused [OF assms(1)] Stop_stale [OF assms(1)])
qed

theorem refused_connection_keeps_callbacks_witness:
  "baCallbacksMap (fst (fst (backend_run sampleEnv (\<lambda>_ _. 0) []
     [EvRegister (connCtx (sampleConn ''old'' 7)) recorder, EvStart (connCtx (sampleConn ''old'' 7)), EvStop (connCtx (sampleConn ''old'' 7))]
     (((NewBackendAdapter sampleCfg)\<lparr>baConnectionMap := [(''acc/cluster'', sampleConn ''new'' 9)]\<rparr>, []), [])))) ''acc/cluster'' = Some recorder"
  by (subst refused_connection_keeps_callbacks [OF identified_connCtx, where existing = "sampleConn ''new'' 9"]) simp_all

text \<open>
  C20. A client whose callbacks are registered and whose connection is accepted is related to the
  instance and reached through these callbacks. When it is then stopped it is unknown: no message finds it, and
  every call for it is an error that sends nothing.
\<close>

theorem connection_is_served_until_stopped:
  assumes "identified ctx cid" and "\<not> newerExists b cid"
    and "backend_run env semver mainCtx [EvRegister ctx cbs, EvStart ctx] ((b, q), w) = ((b1, q1), w1)"
    and "backend_run env semver mainCtx [EvStop ctx] ((b1, q1), w1) = ((b2, q2), w2)"
  shows "backend_IsRelated cid b1 \<and> baCallbacksMap b1 (ClientIdentifier_String cid) = Some cbs
     \<and> \<not> backend_IsRelated cid b2
     \<and> (\<exists>e. backend_call env ctx c ((b2, q2), w2) = (Ret (Some e), ((b2, q2), w2)))"
proof -
  let ?b = "b\<lparr>baCallbacksMap := (baCallbacksMap b)(ClientIdentifier_String cid \<mapsto> cbs)\<rparr>"
  have new: "\<not> newerExists ?b cid" using assms(2) by (simp add: newerExists_def)
  obtain b' r cl where st: "backend_Start env ctx ((?b, q), w) = (Ret r, ((b', q), w))"
    "baConnectionMap b' = aset (ClientIdentifier_String cid) cid (baConnectionMap ?b)"
    "baClientsMap b' = (baClientsMap ?b)(ClientIdentifier_String cid \<mapsto> cl)" "baCallbacksMap b' = baCallbacksMap ?b"
    using Start_accepted [OF assms(1) new, of env q w] by metis
  then have b1: "b1 = b'" "q1 = q" "w1 = w" using assms(3) by (simp_all add: backend_run_def run_RegisterCallbacks [OF assms(1)])
  have "\<not> newerExists b1 cid" using st(2) b1(1) by (simp add: newerExists_def)
  then obtain b'' where sp: "backend_Stop ctx ((b1, q1), w1) = (Ret None, ((b'', q1), w1))"
    "baClientsMap b'' = (baClientsMap b1)(ClientIdentifier_String cid := None)"
    using Stop_accepted [OF assms(1), of b1 q1 w1] by metis
  then have b2: "b2 = b''" "q2 = q1" "w2 = w1" using assms(4) by (simp_all add: backend_run_def)
  have "\<exists>e. backend_call env ctx c ((b2, q2), w2) = (Ret (Some e), ((b2, q2), w2))"
    by (rule unknown_client_call [OF assms(1)]) (simp add: sp(2) b2(1))
  then show ?thesis using st(3,4) sp(2) b1 b2 by (simp add: backend_IsRelated_def)
qed

theorem connection_is_served_until_stopped_witness:
  "\<exists>e b2 q2 w2. backend_call sampleEnv (connCtx (sampleConn ''a'' 7)) (CallDelete sampleId)
     ((b2 :: (Context \<times> syncCall) list Backend, q2), w2) = (Ret (Some e), ((b2, q2), w2))"
proof -
  let ?c = "connCtx (sampleConn ''a'' 7)"
  let ?s1 = "backend_run sampleEnv (\<lambda>_ _. 0) [] [EvRegister ?c recorder, EvStart ?c] ((NewBackendAdapter sampleCfg, []), [])"
  obtain b1 q1 w1 where s1: "?s1 = ((b1, q1), w1)" by (cases ?s1) auto
  obtain b2 q2 w2 where s2: "backend_run sampleEnv (\<lambda>_ _. 0) [] [EvStop ?c] ((b1, q1), w1) = ((b2, q2), w2)"
    by (cases "backend_run sampleEnv (\<lambda>_ _. 0) [] [EvStop ?c] ((b1, q1), w1)") auto
  have "\<not> newerExists (NewBackendAdapter sampleCfg) (sampleConn ''a'' 7)"
    by (simp add: newerExists_def NewBackendAdapter_def)
  from connection_is_served_until_stopped [OF identified_connCtx this s1 s2, where c = "CallDelete sampleId"]
  show ?thesis by blast
qed

end
