(* ===== verification/Queue_Producers.thy ===== *)
theory Queue_Producers
  imports Backend_Client Config
begin

text \<open>
  The two producers of \<open>adapters/backend/v1\<close> (\<open>kafka.go\<close>, \<open>pulsar.go\<close>) and the metrics they keep
  (\<open>messaging/metrics.go\<close>). The client libraries are arguments: handing a record to one is an
  asynchronous call that returns nothing. What has been handed over is kept in the state beside the
  state \<open>'x\<close> of the library, because it is what the reader at the other end gets to see.
  Ranging over a Go map visits the entries of the list that stands for it in some order; the headers
  are read back as a map, so the order is not observable.
\<close>

section \<open>Metrics\<close>

type_synonym labels = "(string \<times> string) list"

definition producerMetricLabels :: "string \<Rightarrow> string \<Rightarrow> properties option \<Rightarrow> labels" where
  "producerMetricLabels backend status properties =
     (let labels = [(''backend'', backend), (''status'', status), (''kind'', []), (''cluster'', []), (''account'', []),
            (''event_type'', [])] in
      case properties of
        None \<Rightarrow> labels
      | Some ps \<Rightarrow> aset ''event_type'' (property ps MsgPropEvent) (aset ''account'' (property ps MsgPropAccount)
          (aset ''cluster'' (property ps MsgPropCluster) (aset ''kind'' (property ps MsgPropResourceKindResource) labels))))"

text \<open>The counters, each increment with its labels and the bytes added.\<close>

record producerMetrics =
  pmMq :: "(labels \<times> nat) list"
  pmPulsar :: "(labels \<times> nat) list"

definition RecordProducerMessage :: "string \<Rightarrow> string \<Rightarrow> properties option \<Rightarrow> nat \<Rightarrow> producerMetrics \<Rightarrow> producerMetrics" where
  "RecordProducerMessage backend status properties payloadBytes pm =
     (let metricLabels = producerMetricLabels backend status properties;
          pm = pm\<lparr>pmMq := pmMq pm @ [(metricLabels, payloadBytes)]\<rparr>
      in if backend = ''pulsar'' then
           pm\<lparr>pmPulsar := pmPulsar pm @ [(map (\<lambda>l. (l, property metricLabels l))
              [''status'', ''kind'', ''cluster'', ''account'', ''event_type''], payloadBytes)]\<rparr>
         else pm)"

section \<open>Kafka\<close>

record kgoRecord =
  krKey :: "string option"
  krValue :: wire
  krHeaders :: "(string \<times> string) list"
  krTopic :: string
  krPartition :: int
  krOffset :: int

record 'x kgoClient =
  kgNow :: "'x \<Rightarrow> string"
  kgProduce :: "kgoRecord \<Rightarrow> 'x \<Rightarrow> 'x"

definition newRecord :: "string option \<Rightarrow> wire \<Rightarrow> (string \<times> string) list \<Rightarrow> kgoRecord" where
  "newRecord key val headers = \<lparr>krKey = key, krValue = val, krHeaders = headers, krTopic = [], krPartition = 0, krOffset = 0\<rparr>"

definition kafkaPartitionKey :: "string \<Rightarrow> string \<Rightarrow> string option" where
  "kafkaPartitionKey account cluster =
     (if account = [] \<and> cluster = [] then None else Some (account @ ''/'' @ cluster))"

fun kafkaHeadersFromProperties :: "properties \<Rightarrow> (string \<times> string) list" where
  "kafkaHeadersFromProperties [] = []"
| "kafkaHeadersFromProperties ((key, val) # ps) =
     (if val = [] then kafkaHeadersFromProperties ps else (key, val) # kafkaHeadersFromProperties ps)"

definition kafkaPropertiesFromHeaders :: "(string \<times> string) list \<Rightarrow> properties" where
  "kafkaPropertiesFromHeaders headers = foldl (\<lambda>properties (k, v). aset k v properties) [] headers"

definition kafkaHandOver :: "'x kgoClient \<Rightarrow> kgoRecord \<Rightarrow> (kgoRecord list \<times> 'x, goerror option) go" where
  "kafkaHandOver client r = (\<lambda>(log, x). (Ret None, (log @ [r], kgProduce client r x)))"

definition kafka_ProduceMessage :: "'x kgoClient \<Rightarrow> ClientIdentifier \<Rightarrow> string \<Rightarrow> wire \<Rightarrow> properties list \<Rightarrow>
    (kgoRecord list \<times> 'x, goerror option) go" where
  "kafka_ProduceMessage client cid eventType payload optionalProperties = (\<lambda>(log, x).
     let properties = BuildProducerProperties (kgNow client x) (ciAccount cid) (ciCluster cid) eventType optionalProperties in
     kafkaHandOver client (newRecord (kafkaPartitionKey (ciAccount cid) (ciCluster cid)) payload
       (kafkaHeadersFromProperties properties)) (log, x))"

definition kafka_ProduceMessageWithoutIdentifier :: "'x kgoClient \<Rightarrow> string \<Rightarrow> wire \<Rightarrow>
    (kgoRecord list \<times> 'x, goerror option) go" where
  "kafka_ProduceMessageWithoutIdentifier client eventType payload = (\<lambda>(log, x).
     let properties = BuildProducerProperties (kgNow client x) [] [] eventType [] in
     kafkaHandOver client (newRecord None payload (kafkaHeadersFromProperties properties)) (log, x))"

definition kafkaProducer :: "'x kgoClient \<Rightarrow> (kgoRecord list \<times> 'x) MessageProducer" where
  "kafkaProducer client = \<lparr>prProduceMessage = kafka_ProduceMessage client,
     prProduceMessageWithoutIdentifier = kafka_ProduceMessageWithoutIdentifier client\<rparr>"

definition logKafkaProduceResult :: "kgoRecord option \<Rightarrow> nat \<Rightarrow> goerror option \<Rightarrow> producerMetrics \<Rightarrow> producerMetrics" where
  "logKafkaProduceResult r valueLength err =
     RecordProducerMessage ''kafka'' (if err \<noteq> None then ''error'' else ''success'')
       (map_option (\<lambda>r. kafkaPropertiesFromHeaders (krHeaders r)) r) (if r = None then 0 else valueLength)"

definition kafkaMessageID :: "kgoRecord \<Rightarrow> string" where
  "kafkaMessageID r = krTopic r @ ''/'' @ strconv_Itoa (krPartition r) @ ''/'' @ strconv_Itoa (krOffset r)"

definition isSelfProducedKafkaRecord :: "kgoRecord \<Rightarrow> bool" where
  "isSelfProducedKafkaRecord r = IsSelfProducedMessage (kafkaPropertiesFromHeaders (krHeaders r)) []"

section \<open>Pulsar\<close>

record ProducerMessage =
  ppPayload :: wire
  ppProperties :: properties
  ppKey :: string

record 'x pulsarProducerLib =
  psNow :: "'x \<Rightarrow> string"
  psSendAsync :: "ProducerMessage \<Rightarrow> 'x \<Rightarrow> 'x"

definition NewProducerMessage :: "string \<Rightarrow> string \<Rightarrow> string \<Rightarrow> string \<Rightarrow> string \<Rightarrow> wire \<Rightarrow> properties list \<Rightarrow> ProducerMessage" where
  "NewProducerMessage now producerMessageKey account cluster eventType payload optionalProperties =
     (let properties = BuildProducerProperties now account cluster eventType optionalProperties;
          properties = (if producerMessageKey \<noteq> SynchronizerServerProducerKey
             then filter (\<lambda>(k, _). k \<noteq> MsgPropProducerSource) properties else properties)
      in \<lparr>ppPayload = payload, ppProperties = properties, ppKey = producerMessageKey\<rparr>)"

definition pulsarSend :: "'x pulsarProducerLib \<Rightarrow> ProducerMessage \<Rightarrow> (ProducerMessage list \<times> 'x, goerror option) go" where
  "pulsarSend lib m = (\<lambda>(log, x). (Ret None, (log @ [m], psSendAsync lib m x)))"

definition pulsar_ProduceMessage :: "'x pulsarProducerLib \<Rightarrow> ClientIdentifier \<Rightarrow> string \<Rightarrow> wire \<Rightarrow> properties list \<Rightarrow>
    (ProducerMessage list \<times> 'x, goerror option) go" where
  "pulsar_ProduceMessage lib cid eventType payload optionalProperties = (\<lambda>(log, x).
     pulsarSend lib (NewProducerMessage (psNow lib x) SynchronizerServerProducerKey (ciAccount cid) (ciCluster cid)
       eventType payload optionalProperties) (log, x))"

definition pulsar_ProduceMessageWithoutIdentifier :: "'x pulsarProducerLib \<Rightarrow> string \<Rightarrow> wire \<Rightarrow>
    (ProducerMessage list \<times> 'x, goerror option) go" where
  "pulsar_ProduceMessageWithoutIdentifier lib eventType payload = (\<lambda>(log, x).
     pulsarSend lib (NewProducerMessage (psNow lib x) SynchronizerServerProducerKey [] [] eventType payload []) (log, x))"

definition pulsarProducer :: "'x pulsarProducerLib \<Rightarrow> (ProducerMessage list \<times> 'x) MessageProducer" where
  "pulsarProducer lib = \<lparr>prProduceMessage = pulsar_ProduceMessage lib,
     prProduceMessageWithoutIdentifier = pulsar_ProduceMessageWithoutIdentifier lib\<rparr>"

definition logPulsarSyncAsyncErrors :: "ProducerMessage option \<Rightarrow> nat \<Rightarrow> goerror option \<Rightarrow> producerMetrics \<Rightarrow> producerMetrics" where
  "logPulsarSyncAsyncErrors message payloadLength err =
     RecordProducerMessage ''pulsar'' (if err \<noteq> None then ''error'' else ''success'')
       (map_option ppProperties message) (if message = None then 0 else payloadLength)"

section \<open>Headers keep the properties\<close>

lemma set_kafkaHeaders: "set (kafkaHeadersFromProperties ps) = {(k, v). (k, v) \<in> set ps \<and> v \<noteq> []}"
  by (induction ps rule: kafkaHeadersFromProperties.induct) auto

lemma distinct_kafkaHeaders: "distinct (map fst ps) \<Longrightarrow> distinct (map fst (kafkaHeadersFromProperties ps))"
  by (induction ps rule: kafkaHeadersFromProperties.induct) (auto simp: set_kafkaHeaders image_iff)

lemma map_of_kafkaHeaders:
  assumes "distinct (map fst ps)"
  shows "map_of (kafkaHeadersFromProperties ps) k = Option.bind (map_of ps k) (\<lambda>v. if v = [] then None else Some v)"
  using assms
proof (induction ps rule: kafkaHeadersFromProperties.induct)
  case (2 key val ps)
  then have "map_of ps key = None" by (simp add: map_of_eq_None_iff)
  then show ?case using 2 by auto
qed simp

lemma kafkaProperties_copy: "kafkaPropertiesFromHeaders hs = copyProps [] hs"
  by (simp add: kafkaPropertiesFromHeaders_def copyProps_def)

lemma property_headers:
  assumes "distinct (map fst ps)"
  shows "property (kafkaPropertiesFromHeaders (kafkaHeadersFromProperties ps)) k = property ps k"
proof -
  let ?hs = "kafkaHeadersFromProperties ps"
  have d: "distinct (map fst ?hs)" "distinct (map fst (rev ?hs))"
    using distinct_kafkaHeaders [OF assms] by (simp_all add: rev_map [symmetric])
  have eq: "map_of (rev ?hs) k = map_of ?hs k"
    using map_of_inject_set [OF d(2,1)] by simp
  show ?thesis
    by (cases "map_of ps k")
      (simp_all add: property_def kafkaProperties_copy map_of_copyProps eq map_of_kafkaHeaders [OF assms])
qed

lemma distinct_copyProps: "distinct (map fst dst) \<Longrightarrow> distinct (map fst (copyProps dst src))"
  unfolding copyProps_def by (induction src arbitrary: dst) auto

lemma distinct_copyAll: "distinct (map fst dst) \<Longrightarrow> distinct (map fst (foldl copyProps dst opts))"
  by (induction opts arbitrary: dst) (auto intro: distinct_copyProps)

lemma distinct_BuildProducerProperties: "distinct (map fst (BuildProducerProperties now account cluster event opts))"
proof -
  have "distinct (map fst (foldl copyProps [(MsgPropTimestamp, now), (MsgPropEvent, event),
      (MsgPropProducerSource, MsgPropProducerSourceSynchronizerServer)] opts))"
    by (rule distinct_copyAll) (simp add: msgProp_defs)
  then show ?thesis unfolding BuildProducerProperties_def Let_def by auto
qed

lemma addressed_headers:
  "distinct (map fst ps) \<Longrightarrow>
     addressed (kafkaPropertiesFromHeaders (kafkaHeadersFromProperties ps)) e a c = addressed ps e a c"
  by (simp add: addressed_def property_headers IsSelfProducedMessage_def)

section \<open>Both producers keep the contract\<close>

definition kafkaProduced :: "kgoRecord list \<times> 'x \<Rightarrow> (properties \<times> wire) list" where
  "kafkaProduced q = map (\<lambda>r. (kafkaPropertiesFromHeaders (krHeaders r), krValue r)) (fst q)"

definition pulsarProduced :: "ProducerMessage list \<times> 'x \<Rightarrow> (properties \<times> wire) list" where
  "pulsarProduced q = map (\<lambda>m. (ppProperties m, ppPayload m)) (fst q)"

interpretation kafka: message_producer "kafkaProducer client" kafkaProduced
proof (unfold_locales, goal_cases)
  case (1 opts cid event payload q)
  then show ?case
    using addressed_BuildProducerProperties [OF 1]
    by (cases q) (simp add: kafkaProducer_def kafka_ProduceMessage_def kafkaHandOver_def kafkaProduced_def newRecord_def
        addressed_headers distinct_BuildProducerProperties Let_def)
next
  case (2 event payload q)
  then show ?case
    using addressed_BuildProducerProperties [of "[]"]
    by (cases q) (simp add: kafkaProducer_def kafka_ProduceMessageWithoutIdentifier_def kafkaHandOver_def kafkaProduced_def
        newRecord_def addressed_headers distinct_BuildProducerProperties Let_def)
qed

interpretation pulsar: message_producer "pulsarProducer lib" pulsarProduced
proof (unfold_locales, goal_cases)
  case (1 opts cid event payload q)
  then show ?case
    using addressed_BuildProducerProperties [OF 1]
    by (cases q) (simp add: pulsarProducer_def pulsar_ProduceMessage_def pulsarSend_def pulsarProduced_def NewProducerMessage_def)
next
  case (2 event payload q)
  then show ?case
    using addressed_BuildProducerProperties [of "[]"]
    by (cases q) (simp add: pulsarProducer_def pulsar_ProduceMessageWithoutIdentifier_def pulsarSend_def pulsarProduced_def
        NewProducerMessage_def)
qed

end
