(* ===== verification/Queue_Readers.thy ===== *)
theory Queue_Readers
  imports Queue_Producers "HOL-Library.Multiset"
begin

text \<open>
  The readers of the message queue (\<open>kafka.go\<close>, \<open>pulsar.go\<close>): a loop that reads messages into a
  bounded channel, workers that take them out and handle them, and the way the two end. Reader loop and
  workers are goroutines, so each reader is a step relation: a worker takes a message in one step and is
  done with it in another, and in between anything can happen, also to the other messages.
\<close>

section \<open>State\<close>

text \<open>
  \<open>rdPending\<close>: read and not yet looked at. \<open>rdIdle\<close>: workers that wait for a message; \<open>rdBusy\<close>: what the
  others are working on. \<open>rdAccepted\<close>, \<open>rdTaken\<close> and \<open>rdHandled\<close> record what was put into the channel, what was
  taken out of it and what was handled, each in order. \<open>rdEnded\<close>: a goroutine panicked or called \<open>Fatal\<close>, which
  ends the process, with the reason.
\<close>

record 'm readerState =
  rdPending :: "'m list"
  rdChannel :: "'m list"
  rdRunning :: bool
  rdClosed :: bool
  rdCancelled :: bool
  rdIdle :: nat
  rdBusy :: "'m list"
  rdAccepted :: "'m list"
  rdTaken :: "'m list"
  rdHandled :: "'m list"
  rdEnded :: "string option"

definition reader_init :: "nat \<Rightarrow> 'm readerState" where
  "reader_init workers = \<lparr>rdPending = [], rdChannel = [], rdRunning = True, rdClosed = False, rdCancelled = False,
     rdIdle = workers, rdBusy = [], rdAccepted = [], rdTaken = [], rdHandled = [], rdEnded = None\<rparr>"

text \<open>The number of workers, which is also the capacity of the channel.\<close>

definition consumerWorkers :: "int \<Rightarrow> nat" where
  "consumerWorkers configured = (if configured > 0 then nat configured else 10)"

definition readerGroupID :: "string \<Rightarrow> string \<Rightarrow> string" where
  "readerGroupID prefix hostname = (if prefix = [] then ''synchronizer-server'' else prefix) @ ''-'' @ hostname"

definition kafkaIncoming :: "kgoRecord \<Rightarrow> IncomingMessage" where
  "kafkaIncoming r = \<lparr>imID = kafkaMessageID r, imProperties = kafkaPropertiesFromHeaders (krHeaders r), imPayload = krValue r\<rparr>"

record pulsarMessage =
  pmID :: string
  pmBatchIdx :: int
  pmKey :: string
  pmProperties :: properties
  pmPayload :: wire

definition pulsarIncoming :: "(string \<Rightarrow> int \<Rightarrow> string) \<Rightarrow> pulsarMessage \<Rightarrow> IncomingMessage" where
  "pulsarIncoming idToString m = \<lparr>imID = idToString (pmID m) (pmBatchIdx m), imProperties = pmProperties m, imPayload = pmPayload m\<rparr>"

text \<open>
  A worker takes the next message. When \<open>Handle\<close> has returned, with or without an error, it is done with the
  message and waits for the next; when \<open>Handle\<close> panics, the process ends. What \<open>Handle\<close> may return for a
  message is \<open>outcome\<close>, an argument: it depends on what the other goroutines do meanwhile.
\<close>

definition takeNext :: "'m readerState \<Rightarrow> 'm \<Rightarrow> 'm list \<Rightarrow> 'm readerState" where
  "takeNext s m ms = s\<lparr>rdChannel := ms, rdTaken := rdTaken s @ [m], rdIdle := rdIdle s - 1, rdBusy := rdBusy s @ [m]\<rparr>"

definition finishMessage :: "'m readerState \<Rightarrow> 'm \<Rightarrow> goerror option outcome \<Rightarrow> 'm readerState" where
  "finishMessage s m r = (case r of
     Panic p \<Rightarrow> s\<lparr>rdEnded := Some p\<rparr>
   | Ret err \<Rightarrow> s\<lparr>rdBusy := remove1 m (rdBusy s), rdHandled := rdHandled s @ [m], rdIdle := rdIdle s + 1\<rparr>)"

section \<open>Kafka\<close>

inductive kafka_step :: "nat \<Rightarrow> (IncomingMessage \<Rightarrow> goerror option outcome \<Rightarrow> bool) \<Rightarrow> kgoRecord readerState \<Rightarrow> kgoRecord readerState \<Rightarrow> bool"
  for cap :: nat and outcome :: "IncomingMessage \<Rightarrow> goerror option outcome \<Rightarrow> bool" where
  k_poll: "rdEnded s = None \<Longrightarrow> rdRunning s \<Longrightarrow> rdPending s = [] \<Longrightarrow> \<not> rdCancelled s \<Longrightarrow>
     kafka_step cap outcome s (s\<lparr>rdPending := records\<rparr>)"
| k_exit: "rdEnded s = None \<Longrightarrow> rdRunning s \<Longrightarrow> rdPending s = [] \<Longrightarrow>
     kafka_step cap outcome s (s\<lparr>rdRunning := False, rdClosed := True\<rparr>)"
| k_skip: "rdEnded s = None \<Longrightarrow> rdRunning s \<Longrightarrow> rdPending s = r # rs \<Longrightarrow> isSelfProducedKafkaRecord r \<Longrightarrow>
     kafka_step cap outcome s (s\<lparr>rdPending := rs\<rparr>)"
| k_send: "rdEnded s = None \<Longrightarrow> rdRunning s \<Longrightarrow> rdPending s = r # rs \<Longrightarrow> \<not> isSelfProducedKafkaRecord r \<Longrightarrow>
     \<not> rdClosed s \<Longrightarrow> length (rdChannel s) < cap \<Longrightarrow>
     kafka_step cap outcome s (s\<lparr>rdPending := rs, rdChannel := rdChannel s @ [r], rdAccepted := rdAccepted s @ [r]\<rparr>)"
| k_send_closed: "rdEnded s = None \<Longrightarrow> rdRunning s \<Longrightarrow> rdPending s = r # rs \<Longrightarrow> \<not> isSelfProducedKafkaRecord r \<Longrightarrow>
     rdClosed s \<Longrightarrow> kafka_step cap outcome s (s\<lparr>rdEnded := Some ''send on closed channel''\<rparr>)"
| k_drop: "rdEnded s = None \<Longrightarrow> rdRunning s \<Longrightarrow> rdPending s = r # rs \<Longrightarrow> \<not> isSelfProducedKafkaRecord r \<Longrightarrow>
     rdCancelled s \<Longrightarrow> kafka_step cap outcome s (s\<lparr>rdPending := rs\<rparr>)"
| k_take: "rdEnded s = None \<Longrightarrow> rdIdle s > 0 \<Longrightarrow> rdChannel s = r # rs \<Longrightarrow> kafka_step cap outcome s (takeNext s r rs)"
| k_finish: "rdEnded s = None \<Longrightarrow> r \<in> set (rdBusy s) \<Longrightarrow> outcome (kafkaIncoming r) res \<Longrightarrow>
     kafka_step cap outcome s (finishMessage s r res)"
| k_worker_done: "rdEnded s = None \<Longrightarrow> rdIdle s > 0 \<Longrightarrow> rdCancelled s \<or> (rdClosed s \<and> rdChannel s = []) \<Longrightarrow>
     kafka_step cap outcome s (s\<lparr>rdIdle := rdIdle s - 1\<rparr>)"
| k_cancel: "kafka_step cap outcome s (s\<lparr>rdCancelled := True\<rparr>)"

inductive kafka_reachable :: "nat \<Rightarrow> (IncomingMessage \<Rightarrow> goerror option outcome \<Rightarrow> bool) \<Rightarrow> kgoRecord readerState \<Rightarrow> bool"
  for cap :: nat and outcome :: "IncomingMessage \<Rightarrow> goerror option outcome \<Rightarrow> bool" where
  kr_init: "kafka_reachable cap outcome (reader_init cap)"
| kr_step: "kafka_reachable cap outcome s \<Longrightarrow> kafka_step cap outcome s s' \<Longrightarrow> kafka_reachable cap outcome s'"

section \<open>Pulsar\<close>

text \<open>
  Here the goroutine that waits for the workers closes the channel, and the reader loop goes on until
  its next read fails. A read error other than a closed consumer is \<open>Fatal\<close>, and so is a message that
  the loop holds when \<open>stop\<close> reaches \<open>c.done <- true\<close>.
\<close>

inductive pulsar_step :: "nat \<Rightarrow> (IncomingMessage \<Rightarrow> goerror option outcome \<Rightarrow> bool) \<Rightarrow> (string \<Rightarrow> int \<Rightarrow> string) \<Rightarrow>
    pulsarMessage readerState \<Rightarrow> pulsarMessage readerState \<Rightarrow> bool"
  for cap :: nat and outcome :: "IncomingMessage \<Rightarrow> goerror option outcome \<Rightarrow> bool" and idToString :: "string \<Rightarrow> int \<Rightarrow> string" where
  p_next: "rdEnded s = None \<Longrightarrow> rdRunning s \<Longrightarrow> rdPending s = [] \<Longrightarrow> \<not> rdClosed s \<Longrightarrow>
     pulsar_step cap outcome idToString s (s\<lparr>rdPending := [m]\<rparr>)"
| p_exit: "rdEnded s = None \<Longrightarrow> rdRunning s \<Longrightarrow> rdPending s = [] \<Longrightarrow> rdCancelled s \<or> rdClosed s \<Longrightarrow>
     pulsar_step cap outcome idToString s (s\<lparr>rdRunning := False\<rparr>)"
| p_read_error: "rdEnded s = None \<Longrightarrow> rdRunning s \<Longrightarrow> rdPending s = [] \<Longrightarrow> \<not> rdCancelled s \<Longrightarrow>
     pulsar_step cap outcome idToString s (s\<lparr>rdEnded := Some ''failed to read message from pulsar''\<rparr>)"
| p_skip: "rdEnded s = None \<Longrightarrow> rdRunning s \<Longrightarrow> rdPending s = m # ms \<Longrightarrow> IsSelfProducedMessage (pmProperties m) (pmKey m) \<Longrightarrow>
     pulsar_step cap outcome idToString s (s\<lparr>rdPending := ms\<rparr>)"
| p_send: "rdEnded s = None \<Longrightarrow> rdRunning s \<Longrightarrow> rdPending s = m # ms \<Longrightarrow> \<not> IsSelfProducedMessage (pmProperties m) (pmKey m) \<Longrightarrow>
     \<not> rdClosed s \<Longrightarrow> length (rdChannel s) < cap \<Longrightarrow>
     pulsar_step cap outcome idToString s (s\<lparr>rdPending := ms, rdChannel := rdChannel s @ [m], rdAccepted := rdAccepted s @ [m]\<rparr>)"
| p_send_closed: "rdEnded s = None \<Longrightarrow> rdRunning s \<Longrightarrow> rdPending s = m # ms \<Longrightarrow>
     \<not> IsSelfProducedMessage (pmProperties m) (pmKey m) \<Longrightarrow> rdClosed s \<Longrightarrow>
     pulsar_step cap outcome idToString s (s\<lparr>rdEnded := Some ''send on closed channel''\<rparr>)"
| p_done: "rdEnded s = None \<Longrightarrow> rdRunning s \<Longrightarrow> rdPending s = m # ms \<Longrightarrow>
     \<not> IsSelfProducedMessage (pmProperties m) (pmKey m) \<Longrightarrow> rdClosed s \<Longrightarrow>
     pulsar_step cap outcome idToString s (s\<lparr>rdEnded := Some ''pulsar message will not be processed because channel was closed''\<rparr>)"
| p_take: "rdEnded s = None \<Longrightarrow> rdIdle s > 0 \<Longrightarrow> rdChannel s = m # ms \<Longrightarrow> pulsar_step cap outcome idToString s (takeNext s m ms)"
| p_finish: "rdEnded s = None \<Longrightarrow> m \<in> set (rdBusy s) \<Longrightarrow> outcome (pulsarIncoming idToString m) res \<Longrightarrow>
     pulsar_step cap outcome idToString s (finishMessage s m res)"
| p_worker_done: "rdEnded s = None \<Longrightarrow> rdIdle s > 0 \<Longrightarrow> rdCancelled s \<Longrightarrow>
     pulsar_step cap outcome idToString s (s\<lparr>rdIdle := rdIdle s - 1\<rparr>)"
| p_stop: "rdEnded s = None \<Longrightarrow> rdIdle s = 0 \<Longrightarrow> rdBusy s = [] \<Longrightarrow> \<not> rdClosed s \<Longrightarrow>
     pulsar_step cap outcome idToString s (s\<lparr>rdClosed := True\<rparr>)"
| p_cancel: "pulsar_step cap outcome idToString s (s\<lparr>rdCancelled := True\<rparr>)"

inductive pulsar_reachable :: "nat \<Rightarrow> (IncomingMessage \<Rightarrow> goerror option outcome \<Rightarrow> bool) \<Rightarrow> (string \<Rightarrow> int \<Rightarrow> string) \<Rightarrow>
    pulsarMessage readerState \<Rightarrow> bool"
  for cap :: nat and outcome :: "IncomingMessage \<Rightarrow> goerror option outcome \<Rightarrow> bool" and idToString :: "string \<Rightarrow> int \<Rightarrow> string" where
  pr_init: "pulsar_reachable cap outcome idToString (reader_init cap)"
| pr_step: "pulsar_reachable cap outcome idToString s \<Longrightarrow> pulsar_step cap outcome idToString s s' \<Longrightarrow>
    pulsar_reachable cap outcome idToString s'"

inductive_cases kafka_stepE: "kafka_step cap outcome s s'"
inductive_cases pulsar_stepE: "pulsar_step cap outcome idToString s s'"

section \<open>What both readers keep\<close>

text \<open>
  What was taken and what is in the channel is what was accepted, in order. What was taken was handled or
  is being handled, each message once; in which order messages are handled is left to the workers.
\<close>

definition fifo :: "nat \<Rightarrow> ('m \<Rightarrow> bool) \<Rightarrow> 'm readerState \<Rightarrow> bool" where
  "fifo cap self s \<longleftrightarrow> rdAccepted s = rdTaken s @ rdChannel s \<and> length (rdChannel s) \<le> cap
     \<and> list_all (\<lambda>m. \<not> self m) (rdAccepted s)
     \<and> mset (rdTaken s) = mset (rdHandled s) + mset (rdBusy s)
     \<and> rdIdle s + length (rdBusy s) \<le> cap"

lemma length_remove1_Suc: "x \<in> set xs \<Longrightarrow> length xs = Suc (length (remove1 x xs))"
  using length_pos_if_in_set [of x xs] by (simp add: length_remove1)

lemma fifo_takeNext:
  assumes "fifo cap self s" and "rdChannel s = m # ms" and "rdIdle s > 0"
  shows "fifo cap self (takeNext s m ms)"
  using assms by (auto simp: fifo_def takeNext_def)

lemma fifo_finish:
  assumes "fifo cap self s" and "m \<in> set (rdBusy s)"
  shows "fifo cap self (finishMessage s m r)"
proof (cases r)
  case (Ret err)
  have "mset (rdBusy s) = add_mset m (mset (remove1 m (rdBusy s)))" using assms(2) by simp
  moreover have "length (rdBusy s) = Suc (length (remove1 m (rdBusy s)))" by (rule length_remove1_Suc [OF assms(2)])
  ultimately show ?thesis using assms(1) Ret by (auto simp: fifo_def finishMessage_def)
qed (use assms(1) in \<open>auto simp: fifo_def finishMessage_def\<close>)

lemma fifo_same:
  "fifo cap self s \<Longrightarrow> rdChannel s' = rdChannel s \<Longrightarrow> rdAccepted s' = rdAccepted s \<Longrightarrow> rdTaken s' = rdTaken s \<Longrightarrow>
     rdHandled s' = rdHandled s \<Longrightarrow> rdBusy s' = rdBusy s \<Longrightarrow> rdIdle s' \<le> rdIdle s \<Longrightarrow> fifo cap self s'"
  unfolding fifo_def by auto

lemma fifo_send:
  "fifo cap self s \<Longrightarrow> length (rdChannel s) < cap \<Longrightarrow> \<not> self m \<Longrightarrow>
     fifo cap self (s\<lparr>rdPending := ms, rdChannel := rdChannel s @ [m], rdAccepted := rdAccepted s @ [m]\<rparr>)"
  unfolding fifo_def by auto

lemma fifo_init: "fifo cap self (reader_init cap)"
  by (simp add: fifo_def reader_init_def)

lemma kafka_fifo: "kafka_reachable cap outcome s \<Longrightarrow> fifo cap isSelfProducedKafkaRecord s"
proof (induction rule: kafka_reachable.induct)
  case (kr_step s s')
  from kr_step.hyps(2) kr_step.IH show ?case
    by (cases rule: kafka_step.cases) (auto intro: fifo_takeNext fifo_send fifo_finish elim: fifo_same)
qed (rule fifo_init)

lemma pulsar_fifo:
  "pulsar_reachable cap outcome idToString s \<Longrightarrow> fifo cap (\<lambda>m. IsSelfProducedMessage (pmProperties m) (pmKey m)) s"
proof (induction rule: pulsar_reachable.induct)
  case (pr_step s s')
  from pr_step.hyps(2) pr_step.IH show ?case
    by (cases rule: pulsar_step.cases) (auto intro: fifo_takeNext fifo_send fifo_finish elim: fifo_same)
qed (rule fifo_init)

text \<open>The Kafka reader closes the channel only when its loop has ended.\<close>

definition owned :: "'m readerState \<Rightarrow> bool" where
  "owned s \<longleftrightarrow> rdClosed s = (\<not> rdRunning s) \<and> (rdClosed s \<longrightarrow> rdPending s = [])"

lemma kafka_owned: "kafka_reachable cap outcome s \<Longrightarrow> owned s"
proof (induction rule: kafka_reachable.induct)
  case (kr_step s s')
  from kr_step.hyps(2) kr_step.IH show ?case
    by (cases rule: kafka_step.cases) (auto simp: owned_def takeNext_def finishMessage_def split: outcome.splits)
qed (simp add: owned_def reader_init_def)

lemma kafka_no_crash:
  assumes "\<And>m p. \<not> outcome m (Panic p)"
  shows "kafka_reachable cap outcome s \<Longrightarrow> rdEnded s = None"
proof (induction rule: kafka_reachable.induct)
  case (kr_step s s')
  have "owned s" using kafka_owned kr_step.hyps(1) .
  from kr_step.hyps(2) kr_step.IH this show ?case
    by (cases rule: kafka_step.cases)
      (use assms in \<open>auto simp: owned_def takeNext_def finishMessage_def split: outcome.splits\<close>)
qed (simp add: reader_init_def)

text \<open>Workers leave before a cancellation only when there is nothing left to take.\<close>

definition drained :: "nat \<Rightarrow> 'm readerState \<Rightarrow> bool" where
  "drained cap s \<longleftrightarrow> (\<not> rdCancelled s \<longrightarrow> rdIdle s + length (rdBusy s) < cap \<longrightarrow> rdClosed s \<and> rdChannel s = [])"

lemma kafka_drained: "kafka_reachable cap outcome s \<Longrightarrow> drained cap s"
proof (induction rule: kafka_reachable.induct)
  case (kr_step s s')
  have "owned s" using kafka_owned kr_step.hyps(1) .
  from kr_step.hyps(2) kr_step.IH this show ?case
  proof (cases rule: kafka_step.cases)
    case (k_finish r res)
    have "length (rdBusy s) = Suc (length (remove1 r (rdBusy s)))" by (rule length_remove1_Suc [OF k_finish(3)])
    then show ?thesis using k_finish kr_step.IH by (auto simp: drained_def finishMessage_def split: outcome.splits)
  qed (auto simp: drained_def owned_def takeNext_def)
qed (simp add: drained_def reader_init_def)

section \<open>Properties\<close>

text \<open>
  C19. The Kafka reader neither loses nor repeats what it accepted: its workers take the accepted messages
  out of the channel in order, and each of them is waiting in the channel, being handled or handled, exactly
  once; none is one the server produced itself. The channel never holds more than its capacity, and never
  more messages are handled at once than there are workers. No goroutine ever sends on a closed channel, so
  the reader ends only by a handler that panics. Unless it is cancelled, all that was accepted has been handled
  when the last worker has ended. (The workers run concurrently: in which order they finish is left open.)
\<close>

theorem kafka_reader_is_safe:
  assumes "kafka_reachable cap outcome s" and "\<forall>m p. \<not> outcome m (Panic p)"
  shows "rdEnded s = None \<and> rdAccepted s = rdTaken s @ rdChannel s \<and> mset (rdTaken s) = mset (rdHandled s) + mset (rdBusy s)
     \<and> list_all (\<lambda>m. \<not> isSelfProducedKafkaRecord m) (rdAccepted s)
     \<and> length (rdChannel s) \<le> cap \<and> rdIdle s + length (rdBusy s) \<le> cap
     \<and> (cap = 0 \<or> rdCancelled s \<or> rdIdle s + length (rdBusy s) \<noteq> 0 \<or> mset (rdHandled s) = mset (rdAccepted s))"
  using kafka_no_crash [OF _ assms(1)] kafka_fifo [OF assms(1)] kafka_drained [OF assms(1)] assms(2)
  by (auto simp: fifo_def drained_def)

text \<open>A message from the ingester for the cluster of the account.\<close>

definition sampleRecord :: kgoRecord where
  "sampleRecord = newRecord None (Doc JNull) [(MsgPropAccount, ''acc''), (MsgPropEvent, ''GetObject'')]"

lemma sampleRecord_foreign: "\<not> isSelfProducedKafkaRecord sampleRecord"
  by (simp add: isSelfProducedKafkaRecord_def sampleRecord_def newRecord_def kafkaPropertiesFromHeaders_def
      IsSelfProducedMessage_def property_def msgProp_defs SynchronizerServerProducerKey_def)

text \<open>
  A reader with two workers: two messages are accepted and taken one after the other, and the one taken later is
  handled first.
\<close>

definition secondRecord :: kgoRecord where
  "secondRecord = newRecord None (Doc JNull) [(MsgPropAccount, ''other''), (MsgPropEvent, ''GetObject'')]"

lemma secondRecord_foreign: "\<not> isSelfProducedKafkaRecord secondRecord" "secondRecord \<noteq> sampleRecord"
  by (simp_all add: isSelfProducedKafkaRecord_def secondRecord_def sampleRecord_def newRecord_def kafkaPropertiesFromHeaders_def
      IsSelfProducedMessage_def property_def msgProp_defs SynchronizerServerProducerKey_def)

definition overtaken :: "kgoRecord readerState" where
  "overtaken = (reader_init 2)\<lparr>rdIdle := 1, rdBusy := [sampleRecord], rdAccepted := [sampleRecord, secondRecord],
     rdTaken := [sampleRecord, secondRecord], rdHandled := [secondRecord]\<rparr>"

lemma overtaken_reachable: "kafka_reachable 2 (\<lambda>m r. r = Ret None) overtaken"
proof -
  let ?o = "\<lambda>m r. r = Ret None" and ?i = "reader_init 2 :: kgoRecord readerState"
  note step = kafka_reachable.kr_step [where cap = 2 and outcome = ?o]
  note simps = reader_init_def sampleRecord_foreign secondRecord_foreign takeNext_def finishMessage_def
  have "kafka_reachable 2 ?o (?i\<lparr>rdPending := [sampleRecord, secondRecord]\<rparr>)"
    by (rule step [OF kafka_reachable.kr_init kafka_step.k_poll]) (simp_all add: simps)
  from step [OF this kafka_step.k_send [where r = sampleRecord and rs = "[secondRecord]"]]
  have "kafka_reachable 2 ?o (?i\<lparr>rdPending := [secondRecord], rdChannel := [sampleRecord], rdAccepted := [sampleRecord]\<rparr>)"
    by (simp add: simps)
  from step [OF this kafka_step.k_send [where r = secondRecord and rs = "[]"]]
  have "kafka_reachable 2 ?o (?i\<lparr>rdChannel := [sampleRecord, secondRecord], rdAccepted := [sampleRecord, secondRecord]\<rparr>)"
    by (simp add: simps)
  from step [OF this kafka_step.k_take [where r = sampleRecord and rs = "[secondRecord]"]]
  have "kafka_reachable 2 ?o (?i\<lparr>rdChannel := [secondRecord], rdAccepted := [sampleRecord, secondRecord], rdTaken := [sampleRecord],
      rdIdle := 1, rdBusy := [sampleRecord]\<rparr>)" by (simp add: simps)
  from step [OF this kafka_step.k_take [where r = secondRecord and rs = "[]"]]
  have "kafka_reachable 2 ?o (?i\<lparr>rdAccepted := [sampleRecord, secondRecord], rdTaken := [sampleRecord, secondRecord],
      rdIdle := 0, rdBusy := [sampleRecord, secondRecord]\<rparr>)" by (simp add: simps)
  from step [OF this kafka_step.k_finish [where r = secondRecord and res = "Ret None"]] show ?thesis
    by (simp add: simps overtaken_def)
qed

theorem kafka_reader_is_safe_witness:
  "rdEnded overtaken = None \<and> mset (rdTaken overtaken) = mset (rdHandled overtaken) + mset (rdBusy overtaken)
     \<and> rdIdle overtaken + length (rdBusy overtaken) \<le> 2"
  using kafka_reader_is_safe [OF overtaken_reachable] by simp

definition samplePulsar :: pulsarMessage where
  "samplePulsar = \<lparr>pmID = [], pmBatchIdx = 0, pmKey = [], pmProperties = [], pmPayload = NoData\<rparr>"

lemma samplePulsar_foreign: "\<not> IsSelfProducedMessage (pmProperties samplePulsar) (pmKey samplePulsar)"
  by (simp add: samplePulsar_def IsSelfProducedMessage_def property_def SynchronizerServerProducerKey_def
      MsgPropProducerSourceSynchronizerServer_def)

definition holding :: "nat \<Rightarrow> nat \<Rightarrow> pulsarMessage readerState" where
  "holding cap n = (reader_init cap)\<lparr>rdPending := [samplePulsar], rdCancelled := True, rdIdle := n\<rparr>"

lemma pulsar_workers_end:
  "n \<le> cap \<Longrightarrow> pulsar_reachable cap outcome idToString (holding cap (cap - n))"
proof (induction n)
  case 0
  have "pulsar_step cap outcome idToString (reader_init cap) ((reader_init cap)\<lparr>rdPending := [samplePulsar]\<rparr>)"
    by (rule p_next) (simp_all add: reader_init_def)
  then have "pulsar_reachable cap outcome idToString ((reader_init cap)\<lparr>rdPending := [samplePulsar]\<rparr>)"
    by (meson pr_init pr_step)
  from pr_step [OF this p_cancel] show ?case by (simp add: holding_def reader_init_def)
next
  case (Suc n)
  have "pulsar_step cap outcome idToString (holding cap (cap - n))
      ((holding cap (cap - n))\<lparr>rdIdle := rdIdle (holding cap (cap - n)) - 1\<rparr>)"
    by (rule p_worker_done) (use Suc.prems in \<open>simp_all add: holding_def reader_init_def\<close>)
  from pr_step [OF Suc.IH this] Suc.prems show ?case by (simp add: holding_def)
qed

text \<open>
  C39. The Pulsar reader can panic when it is shut down: the workers end, the channel is closed behind
  them, and the reader loop, which holds a message it has read, sends it on the closed channel.
\<close>

theorem pulsar_reader_can_panic:
  "\<exists>s. pulsar_reachable cap outcome idToString s \<and> rdEnded s = Some ''send on closed channel''"
proof -
  let ?s = "holding cap 0"
  have r: "pulsar_reachable cap outcome idToString ?s" using pulsar_workers_end [of cap cap] by simp
  have "pulsar_step cap outcome idToString ?s (?s\<lparr>rdClosed := True\<rparr>)"
    by (rule p_stop) (simp_all add: holding_def reader_init_def)
  note closed = pr_step [OF r this]
  have "pulsar_step cap outcome idToString (?s\<lparr>rdClosed := True\<rparr>) (?s\<lparr>rdClosed := True, rdEnded := Some ''send on closed channel''\<rparr>)"
    using p_send_closed [of "?s\<lparr>rdClosed := True\<rparr>" samplePulsar "[]" cap outcome idToString] samplePulsar_foreign
    by (simp add: holding_def reader_init_def)
  from pr_step [OF closed this] show ?thesis by (intro exI conjI) auto
qed

text \<open>
  C21. A server never handles what a server wrote, and handles what others write: whatever either producer hands
  over for a client carries the mark by which the readers of both queues skip a message, while a Pulsar message
  that another program builds with its own key, with the same helper, does not.
\<close>

theorem own_messages_are_skipped:
  assumes "list_all custom_ok opts" and "key \<noteq> SynchronizerServerProducerKey"
  shows "(\<exists>r x'. kafka_ProduceMessage client cid event payload opts (log, x) = (Ret None, (log @ [r], x')) \<and> isSelfProducedKafkaRecord r)
     \<and> (\<exists>m y'. pulsar_ProduceMessage lib cid event payload opts (plog, y) = (Ret None, (plog @ [m], y'))
          \<and> IsSelfProducedMessage (ppProperties m) (ppKey m))
     \<and> \<not> IsSelfProducedMessage (ppProperties (NewProducerMessage now key account cluster event payload opts)) key"
proof -
  have "IsSelfProducedMessage (BuildProducerProperties (kgNow client x) (ciAccount cid) (ciCluster cid) event opts) []"
    using addressed_BuildProducerProperties [OF assms(1)] by (simp add: addressed_def)
  then have "isSelfProducedKafkaRecord (newRecord k payload (kafkaHeadersFromProperties
      (BuildProducerProperties (kgNow client x) (ciAccount cid) (ciCluster cid) event opts)))" for k
    by (simp add: isSelfProducedKafkaRecord_def newRecord_def IsSelfProducedMessage_def property_headers
        distinct_BuildProducerProperties)
  moreover have "map_of (filter (\<lambda>(k, _). k \<noteq> MsgPropProducerSource) ps) MsgPropProducerSource = None" for ps :: properties
    by (auto simp: map_of_eq_None_iff)
  ultimately show ?thesis using assms(2)
    by (simp add: kafka_ProduceMessage_def kafkaHandOver_def pulsar_ProduceMessage_def pulsarSend_def Let_def
        NewProducerMessage_def IsSelfProducedMessage_def property_def MsgPropProducerSourceSynchronizerServer_def)
qed

theorem own_messages_are_skipped_witness:
  "(\<exists>r x'. kafka_ProduceMessage \<lparr>kgNow = (\<lambda>_. []), kgProduce = (\<lambda>r x. x)\<rparr> zero_ClientIdentifier ''GetObject'' NoData [] ([], ()) =
        (Ret None, ([] @ [r], x')) \<and> isSelfProducedKafkaRecord r)
     \<and> \<not> IsSelfProducedMessage (ppProperties (NewProducerMessage [] ''ingester'' ''acc'' ''cluster'' ''GetObject'' NoData [])) ''ingester''"
  using own_messages_are_skipped [of "[]" "''ingester''" "\<lparr>kgNow = (\<lambda>_. []), kgProduce = (\<lambda>r x. x)\<rparr>" zero_ClientIdentifier
      "''GetObject''" NoData "[]" "()" "\<lparr>psNow = (\<lambda>_. []), psSendAsync = (\<lambda>m x. x)\<rparr>" "[]" "()" "[]" "''acc''" "''cluster''"]
  by (simp add: SynchronizerServerProducerKey_def)

end
