(* ===== verification/Backend_Queue.thy ===== *)
theory Backend_Queue
  imports Backend_Connections Queue_Readers
begin

text \<open>
  The server between its connections and the queue: a client's call becomes one message unless it is withheld,
  and a message becomes one call on the callbacks of the client it is for.
\<close>

section \<open>From a call to the queue\<close>

lemma backend_call_client:
  assumes "identified ctx cid" and "baClientsMap b (ClientIdentifier_String cid) = Some cl"
  shows "backend_call env ctx c ((b, q), w) = on_queue (backend_client_call env cl (baFeaturesProvider b) ctx c) ((b, q), w)"
  using assms by (cases c) (simp_all add: backend_DeleteObject_def backend_GetObject_def backend_PatchObject_def
      backend_PutObject_def backend_VerifyObject_def backend_Batch_def withClient_def getClient_def)

text \<open>
  C5. What a connected cluster asks of the server about one object (a delete, get, patch, put or verify) goes to
  the queue as exactly one message unless it is withheld, through Kafka and through Pulsar alike: the message
  carries the call, the cluster's account and name, the message id and a depth one higher. Nothing else happens
  to the server, and the call is not refused. (Withheld are puts of skipped alerts and of objects over the size
  limit; a batch is many calls.)
\<close>

theorem client_call_becomes_message:
  assumes "identified ctx cid" and "carries ctx d m" and "baClientsMap b (ClientIdentifier_String cid) = Some cl"
    and "call_object c = Some oid" and "knKind oid = Some k" and "\<not> withheld cl (baFeaturesProvider b) (ciAccount cid) c"
    and "M = queueMessage (wrap64 (d + 1)) m cid (Kind_String k) c"
    and "beProducer env = kafkaProducer client" and "beProducer env' = pulsarProducer lib"
  shows "(\<exists>q' ps. backend_call env ctx c ((b, q), w) = (Ret None, ((b, q'), w))
       \<and> kafkaProduced q' = kafkaProduced q @ [(ps, Doc (om_doc M))] \<and> addressed ps (om_event M) (ciAccount cid) (ciCluster cid))
     \<and> (\<exists>q' ps. backend_call env' ctx c ((b, p), w) = (Ret None, ((b, q'), w))
       \<and> pulsarProduced q' = pulsarProduced p @ [(ps, Doc (om_doc M))] \<and> addressed ps (om_event M) (ciAccount cid) (ciCluster cid))"
proof
  note call = backend_call_client [OF assms(1,3)]
  show "\<exists>q' ps. backend_call env ctx c ((b, q), w) = (Ret None, ((b, q'), w))
       \<and> kafkaProduced q' = kafkaProduced q @ [(ps, Doc (om_doc M))] \<and> addressed ps (om_event M) (ciAccount cid) (ciCluster cid)"
    using kafka.client_call_produces [OF assms(8,2,1,4-6), of q]
    by (auto simp: call assms(7))
  show "\<exists>q' ps. backend_call env' ctx c ((b, p), w) = (Ret None, ((b, q'), w))
       \<and> pulsarProduced q' = pulsarProduced p @ [(ps, Doc (om_doc M))] \<and> addressed ps (om_event M) (ciAccount cid) (ciCluster cid)"
    using pulsar.client_call_produces [OF assms(9,2,1,4-6), of p]
    by (auto simp: call assms(7))
qed

text \<open>A server with one client, whose context is the sample context.\<close>

definition sampleServer :: "'w Backend" where
  "sampleServer = (NewBackendAdapter sampleCfg)\<lparr>baClientsMap := [''a/'' \<mapsto> backend_NewClient sampleEnv []]\<rparr>"

definition sampleKafka :: "unit kgoClient" where
  "sampleKafka = \<lparr>kgNow = (\<lambda>_. []), kgProduce = (\<lambda>r x. x)\<rparr>"

definition samplePulsarLib :: "unit pulsarProducerLib" where
  "samplePulsarLib = \<lparr>psNow = (\<lambda>_. []), psSendAsync = (\<lambda>m x. x)\<rparr>"

lemma sampleServer_client:
  "baClientsMap sampleServer (ClientIdentifier_String (zero_ClientIdentifier\<lparr>ciAccount := ''a'', ciCluster := []\<rparr>)) =
     Some (backend_NewClient sampleEnv [])"
  by (simp add: sampleServer_def ClientIdentifier_String_def)

theorem client_call_becomes_message_witness:
  "\<exists>q' ps. backend_call (envOf (kafkaProducer sampleKafka)) sampleCtx (CallDelete sampleId) ((sampleServer, ([], ())), 0::nat) =
       (Ret None, ((sampleServer, q'), 0::nat))
     \<and> kafkaProduced q' = kafkaProduced ([], ()) @ [(ps, Doc (om_doc (queueMessage (wrap64 (2 + 1)) ''msg''
           (zero_ClientIdentifier\<lparr>ciAccount := ''a'', ciCluster := []\<rparr>) (Kind_String sampleKind) (CallDelete sampleId))))]
     \<and> addressed ps (om_event (queueMessage (wrap64 (2 + 1)) ''msg'' (zero_ClientIdentifier\<lparr>ciAccount := ''a'', ciCluster := []\<rparr>)
           (Kind_String sampleKind) (CallDelete sampleId))) ''a'' []"
  using client_call_becomes_message [OF sampleCtx_identified sampleCtx_carries sampleServer_client _ _ _ refl,
      of "CallDelete sampleId" sampleId sampleKind "envOf (kafkaProducer sampleKafka)" sampleKafka
      "envOf (pulsarProducer samplePulsarLib)" samplePulsarLib "([], ())" "0::nat" "([], ())"]
  by (simp add: sampleId_def envOf_def)

text \<open>
  C22. Nothing but two guards keeps an object from the queue: a put is withheld exactly when it is an
  alert of an account that is skipped, by the configuration or by its features, or when the object is
  larger than the limit. A withheld put is no error and has no effect.
\<close>

theorem put_is_withheld_or_sent:
  assumes "identified ctx cid" and "carries ctx d m" and "baClientsMap b (ClientIdentifier_String cid) = Some cl"
    and "knKind oid = Some k" and "beProducer env = kafkaProducer client"
  shows "(\<exists>q' ps. backend_PutObject env ctx oid checksum object ((b, q), w) = (Ret None, ((b, q'), w))
      \<and> kafkaProduced q' = (if (kResource k = ''runtimealerts'' \<and> (ciAccount cid \<in> set (bkSkipAlertsFrom cl)
             \<or> (\<exists>p. baFeaturesProvider b = Some p \<and> ShouldSkipAlertsFrom p (ciAccount cid))))
             \<or> (\<exists>n. bkMaxObjectSizeBytes cl = Some n \<and> n < int (length object))
          then kafkaProduced q
          else kafkaProduced q @ [(ps, Doc (om_doc (queueMessage (wrap64 (d + 1)) m cid (Kind_String k) (CallPut oid checksum object))))]))"
proof -
  let ?c = "CallPut oid checksum object" and ?fp = "baFeaturesProvider b"
  have held: "withheld cl ?fp (ciAccount cid) ?c \<longleftrightarrow>
      (kResource k = ''runtimealerts'' \<and> (ciAccount cid \<in> set (bkSkipAlertsFrom cl)
          \<or> (\<exists>p. ?fp = Some p \<and> ShouldSkipAlertsFrom p (ciAccount cid))))
      \<or> (\<exists>n. bkMaxObjectSizeBytes cl = Some n \<and> n < int (length object))"
    using assms(4) by (auto simp: skipsAlerts_def tooLarge_def resourceRuntimeAlerts_def List.member_iff split: option.splits)
  have call: "backend_PutObject env ctx oid checksum object ((b, q), w) =
      on_queue (backend_client_call env cl ?fp ctx ?c) ((b, q), w)"
    using backend_call_client [OF assms(1,3), of env ?c q w] by simp
  show ?thesis
  proof (cases "withheld cl ?fp (ciAccount cid) ?c")
    case True
    then have "backend_client_call env cl ?fp ctx ?c q = (Ret None, q)"
      using kafka.client_call_withheld [OF assms(2,1) _ assms(4), of ?c cl ?fp env q] by simp
    then show ?thesis using True held call by simp
  next
    case False
    then show ?thesis
      using kafka.client_call_produces [OF assms(5,2,1) _ assms(4) False, of q] held call by auto
  qed
qed

theorem put_is_withheld_or_sent_witness:
  "\<exists>q'. backend_PutObject (envOf (kafkaProducer sampleKafka)) sampleCtx sampleId ''c'' ''ob'' ((sampleServer, ([], ())), 0::nat) =
       (Ret None, ((sampleServer, q'), 0::nat)) \<and> length (kafkaProduced q') = 1"
  using put_is_withheld_or_sent [OF sampleCtx_identified sampleCtx_carries sampleServer_client,
      of sampleId sampleKind "envOf (kafkaProducer sampleKafka)" sampleKafka "''c''" "''ob''" "([], ())" "0::nat"]
  by (auto simp: sampleId_def envOf_def sampleKind_def backend_NewClient_def getMaxObjectSizeBytes_def sampleEnv_def kafkaProduced_def)

section \<open>From the queue to a client\<close>

lemma call_of_message: "call_kind (om_call k m) = Some k" "call_wf (om_call k m)"
  by (cases m; simp add: messageId_def)+

lemma om_wf_depth: "om_wf m \<Longrightarrow> in_int64 (om_depth m)"
  by (cases m) (simp_all add: wf_DeleteObjectMessage_def wf_GetObjectMessage_def wf_PatchObjectMessage_def
      wf_PutObjectMessage_def wf_VerifyObjectMessage_def)

text \<open>A message for a client of this instance: which call is made of it, on which callbacks.\<close>

lemma Handle_backend:
  assumes "baCallbacksMap b (ClientIdentifier_String (clientOf (imProperties msg))) = Some cbs"
    and "baClientsMap b (ClientIdentifier_String (clientOf (imProperties msg))) \<noteq> None"
    and "property (imProperties msg) MsgPropEvent = om_event m" and "imPayload msg = Doc (om_doc m)"
    and "om_wf m" and "KindFromString (om_kind m) = Some k"
    and "ctx' = ContextFromGeneric (ContextFromIdentifiers ctx (clientOf (imProperties msg)))
          (zero_Generic\<lparr>genDepth := om_depth m, genMsgId := om_msgId m\<rparr>)"
  shows "Handle (backendHandlerEnv env order) ctx msg ((b, q), w) =
     on_snd (wrapping (''failed to send '' @ om_event m @ '' message'') (callBack cbs ctx' (om_call k m))) ((b, q), w)"
proof -
  have rel: "heIsRelated (backendHandlerEnv env order) ctx (clientOf (imProperties msg)) ((b, q), w) = (Ret True, ((b, q), w))"
    using assms(1,2) by (simp add: backend_IsRelated_def)
  have "heCallbacks (backendHandlerEnv env order) (ContextFromIdentifiers ctx (clientOf (imProperties msg))) ((b, q), w) =
      (Ret (Inr cbs), ((b, q), w))"
    using run_Callbacks [OF backend_messages.identified_clientOf assms(1)] by (simp add: backendHandlerEnv_def)
  then show ?thesis
    using backend_messages.Handle_object [OF rel assms(3-6)] assms(7) by auto
qed

text \<open>
  C2. A message about one object (get, patch, verify, put or delete) on the queue, below the depth limit and for
  a connected cluster, arrives at the cluster: when the server that has the connection has handled it without an
  error, it has sent one message over the connection, and the synchronizer in the cluster makes of it the
  operation the queue asked for, with the same object, checksum and content, one deeper and under the same id.
\<close>

theorem queue_message_reaches_client:
  assumes "runtime_contract rt sent"
    and "baCallbacksMap b (ClientIdentifier_String (clientOf (imProperties msg))) = Some (syncCallbacks rt False)"
    and "baClientsMap b (ClientIdentifier_String (clientOf (imProperties msg))) \<noteq> None"
    and "property (imProperties msg) MsgPropEvent = om_event m" and "imPayload msg = Doc (om_doc m)"
    and "om_wf m" and "KindFromString (om_kind m) = Some k" and "om_depth m < maxMessageDepth"
    and "Handle (backendHandlerEnv env order) ctx msg ((b, q), w) = (Ret None, ((b', q'), w'))"
  shows "b' = b \<and> q' = q \<and> (\<exists>f. sent w' = sent w @ [f] \<and>
     inPoolFunc adapters cbs f (peerCtx, sw) =
       (let peerCtx' = ContextFromGeneric peerCtx (call_generic (om_depth m + 1) (om_msgId m) (om_call k m)) in
        on_snd (andThen (handleCall adapters cbs peerCtx' (as_received False (om_call k m)))
          (logHandling (Some (call_event (om_call k m))))) (peerCtx', sw)))"
proof -
  let ?id = "ContextFromIdentifiers ctx (clientOf (imProperties msg))"
  let ?g = "zero_Generic\<lparr>genDepth := om_depth m, genMsgId := om_msgId m\<rparr>"
  let ?ctx = "ContextFromGeneric ?id ?g"
  have carries: "carries ?ctx (om_depth m) (om_msgId m)"
    using carries_ContextFromGeneric [of ?id ?g] by simp
  have id: "identified ?ctx (clientOf (imProperties msg))" using backend_messages.identified_clientOf by simp
  have run: "on_snd (wrapping (''failed to send '' @ om_event m @ '' message'')
      (callBack (syncCallbacks rt False) ?ctx (om_call k m))) ((b, q), w) = (Ret None, ((b', q'), w'))"
    using Handle_backend [OF assms(2-7) refl, where ctx = ctx and env = env and order = order and q = q and w = w] assms(9) by simp
  then have call: "callBack (syncCallbacks rt False) ?ctx (om_call k m) w = (Ret None, w')" and same: "b' = b" "q' = q"
    by (auto simp: wrapping_def andThen_def split: prod.splits outcome.splits)
  show ?thesis
    using callBack_delivered [OF assms(1) carries id call_of_message om_wf_depth [OF assms(6)] assms(8) call] same by blast
qed

definition sampleQueueMessage :: objectMessage where
  "sampleQueueMessage = QPut (zero_PutObjectMessage\<lparr>pumChecksum := ''c'', pumAccount := ''a'', pumDepth := 2,
     pumKind := ''apps/v1/deployments'', pumMsgId := ''msg'', pumName := ''nginx'', pumNamespace := ''default'', pumObject := ''ob''\<rparr>)"

definition sampleIncoming :: IncomingMessage where
  "sampleIncoming = \<lparr>imID = ''1'', imProperties = [(MsgPropAccount, ''a''), (MsgPropEvent, ''PutObject'')],
     imPayload = Doc (om_doc sampleQueueMessage)\<rparr>"

definition sampleConnected :: "wire list Backend" where
  "sampleConnected = sampleServer\<lparr>baCallbacksMap := [''a/'' \<mapsto> syncCallbacks listRuntime False]\<rparr>"

lemma sampleKind_read: "KindFromString ''apps/v1/deployments'' = Some sampleKind"
  using KindFromString_Kind_String [of sampleKind]
  by (simp add: sampleKind_def Kind_String_def plain_Kind_def slash_free_def)

lemma sampleConnected_related:
  "baCallbacksMap sampleConnected (ClientIdentifier_String (clientOf (imProperties sampleIncoming))) = Some (syncCallbacks listRuntime False)"
  "baClientsMap sampleConnected (ClientIdentifier_String (clientOf (imProperties sampleIncoming))) \<noteq> None"
  "property (imProperties sampleIncoming) MsgPropEvent = om_event sampleQueueMessage"
  "imPayload sampleIncoming = Doc (om_doc sampleQueueMessage)"
  "om_wf sampleQueueMessage" "KindFromString (om_kind sampleQueueMessage) = Some sampleKind"
  by (simp_all add: sampleConnected_def sampleServer_def sampleIncoming_def clientOf_def property_def msgProp_defs
      ClientIdentifier_String_def sampleQueueMessage_def msgEvent_defs wf_PutObjectMessage_def zero_PutObjectMessage_def
      int64_defs sampleKind_read zero_ClientIdentifier_def)

theorem queue_message_reaches_client_witness:
  "\<exists>w' f. w' = [] @ [f] \<and>
     inPoolFunc [] (syncCallbacks listRuntime True) f ([], (), []) =
       (let peerCtx' = ContextFromGeneric [] (call_generic (om_depth sampleQueueMessage + 1) (om_msgId sampleQueueMessage) (om_call sampleKind sampleQueueMessage)) in
        on_snd (andThen (handleCall [] (syncCallbacks listRuntime True) peerCtx' (as_received False (om_call sampleKind sampleQueueMessage)))
          (logHandling (Some (call_event (om_call sampleKind sampleQueueMessage))))) (peerCtx', ((), [])))"
proof -
  let ?id = "ContextFromIdentifiers [] (clientOf (imProperties sampleIncoming))"
  let ?g = "zero_Generic\<lparr>genDepth := om_depth sampleQueueMessage, genMsgId := om_msgId sampleQueueMessage\<rparr>"
  let ?f = "Doc (call_doc False (wrap64 (om_depth sampleQueueMessage + 1)) (om_msgId sampleQueueMessage) (om_call sampleKind sampleQueueMessage))"
  have "callBack (syncCallbacks listRuntime False) (ContextFromGeneric ?id ?g) (om_call sampleKind sampleQueueMessage) [] = (Ret None, [?f])"
    using callBack_sends [of "ContextFromGeneric ?id ?g" "om_depth sampleQueueMessage" "om_msgId sampleQueueMessage"
        "clientOf (imProperties sampleIncoming)" "om_call sampleKind sampleQueueMessage" sampleKind listRuntime False "[]" None "[?f]"]
      carries_ContextFromGeneric [of ?id ?g] backend_messages.identified_clientOf call_of_message(1)
    by (simp add: listRuntime_def)
  then have run: "Handle (backendHandlerEnv sampleEnv (\<lambda>m. m)) [] sampleIncoming ((sampleConnected, []), []) =
      (Ret None, ((sampleConnected, []), [?f]))"
    by (subst Handle_backend [OF sampleConnected_related refl]) (simp add: wrapping_def)
  have "om_depth sampleQueueMessage < maxMessageDepth"
    by (simp add: sampleQueueMessage_def maxMessageDepth_def)
  from queue_message_reaches_client [OF listRuntime_contract sampleConnected_related this run] show ?thesis by blast
qed

end
