(* ===== verification/Backend_Periodic.thy ===== *)
theory Backend_Periodic
  imports Backend_Queue
begin

text \<open>
  What the goroutines of the server's adapter do: the reconciliation requests and the keepalive
  messages of the periodic tasks, the choice of their ticker, and the refresh of the features.
\<close>

section \<open>Reconciliation requests\<close>

text \<open>The clients a tick asks: connected long enough, known, and new enough for batches.\<close>

definition eligible :: "(string \<Rightarrow> string \<Rightarrow> int) \<Rightarrow> ReconciliationTaskConfig \<Rightarrow> int \<Rightarrow> 'w Backend \<Rightarrow> string \<times> ClientIdentifier \<Rightarrow> bool" where
  "eligible semver cfg now b = (\<lambda>(connId, cid).
     \<not> timeSince now (ciConnectionTime cid) < durationSeconds (rtIntervalFromConnectionSeconds cfg)
     \<and> baClientsMap b connId \<noteq> None \<and> IsBatchMessageSupported semver (ciSyncVersion cid))"

lemma reconcileConnections_batch:
  assumes "beNow env = ret now" and "rtSendBatch cfg"
  shows "reconcileConnections env semver cfg mainCtx conns requests ((b, q), w) =
     (Ret (requests @ map (\<lambda>(_, cid). requestFor cid) (filter (eligible semver cfg now b) conns)), ((b, q), w))"
proof (induction conns arbitrary: requests)
  case (Cons kc conns)
  obtain k cid where kc: "kc = (k, cid)" by (cases kc)
  show ?case using assms Cons.IH by (simp add: kc eligible_def)
qed simp

lemma wf_requests: "list_all wf_ReconciliationRequestMessage (map (\<lambda>(_, cid). requestFor cid) conns)"
  by (induction conns) (auto simp: requestFor_def wf_ReconciliationRequestMessage_def zero_ReconciliationRequestMessage_def int64_defs)

text \<open>The clock stands while a tick is handled; making an id writes nothing to the queue.\<close>

definition tick_env :: "('q \<Rightarrow> (properties \<times> wire) list) \<Rightarrow> 'q backendEnv \<Rightarrow> int \<Rightarrow> bool" where
  "tick_env produced env now \<longleftrightarrow> beNow env = ret now
     \<and> (\<forall>q. \<exists>m q'. beNewMsgId env q = (Ret m, q') \<and> produced q' = produced q)"

text \<open>The message that asks one client, and the message that asks all of them.\<close>

definition asks_one :: "string \<times> ClientIdentifier \<Rightarrow> properties \<times> wire \<Rightarrow> bool" where
  "asks_one = (\<lambda>(_, cid) (ps, payload). addressed ps MsgPropEventValueReconciliationRequestMessage (ciAccount cid) (ciCluster cid)
     \<and> (\<exists>m. unmarshal ReconciliationRequestMessage_fields zero_ReconciliationRequestMessage payload = Inr ((requestFor cid)\<lparr>rrmMsgId := m\<rparr>)))"

definition asks_all :: "(string \<times> ClientIdentifier) list \<Rightarrow> properties \<times> wire \<Rightarrow> bool" where
  "asks_all conns = (\<lambda>(ps, payload). property ps MsgPropEvent = MsgPropEventValueReconciliationRequestMessageBatch
     \<and> (\<exists>m. unmarshal ReconciliationRequestMessageBatch_fields zero_ReconciliationRequestMessageBatch payload =
          Inr \<lparr>rrbDepth = 0, rrbMsgId = m, rrbRequests = map (\<lambda>(_, cid). requestFor cid) conns\<rparr>))"

context message_producer
begin

lemma SendReconciliationRequestMessage_asks:
  assumes "beProducer env = pr" and "tick_env produced env now"
  shows "\<exists>q' x. SendReconciliationRequestMessage env (ContextFromIdentifiers ctx cid) q = (Ret None, q')
     \<and> produced q' = produced q @ [x] \<and> asks_one (connId, cid) x"
proof -
  let ?cid = "zero_ClientIdentifier\<lparr>ciAccount := ciAccount cid, ciCluster := ciCluster cid\<rparr>"
  obtain m q1 where m: "beNewMsgId env q = (Ret m, q1)" "produced q1 = produced q" using assms(2) unfolding tick_env_def by blast
  let ?doc = "Doc (enc_ReconciliationRequestMessage ((requestFor cid)\<lparr>rrmMsgId := m\<rparr>))"
  obtain q' ps where "prProduceMessage pr ?cid MsgPropEventValueReconciliationRequestMessage ?doc [] q1 = (Ret None, q')"
    "produced q' = produced q1 @ [(ps, ?doc)]" "addressed ps MsgPropEventValueReconciliationRequestMessage (ciAccount cid) (ciCluster cid)"
    using produce_law [of "[]" ?cid MsgPropEventValueReconciliationRequestMessage ?doc q1] by auto
  moreover have "wf_ReconciliationRequestMessage ((requestFor cid)\<lparr>rrmMsgId := m\<rparr>)"
    by (simp add: requestFor_def wf_ReconciliationRequestMessage_def zero_ReconciliationRequestMessage_def int64_defs)
  then have "unmarshal ReconciliationRequestMessage_fields zero_ReconciliationRequestMessage ?doc = Inr ((requestFor cid)\<lparr>rrmMsgId := m\<rparr>)"
    by (simp add: unmarshal_def)
  moreover have "SendReconciliationRequestMessage env (ContextFromIdentifiers ctx cid) q =
      prProduceMessage pr ?cid MsgPropEventValueReconciliationRequestMessage ?doc [] q1"
    using assms(1) m by (simp add: SendReconciliationRequestMessage_def andThen_def produceMessage_def requestFor_def zero_ReconciliationRequestMessage_def
        ClientIdentifierFromContext_identified [OF identified_ContextFromIdentifiers])
  ultimately show ?thesis using m(2) by (auto simp: asks_one_def)
qed

lemma reconcileConnections_each:
  assumes "beProducer env = pr" and "tick_env produced env now" and "\<not> rtSendBatch cfg"
  shows "\<exists>q' msgs. reconcileConnections env semver cfg mainCtx conns requests ((b, q), w) = (Ret requests, ((b, q'), w))
     \<and> produced q' = produced q @ msgs \<and> list_all2 asks_one (filter (eligible semver cfg now b) conns) msgs"
proof (induction conns arbitrary: q)
  case (Cons kc conns)
  obtain k cid where kc: "kc = (k, cid)" by (cases kc)
  have now: "beNow env = ret now" using assms(2) by (simp add: tick_env_def)
  show ?case
  proof (cases "eligible semver cfg now b kc")
    case False
    then show ?thesis using Cons.IH [of q] assms(3) now by (auto simp: kc eligible_def)
  next
    case True
    obtain q1 x where send: "SendReconciliationRequestMessage env (ContextFromIdentifiers mainCtx cid) q = (Ret None, q1)"
      "produced q1 = produced q @ [x]" "asks_one (k, cid) x"
      using SendReconciliationRequestMessage_asks [OF assms(1,2)] by blast
    obtain q' msgs where "reconcileConnections env semver cfg mainCtx conns requests ((b, q1), w) = (Ret requests, ((b, q'), w))"
      "produced q' = produced q1 @ msgs" "list_all2 asks_one (filter (eligible semver cfg now b) conns) msgs"
      using Cons.IH by blast
    then show ?thesis
      using True send assms(3) now by (intro exI [of _ q'] exI [of _ "x # msgs"]) (auto simp: kc eligible_def andThen_def)
  qed
qed simp

lemma reconciliationTick_asks:
  assumes "beProducer env = pr" and "tick_env produced env now" and due: "due = filter (eligible semver cfg now b) (order (baConnectionMap b))"
  shows "\<exists>q' msgs. reconciliationTick env semver cfg mainCtx order ((b, q), w) = (Ret (), ((b, q'), w)) \<and> produced q' = produced q @ msgs
     \<and> (if \<not> rtSendBatch cfg then list_all2 asks_one due msgs
        else if due = [] then msgs = [] else (\<exists>x. msgs = [x] \<and> asks_all due x))"
proof (cases "rtSendBatch cfg")
  case False
  then show ?thesis
    using reconcileConnections_each [OF assms(1,2) False, of semver mainCtx "order (baConnectionMap b)" "[]" b q w]
    by (auto simp: reconciliationTick_def due andThen_def)
next
  case True
  have now: "beNow env = ret now" using assms(2) by (simp add: tick_env_def)
  obtain m q1 where m: "beNewMsgId env q = (Ret m, q1)" "produced q1 = produced q" using assms(2) unfolding tick_env_def by blast
  let ?m = "\<lparr>rrbDepth = 0, rrbMsgId = m, rrbRequests = map (\<lambda>(_, cid). requestFor cid) due\<rparr>"
  let ?doc = "Doc (enc_ReconciliationRequestMessageBatch ?m)"
  obtain q' ps where out: "prProduceMessageWithoutIdentifier pr MsgPropEventValueReconciliationRequestMessageBatch ?doc q1 = (Ret None, q')"
    "produced q' = produced q1 @ [(ps, ?doc)]" "addressed ps MsgPropEventValueReconciliationRequestMessageBatch [] []"
    using anonymous_law by blast
  have "unmarshal ReconciliationRequestMessageBatch_fields zero_ReconciliationRequestMessageBatch ?doc = Inr ?m"
    using wf_requests [of due] by (simp add: unmarshal_def wf_ReconciliationRequestMessageBatch_def int64_defs)
  then have all: "asks_all due (ps, ?doc)" using out(3) by (auto simp: asks_all_def addressed_def)
  have run: "reconciliationTick env semver cfg mainCtx order ((b, q), w) =
      (if due = [] then ret () else andThen (on_queue (prProduceMessageWithoutIdentifier pr
         MsgPropEventValueReconciliationRequestMessageBatch ?doc)) (\<lambda>_. ret ())) ((b, q1), w)"
    using True m assms(1) by (simp add: reconciliationTick_def reconcileConnections_batch [OF now True] andThen_def due)
  show ?thesis
  proof (cases "due = []")
    case none: True
    then show ?thesis using run m(2) True by (intro exI [of _ q1] exI [of _ "[]"]) simp
  next
    case False
    then show ?thesis using run out(1,2) m(2) True all by (intro exI [of _ q'] exI [of _ "[(ps, ?doc)]"]) simp
  qed
qed

end

text \<open>
  C27. A tick of the reconciliation task asks exactly the clients that are due, those whose connection is old
  enough, is known, and whose version supports batches, through Kafka and through Pulsar alike: with \<open>SendBatch\<close>
  it writes one message whose content reads back as one request for each of them, and nothing when there is
  none; without, it writes one message for each of them, in their order, addressed to the client and reading
  back as its request. The server's own state is left as it is.
\<close>

theorem reconciliation_asks_due_clients:
  assumes "beProducer env = kafkaProducer client" and "tick_env kafkaProduced env now"
    and "beProducer env' = pulsarProducer lib" and "tick_env pulsarProduced env' now"
    and "due = filter (eligible semver cfg now b) (order (baConnectionMap b))"
  shows "(\<exists>q' msgs. reconciliationTick env semver cfg mainCtx order ((b, q), w) = (Ret (), ((b, q'), w))
       \<and> kafkaProduced q' = kafkaProduced q @ msgs
       \<and> (if \<not> rtSendBatch cfg then list_all2 asks_one due msgs
          else if due = [] then msgs = [] else (\<exists>x. msgs = [x] \<and> asks_all due x)))
     \<and> (\<exists>q' msgs. reconciliationTick env' semver cfg mainCtx order ((b, p), w) = (Ret (), ((b, q'), w))
       \<and> pulsarProduced q' = pulsarProduced p @ msgs
       \<and> (if \<not> rtSendBatch cfg then list_all2 asks_one due msgs
          else if due = [] then msgs = [] else (\<exists>x. msgs = [x] \<and> asks_all due x)))"
proof
  note due = assms(5)
  show "\<exists>q' msgs. reconciliationTick env semver cfg mainCtx order ((b, q), w) = (Ret (), ((b, q'), w))
       \<and> kafkaProduced q' = kafkaProduced q @ msgs
       \<and> (if \<not> rtSendBatch cfg then list_all2 asks_one due msgs
          else if due = [] then msgs = [] else (\<exists>x. msgs = [x] \<and> asks_all due x))"
    by (rule kafka.reconciliationTick_asks [where order = order, OF assms(1,2) due])
  show "\<exists>q' msgs. reconciliationTick env' semver cfg mainCtx order ((b, p), w) = (Ret (), ((b, q'), w))
       \<and> pulsarProduced q' = pulsarProduced p @ msgs
       \<and> (if \<not> rtSendBatch cfg then list_all2 asks_one due msgs
          else if due = [] then msgs = [] else (\<exists>x. msgs = [x] \<and> asks_all due x))"
    by (rule pulsar.reconciliationTick_asks [where order = order, OF assms(3,4) due])
qed

definition sampleTask :: ReconciliationTaskConfig where
  "sampleTask = \<lparr>rtCronSchedule = [], rtTaskIntervalSeconds = 60, rtIntervalFromConnectionSeconds = 60, rtSendBatch = True\<rparr>"

text \<open>Connected for 100 seconds.\<close>

definition sampleOne :: "nat Backend" where
  "sampleOne = (NewBackendAdapter sampleCfg)\<lparr>baConnectionMap := [(''acc/cluster'', sampleConn ''x'' 0)],
     baClientsMap := [''acc/cluster'' \<mapsto> backend_NewClient sampleEnv []]\<rparr>"

lemma sampleOne_due: "filter (eligible (\<lambda>_ _. 0) sampleTask 100000000000 sampleOne) (baConnectionMap sampleOne) =
    [(''acc/cluster'', sampleConn ''x'' 0)]"
  by (simp add: sampleOne_def eligible_def timeSince_def durationSeconds_def sampleTask_def int64_defs
      IsBatchMessageSupported_def GreaterOrEqualVersion_def sampleConn_def)

theorem reconciliation_asks_due_clients_witness:
  "(\<exists>q' msgs. reconciliationTick (envOf (kafkaProducer sampleKafka)) (\<lambda>_ _. 0) sampleTask [] (\<lambda>m. m) ((sampleOne, ([], ())), 0) =
       (Ret (), ((sampleOne, q'), 0)) \<and> kafkaProduced q' = msgs
       \<and> (\<exists>x. msgs = [x] \<and> asks_all [(''acc/cluster'', sampleConn ''x'' 0)] x))
   \<and> (\<exists>q' msgs. reconciliationTick (envOf (kafkaProducer sampleKafka)) (\<lambda>_ _. 0) (sampleTask\<lparr>rtSendBatch := False\<rparr>) [] (\<lambda>m. m)
       ((sampleOne, ([], ())), 0) = (Ret (), ((sampleOne, q'), 0)) \<and> kafkaProduced q' = msgs
       \<and> list_all2 asks_one [(''acc/cluster'', sampleConn ''x'' 0)] msgs)"
proof -
  have same: "eligible s (cfg\<lparr>rtSendBatch := x\<rparr>) n b = eligible s cfg n b" for s cfg x n b
    by (simp add: eligible_def)
  have env: "beProducer (envOf (kafkaProducer sampleKafka)) = kafkaProducer sampleKafka"
      "tick_env kafkaProduced (envOf (kafkaProducer sampleKafka)) 100000000000"
      "beProducer (envOf (pulsarProducer samplePulsarLib)) = pulsarProducer samplePulsarLib"
      "tick_env pulsarProduced (envOf (pulsarProducer samplePulsarLib)) 100000000000"
    by (simp_all add: envOf_def tick_env_def)
  have q: "kafkaProduced ([], ()) = []" "rtSendBatch sampleTask" by (simp_all add: kafkaProduced_def sampleTask_def)
  note asks = reconciliation_asks_due_clients [where semver = "\<lambda>_ _. 0" and b = sampleOne and order = "\<lambda>m. m" and mainCtx = "[]" and q = "([], ())"
        and w = 0 and p = "([], ())", OF env refl]
  show ?thesis
    using asks [of sampleTask] asks [of "sampleTask\<lparr>rtSendBatch := False\<rparr>"] by (simp add: same sampleOne_due q)
qed

text \<open>
  A keepalive message lists every connection of the instance and nothing else, with all that is
  known of it.
\<close>

theorem keepalive_lists_connections:
  assumes "beNow env = ret now" and "beNewMsgId env = ret msgId" and "beProducer env = kafkaProducer client"
    and "mset (order (baConnectionMap b)) = mset (baConnectionMap b)"
  shows "\<exists>q' ps clients. keepaliveTick env order ((b, q), w) = (Ret (), ((b, q'), w))
     \<and> kafkaProduced q' = kafkaProduced q @ [(ps, Doc (enc_ConnectedClientsMessage (beFormatTime env)
          \<lparr>ccmServerName = beHostname env, ccmClients = clients, ccmTimestamp = now, ccmDepth = 0, ccmMsgId = msgId\<rparr>))]
     \<and> mset clients = mset (map (\<lambda>(_, cid). connectedClient cid) (baConnectionMap b))"
proof -
  let ?m = "\<lparr>ccmServerName = beHostname env, ccmClients = map (\<lambda>(_, cid). connectedClient cid) (order (baConnectionMap b)),
      ccmTimestamp = now, ccmDepth = 0, ccmMsgId = msgId\<rparr>"
  obtain q' ps where "prProduceMessageWithoutIdentifier (kafkaProducer client)
      MsgPropEventValueConnectedClientsMessage (Doc (enc_ConnectedClientsMessage (beFormatTime env) ?m)) q = (Ret None, q')"
    "kafkaProduced q' = kafkaProduced q @ [(ps, Doc (enc_ConnectedClientsMessage (beFormatTime env) ?m))]"
    using kafka.anonymous_law by blast
  moreover have "mset (ccmClients ?m) = mset (map (\<lambda>(_, cid). connectedClient cid) (baConnectionMap b))"
    using assms(4) by simp
  ultimately show ?thesis using assms(1-3) by (auto simp: keepaliveTick_def)
qed

theorem keepalive_lists_connections_witness:
  "\<exists>q' clients. keepaliveTick (envOf (kafkaProducer sampleKafka)) rev ((sampleOne, ([], ())), 0) = (Ret (), ((sampleOne, q'), 0))
     \<and> mset clients = mset (map (\<lambda>(_, cid). connectedClient cid) (baConnectionMap sampleOne))"
  using keepalive_lists_connections [of "envOf (kafkaProducer sampleKafka)" 100000000000 "''msg''" sampleKafka rev sampleOne "([], ())" 0]
  by (auto simp: envOf_def)

section \<open>The ticker\<close>

text \<open>
  A cron schedule that does not parse ends the server: \<open>NewCronTicker\<close> then returns a nil pointer,
  the interface variable that holds it is not nil, so the interval is not used instead, and the first
  wait dereferences it.
\<close>

theorem invalid_cron_schedule_panics:
  assumes "rtCronSchedule cfg \<noteq> []" and "newCronTicker loadLocation parse (rtCronSchedule cfg) = Ret (Inl e)"
  shows "reconciliationTicker loadLocation parse cfg = Panic ''nil pointer dereference''"
  using assms by (simp add: reconciliationTicker_def NewCronTicker_def ticker_Chan_def)

theorem invalid_cron_schedule_panics_witness:
  "reconciliationTicker (\<lambda>_. Inr ()) (\<lambda>_. Inl (GoError ''bad'') :: goerror + unit)
     \<lparr>rtCronSchedule = ''x'', rtTaskIntervalSeconds = 60, rtIntervalFromConnectionSeconds = 60, rtSendBatch = True\<rparr> =
     Panic ''nil pointer dereference''"
  by (rule invalid_cron_schedule_panics [where e = "GoError ''bad''"])
    (use extractTZ_zone [of "''UTC''" "''x''"] in
      \<open>simp_all add: newCronTicker_def guaranteeTimeZone_def Let_def\<close>)

section \<open>Features\<close>

definition onlineEnv :: "(properties \<times> wire) list backendEnv" where
  "onlineEnv = sampleEnv\<lparr>beHttp := (\<lambda>url headers. ret (Inr \<lparr>hrStatusCode = 200, hrStatus = ''200 OK'', hrBody = Doc (JObj []), hrText = ''{}''\<rparr>))\<rparr>"

definition featuresCfg :: BackendConfig where
  "featuresCfg = sampleCfg\<lparr>bcAuthenticationServer := Some \<lparr>auUrl = ''http://auth'', auHeaderToQueryParamMapping = [], auHeaderToHeaderMapping = []\<rparr>,
     bcFeaturesProvider := Some \<lparr>fcFeatureFlagName = ''runtime'', fcRefreshIntervalSeconds = 0\<rparr>\<rparr>"

definition keyedCtx :: Context where
  "keyedCtx = WithValue (connCtx (sampleConn ''x'' 7)) ContextKeyAccessKey (CtxString ''key'')"

lemma keyedCtx_client [simp]: "ClientIdentifierFromContext keyedCtx = ret (sampleConn ''x'' 7)"
  by (rule ClientIdentifierFromContext_identified) (simp add: keyedCtx_def connCtx_def identified_def contextKey_defs)

lemma keyedCtx_key [simp]: "AccessKeyFromContext keyedCtx = ''key''"
  by (simp add: AccessKeyFromContext_def keyedCtx_def)

text \<open>
  An account can come back after it was unregistered: the request that its registration started
  is answered after its last connection stopped, and the answer is stored. The instance is then left
  with an account no connection has, which every refresh asks for again.
\<close>

theorem unregistered_account_can_return:
  "\<exists>b q w p. backend_reachable onlineEnv semver [] featuresCfg ((b, q), w :: nat) \<and> baConnectionMap b = []
     \<and> baFeaturesProvider b = Some p \<and> map fst (fpCache p) = [''acc'']"
proof -
  let ?run = "backend_run onlineEnv semver [] [EvRegister keyedCtx nilCallbacks, EvStart keyedCtx, EvStop keyedCtx, EvTask 0]
     ((NewBackendAdapter featuresCfg, []), 0::nat)"
  have "backend_reachable onlineEnv semver [] featuresCfg ?run"
    by (simp del: backend_event.simps add: backend_run_def reach_new reach_event)
  moreover obtain b q w where run: "?run = ((b, q), w)" by (cases ?run) auto
  moreover have "baConnectionMap b = [] \<and> (\<exists>p. baFeaturesProvider b = Some p \<and> map fst (fpCache p) = [''acc''])"
    using run by (auto simp: backend_run_def backend_RegisterCallbacks_def backend_Start_def backend_Stop_def newerExists_def
        NewBackendAdapter_def featuresCfg_def sampleCfg_def featuresProviderOf_def NewFeaturesProvider_def registerFeatures_def
        RegisterAccount_def addClient_def removeClient_def unregisterFeatures_def UnregisterAccount_def adel_def store_def backend_Callbacks_def
        takeTask_def on_features_def refreshAccount_def fetchFeatures_def onlineEnv_def unmarshal_def dec_struct_def
        sampleConn_def ClientIdentifier_String_def)
  ultimately show ?thesis by metis
qed

end
