(* ===== verification/Kafka_Setup.thy ===== *)
theory Kafka_Setup
  imports Queue_Readers "HOL-Library.Word"
begin

text \<open>
  How the Kafka side of the queue is put together (\<open>kafka.go\<close>, \<open>kafka_security.go\<close>): byte limits, security
  settings, the options of the two clients, and the checks a server makes before it declares the queue ready.
  \<open>franz-go\<close>, \<open>backoff\<close> and the file system are the record \<open>kafkaLib\<close>, acting on the state \<open>'x\<close>; which clients
  are open is kept beside it.
\<close>

section \<open>Limits\<close>

definition defaultKafkaMaxMessageBytes :: int where "defaultKafkaMaxMessageBytes = 67108864"
definition kafkaDefaultBrokerBytes :: int where "kafkaDefaultBrokerBytes = 104857600"
definition kafkaMaxBrokerBytes :: int where "kafkaMaxBrokerBytes = 1073741824"

definition kafkaMaxMessageBytes :: "KafkaConfig \<Rightarrow> int" where
  "kafkaMaxMessageBytes cfg = (if kcMaxMessageBytes cfg > 0 then kcMaxMessageBytes cfg else defaultKafkaMaxMessageBytes)"

text \<open>The results are \<open>int32\<close>; the conversion keeps the low 32 bits.\<close>

definition kafkaRecordByteLimit :: "int \<Rightarrow> 32 word" where
  "kafkaRecordByteLimit maxMessageBytes =
     (if maxMessageBytes > kafkaMaxBrokerBytes then word_of_int kafkaMaxBrokerBytes else word_of_int maxMessageBytes)"

definition kafkaBrokerByteLimit :: "int \<Rightarrow> 32 word" where
  "kafkaBrokerByteLimit maxMessageBytes =
     word_of_int (min (max maxMessageBytes kafkaDefaultBrokerBytes) kafkaMaxBrokerBytes)"

datatype compressionCodec = NoCompression | GzipCompression | SnappyCompression | Lz4Compression | ZstdCompression

definition kafkaCompressionCodec :: "string \<Rightarrow> compressionCodec" where
  "kafkaCompressionCodec compressionType =
     (let t = strings_ToLower compressionType in
      if t = ''none'' then NoCompression else if t = ''gzip'' then GzipCompression
      else if t = ''snappy'' then SnappyCompression else if t = ''lz4'' then Lz4Compression else ZstdCompression)"

section \<open>Security\<close>

definition char_upper :: "char \<Rightarrow> char" where
  "char_upper c = (let n = of_char c :: nat in if 97 \<le> n \<and> n \<le> 122 then char_of (n - 32) else c)"

definition strings_ToUpper :: "string \<Rightarrow> string" where
  "strings_ToUpper = map char_upper"

definition securityProtocolPlaintext :: string where "securityProtocolPlaintext = ''PLAINTEXT''"
definition securityProtocolSSL :: string where "securityProtocolSSL = ''SSL''"
definition securityProtocolSASLPlaintext :: string where "securityProtocolSASLPlaintext = ''SASL_PLAINTEXT''"
definition securityProtocolSASLSSL :: string where "securityProtocolSASLSSL = ''SASL_SSL''"
definition saslMechanismPlain :: string where "saslMechanismPlain = ''PLAIN''"
definition saslMechanismScramSHA256 :: string where "saslMechanismScramSHA256 = ''SCRAM-SHA-256''"
definition saslMechanismScramSHA512 :: string where "saslMechanismScramSHA512 = ''SCRAM-SHA-512''"

lemmas security_defs = securityProtocolPlaintext_def securityProtocolSSL_def securityProtocolSASLPlaintext_def
  securityProtocolSASLSSL_def saslMechanismPlain_def saslMechanismScramSHA256_def saslMechanismScramSHA512_def

definition normalizeSecurityProtocol :: "string \<Rightarrow> string" where
  "normalizeSecurityProtocol protocol = (if protocol = [] then securityProtocolPlaintext else strings_ToUpper protocol)"

definition protocolUsesSASL :: "string \<Rightarrow> bool" where
  "protocolUsesSASL protocol \<longleftrightarrow> protocol = securityProtocolSASLPlaintext \<or> protocol = securityProtocolSASLSSL"

definition protocolUsesTLS :: "string \<Rightarrow> bool" where
  "protocolUsesTLS protocol \<longleftrightarrow> protocol = securityProtocolSSL \<or> protocol = securityProtocolSASLSSL"

definition validateKafkaSecurity :: "KafkaConfig \<Rightarrow> goerror option" where
  "validateKafkaSecurity cfg =
     (let protocol = normalizeSecurityProtocol (kcSecurityProtocol cfg);
          usesSASL = protocolUsesSASL protocol; usesTLS = protocolUsesTLS protocol;
          mechanism = strings_ToUpper (kcSASLMechanism cfg);
          tlsCheck = (if \<not> usesTLS \<and> kcTLSCaCertPath cfg \<noteq> []
            then Some (GoError (''kafkaConfig.tlsCaCertPath is set but securityProtocol '' @ protocol @
                 '' does not use TLS (use SSL or SASL_SSL)''))
            else None) in
      if protocol \<notin> {securityProtocolPlaintext, securityProtocolSSL, securityProtocolSASLPlaintext, securityProtocolSASLSSL} then
        Some (GoError (''kafkaConfig.securityProtocol '' @ kcSecurityProtocol cfg @
          '' is invalid (want PLAINTEXT, SSL, SASL_PLAINTEXT, or SASL_SSL)''))
      else if usesSASL then
        (if mechanism \<notin> {saslMechanismPlain, saslMechanismScramSHA256, saslMechanismScramSHA512} then
           Some (GoError (''kafkaConfig.saslMechanism '' @ kcSASLMechanism cfg @ '' is invalid for '' @ protocol))
         else if mechanism = saslMechanismPlain \<and> \<not> usesTLS then
           Some (GoError (''kafkaConfig.saslMechanism PLAIN sends the password in cleartext over '' @ protocol))
         else if kcSASLUsername cfg = [] then
           Some (GoError (''kafkaConfig.saslUsername is required for securityProtocol '' @ protocol))
         else if kcSASLPassword cfg = [] then
           Some (GoError (''kafkaConfig.saslPassword is required for securityProtocol '' @ protocol))
         else tlsCheck)
      else if kcSASLMechanism cfg \<noteq> [] \<or> kcSASLUsername cfg \<noteq> [] \<or> kcSASLPassword cfg \<noteq> [] then
        Some (GoError (''kafkaConfig SASL settings are set but securityProtocol '' @ protocol @ '' does not use SASL''))
      else tlsCheck)"

datatype saslMechanism = PlainAuth string string | ScramSha256 string string | ScramSha512 string string

text \<open>The options given to \<open>kgo.NewClient\<close>. The certificates of a TLS option are those added to the system's.\<close>

datatype kgoOpt =
    SeedBrokers "string list"
  | DefaultProduceTopic string
  | ProducerBatchCompression compressionCodec
  | ProducerBatchMaxBytes "32 word"
  | BrokerMaxWriteBytes "32 word"
  | ConsumeTopics string
  | ConsumerGroup string
  | ConsumeResetOffsetAtEnd
  | DisableAutoCommit
  | FetchMaxBytes "32 word"
  | BrokerMaxReadBytes "32 word"
  | SASL saslMechanism
  | DialTLSConfig "string option"

datatype topicStatus = TopicFine | TopicAuthorizationFailed | UnknownTopicOrPartition | OtherTopicError goerror

record 'x kafkaLib =
  kbReadFile :: "string \<Rightarrow> goerror + string"
  kbValidPEM :: "string \<Rightarrow> bool"
  kbHostname :: "goerror + string"
  kbNewClient :: "kgoOpt list \<Rightarrow> ('x, goerror option) go"
  kbPing :: "nat \<Rightarrow> ('x, goerror option) go"
  kbListTopics :: "nat \<Rightarrow> string \<Rightarrow> ('x, goerror + topicStatus option) go"
  kbFlush :: "nat \<Rightarrow> ('x, goerror option) go"
  kbRetryNotify :: "nat \<Rightarrow> ('x, goerror option) go \<Rightarrow> ('x, goerror option) go"

definition kafkaSASLMechanism :: "KafkaConfig \<Rightarrow> goerror + saslMechanism" where
  "kafkaSASLMechanism cfg =
     (let mechanism = strings_ToUpper (kcSASLMechanism cfg) in
      if mechanism = saslMechanismPlain then Inr (PlainAuth (kcSASLUsername cfg) (kcSASLPassword cfg))
      else if mechanism = saslMechanismScramSHA256 then Inr (ScramSha256 (kcSASLUsername cfg) (kcSASLPassword cfg))
      else if mechanism = saslMechanismScramSHA512 then Inr (ScramSha512 (kcSASLUsername cfg) (kcSASLPassword cfg))
      else Inl (GoError (''kafkaConfig.saslMechanism '' @ kcSASLMechanism cfg @ '' is invalid (want PLAIN, SCRAM-SHA-256, or SCRAM-SHA-512)'')))"

definition kafkaTLSConfig :: "'x kafkaLib \<Rightarrow> KafkaConfig \<Rightarrow> goerror + string option" where
  "kafkaTLSConfig lib cfg =
     (if kcTLSCaCertPath cfg = [] then Inr None
      else (case kbReadFile lib (kcTLSCaCertPath cfg) of
              Inl e \<Rightarrow> Inl (GoWrap (''failed to read kafkaConfig.tlsCaCertPath '' @ kcTLSCaCertPath cfg) e)
            | Inr caPEM \<Rightarrow>
                if \<not> kbValidPEM lib caPEM then
                  Inl (GoError (''kafkaConfig.tlsCaCertPath '' @ kcTLSCaCertPath cfg @ '' contains no valid PEM certificates''))
                else Inr (Some caPEM)))"

definition kafkaSecurityOptions :: "'x kafkaLib \<Rightarrow> KafkaConfig \<Rightarrow> goerror + kgoOpt list" where
  "kafkaSecurityOptions lib cfg =
     (case validateKafkaSecurity cfg of
        Some e \<Rightarrow> Inl e
      | None \<Rightarrow>
          let protocol = normalizeSecurityProtocol (kcSecurityProtocol cfg) in
          case (if protocolUsesSASL protocol then map_sum id (\<lambda>m. [SASL m]) (kafkaSASLMechanism cfg) else Inr []) of
            Inl e \<Rightarrow> Inl e
          | Inr opts \<Rightarrow>
              (case (if protocolUsesTLS protocol then map_sum id (\<lambda>c. [DialTLSConfig c]) (kafkaTLSConfig lib cfg) else Inr []) of
                 Inl e \<Rightarrow> Inl e
               | Inr tls \<Rightarrow> Inr (opts @ tls)))"

section \<open>Clients\<close>

record 'x kafkaWorld =
  kwNext :: nat
  kwOpen :: "nat list"
  kwLib :: 'x

definition on_lib :: "('x, 'a) go \<Rightarrow> ('x kafkaWorld, 'a) go" where
  "on_lib m s = (case m (kwLib s) of (r, x) \<Rightarrow> (r, s\<lparr>kwLib := x\<rparr>))"

definition openClient :: "'x kafkaLib \<Rightarrow> kgoOpt list \<Rightarrow> ('x kafkaWorld, goerror + nat) go" where
  "openClient lib opts =
     andThen (on_lib (kbNewClient lib opts)) (\<lambda>err s.
     case err of
       Some e \<Rightarrow> (Ret (Inl e), s)
     | None \<Rightarrow> (Ret (Inr (kwNext s)), s\<lparr>kwNext := kwNext s + 1, kwOpen := kwNext s # kwOpen s\<rparr>))"

definition closeClient :: "nat \<Rightarrow> ('x kafkaWorld, unit) go" where
  "closeClient c s = (Ret (), s\<lparr>kwOpen := remove1 c (kwOpen s)\<rparr>)"

definition producerOpts :: "KafkaConfig \<Rightarrow> kgoOpt list \<Rightarrow> kgoOpt list" where
  "producerOpts cfg securityOpts =
     [SeedBrokers (kcBootstrapServers cfg), DefaultProduceTopic (kcProducerTopic cfg),
      ProducerBatchCompression (kafkaCompressionCodec (kcCompressionType cfg)),
      ProducerBatchMaxBytes (kafkaRecordByteLimit (kafkaMaxMessageBytes cfg)),
      BrokerMaxWriteBytes (kafkaBrokerByteLimit (kafkaMaxMessageBytes cfg))] @ securityOpts"

definition NewKafkaMessageProducer :: "'x kafkaLib \<Rightarrow> KafkaConfig \<Rightarrow> ('x kafkaWorld, goerror + nat) go" where
  "NewKafkaMessageProducer lib cfg =
     (case kafkaSecurityOptions lib cfg of
        Inl e \<Rightarrow> ret (Inl (GoWrap ''failed to build kafka producer security options'' e))
      | Inr securityOpts \<Rightarrow>
          andThen (openClient lib (producerOpts cfg securityOpts)) (\<lambda>r.
          ret (map_sum (GoWrap ''failed to create kafka producer client'') id r)))"

definition readerOpts :: "KafkaConfig \<Rightarrow> string \<Rightarrow> kgoOpt list \<Rightarrow> kgoOpt list" where
  "readerOpts cfg groupID securityOpts =
     [SeedBrokers (kcBootstrapServers cfg), ConsumeTopics (kcConsumerTopic cfg), ConsumerGroup groupID,
      ConsumeResetOffsetAtEnd, DisableAutoCommit,
      FetchMaxBytes (kafkaRecordByteLimit (kafkaMaxMessageBytes cfg)),
      BrokerMaxReadBytes (kafkaBrokerByteLimit (kafkaMaxMessageBytes cfg))] @ securityOpts"

definition NewKafkaMessageReader :: "'x kafkaLib \<Rightarrow> KafkaConfig \<Rightarrow> ('x kafkaWorld, goerror + nat) go" where
  "NewKafkaMessageReader lib cfg =
     (case kbHostname lib of
        Inl e \<Rightarrow> ret (Inl (GoWrap ''failed to get hostname'' e))
      | Inr hostname \<Rightarrow>
          (case kafkaSecurityOptions lib cfg of
             Inl e \<Rightarrow> ret (Inl (GoWrap ''failed to build kafka consumer security options'' e))
           | Inr securityOpts \<Rightarrow>
               andThen (openClient lib (readerOpts cfg (readerGroupID (kcGroupIDPrefix cfg) hostname) securityOpts)) (\<lambda>r.
               ret (map_sum (GoWrap ''failed to create kafka consumer client'') id r))))"

text \<open>Flush, whatever comes of it, then close.\<close>

definition producer_Close :: "'x kafkaLib \<Rightarrow> nat \<Rightarrow> ('x kafkaWorld, unit) go" where
  "producer_Close lib c = andThen (on_lib (kbFlush lib c)) (\<lambda>_. closeClient c)"

definition reader_Close :: "nat \<Rightarrow> ('x kafkaWorld, unit) go" where
  "reader_Close c = closeClient c"

definition kafkaPingAttempts :: nat where "kafkaPingAttempts = 20"

definition pingKafkaBrokers :: "'x kafkaLib \<Rightarrow> nat list \<Rightarrow> ('x kafkaWorld, goerror option) go" where
  "pingKafkaBrokers lib clients =
     (let attempt = forEach (kbPing lib) clients;
          retries = (if kafkaPingAttempts > 0 then kafkaPingAttempts - 1 else kafkaPingAttempts)
      in on_lib (kbRetryNotify lib retries attempt))"

definition errMissingKafkaTopic :: "string \<Rightarrow> goerror" where
  "errMissingKafkaTopic topic = GoError (''kafka topic '' @ topic @ '' does not exist or is not visible to this client, '' @
     ''and kafkaConfig.requireTopicsExist is set; create the topic or enable broker topic auto-creation'')"

definition checkKafkaTopicAccess :: "'x kafkaLib \<Rightarrow> nat \<Rightarrow> string \<Rightarrow> bool \<Rightarrow> ('x kafkaWorld, goerror option) go" where
  "checkKafkaTopicAccess lib client topic requireTopicsExist =
     andThen (on_lib (kbListTopics lib client topic)) (\<lambda>r.
     case r of
       Inl e \<Rightarrow> ret (Some (GoWrap (''failed to describe topic '' @ topic) e))
     | Inr None \<Rightarrow> ret (if requireTopicsExist then Some (errMissingKafkaTopic topic) else None)
     | Inr (Some TopicAuthorizationFailed) \<Rightarrow> ret (Some (GoError (''not authorized to access kafka topic '' @ topic)))
     | Inr (Some UnknownTopicOrPartition) \<Rightarrow> ret (if requireTopicsExist then Some (errMissingKafkaTopic topic) else None)
     | Inr (Some (OtherTopicError e)) \<Rightarrow> ret (Some (GoWrap (''failed to describe kafka topic '' @ topic) e))
     | Inr (Some TopicFine) \<Rightarrow> ret None)"

definition closeBoth :: "'x kafkaLib \<Rightarrow> nat \<Rightarrow> nat \<Rightarrow> ('x kafkaWorld, unit) go" where
  "closeBoth lib producer reader = andThen (producer_Close lib producer) (\<lambda>_. reader_Close reader)"

text \<open>The checks once both clients exist: the brokers answer, and each topic is usable.\<close>

definition kafkaReady :: "'x kafkaLib \<Rightarrow> KafkaConfig \<Rightarrow> nat \<Rightarrow> nat \<Rightarrow> ('x kafkaWorld, goerror + nat \<times> nat) go" where
  "kafkaReady lib cfg producer reader =
     andThen (pingKafkaBrokers lib [producer, reader]) (\<lambda>err.
     case err of
       Some e \<Rightarrow> andThen (closeBoth lib producer reader) (\<lambda>_. ret (Inl (GoWrap ''failed to reach kafka brokers'' e)))
     | None \<Rightarrow>
         andThen (forEach (\<lambda>(client, topic). checkKafkaTopicAccess lib client topic (kcRequireTopicsExist cfg))
            [(producer, kcProducerTopic cfg), (reader, kcConsumerTopic cfg)]) (\<lambda>err.
         case err of
           Some e \<Rightarrow> andThen (closeBoth lib producer reader) (\<lambda>_. ret (Inl e))
         | None \<Rightarrow> ret (Inr (producer, reader))))"

definition newKafkaFromConfig :: "'x kafkaLib \<Rightarrow> MessageQueueConfig \<Rightarrow> ('x kafkaWorld, goerror + nat \<times> nat) go" where
  "newKafkaFromConfig lib mq =
     (case mqKafkaConfig mq of
        None \<Rightarrow> ret (Inl (GoError ''messageQueue.type is kafka but kafkaConfig is missing''))
      | Some cfg \<Rightarrow>
          if length (kcBootstrapServers cfg) = 0 then ret (Inl (GoError ''kafkaConfig.bootstrapServers is required''))
          else if kcProducerTopic cfg = [] then ret (Inl (GoError ''kafkaConfig.producerTopic is required''))
          else if kcConsumerTopic cfg = [] then ret (Inl (GoError ''kafkaConfig.consumerTopic is required''))
          else if kcProducerTopic cfg = kcConsumerTopic cfg then
            ret (Inl (GoError (''kafkaConfig.producerTopic and kafkaConfig.consumerTopic must differ, both are '' @ kcProducerTopic cfg)))
          else
            andThen (NewKafkaMessageProducer lib cfg) (\<lambda>r.
            case r of
              Inl e \<Rightarrow> ret (Inl (GoWrap ''failed to create kafka producer'' e))
            | Inr producer \<Rightarrow>
                andThen (NewKafkaMessageReader lib cfg) (\<lambda>r.
                case r of
                  Inl e \<Rightarrow> andThen (producer_Close lib producer) (\<lambda>_. ret (Inl (GoWrap ''failed to create kafka reader'' e)))
                | Inr reader \<Rightarrow>
                    kafkaReady lib cfg producer reader)))"

section \<open>Which clients are open\<close>

definition same_open :: "'x kafkaWorld \<Rightarrow> 'x kafkaWorld \<Rightarrow> bool" where
  "same_open s s' \<longleftrightarrow> kwOpen s' = kwOpen s \<and> kwNext s' = kwNext s"

lemma preorderp_same_open [simp, intro]: "preorderp same_open"
  by (auto simp: preorderp_def same_open_def)

lemma keeps_on_lib [keeps_intros]: "keeps same_open (on_lib m)"
  by (auto simp: keeps_def same_open_def on_lib_def split: prod.splits)

lemma keeps_ping [keeps_intros]: "keeps same_open (pingKafkaBrokers lib cs)"
  unfolding pingKafkaBrokers_def Let_def by (rule keeps_on_lib)

lemma keeps_topic [keeps_intros]: "keeps same_open (checkKafkaTopicAccess lib c t b)"
  unfolding checkKafkaTopicAccess_def by (auto intro!: keeps_intros split: sum.splits option.splits topicStatus.splits)

lemma openClient_Ret:
  assumes "openClient lib opts s = (Ret r, s')"
  shows "case r of Inl _ \<Rightarrow> same_open s s' | Inr c \<Rightarrow> c = kwNext s \<and> kwOpen s' = c # kwOpen s \<and> kwNext s' = Suc (kwNext s)"
  using assms keepsD [OF keeps_on_lib, of s "kbNewClient lib opts"]
  by (auto simp: openClient_def andThen_def same_open_def split: prod.splits outcome.splits option.splits sum.splits)

definition opened :: "'x kafkaWorld \<Rightarrow> goerror + nat \<Rightarrow> 'x kafkaWorld \<Rightarrow> bool" where
  "opened s r s' \<longleftrightarrow> (case r of Inl _ \<Rightarrow> kwOpen s' = kwOpen s
     | Inr c \<Rightarrow> c = kwNext s \<and> kwOpen s' = c # kwOpen s \<and> kwNext s' = Suc (kwNext s))"

lemma producer_opened:
  assumes "NewKafkaMessageProducer lib cfg s = (Ret r, s')"
  shows "opened s r s'"
proof (cases "kafkaSecurityOptions lib cfg")
  case (Inr opts)
  then obtain r1 where "openClient lib (producerOpts cfg opts) s = (Ret r1, s')"
    "r = map_sum (GoWrap ''failed to create kafka producer client'') id r1"
    using assms by (auto simp: NewKafkaMessageProducer_def elim!: andThen_RetE)
  then show ?thesis using openClient_Ret [of lib "producerOpts cfg opts" s r1 s'] by (cases r1) (auto simp: opened_def same_open_def)
qed (use assms in \<open>auto simp: NewKafkaMessageProducer_def opened_def\<close>)

lemma reader_opened:
  assumes "NewKafkaMessageReader lib cfg s = (Ret r, s')"
  shows "opened s r s'"
proof (cases "kbHostname lib"; cases "kafkaSecurityOptions lib cfg")
  fix h opts
  assume "kbHostname lib = Inr h" "kafkaSecurityOptions lib cfg = Inr opts"
  then obtain os r1 where "openClient lib os s = (Ret r1, s')"
    "r = map_sum (GoWrap ''failed to create kafka consumer client'') id r1"
    using assms by (auto simp: NewKafkaMessageReader_def elim!: andThen_RetE)
  then show ?thesis using openClient_Ret [of lib os s r1 s'] by (cases r1) (auto simp: opened_def same_open_def)
qed (use assms in \<open>auto simp: NewKafkaMessageReader_def opened_def\<close>)

lemma producer_closed: "producer_Close lib p s = (Ret u, s') \<Longrightarrow> kwOpen s' = remove1 p (kwOpen s)"
  using keepsD [OF keeps_on_lib, of s "kbFlush lib p"]
  by (auto simp: producer_Close_def closeClient_def same_open_def elim!: andThen_RetE)

lemma both_closed: "closeBoth lib p r s = (Ret u, s') \<Longrightarrow> kwOpen s' = remove1 r (remove1 p (kwOpen s))"
  by (auto simp: closeBoth_def reader_Close_def closeClient_def elim!: andThen_RetE dest!: producer_closed)

lemma same_open_Ret: "keeps same_open m \<Longrightarrow> m s = (r, s') \<Longrightarrow> kwOpen s' = kwOpen s"
  using keepsD [of same_open m s] by (simp add: same_open_def)

lemma kafkaReady_open:
  assumes "kafkaReady lib cfg p q s = (Ret r, s')"
  shows "case r of Inl _ \<Rightarrow> kwOpen s' = remove1 q (remove1 p (kwOpen s)) | Inr x \<Rightarrow> x = (p, q) \<and> kwOpen s' = kwOpen s"
proof -
  let ?topics = "forEach (\<lambda>(client, topic). checkKafkaTopicAccess lib client topic (kcRequireTopicsExist cfg))
      [(p, kcProducerTopic cfg), (q, kcConsumerTopic cfg)]"
  have topics: "keeps same_open ?topics" by (rule keeps_forEach) (auto intro!: keeps_intros)
  obtain err s1 where ping: "pingKafkaBrokers lib [p, q] s = (Ret err, s1)"
    and rest: "(case err of
         Some e \<Rightarrow> andThen (closeBoth lib p q) (\<lambda>_. ret (Inl (GoWrap ''failed to reach kafka brokers'' e)))
       | None \<Rightarrow> andThen ?topics (\<lambda>err. case err of
             Some e \<Rightarrow> andThen (closeBoth lib p q) (\<lambda>_. ret (Inl e)) | None \<Rightarrow> ret (Inr (p, q)))) s1 = (Ret r, s')"
    using assms unfolding kafkaReady_def by (rule andThen_RetE)
  have open1: "kwOpen s1 = kwOpen s" using same_open_Ret [OF keeps_ping ping] .
  show ?thesis
  proof (cases err)
    case None
    then obtain err2 s2 where t: "?topics s1 = (Ret err2, s2)"
      and fin: "(case err2 of Some e \<Rightarrow> andThen (closeBoth lib p q) (\<lambda>_. ret (Inl e)) | None \<Rightarrow> ret (Inr (p, q))) s2 = (Ret r, s')"
      using rest by (auto elim!: andThen_RetE simp del: forEach.simps)
    have "kwOpen s2 = kwOpen s" using same_open_Ret [OF topics t] open1 by simp
    then show ?thesis using fin by (cases err2) (auto elim!: andThen_RetE dest!: both_closed)
  qed (use rest open1 in \<open>auto elim!: andThen_RetE dest!: both_closed\<close>)
qed

section \<open>Properties\<close>

text \<open>
  A server that cannot set up its Kafka queue leaves no client open behind it, whatever step failed;
  one that can has exactly one producer and one reader.
\<close>

lemma kafka_setup_is_clean:
  assumes "newKafkaFromConfig lib mq s = (Ret r, s')"
  shows "case r of
       Inl e \<Rightarrow> kwOpen s' = kwOpen s
     | Inr (p, q) \<Rightarrow> kwOpen s' = [q, p] @ kwOpen s \<and> p \<noteq> q \<and> (\<exists>cfg. mqKafkaConfig mq = Some cfg
         \<and> kcBootstrapServers cfg \<noteq> [] \<and> kcProducerTopic cfg \<noteq> [] \<and> kcConsumerTopic cfg \<noteq> []
         \<and> kcProducerTopic cfg \<noteq> kcConsumerTopic cfg \<and> validateKafkaSecurity cfg = None)"
proof (cases "\<exists>cfg. mqKafkaConfig mq = Some cfg \<and> kcBootstrapServers cfg \<noteq> [] \<and> kcProducerTopic cfg \<noteq> []
    \<and> kcConsumerTopic cfg \<noteq> [] \<and> kcProducerTopic cfg \<noteq> kcConsumerTopic cfg")
  case True
  then obtain cfg where cfg: "mqKafkaConfig mq = Some cfg" "kcBootstrapServers cfg \<noteq> []" "kcProducerTopic cfg \<noteq> []"
    "kcConsumerTopic cfg \<noteq> []" "kcProducerTopic cfg \<noteq> kcConsumerTopic cfg" by blast
  obtain r1 s1 where prod: "NewKafkaMessageProducer lib cfg s = (Ret r1, s1)"
    and rest: "(case r1 of
         Inl e \<Rightarrow> ret (Inl (GoWrap ''failed to create kafka producer'' e))
       | Inr p \<Rightarrow> andThen (NewKafkaMessageReader lib cfg) (\<lambda>r. case r of
             Inl e \<Rightarrow> andThen (producer_Close lib p) (\<lambda>_. ret (Inl (GoWrap ''failed to create kafka reader'' e)))
           | Inr q \<Rightarrow> kafkaReady lib cfg p q)) s1 = (Ret r, s')"
    using assms cfg by (auto simp: newKafkaFromConfig_def elim!: andThen_RetE)
  note o1 = producer_opened [OF prod]
  show ?thesis
  proof (cases r1)
    case (Inr p)
    have valid: "validateKafkaSecurity cfg = None"
      using prod Inr by (auto simp: NewKafkaMessageProducer_def kafkaSecurityOptions_def split: option.splits sum.splits)
    obtain r2 s2 where read: "NewKafkaMessageReader lib cfg s1 = (Ret r2, s2)"
      and fin: "(case r2 of
             Inl e \<Rightarrow> andThen (producer_Close lib p) (\<lambda>_. ret (Inl (GoWrap ''failed to create kafka reader'' e)))
           | Inr q \<Rightarrow> kafkaReady lib cfg p q) s2 = (Ret r, s')"
      using rest Inr by (auto elim!: andThen_RetE)
    note o2 = reader_opened [OF read]
    show ?thesis
    proof (cases r2)
      case (Inl e)
      then show ?thesis using o1 o2 Inr fin by (auto simp: opened_def elim!: andThen_RetE dest!: producer_closed)
    next
      case (Inr q)
      then show ?thesis using o1 o2 \<open>r1 = Inr p\<close> fin kafkaReady_open [of lib cfg p q s2 r s'] cfg valid
        by (auto simp: opened_def split: sum.splits)
    qed
  qed (use rest o1 in \<open>auto simp: opened_def\<close>)
next
  case False
  then show ?thesis using assms by (auto simp: newKafkaFromConfig_def split: option.splits if_splits)
qed

text \<open>A library that opens and pings everything and knows every topic.\<close>

definition sampleLib :: "unit kafkaLib" where
  "sampleLib = \<lparr>kbReadFile = (\<lambda>_. Inl (GoError ''no file'')), kbValidPEM = (\<lambda>_. False), kbHostname = Inr ''pod'',
     kbNewClient = (\<lambda>_. ret None), kbPing = (\<lambda>_. ret None), kbListTopics = (\<lambda>_ _. ret (Inr (Some TopicFine))),
     kbFlush = (\<lambda>_. ret None), kbRetryNotify = (\<lambda>_ m. m)\<rparr>"

definition sampleKafkaConfig :: KafkaConfig where
  "sampleKafkaConfig = \<lparr>kcBootstrapServers = [''broker:9092''], kcProducerTopic = ''out'', kcConsumerTopic = ''in'',
     kcRequireTopicsExist = True, kcGroupIDPrefix = [], kcCompressionType = [], kcMaxMessageBytes = 0, kcSecurityProtocol = ''sasl_ssl'',
     kcSASLMechanism = ''plain'', kcSASLUsername = ''u'', kcSASLPassword = ''p'', kcTLSCaCertPath = []\<rparr>"

lemma sampleKafkaConfig_upper: "strings_ToUpper ''sasl_ssl'' = ''SASL_SSL''" "strings_ToUpper ''plain'' = ''PLAIN''"
  by code_simp+

lemma sampleKafkaConfig_options: "kafkaSecurityOptions lib sampleKafkaConfig = Inr [SASL (PlainAuth ''u'' ''p''), DialTLSConfig None]"
  by (simp add: kafkaSecurityOptions_def validateKafkaSecurity_def normalizeSecurityProtocol_def sampleKafkaConfig_def
      sampleKafkaConfig_upper security_defs protocolUsesSASL_def protocolUsesTLS_def kafkaSASLMechanism_def kafkaTLSConfig_def Let_def)

lemma sampleLib_runs:
  "on_lib (ret a) s = (Ret a, s)"
  "openClient sampleLib opts s = (Ret (Inr (kwNext s)), s\<lparr>kwNext := kwNext s + 1, kwOpen := kwNext s # kwOpen s\<rparr>)"
  "pingKafkaBrokers sampleLib [p, q] s = (Ret None, s)"
  "checkKafkaTopicAccess sampleLib c t b s = (Ret None, s)" "kbHostname sampleLib = Inr ''pod''"
  by (simp_all add: openClient_def on_lib_def sampleLib_def pingKafkaBrokers_def checkKafkaTopicAccess_def)

lemma sampleLib_setup:
  "newKafkaFromConfig sampleLib \<lparr>mqType = ''kafka'', mqKafkaConfig = Some sampleKafkaConfig\<rparr> \<lparr>kwNext = 0, kwOpen = [], kwLib = ()\<rparr> =
     (Ret (Inr (0, 1)), \<lparr>kwNext = 2, kwOpen = [1, 0], kwLib = ()\<rparr>)"
  using sampleKafkaConfig_options [of sampleLib]
  by (simp add: newKafkaFromConfig_def NewKafkaMessageProducer_def NewKafkaMessageReader_def kafkaReady_def sampleLib_runs)
    (simp add: sampleKafkaConfig_def)

text \<open>
  C35. The limits given to the client library are consistent for every configuration: the limit of a
  batch or fetch is positive, is the configured one up to the broker's maximum, and never exceeds the
  limit of a request, which stays within 1 GB. The conversion to 32 bits never wraps.
\<close>

theorem kafka_limits_are_consistent:
  "sint (kafkaRecordByteLimit (kafkaMaxMessageBytes cfg)) = min (kafkaMaxMessageBytes cfg) kafkaMaxBrokerBytes
   \<and> 0 < sint (kafkaRecordByteLimit (kafkaMaxMessageBytes cfg))
   \<and> sint (kafkaRecordByteLimit (kafkaMaxMessageBytes cfg)) \<le> sint (kafkaBrokerByteLimit (kafkaMaxMessageBytes cfg))
   \<and> sint (kafkaBrokerByteLimit (kafkaMaxMessageBytes cfg)) \<le> 1073741824"
proof -
  have conv: "sint (word_of_int n :: 32 word) = n" if "0 \<le> n" "n \<le> 1073741824" for n
    using that by (simp add: sint_sbintrunc' signed_take_bit_int_eq_self)
  have pos: "0 < kafkaMaxMessageBytes cfg" by (simp add: kafkaMaxMessageBytes_def defaultKafkaMaxMessageBytes_def)
  show ?thesis
    using pos by (simp add: kafkaRecordByteLimit_def kafkaBrokerByteLimit_def kafkaMaxBrokerBytes_def kafkaDefaultBrokerBytes_def conv)
qed

text \<open>
  C34. A password is never sent in the clear: whatever the configuration, if client options are built at
  all and they authenticate with PLAIN, they also use TLS. Credentials are used exactly when the
  protocol asks for them, and TLS likewise.
\<close>

theorem plain_passwords_need_tls:
  assumes "kafkaSecurityOptions lib cfg = Inr opts"
  shows "(\<forall>u p. SASL (PlainAuth u p) \<in> set opts \<longrightarrow> (\<exists>c. DialTLSConfig c \<in> set opts))
     \<and> (\<exists>m. SASL m \<in> set opts) = protocolUsesSASL (normalizeSecurityProtocol (kcSecurityProtocol cfg))
     \<and> (\<exists>c. DialTLSConfig c \<in> set opts) = protocolUsesTLS (normalizeSecurityProtocol (kcSecurityProtocol cfg))"
proof -
  let ?proto = "normalizeSecurityProtocol (kcSecurityProtocol cfg)"
  have valid: "validateKafkaSecurity cfg = None" using assms by (simp add: kafkaSecurityOptions_def split: option.splits)
  have tls: "protocolUsesTLS ?proto" if "protocolUsesSASL ?proto" "kafkaSASLMechanism cfg = Inr (PlainAuth u p)" for u p
    using valid that by (auto simp: validateKafkaSecurity_def kafkaSASLMechanism_def Let_def split: if_splits)
  show ?thesis
    using assms valid tls
    by (cases "kafkaSASLMechanism cfg"; cases "kafkaTLSConfig lib cfg")
      (auto simp: kafkaSecurityOptions_def Let_def split: if_splits)
qed

theorem plain_passwords_need_tls_witness:
  "\<exists>c. DialTLSConfig c \<in> set [SASL (PlainAuth ''u'' ''p''), DialTLSConfig None]"
  using plain_passwords_need_tls [OF sampleKafkaConfig_options] by auto

end
