(* ===== verification/Queue_Setup.thy ===== *)
theory Queue_Setup
  imports Kafka_Setup
begin

text \<open>
  Which queue a server uses and how it is set up and shut down: \<open>factory.go\<close> of the backend adapter
  and of \<open>messaging\<close>, and the constructors of \<open>pulsar.go\<close>. The Pulsar client library and its connector
  are the record \<open>pulsarLib\<close>; as for Kafka, which clients are open is kept beside the state of the
  libraries.
\<close>

section \<open>Pulsar\<close>

record readerOptions =
  roName :: string
  roTopic :: string
  roStartAtLatest :: bool
  roStartMessageIDInclusive :: bool

record producerOptions =
  poTopic :: string
  poDisableBatching :: bool
  poEnableChunking :: bool
  poZSTD :: bool
  poCompressionLevel :: int
  poProperties :: properties

record 'x pulsarLib =
  plNewClient :: "nat \<Rightarrow> int \<Rightarrow> ('x, goerror option) go"
  plTenant :: string
  plNamespace :: string
  plBuildPersistentTopic :: "string \<Rightarrow> string \<Rightarrow> string \<Rightarrow> string"
  plHostname :: "goerror + string"
  plCreateReader :: "nat \<Rightarrow> readerOptions \<Rightarrow> ('x, goerror option) go"
  plCreateProducer :: "nat \<Rightarrow> producerOptions \<Rightarrow> ('x, goerror option) go"

text \<open>The reader is named, and has a channel of as many places as it has workers.\<close>

record PulsarMessageReader =
  prName :: string
  prWorkers :: nat

text \<open>What \<open>panic(err)\<close> prints does not matter, only that it ends the process.\<close>

definition NewPulsarMessageReader :: "'x pulsarLib \<Rightarrow> BackendConfig \<Rightarrow> nat \<Rightarrow>
    ('x kafkaWorld, goerror + PulsarMessageReader) go" where
  "NewPulsarMessageReader lib cfg client =
     (case plHostname lib of
        Inl e \<Rightarrow> panic ''hostname''
      | Inr hostname \<Rightarrow>
          let readerName = bcSubscription cfg @ ''-'' @ hostname;
              topic = plBuildPersistentTopic lib (plTenant lib) (plNamespace lib) (bcConsumerTopic cfg) in
          andThen (on_lib (plCreateReader lib client
             \<lparr>roName = readerName, roTopic = topic, roStartAtLatest = True, roStartMessageIDInclusive = True\<rparr>)) (\<lambda>err.
          case err of
            Some e \<Rightarrow> panic ''create reader''
          | None \<Rightarrow> ret (Inr \<lparr>prName = readerName, prWorkers = consumerWorkers (bcConsumerWorkers cfg)\<rparr>)))"

definition NewPulsarMessageProducer :: "environment \<Rightarrow> 'x pulsarLib \<Rightarrow> BackendConfig \<Rightarrow> nat \<Rightarrow>
    ('x kafkaWorld, goerror + unit) go" where
  "NewPulsarMessageProducer env lib cfg client =
     (let topic = bcProducerTopic cfg;
          fullTopic = plBuildPersistentTopic lib (plTenant lib) (plNamespace lib) topic;
          options = \<lparr>poTopic = fullTopic, poDisableBatching = True, poEnableChunking = True, poZSTD = True,
            poCompressionLevel = 1, poProperties = [(''podName'', os_Getenv env ''HOSTNAME'')]\<rparr> in
      andThen (on_lib (plCreateProducer lib client options)) (\<lambda>err.
      ret (case err of
             Some e \<Rightarrow> Inl (GoWrap (''failed to create producer for topic '' @ topic) e)
           | None \<Rightarrow> Inr ())))"

section \<open>Choosing and closing the queue\<close>

datatype queueComponents = KafkaComponents nat nat | PulsarComponents nat PulsarMessageReader

definition openPulsarClient :: "'x pulsarLib \<Rightarrow> ('x kafkaWorld, goerror + nat) go" where
  "openPulsarClient lib =
     andThen (on_lib (plNewClient lib 20 3)) (\<lambda>err s.
     case err of
       Some e \<Rightarrow> (Ret (Inl e), s)
     | None \<Rightarrow> (Ret (Inr (kwNext s)), s\<lparr>kwNext := kwNext s + 1, kwOpen := kwNext s # kwOpen s\<rparr>))"

definition newPulsarFromConfig :: "environment \<Rightarrow> 'x pulsarLib \<Rightarrow> BackendConfig \<Rightarrow>
    ('x kafkaWorld, goerror + queueComponents option) go" where
  "newPulsarFromConfig env lib cfg =
     (if \<not> bcPulsarConfig cfg then ret (Inr None)
      else andThen (openPulsarClient lib) (\<lambda>r.
      case r of
        Inl e \<Rightarrow> ret (Inl (GoWrap ''failed to create pulsar client'' e))
      | Inr client \<Rightarrow>
          andThen (NewPulsarMessageProducer env lib cfg client) (\<lambda>r.
          case r of
            Inl e \<Rightarrow> andThen (closeClient client) (\<lambda>_. ret (Inl (GoWrap ''failed to create pulsar producer'' e)))
          | Inr _ \<Rightarrow>
              andThen (NewPulsarMessageReader lib cfg client) (\<lambda>r.
              case r of
                Inl e \<Rightarrow> andThen (closeClient client) (\<lambda>_. ret (Inl (GoWrap ''failed to create pulsar reader'' e)))
              | Inr reader \<Rightarrow> ret (Inr (Some (PulsarComponents client reader)))))))"

definition newFromConfig :: "environment \<Rightarrow> 'x kafkaLib \<Rightarrow> 'x pulsarLib \<Rightarrow> BackendConfig \<Rightarrow>
    ('x kafkaWorld, goerror + queueComponents option) go" where
  "newFromConfig env klib plib cfg =
     (case bcMessageQueue cfg of
        None \<Rightarrow> newPulsarFromConfig env plib cfg
      | Some mq \<Rightarrow>
          if mqType mq = [] then newPulsarFromConfig env plib cfg
          else if mqType mq = ''kafka'' then
            andThen (newKafkaFromConfig klib mq) (\<lambda>r. ret (map_sum id (\<lambda>(p, q). Some (KafkaComponents p q)) r))
          else if mqType mq = ''pulsar'' then newPulsarFromConfig env plib cfg
          else ret (Inl (GoError (''unknown message queue type '' @ mqType mq))))"

text \<open>\<open>Components.Shutdown\<close>: nothing without a queue, else its \<open>Close\<close>.\<close>

definition Shutdown :: "'x kafkaLib \<Rightarrow> queueComponents option \<Rightarrow> ('x kafkaWorld, unit) go" where
  "Shutdown lib c =
     (case c of
        None \<Rightarrow> ret ()
      | Some (KafkaComponents p r) \<Rightarrow> closeBoth lib p r
      | Some (PulsarComponents p _) \<Rightarrow> closeClient p)"

text \<open>The factory is registered by the backend package; without it there is no queue.\<close>

definition NewFromConfig :: "(BackendConfig \<Rightarrow> ('s, goerror + 'q option) go) option \<Rightarrow> BackendConfig \<Rightarrow>
    ('s, goerror + 'q option) go" where
  "NewFromConfig fromConfigFactory cfg =
     (case fromConfigFactory of None \<Rightarrow> ret (Inr None) | Some f \<Rightarrow> f cfg)"

section \<open>Which clients are open\<close>

lemma openPulsarClient_Ret:
  "openPulsarClient lib s = (Ret r, s') \<Longrightarrow> opened s r s'"
  using keepsD [OF keeps_on_lib, of s "plNewClient lib 20 3"]
  by (auto simp: openPulsarClient_def opened_def andThen_def same_open_def split: prod.splits outcome.splits option.splits)

lemma keeps_pulsar_producer: "keeps same_open (NewPulsarMessageProducer env lib cfg c)"
  unfolding NewPulsarMessageProducer_def Let_def by (auto intro!: keeps_intros)

lemma keeps_pulsar_reader: "keeps same_open (NewPulsarMessageReader lib cfg c)"
  unfolding NewPulsarMessageReader_def Let_def
  by (auto intro!: keeps_intros split: sum.splits option.splits)

text \<open>The signature of the reader's constructor has an error; it never returns one.\<close>

lemma pulsar_reader_never_errs: "NewPulsarMessageReader lib cfg c s \<noteq> (Ret (Inl e), s')"
  by (auto simp: NewPulsarMessageReader_def Let_def andThen_def panic_def split: sum.splits option.splits outcome.splits prod.splits)

lemma pulsar_setup_open:
  assumes "newPulsarFromConfig env lib cfg s = (Ret r, s')"
  shows "case r of
       Inl e \<Rightarrow> kwOpen s' = kwOpen s
     | Inr None \<Rightarrow> kwOpen s' = kwOpen s \<and> \<not> bcPulsarConfig cfg
     | Inr (Some q) \<Rightarrow> bcPulsarConfig cfg \<and> (\<exists>c reader. q = PulsarComponents c reader \<and> kwOpen s' = c # kwOpen s)"
proof (cases "bcPulsarConfig cfg")
  case True
  then obtain r1 s1 where client: "openPulsarClient lib s = (Ret r1, s1)" and rest: "(case r1 of
        Inl e \<Rightarrow> ret (Inl (GoWrap ''failed to create pulsar client'' e))
      | Inr client \<Rightarrow>
          andThen (NewPulsarMessageProducer env lib cfg client) (\<lambda>r.
          case r of
            Inl e \<Rightarrow> andThen (closeClient client) (\<lambda>_. ret (Inl (GoWrap ''failed to create pulsar producer'' e)))
          | Inr _ \<Rightarrow>
              andThen (NewPulsarMessageReader lib cfg client) (\<lambda>r.
              case r of
                Inl e \<Rightarrow> andThen (closeClient client) (\<lambda>_. ret (Inl (GoWrap ''failed to create pulsar reader'' e)))
              | Inr reader \<Rightarrow> ret (Inr (Some (PulsarComponents client reader)))))) s1 = (Ret r, s')"
    using assms by (auto simp: newPulsarFromConfig_def elim!: andThen_RetE)
  note same = same_open_Ret [OF keeps_pulsar_producer] same_open_Ret [OF keeps_pulsar_reader]
  show ?thesis
    using openPulsarClient_Ret [OF client] rest True
    by (cases r1) (auto simp: opened_def closeClient_def elim!: andThen_RetE dest!: same split: sum.splits)
qed (use assms in \<open>auto simp: newPulsarFromConfig_def\<close>)

lemma newFromConfig_cases:
  assumes "newFromConfig env klib plib cfg s = (Ret r, s')"
  obtains (pulsar) "newPulsarFromConfig env plib cfg s = (Ret r, s')"
  | (kafka) mq k where "bcMessageQueue cfg = Some mq" "newKafkaFromConfig klib mq s = (Ret k, s')"
      "r = map_sum id (\<lambda>(p, q). Some (KafkaComponents p q)) k"
  | (unknown) e where "r = Inl e" "s' = s"
  using assms by (auto simp: newFromConfig_def split: option.splits if_splits elim!: andThen_RetE)

section \<open>Properties\<close>

text \<open>
  C33. The message queue is set up completely or not at all: when the server is configured for Kafka or
  for Pulsar, setting up the queue either fails and leaves no client open, whatever step failed, or
  gives a queue whose clients are the only new ones: one for Pulsar, two for Kafka, with valid settings
  and two different topics. Shutting that queue down closes exactly these clients. No queue at all is
  only given when none is configured.
\<close>

theorem queue_setup_is_all_or_nothing:
  assumes "NewFromConfig (Some (newFromConfig env klib plib)) cfg s = (Ret r, s')"
  shows "case r of
       Inl e \<Rightarrow> kwOpen s' = kwOpen s
     | Inr None \<Rightarrow> kwOpen s' = kwOpen s \<and> \<not> bcPulsarConfig cfg
     | Inr (Some q) \<Rightarrow>
         (case q of
            KafkaComponents p c \<Rightarrow> kwOpen s' = [c, p] @ kwOpen s \<and> p \<noteq> c
              \<and> (\<exists>mq kc. bcMessageQueue cfg = Some mq \<and> mqKafkaConfig mq = Some kc
                   \<and> kcBootstrapServers kc \<noteq> [] \<and> kcProducerTopic kc \<noteq> kcConsumerTopic kc \<and> validateKafkaSecurity kc = None)
          | PulsarComponents c reader \<Rightarrow> kwOpen s' = c # kwOpen s \<and> bcPulsarConfig cfg)
         \<and> (\<forall>u s''. Shutdown klib (Some q) s' = (Ret u, s'') \<longrightarrow> kwOpen s'' = kwOpen s)"
proof -
  have "newFromConfig env klib plib cfg s = (Ret r, s')" using assms by (simp add: NewFromConfig_def)
  then show ?thesis
  proof (cases rule: newFromConfig_cases)
    case pulsar
    then show ?thesis
      using pulsar_setup_open [OF pulsar]
      by (auto simp: Shutdown_def closeClient_def split: sum.splits option.splits)
  next
    case (kafka mq k)
    then show ?thesis
      using kafka_setup_is_clean [OF kafka(2)]
      by (auto simp: Shutdown_def split: sum.splits dest!: both_closed)
  qed simp
qed

definition kafkaServerConfig :: BackendConfig where
  "kafkaServerConfig = \<lparr>bcPort = 0, bcAuthenticationServer = None, bcSubscription = [], bcPulsarConfig = False,
     bcProducerTopic = [], bcConsumerTopic = [], bcConsumerWorkers = 0, bcPrometheus = None, bcReconciliationTask = None,
     bcKeepAliveTask = None, bcSkipAlertsFrom = [], bcFeaturesProvider = None,
     bcMessageQueue = Some \<lparr>mqType = ''kafka'', mqKafkaConfig = Some sampleKafkaConfig\<rparr>\<rparr>"

definition idlePulsar :: "unit pulsarLib" where
  "idlePulsar = \<lparr>plNewClient = (\<lambda>n d. ret None), plTenant = ''t'', plNamespace = ''n'',
     plBuildPersistentTopic = (\<lambda>t n x. ''persistent://'' @ t @ ''/'' @ n @ ''/'' @ x), plHostname = Inr ''pod'',
     plCreateReader = (\<lambda>c opts. ret None), plCreateProducer = (\<lambda>c opts. ret None)\<rparr>"

theorem queue_setup_is_all_or_nothing_witness:
  "kwOpen (snd (NewFromConfig (Some (newFromConfig Map.empty sampleLib idlePulsar)) kafkaServerConfig
     \<lparr>kwNext = 0, kwOpen = [], kwLib = ()\<rparr>)) = [1, 0]"
proof -
  have run: "NewFromConfig (Some (newFromConfig Map.empty sampleLib idlePulsar)) kafkaServerConfig \<lparr>kwNext = 0, kwOpen = [], kwLib = ()\<rparr> =
      (Ret (Inr (Some (KafkaComponents 0 1))), \<lparr>kwNext = 2, kwOpen = [1, 0], kwLib = ()\<rparr>)"
    by (simp add: NewFromConfig_def newFromConfig_def kafkaServerConfig_def sampleLib_setup)
  show ?thesis using queue_setup_is_all_or_nothing [OF run] run by simp
qed

end
