(* ===== verification/Incluster_Watch.thy ===== *)
theory Incluster_Watch
  imports Incluster_Reconcile Cooldown_Queue Retry
begin

text \<open>
  \<open>adapters/incluster/v1/client.go\<close>, the watch: how a client starts (\<open>Start\<close>), which watch it opens
  (\<open>chooseWatcher\<close>) and how \<open>watchRetry\<close> keeps one open, feeding the cooldown queue. Opening a watch is
  an argument: it fails, or gives the events the watch will deliver, with their times, until its
  channel is closed. Whether the object of an event has a resource version, its type and its key are
  accessors of the event.
\<close>

record ('e, 'w) watchEnv =
  weStorageWatch :: "string \<Rightarrow> string \<Rightarrow> ('w, goerror + ('e \<times> int) list) go"
  weDynamicWatch :: "Kind \<Rightarrow> string \<Rightarrow> ('w, goerror + ('e \<times> int) list) go"
  weNotFound :: "goerror \<Rightarrow> bool"
  weType :: "'e \<Rightarrow> watchType"
  weVersion :: "'e \<Rightarrow> string option"
  weMeta :: "'e \<Rightarrow> eventMeta"

text \<open>\<open>watchOpts.ResourceVersion\<close>, the event queue, and the variable \<open>exitFatal\<close>.\<close>

record 'e watchState =
  wsVersion :: string
  wsQueue :: "'e CooldownQueue"
  wsExitFatal :: bool

definition errWatchClosed :: goerror where
  "errWatchClosed = GoError ''watch channel closed''"

text \<open>
  The adapter starts only the clients of configured resources, never one on the no-op dynamic client,
  whose watch is a channel nothing is sent on.
\<close>

definition chooseWatcher :: "('e, 'w) watchEnv \<Rightarrow> Client \<Rightarrow> string \<Rightarrow> ('w, goerror + ('e \<times> int) list) go" where
  "chooseWatcher env c version =
     (if usesStorage c then weStorageWatch env (kResource (icKind c)) version
      else weDynamicWatch env (icKind c) version)"

text \<open>
  The loop over one watch. When the channel is closed Go delivers the zero event, whose object is
  nil and has no resource version.
\<close>

fun drainWatch :: "('e, 'w) watchEnv \<Rightarrow> ('e \<times> int) list \<Rightarrow> 'e watchState \<Rightarrow> unit attempt \<times> 'e watchState" where
  "drainWatch env [] s =
     (if cqClosed (wsQueue s) then (Permanent (GoError ''event queue closed''), s)
      else (Transient errWatchClosed, s))"
| "drainWatch env ((event, now) # events) s =
     (let s = (case weVersion env event of Some version \<Rightarrow> s\<lparr>wsVersion := version\<rparr> | None \<Rightarrow> s) in
      if cqClosed (wsQueue s) then (Permanent (GoError ''event queue closed''), s)
      else if weType env event = Error then (Transient (GoError ''watch error''), s)
      else drainWatch env events (s\<lparr>wsQueue := Enqueue (weMeta env) now event (wsQueue s)\<rparr>))"

definition watchAttempt :: "('e, 'w) watchEnv \<Rightarrow> Client \<Rightarrow> ('e watchState \<times> 'w, unit) operation" where
  "watchAttempt env c =
     andThen get_state (\<lambda>s.
     andThen (on_snd (chooseWatcher env c (wsVersion s))) (\<lambda>r.
     case r of
       Inl e \<Rightarrow>
         if weNotFound env e then andThen (put_state (s\<lparr>wsExitFatal := False\<rparr>)) (\<lambda>_. ret (Permanent e))
         else ret (Transient (GoWrap ''client resource'' e))
     | Inr events \<Rightarrow>
         (case drainWatch env events s of (a, s) \<Rightarrow> andThen (put_state s) (\<lambda>_. ret a))))"

text \<open>The result is the status the process exits with, if it does.\<close>

definition watchRetry :: "('e watchState \<times> 'w, unit) retryer \<Rightarrow> ('e, 'w) watchEnv \<Rightarrow> Client \<Rightarrow>
    ('e watchState \<times> 'w, int option) go" where
  "watchRetry retry env c =
     andThen get_state (\<lambda>s.
     andThen (put_state (s\<lparr>wsExitFatal := True\<rparr>)) (\<lambda>_.
     andThen (retry (watchAttempt env c)) (\<lambda>r.
     case r of
       Inr _ \<Rightarrow> ret None
     | Inl e \<Rightarrow> andThen get_state (\<lambda>s. ret (if wsExitFatal s then Some 1 else None)))))"

section \<open>Start\<close>

definition listAttempt :: "'o kubelib \<Rightarrow> ('o, 'k) kubeapi \<Rightarrow> 'w Callbacks \<Rightarrow> Context \<Rightarrow>
    ((Client \<times> 'k) \<times> 'w, string) operation" where
  "listAttempt lib api cbs ctx =
     andThen (getExistingStorageObjects lib api cbs ctx) (\<lambda>r.
     ret (case r of Inl e \<Rightarrow> Transient e | Inr version \<Rightarrow> Done version))"

text \<open>
  The result is the version the watch goroutine starts from; \<open>events\<close> is what comes out of the event
  queue it feeds.
\<close>

definition client_Start :: "((Client \<times> 'k) \<times> 'w, string) retryer \<Rightarrow> 'o kubelib \<Rightarrow> ('o, 'k) kubeapi \<Rightarrow> 'w Callbacks \<Rightarrow>
    Context \<Rightarrow> (watchType \<times> 'o option) list \<Rightarrow> ((Client \<times> 'k) \<times> 'w, goerror + string) go" where
  "client_Start retry lib api cbs ctx events =
     andThen get_client (\<lambda>c.
     andThen (if kGroup (icKind c) = kubescapeCustomResourceGroup then retry (listAttempt lib api cbs ctx)
              else ret (Inr [])) (\<lambda>r.
     case r of
       Inl e \<Rightarrow> ret (Inl (GoWrap ''giving up get existing storage objects'' e))
     | Inr version \<Rightarrow> andThen (eventLoop lib api cbs ctx events) (\<lambda>_. ret (Inr version))))"

text \<open>
  The goroutine the adapter starts for a client, from \<open>Adapter.Start\<close>. \<open>Fatal\<close> ends the process.
\<close>

definition startClient :: "((Client \<times> 'k) \<times> 'w, string) retryer \<Rightarrow> 'o kubelib \<Rightarrow> ('o, 'k) kubeapi \<Rightarrow> 'w Callbacks \<Rightarrow>
    Context \<Rightarrow> (watchType \<times> 'o option) list \<Rightarrow> ((Client \<times> 'k) \<times> 'w, string) go" where
  "startClient retry lib api cbs ctx events =
     andThen (retry (andThen (client_Start retry lib api cbs ctx events) (\<lambda>r.
         ret (case r of Inl e \<Rightarrow> Transient e | Inr version \<Rightarrow> Done version)))) (\<lambda>r.
     case r of Inl e \<Rightarrow> panic ''giving up start client'' | Inr version \<Rightarrow> ret version)"

text \<open>
  A client of the storage group first reports what exists, however often the listing has to be
  repeated, and then handles the events, starting to watch from the version of the listing that
  succeeded; any other client handles the events at once. Neither gives up.
\<close>

lemma startClient_storage:
  assumes "retries_forever retry" and "kGroup (icKind c) = kubescapeCustomResourceGroup"
    and "tries (listAttempt lib api cbs ctx) ((c, k), w) (Ret (Done version)) s"
    and "eventLoop lib api cbs ctx events s = (Ret (), s')"
  shows "startClient retry lib api cbs ctx events ((c, k), w) = (Ret version, s')"
proof -
  have "retry (listAttempt lib api cbs ctx) ((c, k), w) = (Ret (Inr version), s)"
    using retries_foreverD [OF assms(1,3)] by simp
  then have start: "client_Start retry lib api cbs ctx events ((c, k), w) = (Ret (Inr version), s')"
    using assms(2,4) by (simp add: client_Start_def)
  have "retry (andThen (client_Start retry lib api cbs ctx events) (\<lambda>r.
         ret (case r of Inl e \<Rightarrow> Transient e | Inr version \<Rightarrow> Done version))) ((c, k), w) = (Ret (Inr version), s')"
    using retries_foreverD [OF assms(1) tries.once, of _ "((c, k), w)" "Ret (Done version)" s'] start by simp
  then show ?thesis by (simp add: startClient_def)
qed

lemma startClient_other:
  assumes "retries_forever retry" and "kGroup (icKind c) \<noteq> kubescapeCustomResourceGroup"
    and "eventLoop lib api cbs ctx events ((c, k), w) = (Ret (), s')"
  shows "startClient retry lib api cbs ctx events ((c, k), w) = (Ret [], s')"
proof -
  have start: "client_Start retry lib api cbs ctx events ((c, k), w) = (Ret (Inr []), s')"
    using assms(2,3) by (simp add: client_Start_def)
  have "retry (andThen (client_Start retry lib api cbs ctx events) (\<lambda>r.
         ret (case r of Inl e \<Rightarrow> Transient e | Inr version \<Rightarrow> Done version))) ((c, k), w) = (Ret (Inr []), s')"
    using retries_foreverD [OF assms(1) tries.once, of _ "((c, k), w)" "Ret (Done [])" s'] start by simp
  then show ?thesis by (simp add: startClient_def)
qed

section \<open>What a watch leaves behind\<close>

text \<open>
  The events read of a watch: up to and including the first error event. Those before the error
  reach the queue; the last version among all of them is where the next watch starts.
\<close>

definition accepted :: "('e, 'w) watchEnv \<Rightarrow> ('e \<times> int) list \<Rightarrow> ('e \<times> int) list" where
  "accepted env events = takeWhile (\<lambda>(e, _). weType env e \<noteq> Error) events"

definition consumed :: "('e, 'w) watchEnv \<Rightarrow> ('e \<times> int) list \<Rightarrow> ('e \<times> int) list" where
  "consumed env events = accepted env events @ take 1 (dropWhile (\<lambda>(e, _). weType env e \<noteq> Error) events)"

definition resumeVersion :: "('e, 'w) watchEnv \<Rightarrow> string \<Rightarrow> ('e \<times> int) list \<Rightarrow> string" where
  "resumeVersion env version events =
     foldl (\<lambda>v (e, _). case weVersion env e of Some v' \<Rightarrow> v' | None \<Rightarrow> v) version events"

definition enqueueAll :: "('e, 'w) watchEnv \<Rightarrow> 'e CooldownQueue \<Rightarrow> ('e \<times> int) list \<Rightarrow> 'e CooldownQueue" where
  "enqueueAll env q events = foldl (\<lambda>q (e, now). Enqueue (weMeta env) now e q) q events"

lemma cqClosed_Enqueue [simp]: "cqClosed (Enqueue meta now e q) = cqClosed q"
  by (simp add: Enqueue_def)

lemma watch_fold_Nil [simp]:
  "accepted env [] = []" "consumed env [] = []" "resumeVersion env v [] = v" "enqueueAll env q [] = q"
  by (simp_all add: accepted_def consumed_def resumeVersion_def enqueueAll_def)

lemma watch_fold_Cons [simp]:
  "accepted env ((e, t) # evs) = (if weType env e = Error then [] else (e, t) # accepted env evs)"
  "consumed env ((e, t) # evs) = (if weType env e = Error then [(e, t)] else (e, t) # consumed env evs)"
  "resumeVersion env v ((e, t) # evs) = resumeVersion env (case weVersion env e of Some v' \<Rightarrow> v' | None \<Rightarrow> v) evs"
  "enqueueAll env q ((e, t) # evs) = enqueueAll env (Enqueue (weMeta env) t e q) evs"
  by (simp_all add: accepted_def consumed_def resumeVersion_def enqueueAll_def)

lemma resumeVersion_append: "resumeVersion env v (xs @ ys) = resumeVersion env (resumeVersion env v xs) ys"
  by (simp add: resumeVersion_def)

lemma enqueueAll_append: "enqueueAll env q (xs @ ys) = enqueueAll env (enqueueAll env q xs) ys"
  by (simp add: enqueueAll_def)

lemma cqClosed_enqueueAll [simp]: "cqClosed (enqueueAll env q xs) = cqClosed q"
proof (induction xs arbitrary: q)
  case (Cons x xs)
  then show ?case by (cases x) simp
qed simp

text \<open>An open queue gets what was accepted, and the version moves on; the watch is to be retried.\<close>

lemma drainWatch_open:
  assumes "\<not> cqClosed (wsQueue s)"
  shows "\<exists>e. drainWatch env events s =
     (Transient e, s\<lparr>wsVersion := resumeVersion env (wsVersion s) (consumed env events),
                     wsQueue := enqueueAll env (wsQueue s) (accepted env events)\<rparr>)"
  using assms
proof (induction events arbitrary: s)
  case (Cons x events)
  obtain event now where x: "x = (event, now)" by (cases x)
  let ?v = "case weVersion env event of Some v' \<Rightarrow> v' | None \<Rightarrow> wsVersion s"
  have version: "(case weVersion env event of Some v \<Rightarrow> s\<lparr>wsVersion := v\<rparr> | None \<Rightarrow> s) = s\<lparr>wsVersion := ?v\<rparr>"
    by (simp split: option.split)
  show ?case
  proof (cases "weType env event = Error")
    case True
    then show ?thesis using Cons.prems by (simp add: x version Let_def)
  next
    case False
    let ?s = "s\<lparr>wsVersion := ?v, wsQueue := Enqueue (weMeta env) now event (wsQueue s)\<rparr>"
    have "drainWatch env (x # events) s = drainWatch env events ?s"
      using Cons.prems False by (simp add: x version Let_def)
    then show ?thesis using Cons.IH [of ?s] Cons.prems False by (simp add: x)
  qed
qed simp

section \<open>A sequence of watches\<close>

text \<open>
  An API server that opens the watches of a script one after the other and notes the version each
  was asked to start from.
\<close>

definition openNext :: "string \<Rightarrow> ((goerror + ('e \<times> int) list) list \<times> string list, goerror + ('e \<times> int) list) go" where
  "openNext version w = (case w of
       ([], asked) \<Rightarrow> (Ret (Inl (GoError ''unavailable'')), ([], asked @ [version]))
     | (x # script, asked) \<Rightarrow> (Ret x, (script, asked @ [version])))"

definition scripted :: "(goerror \<Rightarrow> bool) \<Rightarrow> ('e \<Rightarrow> watchType) \<Rightarrow> ('e \<Rightarrow> string option) \<Rightarrow> ('e \<Rightarrow> eventMeta) \<Rightarrow>
    ('e, (goerror + ('e \<times> int) list) list \<times> string list) watchEnv" where
  "scripted notFound type version meta = \<lparr>weStorageWatch = (\<lambda>r. openNext), weDynamicWatch = (\<lambda>k. openNext),
     weNotFound = notFound, weType = type, weVersion = version, weMeta = meta\<rparr>"

text \<open>The versions the watches should be started from: each after the last version seen.\<close>

fun startVersions :: "('e, 'w) watchEnv \<Rightarrow> string \<Rightarrow> ('e \<times> int) list list \<Rightarrow> string list" where
  "startVersions env v [] = [v]"
| "startVersions env v (evs # lives) = v # startVersions env (resumeVersion env v (consumed env evs)) lives"

lemma run_chooseWatcher_scripted:
  "chooseWatcher (scripted nf ty ve me) c version (x # script, asked) = (Ret x, (script, asked @ [version]))"
  by (simp add: chooseWatcher_def scripted_def openNext_def)

lemma weNotFound_scripted [simp]: "weNotFound (scripted nf ty ve me) = nf"
  by (simp add: scripted_def)

lemma scripted_tries:
  fixes nf ty ve me
  defines "env \<equiv> scripted nf ty ve me"
  assumes "\<not> cqClosed (wsQueue s)" and "nf e"
  shows "tries (watchAttempt env c) (s, (map Inr lives @ [Inl e], asked)) (Ret (Permanent e))
     (s\<lparr>wsVersion := resumeVersion env (wsVersion s) (concat (map (consumed env) lives)),
        wsQueue := enqueueAll env (wsQueue s) (concat (map (accepted env) lives)), wsExitFatal := False\<rparr>,
      ([], asked @ startVersions env (wsVersion s) lives))"
  using assms(2)
proof (induction lives arbitrary: s asked)
  case Nil
  show ?case
    by (rule tries.once) (simp add: watchAttempt_def env_def run_chooseWatcher_scripted assms(3))
next
  case (Cons evs lives)
  let ?s = "s\<lparr>wsVersion := resumeVersion env (wsVersion s) (consumed env evs),
              wsQueue := enqueueAll env (wsQueue s) (accepted env evs)\<rparr>"
  obtain err where drain: "drainWatch env evs s = (Transient err, ?s)"
    using drainWatch_open [OF Cons.prems] by blast
  have "watchAttempt env c (s, (map Inr (evs # lives) @ [Inl e], asked)) =
      (Ret (Transient err), (?s, (map Inr lives @ [Inl e], asked @ [wsVersion s])))"
    using drain by (simp add: watchAttempt_def env_def run_chooseWatcher_scripted)
  then show ?case
    using tries.again Cons.IH [of ?s "asked @ [wsVersion s]"] Cons.prems
    by (simp add: resumeVersion_append enqueueAll_append)
qed

section \<open>Properties\<close>

text \<open>
  C29. Watching goes on over every interruption: whatever watches the API server opens, each ending
  because its channel was closed or by an error event, the next one is asked to start from the last
  resource version that was seen, and the event queue gets every event that was delivered before
  that, once and in order. When the resource is gone from the API server the watch ends and the
  process stays.
\<close>

theorem watch_resumes_where_it_ended:
  assumes "retries_forever retry" and "\<not> cqClosed (wsQueue s)" and "nf e" and "env = scripted nf ty ve me"
  shows "watchRetry retry env c (s, (map Inr lives @ [Inl e], [])) =
     (Ret None,
      (s\<lparr>wsVersion := resumeVersion env (wsVersion s) (concat (map (consumed env) lives)),
         wsQueue := enqueueAll env (wsQueue s) (concat (map (accepted env) lives)), wsExitFatal := False\<rparr>,
       ([], startVersions env (wsVersion s) lives)))"
  using retries_foreverD [OF assms(1)
      scripted_tries [where s = "s\<lparr>wsExitFatal := True\<rparr>" and nf = nf and e = e and asked = "[]" and c = c]] assms(2,3)
  by (simp add: watchRetry_def assms(4))

text \<open>Three watches: one closed after two events, one that is refused with an error event, one closed at once.\<close>

theorem watch_resumes_where_it_ended_witness:
  "watchRetry retryAlways
     (scripted (\<lambda>e. e = GoError ''gone'') fst snd
        (\<lambda>_. \<lparr>emGroup = [], emVersion = ''v1'', emKind = ''Pod'', emNamespace = ''ns'', emName = ''p''\<rparr>))
     sampleClient
     (\<lparr>wsVersion = ''1'', wsQueue = NewCooldownQueue, wsExitFatal = False\<rparr>,
      ([Inr [((Added, Some ''5''), 0), ((Modified, Some ''7''), 1)], Inr [((Error, Some []), 9)], Inr [],
        Inl (GoError ''gone'')], []))
   = (Ret None,
      (\<lparr>wsVersion = [],
         wsQueue = \<lparr>cqClosed = False,
           cqSeen = [''/v1/Pod/ns/p'' \<mapsto> ((Modified, Some ''7''), 1)], cqSending = None, cqReceived = []\<rparr>,
         wsExitFatal = False\<rparr>,
       ([], [''1'', ''7'', [], []])))"
  using watch_resumes_where_it_ended [OF retryAlways_forever _ _ refl,
      of "\<lparr>wsVersion = ''1'', wsQueue = NewCooldownQueue, wsExitFatal = False\<rparr>" "\<lambda>e. e = GoError ''gone''" "GoError ''gone''"
         fst snd "\<lambda>_. \<lparr>emGroup = [], emVersion = ''v1'', emKind = ''Pod'', emNamespace = ''ns'', emName = ''p''\<rparr>"
         sampleClient
         "[[((Added, Some ''5''), 0), ((Modified, Some ''7''), 1)], [((Error, Some []), 9)], []]"]
  by (simp add: NewCooldownQueue_def Enqueue_def makeEventKey_def scripted_def)

end
