(* ===== verification/Http_Properties.thy ===== *)
theory Http_Properties
  imports Http_Endpoint
begin

text \<open>
  What the HTTP endpoint promises: requests are routed by the configured resources, an accepted
  request is one message to the server, the calls it makes are well formed; and the resources it can
  never serve.
\<close>

section \<open>Starting\<close>

lemma run_http_Start:
  "http_Start env ctx (a, w) =
     (let a' = a\<lparr>htSupportedPaths := Some (buildPaths (heResources (cfHTTPEndpoint (htCfg a))))\<rparr> in
      case hxListen env (htAddr a) of
        Some e \<Rightarrow> (Ret (Some (GoWrap (''httpendpoint failed to listen on '' @ htAddr a) e)), (a', w))
      | None \<Rightarrow> (Ret None, (a'\<lparr>htServing := \<not> htShutDown a, htIsStarted := True\<rparr>, w)))"
  by (simp add: http_Start_def Let_def split: option.splits)

lemma started_paths:
  assumes "http_Start env ctx (a, w) = (Ret err, (a', w'))"
  shows "htSupportedPaths a' = Some (buildPaths (heResources (cfHTTPEndpoint (htCfg a))))"
    "htCallbacks a' = htCallbacks a" "htBaseContext a' = htBaseContext a" "w' = w"
  using assms by (auto simp: run_http_Start Let_def split: option.splits)

lemma routeSpec_Inr:
  "routeSpec resources method path = Inr (s, g, v, k) \<longleftrightarrow>
     requestTarget path = Some (g, v, k) \<and> s = requestStrategy method \<and> configured resources s g v k"
proof -
  have "configured resources s g v k \<Longrightarrow> configuredStrategy resources s"
    by (auto simp: configured_def configuredStrategy_def list_ex_iff)
  then show ?thesis
    by (auto simp: routeSpec_def Let_def split: option.splits if_splits)
qed

lemma routed_strategy_calls:
  assumes "list_all (\<lambda>res. strings_ToLower (rsStrategy res) \<in> {CopyStrategy, PatchStrategy}) resources"
    and "routeSpec resources method path = Inr x"
  shows "endpointCall lib (requestStrategy method) body obj \<noteq> None"
proof -
  obtain s g v k where x: "x = (s, g, v, k)" by (cases x)
  then have "configured resources (requestStrategy method) g v k" using assms(2) by (auto simp: routeSpec_Inr)
  then have "requestStrategy method \<in> {CopyStrategy, PatchStrategy}"
    using assms(1) by (auto simp: configured_def list_ex_iff list_all_iff)
  then show ?thesis by (auto simp: endpointCall_def Let_def)
qed

section \<open>Every request is answered\<close>

text \<open>
  A request either is answered without a call, or is for a configured resource, its object is of
  the kind the path names, and its strategy's callback was called.
\<close>

lemma ServeHTTP_cases:
  assumes "htSupportedPaths a = Some (buildPaths resources)"
  obtains (answered) status where "http_ServeHTTP lib a r = ret status" and "status \<noteq> StatusAccepted"
    | (silent) body obj where "http_ServeHTTP lib a r = ret StatusAccepted"
        and "rqBody r = Some (Inr body)" and "klUnmarshalJSON lib body = Inr obj"
        and "endpointCall lib (requestStrategy (rqMethod r)) body obj = None"
        and "\<exists>x. routeSpec resources (rqMethod r) (rqPath r) = Inr x"
    | (called) g v k body obj c where
        "http_ServeHTTP lib a r = andThen (callBack (htCallbacks a) (rqContext r) c)
           (\<lambda>err. ret (if err \<noteq> None then StatusInternalServerError else StatusAccepted))"
        and "routeSpec resources (rqMethod r) (rqPath r) = Inr (requestStrategy (rqMethod r), g, v, k)"
        and "rqBody r = Some (Inr body)" and "klUnmarshalJSON lib body = Inr obj"
        and "matchesPath lib obj g v k"
        and "endpointCall lib (requestStrategy (rqMethod r)) body obj = Some c"
proof (cases "rqPath r = ''/healthz'' \<or> rqPath r = ''/readyz''")
  case True
  then show ?thesis
    by (intro answered [of "if rqPath r = ''/healthz'' \<or> htIsStarted a then StatusOK else StatusServiceUnavailable"])
      (auto simp: http_ServeHTTP_def status_defs)
next
  case False
  then have route: "http_ServeHTTP lib a r = (case routeSpec resources (rqMethod r) (rqPath r) of
      Inl status \<Rightarrow> ret status | Inr (s, g, v, k) \<Rightarrow> serveObject lib a r s [g, v, k])"
    by (intro ServeHTTP_routes assms) auto
  show ?thesis
  proof (cases "routeSpec resources (rqMethod r) (rqPath r)")
    case (Inl status)
    then show ?thesis using route
      by (intro answered [of status]) (auto simp: routeSpec_def status_defs Let_def split: option.splits if_splits)
  next
    case (Inr x)
    obtain s g v k where x: "x = (s, g, v, k)" by (cases x)
    then have s: "s = requestStrategy (rqMethod r)" using Inr by (simp add: routeSpec_Inr)
    have run: "http_ServeHTTP lib a r = serveObject lib a r s [g, v, k]" using route Inr x by simp
    show ?thesis
    proof (cases "\<exists>body obj. rqBody r = Some (Inr body) \<and> klUnmarshalJSON lib body = Inr obj \<and> matchesPath lib obj g v k")
      case True
      then obtain body obj where b: "rqBody r = Some (Inr body)" "klUnmarshalJSON lib body = Inr obj" "matchesPath lib obj g v k"
        by blast
      then show ?thesis
        using silent [OF _ b(1,2)] called [OF _ _ b] run s x Inr
        by (cases "endpointCall lib s body obj") (simp_all add: serveObject_cases)
    next
      case False
      then have "\<exists>status. serveObject lib a r s [g, v, k] = ret status \<and> status \<noteq> StatusAccepted"
        by (auto simp: serveObject_cases status_defs split: option.splits sum.splits)
      then show ?thesis using answered run by auto
    qed
  qed
qed

section \<open>Sending in the context of the process\<close>

lemma fresh_callback:
  assumes "fresh ctx" and "identified ctx cid" and "endpointCall lib s body obj = Some c"
    and "rtNewMsgId rt w = (Ret m, v)" and "rtOutInvoke rt (Doc (call_doc isClient 1 m c)) v = (Ret err, w')"
  shows "callBack (syncCallbacks rt isClient) ctx c w = (Ret (map_option (send_error c) err), w')"
proof -
  obtain k where "call_kind c = Some k"
    using assms(3) FromUnstructured_Some [of lib obj] by (auto simp: endpointCall_def Let_def split: if_splits)
  then show ?thesis by (rule callBack_starts [OF assms(1,2) _ assms(4,5)])
qed

section \<open>The identifiers the endpoint passes on\<close>

definition lower :: "string \<Rightarrow> bool" where
  "lower s \<longleftrightarrow> strings_ToLower s = s"

definition kind_typed :: "Kind \<Rightarrow> bool" where
  "kind_typed k \<longleftrightarrow> plain_Kind k \<and> list_all (\<lambda>p. p \<noteq> [] \<and> lower p) [kGroup k, kVersion k, kResource k]"

definition id_typed :: "KindName \<Rightarrow> bool" where
  "id_typed oid \<longleftrightarrow> (case knKind oid of None \<Rightarrow> False | Some k \<Rightarrow> kind_typed k)
     \<and> lower (knName oid) \<and> lower (knNamespace oid) \<and> in_int64 (knResourceVersion oid)"

fun endpoint_typed :: "syncCall \<Rightarrow> bool" where
  "endpoint_typed (CallPut oid checksum object) = id_typed oid"
| "endpoint_typed (CallPatch oid checksum patch) = id_typed oid"
| "endpoint_typed _ = False"

lemma endpointCall_typed:
  assumes "requestTarget path = Some (g, v, k)" and "matchesPath lib obj g v k"
    and "endpointCall lib s body obj = Some c"
  shows "endpoint_typed c"
proof -
  note parts = requestTarget_parts [OF assms(1)]
  have "id_typed (FromUnstructured lib (Some obj))"
    using FromUnstructured_Some [of lib obj] assms(2) parts
    by (auto simp: id_typed_def kind_typed_def lower_def matchesPath_def plain_Kind_def ToResourceVersion_in_int64)
  then show ?thesis using assms(3) by (auto simp: endpointCall_def Let_def split: if_splits)
qed

text \<open>A resource no request can name.\<close>

definition unreachable :: "Resource \<Rightarrow> bool" where
  "unreachable res \<longleftrightarrow> rsGroup res = [] \<or> \<not> lower (rsGroup res) \<or> \<not> lower (rsVersion res) \<or> \<not> lower (rsResource res)"

lemma routed_is_reachable:
  assumes "routeSpec resources method path = Inr x"
  shows "\<exists>res \<in> set resources. \<not> unreachable res \<and> strings_ToLower (rsStrategy res) = requestStrategy method
     \<and> requestTarget path = Some (rsGroup res, rsVersion res, rsResource res)"
proof -
  obtain s g v k where x: "x = (s, g, v, k)" by (cases x)
  have target: "requestTarget path = Some (g, v, k)" and "configured resources (requestStrategy method) g v k"
    using assms by (auto simp: x routeSpec_Inr)
  then obtain res where "res \<in> set resources" "strings_ToLower (rsStrategy res) = requestStrategy method"
    "rsGroup res = g" "rsVersion res = v" "rsResource res = k"
    by (auto simp: configured_def list_ex_iff)
  moreover from this have "\<not> unreachable res" using requestTarget_parts [OF target] by (auto simp: unreachable_def lower_def)
  ultimately show ?thesis using target by blast
qed

text \<open>The kind of a resource as the endpoint passes it on.\<close>

definition resourceKind :: "Resource \<Rightarrow> Kind" where
  "resourceKind res = \<lparr>kGroup = rsGroup res, kVersion = rsVersion res, kResource = rsResource res, kAdditionalProperties = None\<rparr>"

lemma endpointCall_kind:
  assumes "matchesPath lib obj g v k" and "endpointCall lib s body obj = Some c"
  shows "call_kind c = Some \<lparr>kGroup = g, kVersion = v, kResource = k, kAdditionalProperties = None\<rparr>"
  using assms by (auto simp: endpointCall_def matchesPath_def Let_def split: if_splits)

section \<open>A sample endpoint\<close>

definition alert :: json where
  "alert = JObj [(''apiVersion'', JStr ''test-ks/v1''), (''kind'', JStr ''Alerts''),
     (''metadata'', JObj [(''name'', JStr ''A1''), (''resourceVersion'', JStr ''7'')])]"

definition alertLib :: "json kubelib" where
  "alertLib = treeKube\<lparr>klUnmarshalJSON := \<lambda>s. Inr alert\<rparr>"

definition alertConfig :: "Resource list \<Rightarrow> Config" where
  "alertConfig resources = \<lparr>
     cfBackend = \<lparr>bcPort = 0, bcAuthenticationServer = None, bcSubscription = [], bcPulsarConfig = False,
       bcProducerTopic = [], bcConsumerTopic = [], bcConsumerWorkers = 0, bcPrometheus = None, bcReconciliationTask = None,
       bcKeepAliveTask = None, bcSkipAlertsFrom = [], bcFeaturesProvider = None, bcMessageQueue = None\<rparr>,
     cfInCluster = \<lparr>cfgServerUrl = ''ws://server'', cfgNamespace = ''kubescape'', cfgClusterName = ''cluster'',
       cfgExcludeNamespaces = [], cfgIncludeNamespaces = [], cfgAccount = ''acc'', cfgAccessKey = ''key'',
       cfgResources = []\<rparr>,
     cfHTTPEndpoint = \<lparr>heServerPort = ''8089'', heResources = resources\<rparr>\<rparr>"

definition alertResource :: Resource where
  "alertResource = \<lparr>rsGroup = ''test-ks'', rsVersion = ''v1'', rsResource = ''alerts'', rsStrategy = ''Copy''\<rparr>"

definition alertPost :: httpRequest where
  "alertPost = \<lparr>rqMethod = ''POST'', rqPath = ''/apis/v1/test-ks/v1/Alerts'', rqContext = [],
     rqBody = Some (Inr ''{...}'')\<rparr>"

definition openEnv :: httpEnv where
  "openEnv = \<lparr>hxListen = (\<lambda>addr. None), hxShutdown = (\<lambda>ctx. None)\<rparr>"

definition processCtx :: Context where
  "processCtx = [(ContextKeyClientIdentifier, CtxClient (zero_ClientIdentifier\<lparr>ciAccount := ''acc'', ciCluster := ''cluster''\<rparr>))]"

text \<open>The endpoint after the synchronizer has registered its callbacks and started it.\<close>

definition startedEndpoint :: "'w Callbacks \<Rightarrow> Resource list \<Rightarrow> 'w HTTPAdapter" where
  "startedEndpoint cbs resources =
     (http_RegisterCallbacks processCtx cbs (NewHTTPEndpointAdapter (alertConfig resources)))
       \<lparr>htSupportedPaths := Some (buildPaths resources), htServing := True, htIsStarted := True\<rparr>"

lemma run_startedEndpoint:
  "http_Start openEnv processCtx (http_RegisterCallbacks processCtx cbs (NewHTTPEndpointAdapter (alertConfig resources)), w)
     = (Ret None, (startedEndpoint cbs resources, w))"
  by (simp add: run_http_Start startedEndpoint_def openEnv_def http_RegisterCallbacks_def
      NewHTTPEndpointAdapter_def alertConfig_def)

lemma alert_lower [simp]:
  "strings_ToLower ''Copy'' = ''copy''" "strings_ToLower ''Alerts'' = ''alerts''" "strings_ToLower ''A1'' = ''a1''"
  "strings_ToLower ''test-ks/v1'' = ''test-ks/v1''" "strings_ToLower [] = []"
  by code_simp+

lemma alert_kind [simp]:
  "FromUnstructured alertLib (Some alert) =
     \<lparr>knKind = Some \<lparr>kGroup = ''test-ks'', kVersion = ''v1'', kResource = ''alerts'', kAdditionalProperties = None\<rparr>,
      knName = ''a1'', knNamespace = [], knResourceVersion = 7\<rparr>"
proof -
  have "ToResourceVersion ''7'' = 7" by code_simp
  then show ?thesis
    by (simp add: FromUnstructured_def alertLib_def treeKube_def alert_def asString_def)
qed

lemma alert_targets [simp]:
  "requestTarget ''/apis/v1/test-ks/v1/Alerts'' = Some (''test-ks'', ''v1'', ''alerts'')"
  "requestTarget ''/apis/v1/test-ks/v1/pods'' = Some (''test-ks'', ''v1'', ''pods'')"
  "requestTarget ''/apis/v1/pods'' = None"
  by code_simp+

section \<open>Properties\<close>

text \<open>
  C10. Routing through the four nested maps that \<open>Start\<close> builds gives the same answer to every
  request as the list of configured resources: bad request when the path is not
  \<open>/apis/v1/group/version/resource\<close>, method not allowed when no resource has the strategy of the
  method, not found when none has this strategy, group, version and resource. The body is looked at
  exactly when one has.
\<close>

theorem endpoint_routes_by_configuration:
  assumes "http_Start env ctx (a, w) = (Ret err, (a', w'))"
    and "rqPath r \<noteq> ''/healthz''" and "rqPath r \<noteq> ''/readyz''"
  shows "http_ServeHTTP lib a' r =
       (case routeSpec (heResources (cfHTTPEndpoint (htCfg a))) (rqMethod r) (rqPath r) of
          Inl status \<Rightarrow> ret status
        | Inr (s, g, v, k) \<Rightarrow> serveObject lib a' r s [g, v, k])"
  by (rule ServeHTTP_routes [OF assms(2,3) started_paths(1) [OF assms(1)]])

theorem endpoint_routes_by_configuration_witness:
  "http_ServeHTTP alertLib (startedEndpoint recorder [alertResource]) (alertPost\<lparr>rqMethod := ''PUT''\<rparr>) = ret 405
   \<and> http_ServeHTTP alertLib (startedEndpoint recorder [alertResource]) (alertPost\<lparr>rqPath := ''/apis/v1/test-ks/v1/pods''\<rparr>) = ret 404
   \<and> http_ServeHTTP alertLib (startedEndpoint recorder [alertResource]) (alertPost\<lparr>rqPath := ''/apis/v1/pods''\<rparr>) = ret 400"
  by (simp add: endpoint_routes_by_configuration [OF run_startedEndpoint] alertPost_def routeSpec_def
      alertConfig_def NewHTTPEndpointAdapter_def
      http_RegisterCallbacks_def configured_def configuredStrategy_def alertResource_def requestStrategy_def
      PatchStrategy_def CopyStrategy_def status_defs)

text \<open>
  C7. An accepted request is one message to the server: when every resource is configured with the strategy copy
  or patch, in whatever case, and the synchronizer has registered its callbacks and started the endpoint, every
  request is answered without a panic, a request that is answered with 202 has handed exactly one message to the
  outgoing pool, the put (POST) or patch (PUT or PATCH) of the object in its body at depth 1, and any other
  request has sent nothing. (A resource configured with another strategy would be accepted without sending
  anything.)
\<close>

theorem accepted_request_is_one_message:
  assumes rt: "runtime_contract rt sent" and ctx: "identified ctx cid" "fresh ctx"
    and strategies: "list_all (\<lambda>res. strings_ToLower (rsStrategy res) \<in> {CopyStrategy, PatchStrategy}) (heResources (cfHTTPEndpoint (htCfg a)))"
    and start: "http_Start env startCtx (http_RegisterCallbacks ctx (syncCallbacks rt True) a, w0) = (Ret err, (a', w1))"
  shows "\<exists>status w' msgs. http_serve lib a' r w = (Ret status, w') \<and> sent w' = sent w @ msgs
     \<and> (if status = StatusAccepted
        then \<exists>body obj m c. rqBody r = Some (Inr body) \<and> klUnmarshalJSON lib body = Inr obj
          \<and> endpointCall lib (requestStrategy (rqMethod r)) body obj = Some c \<and> msgs = [Doc (call_doc True 1 m c)]
        else msgs = [])"
proof -
  let ?r = "r\<lparr>rqContext := ctx\<rparr>"
  have a': "htCallbacks a' = syncCallbacks rt True" "htBaseContext a' = Some ctx"
    and paths: "htSupportedPaths a' = Some (buildPaths (heResources (cfHTTPEndpoint (htCfg a))))"
    using started_paths [OF start] by (simp_all add: http_RegisterCallbacks_def)
  show ?thesis
  proof (cases "rqPath r = ''/healthz''")
    case True
    then show ?thesis by (simp add: http_serve_def status_defs)
  next
    case False
    then have run: "http_serve lib a' r = http_ServeHTTP lib a' ?r" by (simp add: http_serve_def a')
    from paths show ?thesis
    proof (cases rule: ServeHTTP_cases [where lib = lib and r = ?r])
      case (answered status)
      then show ?thesis using run by simp
    next
      case (silent body obj)
      then obtain x where "routeSpec (heResources (cfHTTPEndpoint (htCfg a))) (rqMethod r) (rqPath r) = Inr x" by auto
      from routed_strategy_calls [OF strategies this, of lib body obj] silent(4) show ?thesis by simp
    next
      case (called g v k body obj c)
      obtain m v where new: "rtNewMsgId rt w = (Ret m, v)" "sent v = sent w"
        by (rule runtime_contract_NewMsgId [OF rt])
      let ?f = "Doc (call_doc True 1 m c)"
      obtain err v' where out: "rtOutInvoke rt ?f v = (Ret err, v')"
        and sent: "sent v' = sent w @ (if err = None then [?f] else [])"
        by (rule runtime_contract_Invoke [OF rt, of ?f v]) (auto simp: new(2))
      have "callBack (htCallbacks a') ctx c w = (Ret (map_option (send_error c) err), v')"
        using fresh_callback [OF ctx(2,1) called(6) new(1) out] a'(1) by simp
      then have "http_serve lib a' r w = (Ret (if err = None then StatusAccepted else StatusInternalServerError), v')"
        using called(1) run by (auto simp: andThen_def)
      then show ?thesis using sent called by (cases err) (auto simp: status_defs)
    qed
  qed
qed

theorem accepted_request_is_one_message_witness:
  "\<exists>status w' msgs. http_serve alertLib (startedEndpoint (syncCallbacks listRuntime True) [alertResource]) alertPost []
       = (Ret status, w') \<and> w' = [] @ msgs
     \<and> (if status = StatusAccepted
        then \<exists>body obj m c. rqBody alertPost = Some (Inr body) \<and> klUnmarshalJSON alertLib body = Inr obj
          \<and> endpointCall alertLib (requestStrategy (rqMethod alertPost)) body obj = Some c \<and> msgs = [Doc (call_doc True 1 m c)]
        else msgs = [])"
  by (rule accepted_request_is_one_message [OF listRuntime_contract _ _ _ run_startedEndpoint])
    (simp_all add: identified_def fresh_def processCtx_def ctx_Value_def contextKey_defs NewHTTPEndpointAdapter_def
      alertConfig_def alertResource_def CopyStrategy_def)

text \<open>
  C28. What the endpoint asks of the server is well formed whatever the state and the request: it
  makes at most one call, a put or a patch in the context of the request, and the identifier it
  passes has a kind whose group, version and resource are non-empty, in lower case and free of
  slashes (so that the kind survives being used as a key), a name and a namespace in lower case, and
  a resource version that is an \<open>int\<close>.
\<close>

theorem endpoint_calls_are_well_typed:
  assumes "http_Start env ctx (a, w0) = (Ret err, (a', w1))" and "htCallbacks a = recorder"
  shows "\<exists>calls. snd (http_ServeHTTP lib a' r w) = w @ calls \<and> length calls \<le> 1
     \<and> list_all (\<lambda>(c_ctx, c). c_ctx = rqContext r \<and> endpoint_typed c) calls"
  using started_paths(1) [OF assms(1)]
proof (cases rule: ServeHTTP_cases [where lib = lib and r = r])
  case (called g v k body obj c)
  have "htCallbacks a' = recorder" using started_paths(2) [OF assms(1)] assms(2) by simp
  then have "snd (http_ServeHTTP lib a' r w) = w @ [(rqContext r, c)]"
    by (simp add: called(1) andThen_def)
  moreover have "endpoint_typed c"
    using endpointCall_typed [OF _ called(5,6)] called(2) by (auto simp: routeSpec_Inr)
  ultimately show ?thesis by simp
qed simp_all

theorem endpoint_calls_are_well_typed_witness:
  "\<exists>calls. snd (http_ServeHTTP alertLib (startedEndpoint recorder [alertResource]) alertPost []) = [] @ calls
     \<and> length calls \<le> 1 \<and> list_all (\<lambda>(c_ctx, c). c_ctx = rqContext alertPost \<and> endpoint_typed c) calls"
  by (rule endpoint_calls_are_well_typed [OF run_startedEndpoint]) (simp add: http_RegisterCallbacks_def)

text \<open>
  C37. The path of a request is lower-cased before it is looked up, but of a configured resource only the
  strategy is: a resource whose group, version or resource has an upper-case letter, or whose group is empty
  (the core group of Kubernetes), is never served, whatever else is configured. A request that is accepted or
  reaches the callbacks names another configured resource, and no call is for the kind of such a resource.
\<close>

theorem unreachable_resources_are_never_served:
  assumes "http_Start env ctx (a, w0) = (Ret err, (a', w1))" and "htCallbacks a = recorder"
    and "res \<in> set (heResources (cfHTTPEndpoint (htCfg a)))" and "unreachable res"
  shows "\<exists>status calls. http_ServeHTTP lib a' r w = (Ret status, w @ calls)
     \<and> (status = StatusAccepted \<or> calls \<noteq> [] \<longrightarrow> (\<exists>res' \<in> set (heResources (cfHTTPEndpoint (htCfg a))).
          resourceKind res' \<noteq> resourceKind res \<and> strings_ToLower (rsStrategy res') = requestStrategy (rqMethod r)
          \<and> requestTarget (rqPath r) = Some (rsGroup res', rsVersion res', rsResource res')))
     \<and> list_all (\<lambda>(c_ctx, c). call_kind c \<noteq> Some (resourceKind res)) calls"
proof -
  let ?resources = "heResources (cfHTTPEndpoint (htCfg a))"
  have differ: "resourceKind res' \<noteq> resourceKind res" if "\<not> unreachable res'" for res'
    using that assms(4) by (auto simp: resourceKind_def unreachable_def)
  have served: "\<exists>res' \<in> set ?resources. resourceKind res' \<noteq> resourceKind res \<and> strings_ToLower (rsStrategy res') = requestStrategy (rqMethod r)
      \<and> requestTarget (rqPath r) = Some (rsGroup res', rsVersion res', rsResource res')"
    if "routeSpec ?resources (rqMethod r) (rqPath r) = Inr x" for x
    using routed_is_reachable [OF that] differ by blast
  from started_paths(1) [OF assms(1)] show ?thesis
  proof (cases rule: ServeHTTP_cases [where lib = lib and r = r])
    case (answered status)
    then show ?thesis by simp
  next
    case (silent body obj)
    then show ?thesis using served by auto
  next
    case (called g v k body obj c)
    have "htCallbacks a' = recorder" using started_paths(2) [OF assms(1)] assms(2) by simp
    then have "http_ServeHTTP lib a' r w = (Ret StatusAccepted, w @ [(rqContext r, c)])" by (simp add: called(1) andThen_def)
    moreover have "requestTarget (rqPath r) = Some (g, v, k)" using called(2) by (simp add: routeSpec_Inr)
    then have "call_kind c \<noteq> Some (resourceKind res)"
      using served [OF called(2)] endpointCall_kind [OF called(5,6)] by (auto simp: resourceKind_def)
    ultimately show ?thesis using served [OF called(2)] by simp
  qed
qed

text \<open>Beside a resource that is served, the same with an upper-case letter, and one of the core group.\<close>

definition mixedResources :: "Resource list" where
  "mixedResources = [alertResource, alertResource\<lparr>rsResource := ''Alerts''\<rparr>, alertResource\<lparr>rsGroup := []\<rparr>]"

theorem unreachable_resources_are_never_served_witness:
  "\<exists>status calls. http_ServeHTTP alertLib (startedEndpoint recorder mixedResources) alertPost [] = (Ret status, [] @ calls)
     \<and> list_all (\<lambda>(c_ctx, c). call_kind c \<noteq> Some (resourceKind (alertResource\<lparr>rsResource := ''Alerts''\<rparr>))) calls"
proof -
  have "unreachable (alertResource\<lparr>rsResource := ''Alerts''\<rparr>)" by (simp add: unreachable_def lower_def alertResource_def)
  then have "\<exists>status calls. http_ServeHTTP alertLib (startedEndpoint recorder mixedResources) alertPost [] = (Ret status, [] @ calls)
     \<and> (status = StatusAccepted \<or> calls \<noteq> [] \<longrightarrow> (\<exists>res' \<in> set mixedResources.
          resourceKind res' \<noteq> resourceKind (alertResource\<lparr>rsResource := ''Alerts''\<rparr>)
          \<and> strings_ToLower (rsStrategy res') = requestStrategy (rqMethod alertPost)
          \<and> requestTarget (rqPath alertPost) = Some (rsGroup res', rsVersion res', rsResource res')))
     \<and> list_all (\<lambda>(c_ctx, c). call_kind c \<noteq> Some (resourceKind (alertResource\<lparr>rsResource := ''Alerts''\<rparr>))) calls"
    using unreachable_resources_are_never_served [OF run_startedEndpoint [of recorder mixedResources "[]"],
        of "alertResource\<lparr>rsResource := ''Alerts''\<rparr>" alertLib alertPost "[]"]
    by (simp add: http_RegisterCallbacks_def NewHTTPEndpointAdapter_def alertConfig_def) (simp add: mixedResources_def)
  then show ?thesis by blast
qed

end
