(* ===== verification/Http_Proxy.thy ===== *)
theory Http_Proxy
  imports Go_Base64
begin

text \<open>
  \<open>utils/http_proxy.go\<close>: dialing through an HTTP proxy with a \<open>CONNECT\<close> request, and which proxy the
  environment asks for. The network, the URL parser and \<open>golang.org/x/net/proxy\<close> are arguments: the
  record \<open>proxyIO\<close> of operations on connections \<open>'c\<close>, and the two functions \<open>GetDialer\<close> calls.
\<close>

record proxyURL =
  pxScheme :: string
  pxHost :: string
  pxUser :: "(string \<times> string option) option"

record httpProxy =
  hpHost :: string
  hpHaveAuth :: bool
  hpUsername :: string
  hpPassword :: string

record connectRequest =
  rcMethod :: string
  rcURL :: string
  rcClose :: bool
  rcHeader :: "(string \<times> string) list"

text \<open>\<open>pioParse\<close> parses a URL and gives it back without its scheme. A response: its status code, its status line and its body, which can be closed.\<close>

record 'r connectResponse =
  rpStatusCode :: int
  rpStatus :: string
  rpBody :: 'r

record ('c, 'r, 'w) proxyIO =
  pioForward :: "string \<Rightarrow> string \<Rightarrow> ('w, goerror + 'c) go"
  pioParse :: "string \<Rightarrow> goerror + string"
  pioNewRequest :: "string \<Rightarrow> string \<Rightarrow> goerror + connectRequest"
  pioWrite :: "connectRequest \<Rightarrow> 'c \<Rightarrow> ('w, goerror option) go"
  pioReadResponse :: "'c \<Rightarrow> ('w, 'r connectResponse option \<times> goerror option) go"
  pioCloseBody :: "'r \<Rightarrow> ('w, unit) go"
  pioClose :: "'c \<Rightarrow> ('w, unit) go"

definition newHTTPProxy :: "proxyURL \<Rightarrow> httpProxy" where
  "newHTTPProxy uri =
     (case pxUser uri of
        None \<Rightarrow> \<lparr>hpHost = pxHost uri, hpHaveAuth = False, hpUsername = [], hpPassword = []\<rparr>
      | Some (username, password) \<Rightarrow> \<lparr>hpHost = pxHost uri, hpHaveAuth = True, hpUsername = username,
          hpPassword = (case password of None \<Rightarrow> [] | Some p \<Rightarrow> p)\<rparr>)"

section \<open>Dial\<close>

definition credential :: "httpProxy \<Rightarrow> string" where
  "credential s = base64_encode (hpUsername s @ '':'' @ hpPassword s)"

definition withCredentials :: "httpProxy \<Rightarrow> connectRequest \<Rightarrow> connectRequest" where
  "withCredentials s req =
     (if hpHaveAuth s
      then req\<lparr>rcHeader := (''Proxy-Authorization'', ''Basic '' @ credential s)
             # filter (\<lambda>(k, _). k \<noteq> ''Proxy-Authorization'') (rcHeader req)\<rparr>
      else req)"

text \<open>\<open>_ = c.Close(); return nil, err\<close>\<close>

definition closeAnd :: "('c, 'r, 'w) proxyIO \<Rightarrow> 'c \<Rightarrow> goerror \<Rightarrow> ('w, goerror + 'c) go" where
  "closeAnd io c e = andThen (pioClose io c) (\<lambda>_. ret (Inl e))"

text \<open>The end of \<open>Dial\<close>: the answer of the proxy.\<close>

definition awaitConnect :: "('c, 'r, 'w) proxyIO \<Rightarrow> 'c \<Rightarrow> ('w, goerror + 'c) go" where
  "awaitConnect io c =
     andThen (pioReadResponse io c) (\<lambda>(resp, err).
     case err of
       Some e \<Rightarrow>
         andThen (case resp of None \<Rightarrow> ret () | Some resp \<Rightarrow> pioCloseBody io (rpBody resp)) (\<lambda>_.
         closeAnd io c (GoWrap ''read CONNECT response'' e))
     | None \<Rightarrow>
     case resp of
       None \<Rightarrow> panic ''nil pointer dereference''
     | Some resp \<Rightarrow>
         andThen (pioCloseBody io (rpBody resp)) (\<lambda>_.
         if rpStatusCode resp \<noteq> 200
         then closeAnd io c (GoError (''CONNECT response: '' @ rpStatus resp))
         else ret (Inr c)))"

definition httpProxy_Dial :: "('c, 'r, 'w) proxyIO \<Rightarrow> httpProxy \<Rightarrow> string \<Rightarrow> ('w, goerror + 'c) go" where
  "httpProxy_Dial io s addr =
     andThen (pioForward io ''tcp'' (hpHost s)) (\<lambda>dialed.
     case dialed of
       Inl e \<Rightarrow> ret (Inl (GoWrap ''dial proxy'' e))
     | Inr c \<Rightarrow>
     case pioParse io (''http://'' @ addr) of
       Inl e \<Rightarrow> closeAnd io c (GoWrap ''parse addr'' e)
     | Inr reqURL \<Rightarrow>
     case pioNewRequest io ''CONNECT'' reqURL of
       Inl e \<Rightarrow> closeAnd io c (GoWrap ''create CONNECT request'' e)
     | Inr req \<Rightarrow>
     andThen (pioWrite io (withCredentials s (req\<lparr>rcClose := False\<rparr>)) c) (\<lambda>err.
     case err of
       Some e \<Rightarrow> closeAnd io c (GoWrap ''write CONNECT request'' e)
     | None \<Rightarrow>
     awaitConnect io c))"

section \<open>GetDialer\<close>

text \<open>The dialer the environment asks for; an error is fatal, it ends the process.\<close>

datatype 'd dialerChoice = EnvironmentDialer 'd | ProxyDialer 'd

fun lastProxy :: "(string \<Rightarrow> goerror + proxyURL) \<Rightarrow> (string \<Rightarrow> string) \<Rightarrow> proxyURL option \<Rightarrow> string list \<Rightarrow>
    goerror + proxyURL option" where
  "lastProxy parse getenv proxyURI [] = Inr proxyURI"
| "lastProxy parse getenv proxyURI (envVar # envVars) =
     (if getenv envVar \<noteq> []
      then (case parse (getenv envVar) of
              Inl e \<Rightarrow> Inl (GoWrap ''failed to parse proxy URI'' e)
            | Inr uri \<Rightarrow> lastProxy parse getenv (Some uri) envVars)
      else lastProxy parse getenv proxyURI envVars)"

definition GetDialer :: "(string \<Rightarrow> goerror + proxyURL) \<Rightarrow> (string \<Rightarrow> string) \<Rightarrow> 'd \<Rightarrow>
    (proxyURL \<Rightarrow> goerror + 'd) \<Rightarrow> goerror + 'd dialerChoice" where
  "GetDialer parse getenv fromEnvironment fromURL =
     (case lastProxy parse getenv None [''HTTP_PROXY'', ''HTTPS_PROXY''] of
        Inl e \<Rightarrow> Inl e
      | Inr None \<Rightarrow> Inr (EnvironmentDialer fromEnvironment)
      | Inr (Some proxyURI) \<Rightarrow>
          (case fromURL proxyURI of
             Inl e \<Rightarrow> Inl (GoWrap ''failed to create proxy dialer'' e)
           | Inr dial \<Rightarrow> Inr (ProxyDialer dial)))"

text \<open>HTTPS takes precedence, when both parse.\<close>

lemma https_proxy_wins:
  assumes "getenv ''HTTPS_PROXY'' \<noteq> []" and "parse (getenv ''HTTPS_PROXY'') = Inr uri"
    and "getenv ''HTTP_PROXY'' = [] \<or> parse (getenv ''HTTP_PROXY'') = Inr other" and "fromURL uri = Inr dial"
  shows "GetDialer parse getenv fromEnvironment fromURL = Inr (ProxyDialer dial)"
  using assms by (auto simp: GetDialer_def)

text \<open>What the proxy decodes is the user name and the password.\<close>

lemma credential_decodes: "base64_decode (credential s) = Some (hpUsername s @ '':'' @ hpPassword s)"
  by (simp add: credential_def base64_roundtrip)

section \<open>Open connections\<close>

text \<open>
  The documented behaviour of the network operations, seen through the set of open connections:
  dialing opens a new one or none, closing closes it, reading and writing leave it open, and a
  response without an error is there.
\<close>

definition proxyIO_contract :: "('c, 'r, 'w) proxyIO \<Rightarrow> ('w \<Rightarrow> 'c set) \<Rightarrow> bool" where
  "proxyIO_contract io opened \<longleftrightarrow>
     (\<forall>n h w. (\<exists>e w'. pioForward io n h w = (Ret (Inl e), w') \<and> opened w' = opened w) \<or>
              (\<exists>c w'. pioForward io n h w = (Ret (Inr c), w') \<and> c \<notin> opened w \<and> opened w' = insert c (opened w))) \<and>
     (\<forall>req c w. \<exists>err w'. pioWrite io req c w = (Ret err, w') \<and> opened w' = opened w) \<and>
     (\<forall>c w. \<exists>resp err w'. pioReadResponse io c w = (Ret (resp, err), w') \<and> opened w' = opened w \<and> (err = None \<longrightarrow> resp \<noteq> None)) \<and>
     (\<forall>b w. \<exists>w'. pioCloseBody io b w = (Ret (), w') \<and> opened w' = opened w) \<and>
     (\<forall>c w. \<exists>w'. pioClose io c w = (Ret (), w') \<and> opened w' = opened w - {c})"

lemma proxyIO_contractD:
  assumes "proxyIO_contract io opened"
  shows "(\<exists>e w'. pioForward io n h w = (Ret (Inl e), w') \<and> opened w' = opened w) \<or>
      (\<exists>c w'. pioForward io n h w = (Ret (Inr c), w') \<and> c \<notin> opened w \<and> opened w' = insert c (opened w))"
    and "\<exists>err w'. pioWrite io req c w = (Ret err, w') \<and> opened w' = opened w"
    and "\<exists>resp err w'. pioReadResponse io c w = (Ret (resp, err), w') \<and> opened w' = opened w \<and> (err = None \<longrightarrow> resp \<noteq> None)"
    and "\<exists>w'. pioCloseBody io b w = (Ret (), w') \<and> opened w' = opened w"
    and "\<exists>w'. pioClose io c w = (Ret (), w') \<and> opened w' = opened w - {c}"
  using assms unfolding proxyIO_contract_def by simp_all

text \<open>From a state where \<open>c\<close> was opened on top of \<open>base\<close>: either \<open>c\<close> is given back or it is closed.\<close>

definition settles :: "('w \<Rightarrow> 'c set) \<Rightarrow> 'c \<Rightarrow> 'c set \<Rightarrow> ('w, goerror + 'c) go \<Rightarrow> bool" where
  "settles opened c base m \<longleftrightarrow> (\<forall>w. opened w = insert c base \<longrightarrow>
     (\<exists>e w'. m w = (Ret (Inl e), w') \<and> opened w' = base) \<or>
     (\<exists>w'. m w = (Ret (Inr c), w') \<and> opened w' = insert c base))"

lemma settles_close:
  assumes "proxyIO_contract io opened" and "c \<notin> base"
  shows "settles opened c base (closeAnd io c e)"
  unfolding settles_def
proof (intro allI impI disjI1)
  fix w assume w: "opened w = insert c base"
  obtain w' where "pioClose io c w = (Ret (), w')" "opened w' = opened w - {c}"
    using proxyIO_contractD(5) [OF assms(1)] by blast
  then show "\<exists>e' w'. closeAnd io c e w = (Ret (Inl e'), w') \<and> opened w' = base"
    using w assms(2) by (simp add: closeAnd_def)
qed

lemma settles_ret: "settles opened c base (ret (Inr c))"
  by (simp add: settles_def)

lemma settles_andThen:
  assumes "\<And>w. \<exists>a w'. m w = (Ret a, w') \<and> opened w' = opened w \<and> P a" and "\<And>a. P a \<Longrightarrow> settles opened c base (f a)"
  shows "settles opened c base (andThen m f)"
  unfolding settles_def
proof (intro allI impI)
  fix w assume w: "opened w = insert c base"
  obtain a w' where a: "m w = (Ret a, w')" "opened w' = opened w" "P a" using assms(1) by blast
  then have "andThen m f w = f a w'" by simp
  then show "(\<exists>e w'. andThen m f w = (Ret (Inl e), w') \<and> opened w' = base) \<or>
     (\<exists>w'. andThen m f w = (Ret (Inr c), w') \<and> opened w' = insert c base)"
    using assms(2) [OF a(3)] a(2) w unfolding settles_def by auto
qed

lemma settles_awaitConnect:
  assumes io: "proxyIO_contract io opened" and "c \<notin> base"
  shows "settles opened c base (awaitConnect io c)"
  unfolding awaitConnect_def
proof (rule settles_andThen [where P = "\<lambda>(resp, err). err = None \<longrightarrow> resp \<noteq> None"], goal_cases)
  case (1 w)
  show ?case using proxyIO_contractD(3) [OF io, of c w] by auto
next
  case (2 a)
  have body: "\<exists>u w'. pioCloseBody io b w = (Ret u, w') \<and> opened w' = opened w \<and> True" for b w
    using proxyIO_contractD(4) [OF io, of b w] by auto
  show ?case using 2
    by (cases a) (auto split: option.splits
        intro!: settles_close [OF assms] settles_ret settles_andThen [where P = "\<lambda>_. True", OF body])
qed

section \<open>Properties\<close>

text \<open>
  C32. Dialing through the proxy leaks no connection: whatever fails on the way (the address, the
  request, writing it, reading the answer, an answer other than 200), an error is returned and every
  connection that was opened is closed again; on success exactly the returned connection is new and
  open.
\<close>

theorem proxy_dial_leaks_nothing:
  assumes io: "proxyIO_contract io opened"
  shows "(\<exists>e w'. httpProxy_Dial io s addr w = (Ret (Inl e), w') \<and> opened w' = opened w)
     \<or> (\<exists>c w'. httpProxy_Dial io s addr w = (Ret (Inr c), w') \<and> c \<notin> opened w \<and> opened w' = insert c (opened w))"
  using proxyIO_contractD(1) [OF io, of "''tcp''" "hpHost s" w]
proof (elim disjE exE conjE)
  fix e w' assume "pioForward io ''tcp'' (hpHost s) w = (Ret (Inl e), w')" "opened w' = opened w"
  then show ?thesis by (simp add: httpProxy_Dial_def)
next
  fix c w' assume c: "pioForward io ''tcp'' (hpHost s) w = (Ret (Inr c), w')" "c \<notin> opened w"
    "opened w' = insert c (opened w)"
  have written: "\<exists>err w'. pioWrite io req c v = (Ret err, w') \<and> opened w' = opened v \<and> True" for req v
    using proxyIO_contractD(2) [OF io, of req c v] by auto
  obtain m where "httpProxy_Dial io s addr w = m w'" and "settles opened c (opened w) m"
  proof (rule that)
    show "httpProxy_Dial io s addr w =
       (case pioParse io (''http://'' @ addr) of
         Inl e \<Rightarrow> closeAnd io c (GoWrap ''parse addr'' e)
       | Inr reqURL \<Rightarrow> (case pioNewRequest io ''CONNECT'' reqURL of
           Inl e \<Rightarrow> closeAnd io c (GoWrap ''create CONNECT request'' e)
         | Inr req \<Rightarrow> andThen (pioWrite io (withCredentials s (req\<lparr>rcClose := False\<rparr>)) c) (\<lambda>err.
             case err of Some e \<Rightarrow> closeAnd io c (GoWrap ''write CONNECT request'' e) | None \<Rightarrow> awaitConnect io c))) w'"
      using c(1) by (simp add: httpProxy_Dial_def)
  qed (auto split: sum.splits option.splits intro!: settles_close [OF io c(2)] settles_awaitConnect [OF io c(2)]
      settles_andThen [where P = "\<lambda>_. True", OF written])
  then show ?thesis using c unfolding settles_def by auto
qed

text \<open>A network of numbered connections that opens the next one and answers every request with 200.\<close>

definition numberedIO :: "(nat, unit, nat set) proxyIO" where
  "numberedIO = \<lparr>
     pioForward = (\<lambda>n h w. if finite w then (Ret (Inr (if w = {} then 0 else Suc (Max w))), insert (if w = {} then 0 else Suc (Max w)) w)
        else (Ret (Inl (GoError ''too many'')), w)),
     pioParse = Inr, pioNewRequest = (\<lambda>m u. Inr \<lparr>rcMethod = m, rcURL = u, rcClose = False, rcHeader = []\<rparr>),
     pioWrite = (\<lambda>req c. ret None),
     pioReadResponse = (\<lambda>c. ret (Some \<lparr>rpStatusCode = 200, rpStatus = ''200 OK'', rpBody = ()\<rparr>, None)),
     pioCloseBody = (\<lambda>b. ret ()), pioClose = (\<lambda>c w. (Ret (), w - {c}))\<rparr>"

lemma numberedIO_contract: "proxyIO_contract numberedIO (\<lambda>w. w)"
proof -
  have "Suc (Max w) \<notin> w" if "finite w" for w :: "nat set"
    using that Max_ge Suc_n_not_le_n by blast
  then show ?thesis by (auto simp: proxyIO_contract_def numberedIO_def)
qed

theorem proxy_dial_leaks_nothing_witness:
  "(\<exists>e w'. httpProxy_Dial numberedIO \<lparr>hpHost = ''proxy:3128'', hpHaveAuth = True, hpUsername = ''u'', hpPassword = ''p''\<rparr>
       ''server:443'' {} = (Ret (Inl e), w') \<and> w' = {})
   \<or> (\<exists>c w'. httpProxy_Dial numberedIO \<lparr>hpHost = ''proxy:3128'', hpHaveAuth = True, hpUsername = ''u'', hpPassword = ''p''\<rparr>
       ''server:443'' {} = (Ret (Inr c), w') \<and> c \<notin> {} \<and> w' = insert c {})"
  by (rule proxy_dial_leaks_nothing [OF numberedIO_contract])

end
