(* ===== verification/Connection_Setup.thy ===== *)
theory Connection_Setup
  imports Client_Process
begin

text \<open>
  The client process and the middleware of the server together: what a client configures is what the
  server knows of the connection, and a starting client the middleware refuses gives up.
\<close>

section \<open>Headers on the wire\<close>

text \<open>A value that can be sent as it is: printable, without blanks at its ends.\<close>

definition header_safe :: "string \<Rightarrow> bool" where
  "header_safe v \<longleftrightarrow> list_all (\<lambda>c. 32 \<le> (of_char c :: nat) \<and> (of_char c :: nat) < 127) v
     \<and> (v = [] \<or> hd v \<noteq> CHR '' '' \<and> last v \<noteq> CHR '' '')"

text \<open>
  The headers a websocket handshake has of its own (RFC 6455, section 4.1), under their canonical keys. The
  dialer and the proxies on the way may add these and others.
\<close>

definition handshakeHeaders :: "string list" where
  "handshakeHeaders = [''Host'', ''Upgrade'', ''Connection'', ''Sec-Websocket-Key'', ''Sec-Websocket-Version'',
     ''Sec-Websocket-Protocol'', ''Sec-Websocket-Extensions'']"

text \<open>
  The documented behaviour of the websocket dialer and of the HTTP server: additional headers with such values
  and with different keys, none of them one of the handshake, arrive as they were sent, under their canonical
  keys, among whatever else arrives.
\<close>

definition additional_headers :: "Header \<Rightarrow> bool" where
  "additional_headers hs \<longleftrightarrow> list_all (\<lambda>(k, v). header_safe v) hs \<and> distinct (map (CanonicalHeaderKey \<circ> fst) hs)
     \<and> list_all (\<lambda>(k, v). CanonicalHeaderKey k \<notin> set handshakeHeaders) hs"

definition header_transport :: "(Header \<Rightarrow> Header) \<Rightarrow> bool" where
  "header_transport carry \<longleftrightarrow>
     (\<forall>hs k v. additional_headers hs \<and> (k, v) \<in> set hs \<longrightarrow> map_of (carry hs) (CanonicalHeaderKey k) = Some v)"

lemma header_transport_Get:
  assumes "header_transport carry" and "additional_headers hs" and "(k, v) \<in> set hs"
  shows "Header_Get (carry hs) k = v"
  using assms by (auto simp: header_transport_def Header_Get_def)

text \<open>A handshake as the dialer writes it: its own headers, then those of the caller.\<close>

definition upgradeRequest :: "Header \<Rightarrow> Header" where
  "upgradeRequest hs = [(''Upgrade'', ''websocket''), (''Connection'', ''Upgrade''), (''Sec-Websocket-Version'', ''13''),
     (''Sec-Websocket-Key'', ''dGhlIHNhbXBsZSBub25jZQ=='')] @ map (\<lambda>(k, v). (CanonicalHeaderKey k, v)) hs"

lemma upgradeRequest_transport: "header_transport upgradeRequest"
proof -
  have "map_of (upgradeRequest hs) (CanonicalHeaderKey k) = Some v" if "additional_headers hs" "(k, v) \<in> set hs" for hs k v
  proof -
    have "CanonicalHeaderKey k \<notin> set handshakeHeaders" using that by (auto simp: additional_headers_def list_all_iff)
    moreover have "map_of (map (\<lambda>(k, v). (CanonicalHeaderKey k, v)) hs) (CanonicalHeaderKey k) = Some v"
      using that by (intro map_of_is_SomeI) (force simp: additional_headers_def comp_def case_prod_beta)+
    ultimately show ?thesis by (simp add: upgradeRequest_def handshakeHeaders_def)
  qed
  then show ?thesis by (simp add: header_transport_def)
qed

lemma clientHeaders_additional:
  assumes "list_all (\<lambda>(k, v). header_safe v) (clientHeaders env cfg api)"
  shows "additional_headers (clientHeaders env cfg api)"
proof -
  have "distinct (map (CanonicalHeaderKey \<circ> fst) (clientHeaders env cfg api))"
    "list_all (\<lambda>(k, v). CanonicalHeaderKey k \<notin> set handshakeHeaders) (clientHeaders env cfg api)"
    by (simp_all add: clientHeaders_def handshakeHeaders_def split: prod.splits)
  then show ?thesis using assms by (simp add: additional_headers_def)
qed

section \<open>The client that was configured\<close>

text \<open>What the server should know of a client.\<close>

definition configuredIdentifier :: "environment \<Rightarrow> Config \<Rightarrow> k8sApi option \<Rightarrow> string \<Rightarrow> int \<Rightarrow> ClientIdentifier" where
  "configuredIdentifier env cfg api connectionId connectionTime = \<lparr>
     ciAccount = cfgAccount (cfInCluster cfg), ciCluster = cfgClusterName (cfInCluster cfg),
     ciConnectionId = connectionId, ciConnectionTime = connectionTime,
     ciHelmVersion = os_Getenv env ''HELM_RELEASE'', ciSyncVersion = os_Getenv env ''RELEASE'',
     ciGitVersion = fst (GetApiServerGitVersionAndCloudProvider api),
     ciCloudProvider = snd (GetApiServerGitVersionAndCloudProvider api),
     ciClusterUID = GetClusterUID api, ciResourceGroup = GetResourceGroup api\<rparr>"

lemma clientHeaders_Get:
  assumes "header_transport carry" and "list_all (\<lambda>(k, v). header_safe v) (clientHeaders env cfg api)"
  shows "Header_Get (carry (clientHeaders env cfg api)) AccessKeyHeader = cfgAccessKey (cfInCluster cfg)"
    "Header_Get (carry (clientHeaders env cfg api)) AccountHeader = cfgAccount (cfInCluster cfg)"
    "Header_Get (carry (clientHeaders env cfg api)) ClusterNameHeader = cfgClusterName (cfInCluster cfg)"
    "Header_Get (carry (clientHeaders env cfg api)) HelmVersionHeader = os_Getenv env ''HELM_RELEASE''"
    "Header_Get (carry (clientHeaders env cfg api)) VersionHeader = os_Getenv env ''RELEASE''"
    "Header_Get (carry (clientHeaders env cfg api)) GitVersionHeader = fst (GetApiServerGitVersionAndCloudProvider api)"
    "Header_Get (carry (clientHeaders env cfg api)) CloudProviderHeader = snd (GetApiServerGitVersionAndCloudProvider api)"
    "Header_Get (carry (clientHeaders env cfg api)) ClusterUIDHeader = GetClusterUID api"
    "Header_Get (carry (clientHeaders env cfg api)) ResourceGroupHeader = GetResourceGroup api"
  by (rule header_transport_Get [OF assms(1) clientHeaders_additional [OF assms(2)]], simp add: clientHeaders_def case_prod_beta)+

lemma clientHeaders_context:
  assumes "header_transport carry" and "list_all (\<lambda>(k, v). header_safe v) (clientHeaders env cfg api)"
  shows "identified (authenticatedContext ctx (carry (clientHeaders env cfg api)) n t) (configuredIdentifier env cfg api n t)"
    "AccessKeyFromContext (authenticatedContext ctx (carry (clientHeaders env cfg api)) n t) = cfgAccessKey (cfInCluster cfg)"
  by (simp_all add: authenticatedContext_def identified_def configuredIdentifier_def AccessKeyFromContext_def
      clientHeaders_Get [OF assms] Let_def contextKey_defs)

section \<open>Refusals\<close>

lemma refusal_status:
  assumes "authenticate env cfg r (s, w) = (Ret (Refuse status), sw')"
  shows "status = 401 \<or> status = 424"
proof -
  obtain t w1 n w2 where "aeNow env w = (Ret t, w1)" "aeNewUUID env w1 = (Ret n, w2)"
    using authenticate_RetD [OF assms] by blast
  then show ?thesis
    using assms by (auto simp: authenticate_run Let_def split: if_splits prod.splits outcome.splits)
qed

lemma tries_settled_first:
  assumes "tries op w r w'" and "op w = (r', v)" and "settled r'"
  shows "r = r' \<and> w' = v"
  using assms by cases auto

lemma newConn_permanent:
  assumes retry: "retries_while retry" and "dial w = (Ret (Inl e), v)" and "dialStatus e = Some 401 \<or> dialStatus e = Some 424"
  shows "\<exists>cause. newConn retry version dial w = (Ret (Inl (GoWrap ''unable to create websocket connection'' cause)), v)"
proof -
  obtain cause where first: "dialAttempt version dial w = (Ret (Permanent cause), v)"
    using assms(2,3) by (auto simp: dialAttempt_def)
  obtain r w' where "tries (dialAttempt version dial) w r w'"
    and run: "retry (dialAttempt version dial) w = (verdict r, w')"
    by (rule retries_whileE [OF retry])
  then have "r = Ret (Permanent cause)" "w' = v" using tries_settled_first [where op = "dialAttempt version dial"] first by fastforce+
  then show ?thesis using run by (simp add: newConn_def)
qed

section \<open>A sample configuration\<close>

definition plainConfig :: Config where
  "plainConfig = \<lparr>
     cfBackend = \<lparr>bcPort = 0, bcAuthenticationServer = None, bcSubscription = [], bcPulsarConfig = False,
       bcProducerTopic = [], bcConsumerTopic = [], bcConsumerWorkers = 0, bcPrometheus = None, bcReconciliationTask = None,
       bcKeepAliveTask = None, bcSkipAlertsFrom = [], bcFeaturesProvider = None, bcMessageQueue = None\<rparr>,
     cfInCluster = \<lparr>cfgServerUrl = ''ws://server'', cfgNamespace = ''kubescape'', cfgClusterName = ''cluster'',
       cfgExcludeNamespaces = [], cfgIncludeNamespaces = [], cfgAccount = ''acc'', cfgAccessKey = ''key'',
       cfgResources = [\<lparr>rsGroup = [], rsVersion = ''v1'', rsResource = ''pods'', rsStrategy = ''patch''\<rparr>]\<rparr>,
     cfHTTPEndpoint = \<lparr>heServerPort = [], heResources = []\<rparr>\<rparr>"

section \<open>Properties\<close>

text \<open>
  C8. What a client is configured with is what the server knows of its connection: the nine headers the client
  process sends, whose values are printable, are read back by the middleware among the headers of the handshake,
  so that a connection it lets pass is identified in its context by the client's account, cluster, versions,
  cloud provider, cluster uid and resource group, and carries its access key. A client whose configuration is
  valid and whose release is not the invalid one is only refused by the authentication server.
\<close>

theorem client_is_known_as_configured:
  assumes "header_transport carry" and "list_all (\<lambda>(k, v). header_safe v) (clientHeaders env cfg api)"
    and "InCluster_ValidateConfig (cfInCluster cfg) = None" and "os_Getenv env ''RELEASE'' \<noteq> ''invalid''"
    and "aeNow ae w = (Ret t, w1)" and "aeNewUUID ae w1 = (Ret n, w2)" and "auth_inv acfg s"
    and "if authServerSet acfg then askAuthenticationServer ae acfg (carry (clientHeaders env cfg api))
       (cfgAccount (cfInCluster cfg)) (cfgAccessKey (cfInCluster cfg)) w2 = (Ret Authorized, w3) else w3 = w2"
  shows "\<exists>r s'. authenticate ae acfg \<lparr>crHeader = carry (clientHeaders env cfg api), crContext = ctx\<rparr> (s, w)
       = (Ret (Pass r), (s', w3))
     \<and> identified (crContext r) (configuredIdentifier env cfg api n t)
     \<and> AccessKeyFromContext (crContext r) = cfgAccessKey (cfInCluster cfg)"
  using assms(3,4,8) initClient_inv [OF assms(7)]
  by (auto simp: authenticate_run [OF assms(5,6)] clientHeaders_Get [OF assms(1,2)] InCluster_ValidateConfig_None
      clientHeaders_context [OF assms(1,2)] Let_def)

theorem client_is_known_as_configured_witness:
  "\<exists>r s'. authenticate grantingEnv (Some authCfg)
        \<lparr>crHeader = upgradeRequest (clientHeaders Map.empty plainConfig None), crContext = []\<rparr>
        (\<lparr>asOnce = False, asClient = False\<rparr>, ())
       = (Ret (Pass r), (s', ()))
     \<and> identified (crContext r) (configuredIdentifier Map.empty plainConfig None ''c1'' 5)
     \<and> AccessKeyFromContext (crContext r) = cfgAccessKey (cfInCluster plainConfig)"
proof (rule client_is_known_as_configured [OF upgradeRequest_transport])
  show "list_all (\<lambda>(k, v). header_safe v) (clientHeaders Map.empty plainConfig None)"
    by code_simp
qed (simp_all add: plainConfig_def InCluster_ValidateConfig_def os_Getenv_def grantingEnv_def
    askAuthenticationServer_def authCfg_def Let_def)

text \<open>
  C36. A client whose connection is refused at its start gives up at once: the middleware refuses with 401 or
  424, and when the dialer of a starting client reports that status, the client process ends with the error
  after this one attempt, whatever the retry policy would still allow, and neither a synchronizer is made nor an
  adapter started. (A client that has been connected and is refused on a later reconnection goes on trying.)
\<close>

theorem refused_client_does_not_retry:
  assumes "clientConfig L env = Inr cfg" and "clientAdapters L cfg = Inr (adpts, api)"
    and "authenticate ae acfg \<lparr>crHeader = carry (clientHeaders env cfg api), crContext = ctx\<rparr> (s, w) = (Ret (Refuse status), sw')"
    and "coObserve ops (ServePprof (coDebugLevel ops) (env ''ENABLE_PROFILER'' \<noteq> None) (coLevel ops) @ StartLivenessProbe) v0 = (Ret (), v)"
    and "coDial ops (clientHeaders env cfg api) (cfgServerUrl (cfInCluster cfg)) v = (Ret (Inl (DialError (Some status) e)), v')"
    and "retries_while retry"
  shows "\<exists>cause. clientMain L env retry ops v0 =
     (Ret (Some (GoWrap ''failed to connect'' (GoWrap ''unable to create websocket connection'' cause))), v')"
proof -
  have "status = 401 \<or> status = 424" by (rule refusal_status [OF assms(3)])
  then have "dialStatus (DialError (Some status) e) = Some 401 \<or> dialStatus (DialError (Some status) e) = Some 424" by auto
  from newConn_permanent [where dial = "coDial ops (clientHeaders env cfg api) (cfgServerUrl (cfInCluster cfg))"
      and version = "os_Getenv env ''RELEASE''", OF assms(6,5) this] show ?thesis
    using assms(1,2,4) by (auto simp: clientMain_def Let_def andThen_def)
qed

text \<open>A client that finds its configuration and its cluster, and whose release the server does not take.\<close>

definition sampleLoaders :: "(unit, unit, unit) clientLoaders" where
  "sampleLoaders = \<lparr>clReadConfig = (\<lambda>_. Inr plainConfig), clClusterData = (\<lambda>_. Inl (GoError ''no file'')),
     clCredentials = (\<lambda>_. Inl (GoError ''no file'')), clDiscovery = (\<lambda>_. Inl (GoError ''no service'')),
     clInClusterConfig = Inr (), clHomeDir = [], clConfigFromFlags = (\<lambda>_. Inr ()), clDynamic = (\<lambda>_. Inr ()), clStorage = (\<lambda>_. Inr ()),
     clKubernetesApi = \<lparr>k8NamespaceUID = (\<lambda>_. Inr ''uid''), k8NodeProviderIDs = (\<lambda>_. Inr []),
       k8CloudProviderOf = (\<lambda>_. []), k8ServerGitVersion = Inr ''v1.30''\<rparr>\<rparr>"

definition refusedOps :: "(nat, unit, unit) clientOps" where
  "refusedOps = \<lparr>coObserve = (\<lambda>_. ret ()), coDial = (\<lambda>_ _ n. (Ret (Inl (DialError (Some 424) (GoError ''status''))), Suc n)),
     coNewSynchronizer = (\<lambda>_ _ _ _. ret (Inr ())), coStart = (\<lambda>_ _. ret None), coDebugLevel = ''debug'', coLevel = ''info''\<rparr>"

theorem refused_client_does_not_retry_witness:
  "\<exists>cause. clientMain sampleLoaders [''RELEASE'' \<mapsto> ''invalid''] retryOnce refusedOps 0 =
     (Ret (Some (GoWrap ''failed to connect'' (GoWrap ''unable to create websocket connection'' cause))), 1)"
proof (rule refused_client_does_not_retry [where cfg = plainConfig, OF _ _ _ _ _ retryOnce_while])
  show "clientConfig sampleLoaders [''RELEASE'' \<mapsto> ''invalid''] = Inr plainConfig"
    by (simp add: clientConfig_def LoadConfig_def LoadClusterConfig_def LoadServiceURLs_def withClusterData_def withCredentialsFrom_def
        withServerUrl_def updateClusterName_def sampleLoaders_def)
  show "clientAdapters sampleLoaders plainConfig = Inr ([InClusterAdapter (cfInCluster plainConfig)], Some (clKubernetesApi sampleLoaders))"
    by (simp add: clientAdapters_def plainConfig_def InCluster_ValidateConfig_def HTTPEndpoint_ValidateConfig_def
        utils_NewClient_def getConfig_def sampleLoaders_def)
  have "list_all (\<lambda>(k, v). header_safe v) (clientHeaders [''RELEASE'' \<mapsto> ''invalid''] plainConfig (Some (clKubernetesApi sampleLoaders)))"
    by code_simp
  note received = clientHeaders_Get [OF upgradeRequest_transport this]
  show "authenticate grantingEnv None \<lparr>crHeader = upgradeRequest (clientHeaders [''RELEASE'' \<mapsto> ''invalid''] plainConfig
      (Some (clKubernetesApi sampleLoaders))), crContext = []\<rparr> (\<lparr>asOnce = False, asClient = False\<rparr>, ()) =
      (Ret (Refuse 424), (initClient None \<lparr>asOnce = False, asClient = False\<rparr>, ()))"
    by (subst authenticate_run [of grantingEnv _ 5 "()" "''c1''" "()"])
      (simp_all add: received os_Getenv_def Let_def, simp_all add: grantingEnv_def plainConfig_def)
qed (simp_all add: refusedOps_def)

end
