(* ===== verification/Core_Connection.thy ===== *)
theory Core_Connection
  imports Core_Receive Retry
begin

text \<open>
  \<open>core/synchronizer.go\<close>, the connection: how the outgoing pool writes a message (\<open>sendData\<close>,
  reconnecting on the client), how one read of the incoming loop ends, and the construction of a
  synchronizer. The websocket library, closing and dialing are the fields of \<open>connIO\<close>; the current
  connection \<open>*s.Conn\<close> is the state beside the world \<open>'w\<close>; \<open>backoff.RetryNotify\<close> is an argument
  with the promises of theory \<open>Retry\<close>.
\<close>

record ('c, 'w) connIO =
  ioWrite :: "'c \<Rightarrow> wire \<Rightarrow> ('w, goerror option) go"
  ioRead :: "'c \<Rightarrow> ('w, goerror + wire) go"
  ioClose :: "'c \<Rightarrow> ('w, unit) go"
  ioNewConn :: "('w, goerror + 'c) go"

section \<open>Sending\<close>

definition sendAttempt :: "('c, 'w) connIO \<Rightarrow> bool \<Rightarrow> wire \<Rightarrow> ('c \<times> 'w, unit) operation" where
  "sendAttempt io isClient data =
     andThen get_state (\<lambda>conn.
     andThen (on_snd (ioWrite io conn data)) (\<lambda>err.
     case err of
       None \<Rightarrow> ret (Done ())
     | Some e \<Rightarrow>
         andThen (on_snd (ioClose io conn)) (\<lambda>_.
         if isClient then
           andThen (on_snd (ioNewConn io)) (\<lambda>r.
           case r of
             Inl e \<Rightarrow> ret (Transient (GoWrap ''refreshing outgoing connection'' e))
           | Inr conn \<Rightarrow>
               andThen (put_state conn) (\<lambda>_.
               andThen (on_snd (ioWrite io conn data)) (\<lambda>err.
               ret (case err of None \<Rightarrow> Done () | Some e \<Rightarrow> Transient e))))
         else ret (Permanent (GoWrap ''cannot send message'' e)))))"

text \<open>The result is the error \<open>sendData\<close> writes to the log before it stops the synchronizer.\<close>

definition sendData :: "('c \<times> 'w, unit) retryer \<Rightarrow> ('w, goerror option) go \<Rightarrow> ('c, 'w) connIO \<Rightarrow> bool \<Rightarrow> wire \<Rightarrow>
    ('c \<times> 'w, goerror option) go" where
  "sendData retry stop io isClient data =
     andThen (retry (sendAttempt io isClient data)) (\<lambda>r.
     case r of
       Inr _ \<Rightarrow> ret None
     | Inl e \<Rightarrow> andThen (on_snd stop) (\<lambda>_. ret (Some e)))"

section \<open>Receiving\<close>

text \<open>One operation of the incoming loop; \<open>invoke\<close> hands the message to the incoming pool.\<close>

definition readAttempt :: "('c, 'w) connIO \<Rightarrow> bool \<Rightarrow> (wire \<Rightarrow> ('w, goerror option) go) \<Rightarrow> ('c \<times> 'w, unit) operation" where
  "readAttempt io isClient invoke =
     andThen get_state (\<lambda>conn.
     andThen (on_snd (ioRead io conn)) (\<lambda>r.
     case r of
       Inl e \<Rightarrow>
         andThen (on_snd (ioClose io conn)) (\<lambda>_.
         ret (if isClient then Transient (GoWrap ''cannot read data'' e)
              else Permanent (GoWrap ''cannot read data'' e)))
     | Inr data \<Rightarrow>
         andThen (on_snd (invoke data)) (\<lambda>err.
         ret (case err of None \<Rightarrow> Done () | Some e \<Rightarrow> Transient (GoWrap ''invoke inPool'' e)))))"

text \<open>The loop, until it gives up; \<open>fuel\<close> bounds the number of messages, for it may run forever.\<close>

fun readLoop :: "nat \<Rightarrow> ('c \<times> 'w, unit) retryer \<Rightarrow> ('c, 'w) connIO \<Rightarrow> bool \<Rightarrow> (wire \<Rightarrow> ('w, goerror option) go) \<Rightarrow>
    ('c \<times> 'w, goerror option) go" where
  "readLoop 0 retry io isClient invoke = ret None"
| "readLoop (Suc fuel) retry io isClient invoke =
     andThen (retry (readAttempt io isClient invoke)) (\<lambda>r.
     case r of
       Inr _ \<Rightarrow> readLoop fuel retry io isClient invoke
     | Inl e \<Rightarrow> ret (Some (GoWrap ''giving up process incoming messages'' e)))"

section \<open>Construction\<close>

text \<open>
  What registering callbacks does is the adapter's; the constructor calls it for each. A pool that
  cannot be created is an error before anything is registered.
\<close>

fun registerAll :: "(Context \<Rightarrow> 'w Callbacks \<Rightarrow> ('v, unit) go) list \<Rightarrow> Context \<Rightarrow> 'w Callbacks \<Rightarrow> ('v, unit) go" where
  "registerAll [] mainCtx cbs = ret ()"
| "registerAll (r # rs) mainCtx cbs = andThen (r mainCtx cbs) (\<lambda>_. registerAll rs mainCtx cbs)"

definition newSynchronizer :: "goerror option \<Rightarrow> (Context \<Rightarrow> 'w Callbacks \<Rightarrow> ('v, unit) go) list \<Rightarrow> Context \<Rightarrow>
    'w runtime \<Rightarrow> bool \<Rightarrow> ('v, goerror + 'w Callbacks) go" where
  "newSynchronizer poolError registers mainCtx rt isClient =
     (case poolError of
        Some e \<Rightarrow> ret (Inl (GoWrap ''unable to create outgoing message pool'' e))
      | None \<Rightarrow>
          let callbacks = syncCallbacks rt isClient in
          andThen (registerAll registers mainCtx callbacks) (\<lambda>_.
          ret (Inr callbacks)))"

definition NewSynchronizerClient :: "goerror option \<Rightarrow> (Context \<Rightarrow> 'w Callbacks \<Rightarrow> ('v, unit) go) list \<Rightarrow> Context \<Rightarrow>
    'w runtime \<Rightarrow> ('v, goerror + 'w Callbacks) go" where
  "NewSynchronizerClient poolError registers mainCtx rt = newSynchronizer poolError registers mainCtx rt True"

definition NewSynchronizerServer :: "goerror option \<Rightarrow> (Context \<Rightarrow> 'w Callbacks \<Rightarrow> ('v, unit) go) list \<Rightarrow> Context \<Rightarrow>
    'w runtime \<Rightarrow> ('v, goerror + 'w Callbacks) go" where
  "NewSynchronizerServer poolError registers mainCtx rt = newSynchronizer poolError registers mainCtx rt False"

section \<open>What one attempt may end in\<close>

lemma sendAttempt_client_not_permanent:
  "sendAttempt io True data cw \<noteq> (Ret (Permanent e), cw')"
  by (auto simp: sendAttempt_def andThen_def split: prod.splits outcome.splits option.splits sum.splits)

lemma sendAttempt_Done:
  assumes "sendAttempt io isClient data cw = (Ret (Done ()), (conn', w'))"
  shows "\<exists>v. ioWrite io conn' data v = (Ret None, w')"
  using assms
  by (cases cw) (auto simp: sendAttempt_def on_snd_def split: prod.splits option.splits sum.splits if_splits
      elim!: andThen_RetE, blast+)

lemma sendAttempt_server:
  "ioWrite io conn data w = (Ret (Some e), w1) \<Longrightarrow> ioClose io conn w1 = (Ret (), w2) \<Longrightarrow>
     sendAttempt io False data (conn, w) = (Ret (Permanent (GoWrap ''cannot send message'' e)), (conn, w2))"
  by (simp add: sendAttempt_def)

lemma sendAttempt_written:
  "ioWrite io conn data w = (Ret None, w1) \<Longrightarrow>
     sendAttempt io isClient data (conn, w) = (Ret (Done ()), (conn, w1))"
  by (simp add: sendAttempt_def)

lemma sendData_settled:
  assumes "retries_forever retry" and "tries (sendAttempt io isClient data) cw r cw'" and "settled r"
  shows "sendData retry stop io isClient data cw =
     andThen (\<lambda>_. (verdict r, cw')) (\<lambda>r. case r of
       Inr _ \<Rightarrow> ret None | Inl e \<Rightarrow> andThen (on_snd stop) (\<lambda>_. ret (Some e))) cw"
  by (simp add: sendData_def andThen_def retries_foreverD [OF assms])

section \<open>The read loop of a server\<close>

text \<open>A connection that gives what a script says, and nothing more when it is closed.\<close>

definition scriptIO :: "('c, (goerror + wire) list \<times> 'x) connIO" where
  "scriptIO = \<lparr>
     ioWrite = (\<lambda>conn data. ret None),
     ioRead = (\<lambda>conn (reads, x). case reads of [] \<Rightarrow> (Ret (Inl (GoError ''closed'')), ([], x)) | r # rs \<Rightarrow> (Ret r, (rs, x))),
     ioClose = (\<lambda>conn. ret ()),
     ioNewConn = ret (Inl (GoError ''refused''))\<rparr>"

abbreviation scriptRead :: "((Context \<times> 's \<times> 'w, goerror option) go \<Rightarrow> (Context \<times> 's \<times> 'w, goerror option) go) \<Rightarrow>
    ('s, 'w) Adapter list \<Rightarrow> 'w Callbacks \<Rightarrow> ('c \<times> (goerror + wire) list \<times> Context \<times> 's \<times> 'w, unit) operation" where
  "scriptRead invoke adapters cbs \<equiv> readAttempt scriptIO False (\<lambda>data. on_snd (invoke (inPoolFunc adapters cbs data)))"

lemma scriptRead_Inl:
  "scriptRead invoke adapters cbs (conn, (Inl e # reads, v)) =
     (Ret (Permanent (GoWrap ''cannot read data'' e)), (conn, (reads, v)))"
  by (simp add: readAttempt_def scriptIO_def)

lemma scriptRead_Inr:
  "scriptRead invoke adapters cbs (conn, (Inr data # reads, v)) =
     (case invoke (inPoolFunc adapters cbs data) v of
        (Ret None, v') \<Rightarrow> (Ret (Done ()), (conn, (reads, v')))
      | (Ret (Some e), v') \<Rightarrow> (Ret (Transient (GoWrap ''invoke inPool'' e)), (conn, (reads, v')))
      | (Panic p, v') \<Rightarrow> (Panic p, (conn, (reads, v'))))"
  by (auto simp: readAttempt_def scriptIO_def andThen_def on_snd_def split: prod.splits outcome.splits option.splits)

lemma scriptRead_settles:
  assumes "list_ex isl reads"
  shows "\<exists>r s'. tries (scriptRead invoke adapters cbs) (conn, (reads, v)) r s' \<and> settled r"
  using assms
proof (induction reads arbitrary: v)
  case (Cons x reads)
  obtain o1 v1 where inv: "invoke (inPoolFunc adapters cbs data) v = (o1, v1)" if "x = Inr data" for data
    by (cases x; cases "invoke (inPoolFunc adapters cbs (projr x)) v") auto
  show ?case
  proof (cases "\<exists>data e. x = Inr data \<and> o1 = Ret (Some e)")
    case True
    then obtain data e where x: "x = Inr data" "o1 = Ret (Some e)" by blast
    then have "scriptRead invoke adapters cbs (conn, (x # reads, v)) =
        (Ret (Transient (GoWrap ''invoke inPool'' e)), (conn, (reads, v1)))"
      using inv by (simp add: scriptRead_Inr)
    moreover have "list_ex isl reads" using Cons.prems x by simp
    ultimately show ?thesis using Cons.IH [of v1] by (blast intro: tries.again)
  next
    case False
    then have "settled (fst (scriptRead invoke adapters cbs (conn, (x # reads, v))))"
      using inv by (cases x) (auto simp: scriptRead_Inl scriptRead_Inr split: outcome.splits option.splits)
    then show ?thesis by (metis prod.collapse tries.once)
  qed
qed simp

text \<open>
  With \<open>RetryNotify\<close> around every read, the loop of a server does on such a connection what
  \<open>listenLoop\<close> does on the list: it handles the messages in order, goes on after one the pool refuses,
  and gives up at the first read that fails. One unit of fuel per read is enough.
\<close>

lemma server_readLoop_is_listenLoop:
  fixes conn :: 'c and v :: "Context \<times> 's \<times> 'w"
  assumes "retries_forever retry" and "list_ex isl reads" and "length reads \<le> fuel"
  shows "\<exists>rest. readLoop fuel retry scriptIO False (\<lambda>data. on_snd (invoke (inPoolFunc adapters cbs data))) (conn, (reads, v))
     = (case listenLoop invoke False adapters cbs reads v of (r, v') \<Rightarrow> (r, (conn, (rest, v'))))"
  using assms(2,3)
proof (induction reads arbitrary: fuel v)
  case (Cons x reads)
  obtain f where fuel: "fuel = Suc f" using Cons.prems by (cases fuel) auto
  let ?op = "scriptRead invoke adapters cbs :: ('c \<times> (goerror + wire) list \<times> Context \<times> 's \<times> 'w, unit) operation"
  show ?case
  proof (cases x)
    case (Inl e)
    then have "retry ?op (conn, (x # reads, v)) = (Ret (Inl (GoWrap ''cannot read data'' e)), (conn, (reads, v)))"
      by (simp add: retry_settled [OF assms(1)] scriptRead_Inl)
    then show ?thesis by (simp add: fuel Inl)
  next
    case (Inr data)
    then have isl: "list_ex isl reads" using Cons.prems by simp
    obtain o1 v1 where inv: "invoke (inPoolFunc adapters cbs data) v = (o1, v1)" by (rule prod.exhaust)
    note run = scriptRead_Inr [of invoke adapters cbs conn data reads v, unfolded inv]
    show ?thesis
    proof (cases "\<exists>e. o1 = Ret (Some e)")
      case False
      then have "retry ?op (conn, (x # reads, v)) = (verdict (fst (?op (conn, (x # reads, v)))), (conn, (reads, v1)))"
        using retry_settled [OF assms(1), of ?op "(conn, (x # reads, v))"] Inr inv
        by (auto simp: scriptRead_Inr split: outcome.splits option.splits)
      then show ?thesis
        using Cons.IH [OF isl, of f v1] Cons.prems False inv run
        by (auto simp: fuel Inr andThen_def split: outcome.splits option.splits)
    next
      case True
      then obtain e where o1: "o1 = Ret (Some e)" by blast
      obtain r s' where t: "tries ?op (conn, (reads, v1)) r s'" "settled r"
        using scriptRead_settles [OF isl, of invoke adapters cbs conn v1] by blast
      have "retry ?op (conn, (x # reads, v)) = retry ?op (conn, (reads, v1))"
        using retry_transient [OF assms(1) _ t] run o1 Inr by simp
      then have "readLoop fuel retry scriptIO False (\<lambda>data. on_snd (invoke (inPoolFunc adapters cbs data))) (conn, (x # reads, v))
         = readLoop fuel retry scriptIO False (\<lambda>data. on_snd (invoke (inPoolFunc adapters cbs data))) (conn, (reads, v1))"
        by (simp add: fuel andThen_def)
      then show ?thesis
        using Cons.IH [OF isl, of fuel v1] Cons.prems inv o1 by (auto simp: Inr)
    qed
  qed
qed simp

section \<open>A connection that comes back\<close>

text \<open>Dialing fails as often as the world says; then the new connection takes every message.\<close>

definition flakyIO :: "(bool, nat \<times> wire list) connIO" where
  "flakyIO = \<lparr>
     ioWrite = (\<lambda>alive data (n, log). if alive then (Ret None, (n, log @ [data])) else (Ret (Some (GoError ''broken pipe'')), (n, log))),
     ioRead = (\<lambda>alive. ret (Inl (GoError ''closed''))),
     ioClose = (\<lambda>alive. ret ()),
     ioNewConn = (\<lambda>(n, log). case n of 0 \<Rightarrow> (Ret (Inr True), (0, log)) | Suc m \<Rightarrow> (Ret (Inl (GoError ''refused'')), (m, log)))\<rparr>"

lemma flaky_attempt:
  "sendAttempt flakyIO True data (False, (0, log)) = (Ret (Done ()), (True, (0, log @ [data])))"
  "sendAttempt flakyIO True data (False, (Suc n, log)) =
     (Ret (Transient (GoWrap ''refreshing outgoing connection'' (GoError ''refused''))), (False, (n, log)))"
  by (simp_all add: sendAttempt_def flakyIO_def)

section \<open>Properties\<close>

text \<open>
  C30. A message that was handed to the client's outgoing pool is not lost while the connection
  breaks: as soon as some attempt does not end in a transient error (however many writes and
  reconnections failed before), \<open>sendData\<close> returns without having stopped the synchronizer, the
  message has been written without error, and the connection it was written to is the one used from
  then on. The client never gives up of its own accord: no attempt ends in a permanent error.
\<close>

theorem client_sends_until_written:
  assumes "retries_forever retry"
    and "tries (sendAttempt io True data) (conn, w) (Ret a) (conn', w')" and "settled (Ret a)"
  shows "sendData retry stop io True data (conn, w) = (Ret None, (conn', w'))
     \<and> (\<exists>v. ioWrite io conn' data v = (Ret None, w'))"
proof -
  obtain cv where last: "sendAttempt io True data cv = (Ret a, (conn', w'))"
    using tries_last [OF assms(2)] by blast
  then have "a = Done ()"
    using assms(3) sendAttempt_client_not_permanent [of io data cv] by (cases a) auto
  then show ?thesis
    using sendData_settled [OF assms] sendAttempt_Done [of io True data cv conn' w'] last by (auto simp: andThen_def)
qed

theorem client_sends_until_written_witness:
  "sendData retryAlways (ret None) flakyIO True (Doc JNull) (False, (2, []))
     = (Ret None, (True, (0, [Doc JNull])))
   \<and> (\<exists>v. ioWrite flakyIO True (Doc JNull) v = (Ret None, (0, [Doc JNull])))"
proof (rule client_sends_until_written [OF retryAlways_forever])
  have "tries (sendAttempt flakyIO True (Doc JNull)) (False, (Suc (Suc 0), [])) (Ret (Done ())) (True, (0, [] @ [Doc JNull]))"
    by (rule tries.again, rule flaky_attempt(2))+ (rule tries.once, rule flaky_attempt(1))
  then show "tries (sendAttempt flakyIO True (Doc JNull)) (False, (2, [])) (Ret (Done ())) (True, (0, [Doc JNull]))"
    by (simp add: numeral_2_eq_2)
qed simp

text \<open>
  The server does not reconnect: a write that fails closes the connection, is not repeated, and
  stops the synchronizer, which releases the pools and stops the adapters.
\<close>

theorem server_stops_on_failed_write:
  assumes "retries_forever retry" and "ioWrite io conn data w = (Ret (Some e), w1)"
    and "ioClose io conn w1 = (Ret (), w2)" and "stop w2 = (Ret err, w3)"
  shows "sendData retry stop io False data (conn, w) =
     (Ret (Some (GoWrap ''cannot send message'' e)), (conn, w3))"
proof -
  have "tries (sendAttempt io False data) (conn, w) (Ret (Permanent (GoWrap ''cannot send message'' e))) (conn, w2)"
    by (rule tries.once) (rule sendAttempt_server [OF assms(2,3)])
  then show ?thesis using sendData_settled [OF assms(1)] assms(4) by (simp add: andThen_def)
qed

end
