(* ===== verification/Server_Process.thy ===== *)
theory Server_Process
  imports Backend_Connections Core_Connection Authentication Diagnostics
begin

text \<open>
  \<open>cmd/server/main.go\<close>: the server process. How it starts and what it does on the way out, and the
  handler behind the authentication middleware, which upgrades a request to a websocket and runs a
  synchronizer for it over the shared backend adapter. Upgrading, closing the connection, releasing
  the pools and running a task on the incoming pool are arguments; the goroutine of a connection is
  modelled from its start to its end.
\<close>

section \<open>Start and end of the process\<close>

definition listenAddr :: "BackendConfig \<Rightarrow> string" where
  "listenAddr cfg = (if bcPort cfg > 0 then '':'' @ strconv_Itoa (bcPort cfg) else '':8080'')"

datatype 'm startup =
    LeaveEarly "'m option"
  | FatalStart goerror
  | ServeQueue 'm string
  | ServeMock string

text \<open>\<open>interrupted\<close>: a signal arrived while the queue was set up; \<open>mq\<close>: what setting it up gave.\<close>

definition serverStartup :: "bool \<Rightarrow> goerror + 'm option \<Rightarrow> BackendConfig \<Rightarrow> 'm startup" where
  "serverStartup interrupted mq cfg =
     (if interrupted then LeaveEarly (case mq of Inl e \<Rightarrow> None | Inr m \<Rightarrow> m)
      else case mq of
        Inl e \<Rightarrow> FatalStart (GoWrap ''failed to initialize message queue'' e)
      | Inr (Some m) \<Rightarrow> ServeQueue m (listenAddr cfg)
      | Inr None \<Rightarrow> ServeMock (listenAddr cfg))"

datatype 'm serverEffect =
    Observe observer
  | NotifySignals
  | StartReader 'm
  | Listen string
  | AwaitShutdown
  | CloseQueue 'm
  | StopSignals
  | CancelContext
  | Exit goerror

definition serverObservers :: "string \<Rightarrow> bool \<Rightarrow> string \<Rightarrow> BackendConfig \<Rightarrow> observer list" where
  "serverObservers debugLevel profiler level cfg =
     (case bcPrometheus cfg of
        None \<Rightarrow> []
      | Some p \<Rightarrow> if pmEnabled p then [ServeMetrics ('':'' @ strconv_Itoa (pmPort p))] else []) @
     ServePprof debugLevel profiler level @ StartLivenessProbe"

text \<open>
  What \<open>main\<close> does in order; \<open>closed\<close>: \<open>ListenAndServe\<close> returned because of \<open>Shutdown\<close>, which the
  signal goroutine calls. Deferred calls run last, in reverse order, and not at all after \<open>Fatal\<close>.
\<close>

definition serverMain :: "string \<Rightarrow> bool \<Rightarrow> string \<Rightarrow> goerror + BackendConfig \<Rightarrow> bool \<Rightarrow> goerror + 'm option \<Rightarrow> bool \<Rightarrow>
    'm serverEffect list" where
  "serverMain debugLevel profiler level loaded interrupted mq closed =
     (case loaded of
        Inl e \<Rightarrow> [Exit (GoWrap ''unable to load configuration'' e)]
      | Inr cfg \<Rightarrow>
          let leave = [StopSignals, CancelContext];
              await = (if closed then [AwaitShutdown] else []) in
          map Observe (serverObservers debugLevel profiler level cfg) @ [NotifySignals] @
          (case serverStartup interrupted mq cfg of
             LeaveEarly None \<Rightarrow> leave
           | LeaveEarly (Some m) \<Rightarrow> [CloseQueue m] @ leave
           | FatalStart e \<Rightarrow> [Exit e]
           | ServeQueue m addr \<Rightarrow> [StartReader m, Listen addr] @ await @ [CloseQueue m] @ leave
           | ServeMock addr \<Rightarrow> [Listen addr] @ await @ leave))"

text \<open>
  A queue that was set up is closed once on every way out, after the server has stopped, while the signals
  are still received; the liveness probe is served before the queue is used.
\<close>

lemma queue_is_closed_last:
  "mq = Inr (Some m) \<Longrightarrow>
     \<exists>es. serverMain debugLevel profiler level (Inr cfg) interrupted mq closed = es @ [CloseQueue m, StopSignals, CancelContext]
       \<and> list_all (\<lambda>e. e \<noteq> CloseQueue m \<and> e \<noteq> StopSignals) es \<and> Observe (ServeHealth '':7888'' ''/healthz'') \<in> set es"
  by (auto simp: serverMain_def serverStartup_def serverObservers_def StartLivenessProbe_def ServePprof_def Let_def split: option.splits)

lemma no_queue_no_close:
  "mq = Inl e \<or> mq = Inr None \<Longrightarrow> CloseQueue m \<notin> set (serverMain debugLevel profiler level loaded interrupted mq closed)"
  by (auto simp: serverMain_def serverStartup_def Let_def split: sum.splits)

section \<open>The handler of a connection\<close>

text \<open>\<open>Start\<close> gets the context by value: what it does to its copy is gone afterwards.\<close>

definition inContext :: "Context \<Rightarrow> (Context \<times> 's, 'a) go \<Rightarrow> ('s, 'a) go" where
  "inContext ctx m s = (case m (ctx, s) of (r, (_, s')) \<Rightarrow> (r, s'))"

record ('s, 'w) connEnv =
  ceUpgrade :: "('w, goerror option) go"
  cePoolError :: "goerror option"
  ceRuntime :: "'w runtime"
  ceInvoke :: "(Context \<times> 's \<times> 'w, goerror option) go \<Rightarrow> (Context \<times> 's \<times> 'w, goerror option) go"
  ceRelease :: "('w, unit) go"
  ceClose :: "('w, unit) go"
  ceReads :: "(goerror + wire) list"

text \<open>
  \<open>ceInvoke\<close> runs the call of a message on the incoming pool, and whatever the other goroutines of the
  server do to the shared state meanwhile.
\<close>

definition serveConnection :: "'q backendEnv \<Rightarrow> ('w Backend \<times> 'q, 'w) connEnv \<Rightarrow> Context \<Rightarrow>
    (('w Backend \<times> 'q) \<times> 'w, unit) go" where
  "serveConnection env ce ctx =
     andThen (ClientIdentifierFromContext ctx) (\<lambda>cid.
     andThen (NewSynchronizerServer (cePoolError ce) [backend_RegisterCallbacks] ctx (ceRuntime ce)) (\<lambda>r.
     case r of
       Inl e \<Rightarrow> on_snd (ceClose ce)
     | Inr cbs \<Rightarrow>
         andThen (inContext ctx (Synchronizer_Start (ceInvoke ce) False [backendAdapter env] cbs (ceReads ce))) (\<lambda>err.
         case err of
           None \<Rightarrow> on_snd (ceClose ce)
         | Some e \<Rightarrow>
             andThen (Synchronizer_Stop (ceRelease ce) [backendAdapter env] cbs ctx) (\<lambda>_.
             on_snd (ceClose ce)))))"

definition connectionHandler :: "'q backendEnv \<Rightarrow> ('w Backend \<times> 'q, 'w) connEnv \<Rightarrow> connRequest \<Rightarrow>
    (('w Backend \<times> 'q) \<times> 'w, unit) go" where
  "connectionHandler env ce r =
     andThen (on_snd (ceUpgrade ce)) (\<lambda>err.
     case err of
       Some e \<Rightarrow> ret ()
     | None \<Rightarrow> serveConnection env ce (crContext r))"

text \<open>The handler of the HTTP server: the middleware with the connection handler behind it.\<close>

definition serverHandler :: "(('w Backend \<times> 'q) \<times> 'w) authEnv \<Rightarrow> AuthenticationServerConfig option \<Rightarrow>
    (int \<Rightarrow> (('w Backend \<times> 'q) \<times> 'w, unit) go) \<Rightarrow> 'q backendEnv \<Rightarrow> ('w Backend \<times> 'q, 'w) connEnv \<Rightarrow> connRequest \<Rightarrow>
    (authState \<times> ('w Backend \<times> 'q) \<times> 'w, unit) go" where
  "serverHandler ae acfg writeHeader env ce r =
     AuthenticationServerMiddleware ae acfg writeHeader (connectionHandler env ce) r"

section \<open>The end of a connection\<close>

lemma listenLoop_fails:
  assumes "list_ex isl reads" and "listenLoop invoke False adapters cbs reads s = (Ret r, s')"
  shows "r \<noteq> None"
  using assms
proof (induction reads arbitrary: s)
  case (Cons x reads)
  then show ?case by (cases x) (auto elim!: andThen_RetE)
qed simp

lemma run_inContext_Ret: "inContext ctx m s = (Ret r, s') \<longleftrightarrow> (\<exists>ctx'. m (ctx, s) = (Ret r, (ctx', s')))"
  by (auto simp: inContext_def split: prod.splits)

text \<open>The server knows nothing of this client any more, or a newer connection of it.\<close>

definition forgotten :: "'w Backend \<Rightarrow> ClientIdentifier \<Rightarrow> bool" where
  "forgotten b cid \<longleftrightarrow> newerExists b cid \<or>
     (baClientsMap b (ClientIdentifier_String cid) = None \<and> baCallbacksMap b (ClientIdentifier_String cid) = None
      \<and> map_of (baConnectionMap b) (ClientIdentifier_String cid) = None)"

lemma Stop_forgets:
  assumes "identified ctx cid" and "backend_Stop ctx ((b, q), w) = (Ret err, ((b', q'), w'))"
  shows "forgotten b' cid"
proof (cases "newerExists b cid")
  case True
  then show ?thesis using assms Stop_stale [of ctx cid b q w] by (simp add: forgotten_def)
next
  case False
  obtain b'' where "backend_Stop ctx ((b, q), w) = (Ret None, ((b'', q), w))"
    and "baConnectionMap b'' = adel (ClientIdentifier_String cid) (baConnectionMap b)"
    and "baClientsMap b'' = (baClientsMap b)(ClientIdentifier_String cid := None)"
    and "baCallbacksMap b'' = (baCallbacksMap b)(ClientIdentifier_String cid := None)"
    by (rule Stop_accepted [OF assms(1) False])
  then show ?thesis using assms(2) by (simp add: forgotten_def map_of_adel)
qed

lemma Synchronizer_Stop_forgets:
  assumes "identified ctx cid" and "Synchronizer_Stop release [backendAdapter env] cbs ctx s = (Ret err, s')"
  shows "forgotten (fst (fst s')) cid"
proof -
  obtain b' q' w' where s': "s' = ((b', q'), w')" by (cases s') auto
  obtain b q w e where "backend_Stop ctx ((b, q), w) = (Ret e, s')"
    using assms
    by (auto simp: Synchronizer_Stop_def stopAdapters_def backendAdapter_def wrapping_def split: option.splits
        elim!: andThen_RetE)
  then show ?thesis using Stop_forgets [OF assms(1)] s' by simp
qed

lemma Start_ends_in_error:
  assumes "list_ex isl reads" and "Synchronizer_Start invoke False adapters cbs reads s = (Ret r, s')"
  shows "\<exists>e. r = Some e"
  using assms(2) listenLoop_fails [OF assms(1)]
  by (auto simp: Synchronizer_Start_def wrapping_def split: option.splits elim!: andThen_RetE)

section \<open>A sample connection\<close>

definition droppedConn :: "(wire list Backend \<times> (properties \<times> wire) list, wire list) connEnv" where
  "droppedConn = \<lparr>ceUpgrade = ret None, cePoolError = None,
     ceRuntime = \<lparr>rtNewMsgId = ret ''msg'', rtOutInvoke = (\<lambda>d w. (Ret None, w @ [d]))\<rparr>,
     ceInvoke = (\<lambda>m. m), ceRelease = ret (), ceClose = ret (),
     ceReads = [Inr (Doc (enc_Generic (zero_Generic\<lparr>genEvent := Some EventPing\<rparr>))), Inl (GoError ''connection reset'')]\<rparr>"

section \<open>Properties\<close>

text \<open>
  C31. The goroutine that serves a connection always cleans up after it: however many messages were
  handled before the connection broke, and also when the connection was refused because a newer one
  exists, the socket is closed at the end, and the server knows neither the client nor its callbacks
  any more, unless a newer connection of the same client has taken over.
\<close>

theorem ended_connection_is_forgotten:
  assumes "identified ctx cid" and "cePoolError ce = None" and "list_ex isl (ceReads ce)"
    and "serveConnection env ce ctx s = (Ret (), s')"
  shows "forgotten (fst (fst s')) cid \<and> (\<exists>w. ceClose ce w = (Ret (), snd s'))"
proof -
  obtain cbs v err v' where start: "inContext ctx (Synchronizer_Start (ceInvoke ce) False [backendAdapter env] cbs (ceReads ce)) v = (Ret err, v')"
    and rest: "(case err of None \<Rightarrow> on_snd (ceClose ce)
         | Some e \<Rightarrow> andThen (Synchronizer_Stop (ceRelease ce) [backendAdapter env] cbs ctx) (\<lambda>_. on_snd (ceClose ce))) v' = (Ret (), s')"
    using assms by (auto simp: serveConnection_def NewSynchronizerServer_def newSynchronizer_def Let_def elim!: andThen_RetE)
  obtain e where "err = Some e"
    using start unfolding run_inContext_Ret by (blast dest: Start_ends_in_error [OF assms(3)])
  then obtain u stopErr where stop: "Synchronizer_Stop (ceRelease ce) [backendAdapter env] cbs ctx v' = (Ret stopErr, u)"
    and close: "on_snd (ceClose ce) u = (Ret (), s')"
    using rest by (auto elim!: andThen_RetE)
  have "fst s' = fst u" and "ceClose ce (snd u) = (Ret (), snd s')"
    using close by (auto simp: on_snd_def split: prod.splits)
  then show ?thesis using Synchronizer_Stop_forgets [OF assms(1) stop] by auto
qed

theorem ended_connection_is_forgotten_witness:
  "forgotten (fst (fst (snd (serveConnection sampleEnv droppedConn (connCtx (sampleConn ''1'' 5)) ((NewBackendAdapter sampleCfg, []), [])))))
     (sampleConn ''1'' 5)
   \<and> (\<exists>w. ceClose droppedConn w = (Ret (), snd (snd (serveConnection sampleEnv droppedConn (connCtx (sampleConn ''1'' 5))
        ((NewBackendAdapter sampleCfg, []), [])))))"
proof (rule ended_connection_is_forgotten [OF identified_connCtx])
  have "fst (serveConnection sampleEnv droppedConn (connCtx (sampleConn ''1'' 5)) ((NewBackendAdapter sampleCfg, []), [])) = Ret ()"
    by code_simp
  then show "serveConnection sampleEnv droppedConn (connCtx (sampleConn ''1'' 5)) ((NewBackendAdapter sampleCfg, []), []) =
     (Ret (), snd (serveConnection sampleEnv droppedConn (connCtx (sampleConn ''1'' 5)) ((NewBackendAdapter sampleCfg, []), [])))"
    by (simp add: prod_eq_iff)
qed (simp_all add: droppedConn_def)

end
