(* ===== verification/Spec2Isabelle.thy ===== *)
theory Spec2Isabelle
  imports Event_Burst Noop_Client Cron_Ticker Client_Process Backend_Periodic Queue_Setup
    Incluster_Watch Http_Properties Http_Proxy Connection_Setup Server_Process
begin

text \<open>
  Verification of the Kubescape synchronizer (\<open>github.com/kubescape/synchronizer\<close>).

  \<^bold>\<open>The program.\<close> A synchronizer client runs in a Kubernetes cluster, watches the configured resources
  and keeps copies of them on a server up to date, over a websocket. Both ends run the same core
  (\<open>core/synchronizer.go\<close>) with an adapter behind it: in the cluster the in-cluster adapter
  (\<open>adapters/incluster/v1\<close>) and the HTTP endpoint (\<open>adapters/httpendpoint/v1\<close>), on the server the
  backend adapter (\<open>adapters/backend/v1\<close>), which hands everything to a message queue, Kafka or Pulsar,
  or the mock adapter (\<open>adapters/mock.go\<close>), which is the reference for a server with a store of its own.
  The core turns the callbacks of an adapter into messages and the messages it receives into calls of
  its adapters. What the queue brings goes through the message handler (\<open>messaging/handler.go\<close>) to the
  callbacks of the connection it is for. \<open>cmd/client\<close> and \<open>cmd/server\<close> put the parts together.

  \<^bold>\<open>How it is modelled.\<close> A Go function with effects is a function of type \<open>('s, 'a) go\<close> from a state to an
  outcome, a value or a panic, and the next state; \<open>andThen\<close> is the sequence, errors are values of type
  \<open>goerror\<close>. State is passed explicitly: the first component of a pair is the component's own state, the rest
  that of what it calls. Code of other modules (Kubernetes, the JSON and patch libraries, websockets, goroutine
  pools, \<open>franz-go\<close>, the Pulsar client, \<open>backoff\<close>, clocks and uuids) is a record of functions that the
  definitions take as an argument; what is relied on is a named predicate on that record (\<open>runtime_contract\<close>,
  \<open>merge_contract\<close>, \<open>retries_forever\<close>, \<open>proxyIO_contract\<close>, \<open>header_transport\<close>, \<open>ttl_contract\<close>,
  \<open>slice_contract\<close>), and a property that needs one has an instance that meets it. Integers of Go's \<open>int\<close> are
  \<open>int\<close> with \<open>wrap64\<close>, the 32 bit limits of Kafka are words. Goroutines that run beside each other are step
  relations whose steps are the atomic parts: a worker of a queue reader takes a message in one step and is done
  with it in another, the callback of the cooldown queue is blocked from the eviction of an event until the
  event loop takes it. Handling one message of a connection is one step, since the pool of either side has one
  worker.

  \<^bold>\<open>Theories.\<close>
  \<^item> Foundations: \<open>Go_Prelude\<close> (outcomes, sequences, what an operation keeps: \<open>keeps\<close> and the collection
    \<open>keeps_intros\<close>, loops, \<open>wrap64\<close>), \<open>Go_Strings\<close>, \<open>Go_Base64\<close>, \<open>Go_Json\<close> (documents, decoding by field
    tables), \<open>Retry\<close> (what \<open>backoff.RetryNotify\<close> promises, as the relation \<open>tries\<close>).
  \<^item> Data: \<open>Domain\<close>, \<open>Domain_Messages\<close> (\<open>domain/*.go\<close>: kinds, identifiers, keys, the wire messages, their
    encoding and how they are read), \<open>Config\<close> (\<open>config/config.go\<close>), \<open>Sync_Context\<close> (contexts, the callbacks, the
    \<open>Adapter\<close> interface and its contract, the locale \<open>sync_adapter\<close>), \<open>Sync_Utils\<close> (\<open>utils/utils.go\<close>,
    construction of the tickers of \<open>utils/ticker.go\<close>), \<open>Cron_Ticker\<close> (the running cron ticker), \<open>Diagnostics\<close>
    (the rest of \<open>utils/utils.go\<close>: profiling and liveness servers, back-off, comparison of documents).
  \<^item> Core: \<open>Core_Send\<close>, \<open>Core_Receive\<close> (the pool function with its six branches, the locale \<open>sync_adapters\<close>
    for the fan-out), \<open>Core_Connection\<close> (writing with reconnection, reading, construction),
    \<open>Core_Protocol\<close> (two endpoints with messages in flight; delivery, depth, termination).
  \<^item> Adapters: \<open>Adapter_Libs\<close>, \<open>Mock_Adapter\<close>; \<open>Kube_Objects\<close>, \<open>Incluster_Client\<close>, \<open>Incluster_Ops\<close>,
    \<open>Incluster_Adapter\<close>, \<open>Incluster_Watch\<close> (\<open>adapters/incluster/v1\<close>: objects and masking, the client's
    operations and event loop, the adapter, the watch), \<open>Incluster_Reconcile\<close>, \<open>Incluster_Properties\<close> (what they
    do), \<open>Noop_Client\<close> (\<open>no_op_dynamic_client.go\<close>); \<open>Api_Server\<close> (\<open>apiserver.go\<close>); \<open>Cooldown_Queue\<close>
    (\<open>utils/cooldownqueue.go\<close>); \<open>Http_Endpoint\<close>, \<open>Http_Properties\<close>.
  \<^item> Cluster and server together: \<open>Replication\<close> (one change of an object and the conversation it starts),
    \<open>Convergence\<close> (many conversations at once: the invariant \<open>converging\<close> of the messages in flight, kept by
    every step), \<open>Reconciliation\<close> and \<open>Event_Stream\<close> (its two uses: the calls a batch makes, and the events
    of a watch), \<open>Event_Burst\<close> (the cooldown queue in front of these).
  \<^item> Server: \<open>Features_Provider\<close>, \<open>Backend_Client\<close>, \<open>Backend_Adapter\<close>, \<open>Backend_Tasks\<close>,
    \<open>Backend_Connections\<close>, \<open>Backend_Periodic\<close>, \<open>Backend_Queue\<close> (the backend adapter, its connections
    over every interleaving, its periodic tasks, its way to and from the queue); \<open>Messaging_Records\<close>,
    \<open>Message_Handler\<close>, \<open>Queue_Producers\<close>, \<open>Queue_Readers\<close>, \<open>Kafka_Setup\<close>, \<open>Queue_Setup\<close> (\<open>messaging\<close>,
    \<open>kafka.go\<close>, \<open>kafka_security.go\<close>, \<open>pulsar.go\<close>, \<open>factory.go\<close>).
  \<^item> Processes: \<open>Authentication\<close> (\<open>cmd/server/authentication\<close>), \<open>Server_Process\<close> (\<open>cmd/server/main.go\<close>),
    \<open>Client_Process\<close> (\<open>cmd/client/main.go\<close>, loading of the configuration), \<open>Connection_Setup\<close> (a
    client's headers at the server), \<open>Http_Proxy\<close> (\<open>utils/http_proxy.go\<close>).

  \<^bold>\<open>Interfaces.\<close> \<open>sync_adapter\<close> is what the core relies on: an adapter touches the connection only
  through the callbacks it was given. It is interpreted for all four adapters, so what \<open>Core_Receive\<close> and
  \<open>Core_Protocol\<close> prove holds with each. \<open>message_producer\<close> is what the backend client relies on,
  interpreted for Kafka and Pulsar; \<open>message_adapter\<close> what the message handler relies on, interpreted
  for the backend adapter.

  \<^bold>\<open>What is shown.\<close>
  \<^item> Delivery: a call on one side is the same call on the other, through the wire (\<open>callback_is_delivered\<close>), from
    the queue to the cluster (messages about one object) and back (calls about one object that are not withheld;
    \<open>put_is_withheld_or_sent\<close> says which are), and from an HTTP request to a message; servers skip what servers
    wrote.
  \<^item> Progress and its limits: conversations end, answers are one deeper than what they answer, too deep
    messages are dropped; a client's data is written once a write succeeds; a watch resumes where it
    ended. A server that lost its copy of an object is not repaired, as long as no reconciliation asks.
  \<^item> Convergence: a burst of changes of a kind synchronized by copy, coalesced by the cooldown queue, reaches the
    server (\<open>changes_reach_server\<close>; \<open>changes_arrive\<close> is the same for both strategies as long as handlers do not
    overlap), and reconciliation makes the server's copies those of the cluster (\<open>reconciliation_converges\<close>),
    both with the whole code of the two ends and for every order in which messages and events are handled;
    \<open>ends_with\<close> says that every run ends and where.
  \<^item> Objects: patches reproduce the object, a change of one object is one conversation after which the server
    has it, a differing copy is repaired in one exchange, reconciliation makes the calls of its specification and
    deletes only what is gone, environment values are masked.
  \<^item> Connections: maps, gauge and callbacks of the server agree over every interleaving, the newest
    connection wins, an ended one is forgotten; only authorized connections pass, a client is known as
    it is configured, and one that is refused when it starts gives up.
  \<^item> Queues and timers: the Kafka reader, with its workers beside each other, loses and repeats nothing, keeps
    its capacity and the rule for the server's own messages, while that of Pulsar can panic; set-up is all or
    nothing; limits do not wrap and passwords are not sent in the clear; the cooldown queue delivers events
    after their cooldown, the newest as far as it can know, and loses none; reconciliation asks the clients that
    are due; a cron ticker keeps to its schedule.
  \<^item> The endpoint: routing equals the list of configured resources, its calls are well formed, some
    resources can be configured and never be reached. The proxy dialer leaks no connection.

  \<^bold>\<open>Bounds and loops.\<close> Loops over lists are structural. The read loop of a connection (\<open>listenLoop\<close>) runs
  over the list of the reads it will get; \<open>readLoop\<close>, with the connection and the retries in full, has
  fuel, and \<open>server_readLoop_is_listenLoop\<close> shows that one unit per read is enough and that the two agree.
  Retrying has no fuel: a retryer is an argument and \<open>tries\<close> is inductive, so a statement about a retried
  operation is about every number of attempts. \<open>maxMessageDepth\<close> is the source's; it is the measure by
  which conversations end.

  \<^bold>\<open>Not modelled.\<close> Telemetry and logging have no effect on what the program does; of the servers for metrics,
  profiles and liveness there is what they serve and where, not the requests. Cancelling a context is modelled
  where it ends a reader or a task; deadlines are not. The mutexes are not modelled as such: a part of a
  goroutine that runs under a mutex is one step. The map of reference objects of a client is shared between its
  event loop and its message handlers without a lock; that they interfere is not modelled, and
  \<open>changes_reach_server\<close> is stated for the strategy that does not use the map. Strings are taken to be valid
  UTF-8 (\<open>json.Marshal\<close> replaces what is not) and are lower- and upper-cased as ASCII, as the names of
  Kubernetes are; an object given to \<open>MaskEnvironmentVariables\<close> is not nil; turning a set into a slice gives one
  order for each set, any of them. The statements about convergence are about the reference server, since what
  the backend hands to the queue is stored by another program, and about a cluster that does not change
  meanwhile: with changes that never end there is no state to converge to.

  \<^bold>\<open>Further work.\<close> Events and reconciliation at once; bursts longer than a cooldown, where an older event of an
  object can be handled before its newest; the event loop and the handlers of a client synchronized by patch,
  step by step.
\<close>

section \<open>Two connected synchronizers\<close>

text \<open>
  C6. Client and server never answer each other forever: between an in-cluster client and the
  reference backend every conversation ends. However the cluster, the objects and the libraries
  behave, whatever messages are in flight, handling them one by one comes to a state with none left.
\<close>

theorem conversations_end:
  assumes "runtime_contract rtC sentC" and "runtime_contract rtS sentS"
  shows "wf {(y, x). converse (inclusterEnd lib api rtC sentC) (referenceEnd mlib rtS sentS) x y}"
  using converse_wf [OF inclusterEnd_ok [OF assms(1)] referenceEnd_ok [OF assms(2)]] .

theorem conversations_end_witness:
  "wf {(y, x). converse (inclusterEnd treeKube treeApi listRuntime (\<lambda>w. w)) (referenceEnd sampleMockLib listRuntime (\<lambda>w. w)) x y}"
  by (rule conversations_end [OF listRuntime_contract listRuntime_contract])

text \<open>
  C11. Every message an in-cluster client sends while it handles a message of the server carries
  the server's message id and a depth one higher, whatever the handling runs into.
\<close>

theorem answers_are_one_deeper:
  assumes "runtime_contract rt sent" and "frame_generic f = Some g"
    and "receive (inclusterEnd lib api rt sent) f st = (st', fs)"
  shows "\<forall>x \<in> set fs. \<exists>g'. frame_generic x = Some g' \<and> genDepth g' = wrap64 (genDepth g + 1) \<and> genMsgId g' = genMsgId g"
  using receive_stamped [OF inclusterEnd_ok [OF assms(1)] assms(2,3)] by (auto simp: stamped_def)

theorem answers_are_one_deeper_witness:
  "list_all (\<lambda>x. \<exists>g'. frame_generic x = Some g' \<and> genDepth g' = wrap64 (genDepth (call_generic 1 ''msg'' (CallGet sampleId ''base'')) + 1)
       \<and> genMsgId g' = genMsgId (call_generic 1 ''msg'' (CallGet sampleId ''base'')))
     (snd (receive (inclusterEnd treeKube treeApi listRuntime (\<lambda>w. w))
       (Doc (call_doc False 1 ''msg'' (CallGet sampleId ''base''))) (sampleCtx, NewInClusterAdapter sampleConfig False [], [])))"
  unfolding list_all_iff
  by (rule answers_are_one_deeper [OF listRuntime_contract frame_generic_call prod.collapse [symmetric]])
    (simp_all add: int64_defs)

text \<open>
  A server whose copy differs is repaired by one exchange: asked for an object with the
  server's copy, the client answers with one patch, and the server that applies it to that copy
  ends up with an object of the client's canonical hash, without asking again. (The server keeps
  its copy only if the versions say it is not older.)
\<close>

theorem server_copy_is_repaired:
  assumes "merge_contract (klJson lib) ok" and "mlJson mlib = klJson lib" and "ok base" and "ok new" and "base \<noteq> []"
    and "icCallbacks c" and "icStrategy c = PatchStrategy"
    and "getResource lib api c (knNamespace oid) (knName oid) k = (Ret (Inr obj), k')"
    and "filterAndMarshal lib c obj = Inr (new, obj')" and "getChecksum lib api c obj' k' = (Ret r, k'')"
    and "jlCreateMergePatch (klJson lib) base new = Inr p" and "\<not> emptyPatch_Match p"
    and "moResources sv (KindName_String oid) = Some base" and "\<forall>x. jlMergePatch (klJson lib) base p = Inr x \<longrightarrow> supersedes mlib x base"
  shows "\<exists>c' h sv' x. client_GetObject lib api recorder ctx oid base ((c, k), w) =
       (Ret None, ((c', k''), w @ [(ctx, CallPatch oid h p)]))
     \<and> mock_PatchObject mlib recorder ctx' (unversioned oid) h p (sv, v) = (Ret None, (sv', v))
     \<and> moResources sv' (KindName_String oid) = Some x \<and> jlCanonicalHash (klJson lib) x = jlCanonicalHash (klJson lib) new"
proof -
  obtain x h where x: "jlMergePatch (klJson lib) base p = Inr x" "jlCanonicalHash (klJson lib) x = Inr h"
    "jlCanonicalHash (klJson lib) new = Inr h"
    using assms(1,3,4,11) unfolding merge_contract_def by fastforce
  have ref: "referenceObject c (KindName_String oid) base = Some base" using assms(5) by (simp add: referenceObject_def)
  have key: "KindName_String (unversioned oid) = KindName_String oid"
    by (simp add: KindName_String_def unversioned_def)
  have "client_GetObject lib api recorder ctx oid base ((c, k), w) =
      (Ret None, ((c\<lparr>icShadowObjects := (icShadowObjects c)(KindName_String oid \<mapsto> new)\<rparr>, k''), w @ [(ctx, CallPatch oid h p)]))"
    using assms(8-10) callPutOrPatch_patch [OF assms(6,7) ref assms(11,12) x(1,2)]
    by (simp add: client_GetObject_def)
  moreover obtain sv' where "mock_PatchObject mlib recorder ctx' (unversioned oid) h p (sv, v) = (Ret None, (sv', v))"
    "moResources sv' = moResources (saveIfNewer mlib (unversioned oid) x sv)"
    using mock_PatchObject_applied [of sv "unversioned oid" base mlib p x h recorder ctx' v] assms(2,13) x key by auto
  ultimately show ?thesis
    using assms(13,14) x key by (fastforce simp: saveIfNewer_Resources)
qed

theorem server_copy_is_repaired_witness:
  "\<exists>c' h sv' x. client_GetObject treeKube treeApi recorder [] sampleId ''old'' ((sampleClient, [sampleObject ''nginx'' ''3'']), []) =
       (Ret None, ((c', [sampleObject ''nginx'' ''3'']), [] @ [([], CallPatch sampleId h ''nginx'')]))
     \<and> mock_PatchObject (sampleMockLib\<lparr>mlResourceVersion := (\<lambda>_. Inl (GoError ''none''))\<rparr>) recorder [] (unversioned sampleId) h ''nginx''
          ((NewMockAdapter False)\<lparr>moResources := [KindName_String sampleId \<mapsto> ''old'']\<rparr>, []) = (Ret None, (sv', []))
     \<and> moResources sv' (KindName_String sampleId) = Some x \<and> jlCanonicalHash (klJson treeKube) x = jlCanonicalHash (klJson treeKube) ''nginx''"
  by (rule server_copy_is_repaired [OF treeKube_merge, where obj = "sampleObject ''nginx'' ''3''"
        and obj' = "sampleObject ''nginx'' ''3''" and k' = "[sampleObject ''nginx'' ''3'']" and r = "Inr ''nginx''"])
    (simp_all add: sampleMockLib_def sampleClient_simps getResource_def dynGet_def treeApi_def treeKube_def sampleObject_def
      asString_def sampleId_def filterAndMarshal_def MaskEnvironmentVariables_def containerTypes_def asSlice_def
      fieldsToRemove_def Let_def getChecksum_def getObjectFromMeta_def kubescapeCustomResourceGroup_def
      emptyPatch_at_def patchOpening_def wrapError_def supersedes_def split: option.splits)

text \<open>
  C40. A server that has lost its copy is never repaired by patches: a client that still has a
  reference object answers the get (which brings no base object) with the same patch as before, and
  the server, which has nothing to apply it to, asks again, both as they were. Only the depth limit
  ends this, with the object still missing.
\<close>

theorem lost_copy_is_not_repaired:
  assumes "icCallbacks c" and "icStrategy c = PatchStrategy"
    and "getResource lib api c (knNamespace oid) (knName oid) k = (Ret (Inr obj), k)"
    and "filterAndMarshal lib c obj = Inr (new, obj')" and "getChecksum lib api c obj' k = (Ret r, k)"
    and "icShadowObjects c (KindName_String oid) = Some new"
    and "jlCreateMergePatch (klJson lib) new new = Inr p" and "\<not> emptyPatch_Match p"
    and "jlMergePatch (klJson lib) new p = Inr x" and "jlCanonicalHash (klJson lib) x = Inr h"
    and "moResources sv (KindName_String oid) = None"
  shows "client_GetObject lib api recorder ctx oid [] ((c, k), w) = (Ret None, ((c, k), w @ [(ctx, CallPatch oid h p)]))
     \<and> mock_PatchObject mlib recorder ctx' oid h p (sv, v) = (Ret None, (sv, v @ [(ctx', CallGet oid [])]))"
proof
  have "c\<lparr>icShadowObjects := (icShadowObjects c)(KindName_String oid \<mapsto> new)\<rparr> = c"
    using assms(6) by (simp add: map_upd_triv)
  then show "client_GetObject lib api recorder ctx oid [] ((c, k), w) = (Ret None, ((c, k), w @ [(ctx, CallPatch oid h p)]))"
    using assms(3-5) callPutOrPatch_patch [OF assms(1,2) _ assms(7-10), of oid "[]"] assms(6)
    by (simp add: client_GetObject_def referenceObject_def)
  show "mock_PatchObject mlib recorder ctx' oid h p (sv, v) = (Ret None, (sv, v @ [(ctx', CallGet oid [])]))"
    by (rule mock_PatchObject_missing) (rule assms(11))
qed

theorem lost_copy_is_not_repaired_witness:
  "mock_PatchObject sampleMockLib recorder [] sampleId ''nginx'' ''nginx'' (NewMockAdapter False, []) =
     (Ret None, (NewMockAdapter False, [] @ [([], CallGet sampleId [])]))"
  by (rule lost_copy_is_not_repaired [where lib = treeKube and api = treeApi and k = "[sampleObject ''nginx'' ''3'']"
        and obj = "sampleObject ''nginx'' ''3''" and obj' = "sampleObject ''nginx'' ''3''" and r = "Inr ''nginx''"
        and c = "sampleClient\<lparr>icShadowObjects := [KindName_String sampleId \<mapsto> ''nginx'']\<rparr>" and new = "''nginx''" and x = "''nginx''", THEN conjunct2])
    (simp_all add: sampleMockLib_def sampleClient_def sampleConfig_def NewClient_def usesStorage_def getResource_def dynGet_def
      treeApi_def treeKube_def sampleObject_def NewMockAdapter_def
      asString_def sampleId_def filterAndMarshal_def MaskEnvironmentVariables_def containerTypes_def asSlice_def
      fieldsToRemove_def Let_def getChecksum_def getObjectFromMeta_def kubescapeCustomResourceGroup_def
      emptyPatch_at_def patchOpening_def wrapError_def split: option.splits)

end
